(* ===== verification/Prelude.thy ===== *)
theory Prelude
  imports Complex_Main "HOL-Library.Word" "HOL-Library.AList" "HOL-Library.Multiset"
begin

text \<open>
  Shared vocabulary of the development: the parts of Go's language and standard library the
  task queue uses (instants and durations, decimal printing, string trimming, UTF-8 ranges over
  a string), and generic lemmas on lists and association lists that the component theories use.
\<close>

named_theorems go_simps \<open>characteristic equations of the Go standard library model\<close>
named_theorems redis_simps \<open>effect of one Redis command on the database\<close>
named_theorems key_simps \<open>facts on the Redis key layout\<close>

section \<open>Instants and durations\<close>

text \<open>
  An instant (\<^verbatim>\<open>time.Time\<close>) is its number of nanoseconds since the Unix epoch, a duration
  (\<^verbatim>\<open>time.Duration\<close>) a number of nanoseconds. Go's zero instant is the first second of year 1.
\<close>

type_synonym time = int
type_synonym duration = int

abbreviation (input) Nanosecond :: duration where "Nanosecond \<equiv> 1"
abbreviation Millisecond :: duration where "Millisecond \<equiv> 1000000"
abbreviation Second :: duration where "Second \<equiv> 1000000000"
abbreviation Minute :: duration where "Minute \<equiv> 60000000000"
abbreviation Hour :: duration where "Hour \<equiv> 3600000000000"

definition zero_time :: time where
  "zero_time = - 62135596800000000000"

definition IsZero :: "time \<Rightarrow> bool" where
  "IsZero t \<longleftrightarrow> t = zero_time"

definition Unix :: "time \<Rightarrow> int" where
  "Unix t = t div Second"

lemma Unix_mono: "s \<le> t \<Longrightarrow> Unix s \<le> Unix t"
  by (simp add: Unix_def zdiv_mono1)

lemma Unix_add_seconds [simp]: "Unix (t + n * Second) = Unix t + n"
  by (simp add: Unix_def)

lemma Unix_add_30s [simp]: "Unix (t + 30000000000) = Unix t + 30"
  using Unix_add_seconds [of t 30] by simp

section \<open>Strings\<close>

fun nat_digits :: "nat \<Rightarrow> string" where
  "nat_digits n =
     (if n < 10 then [char_of (48 + n)] else nat_digits (n div 10) @ [char_of (48 + n mod 10)])"

declare nat_digits.simps [simp del]

definition itoa :: "int \<Rightarrow> string" where
  \<comment> \<open>the verb \<open>%d\<close> of \<open>fmt\<close> and \<open>strconv.Itoa\<close>\<close>
  "itoa i = (if i < 0 then CHR ''-'' # nat_digits (nat (- i)) else nat_digits (nat i))"

definition quoted :: "string \<Rightarrow> string" where
  \<comment> \<open>the verb \<open>%q\<close>, for strings without characters to escape\<close>
  "quoted s = CHR 0x22 # s @ [CHR 0x22]"

definition pad :: "nat \<Rightarrow> int \<Rightarrow> string" where
  "pad n i = replicate (n - length (itoa i)) (CHR ''0'') @ itoa i"

definition civil :: "int \<Rightarrow> int \<times> int \<times> int" where
  \<comment> \<open>year, month and day of a number of days since the Unix epoch\<close>
  "civil days =
     (let z = days + 719468; era = z div 146097; doe = z mod 146097;
          yoe = (doe - doe div 1460 + doe div 36524 - doe div 146096) div 365;
          doy = doe - (365 * yoe + yoe div 4 - yoe div 100);
          mp = (5 * doy + 2) div 153;
          m = (if mp < 10 then mp + 3 else mp - 9)
      in (yoe + era * 400 + (if m \<le> 2 then 1 else 0), m, doy - (153 * mp + 2) div 5 + 1))"

definition fraction_text :: "int \<Rightarrow> string" where
  "fraction_text ns = (if ns = 0 then '''' else ''.'' @ rev (dropWhile (\<lambda>c. c = CHR ''0'') (rev (pad 9 ns))))"

definition time_text :: "time \<Rightarrow> string" where
  \<comment> \<open>the layout \<open>time.RFC3339Nano\<close> in UTC, which agrees with \<open>time.RFC3339\<close> on whole seconds\<close>
  "time_text t =
     (let secs = Unix t; (y, m, d) = civil (secs div 86400); r = secs mod 86400
      in pad 4 y @ ''-'' @ pad 2 m @ ''-'' @ pad 2 d @ ''T'' @ pad 2 (r div 3600) @ '':'' @
         pad 2 (r mod 3600 div 60) @ '':'' @ pad 2 (r mod 60) @ fraction_text (t mod Second) @ ''Z'')"

fun parse_digits :: "int \<Rightarrow> string \<Rightarrow> int option" where
  "parse_digits acc [] = Some acc"
| "parse_digits acc (c # cs) =
     (let n = (of_char c :: int) - 48 in if 0 \<le> n \<and> n \<le> 9 then parse_digits (acc * 10 + n) cs else None)"

definition scan_int :: "string \<Rightarrow> int option" where
  \<comment> \<open>an optional sign and at least one decimal digit\<close>
  "scan_int s =
     (let neg = (s \<noteq> [] \<and> hd s = CHR ''-'');
          ds = (if s \<noteq> [] \<and> (hd s = CHR ''-'' \<or> hd s = CHR ''+'') then tl s else s)
      in if ds = [] then None else map_option (\<lambda>n. if neg then - n else n) (parse_digits 0 ds))"

definition ParseInt :: "string \<Rightarrow> int option" where
  \<comment> \<open>\<open>strconv.ParseInt(s, 10, 64)\<close> and \<open>strconv.Atoi\<close>; \<open>None\<close> is a syntax or range error\<close>
  "ParseInt s = (case scan_int s of None \<Rightarrow> None | Some n \<Rightarrow> (if - (2 ^ 63) \<le> n \<and> n < 2 ^ 63 then Some n else None))"

definition Atoi :: "string \<Rightarrow> int" where
  \<comment> \<open>\<open>n, _ := strconv.Atoi(s)\<close>: zero on a syntax error, the nearest 64-bit value out of range\<close>
  "Atoi s = (case scan_int s of None \<Rightarrow> 0 | Some n \<Rightarrow> max (- (2 ^ 63)) (min (2 ^ 63 - 1) n))"

definition HasPrefix :: "string \<Rightarrow> string \<Rightarrow> bool" where
  "HasPrefix s p \<longleftrightarrow> take (length p) s = p"

definition TrimPrefix :: "string \<Rightarrow> string \<Rightarrow> string" where
  "TrimPrefix s p = (if HasPrefix s p then drop (length p) s else s)"

definition HasSuffix :: "string \<Rightarrow> string \<Rightarrow> bool" where
  "HasSuffix s p \<longleftrightarrow> length p \<le> length s \<and> drop (length s - length p) s = p"

definition TrimSuffix :: "string \<Rightarrow> string \<Rightarrow> string" where
  "TrimSuffix s p = (if HasSuffix s p then take (length s - length p) s else s)"

definition is_space :: "char \<Rightarrow> bool" where
  "is_space c \<longleftrightarrow> c \<in> {CHR '' '', CHR 0x09, CHR 0x0A, CHR 0x0B, CHR 0x0C, CHR 0x0D}"

definition TrimSpace :: "string \<Rightarrow> string" where
  "TrimSpace s = rev (dropWhile is_space (rev (dropWhile is_space s)))"

lemma TrimPrefix_append [simp]: "TrimPrefix (p @ s) p = s"
  by (simp add: TrimPrefix_def HasPrefix_def)

lemma TrimSuffix_append [simp]: "TrimSuffix (s @ p) p = s"
  by (simp add: TrimSuffix_def HasSuffix_def)

lemma dropWhile_idem [simp]: "dropWhile P (dropWhile P xs) = dropWhile P xs"
  by (induction xs) auto

lemma dropWhile_rev_dropWhile:
  "dropWhile P (rev (dropWhile P (rev (dropWhile P s)))) = rev (dropWhile P (rev (dropWhile P s)))"
proof (cases "dropWhile P (rev (dropWhile P s)) = []")
  case True
  show ?thesis unfolding True by simp
next
  case False
  let ?d = "dropWhile P s"
  from False have ne: "?d \<noteq> []" by (metis dropWhile.simps(1) rev.simps(1))
  then have hd: "\<not> P (hd ?d)" by (rule hd_dropWhile)
  obtain ys where ys: "rev ?d = ys @ dropWhile P (rev ?d)"
    by (metis takeWhile_dropWhile_id)
  then have "?d = rev (dropWhile P (rev ?d)) @ rev ys"
    by (metis rev_append rev_rev_ident)
  with False have "hd (rev (dropWhile P (rev ?d))) = hd ?d"
    by (metis hd_append2 rev_is_Nil_conv)
  with hd False show ?thesis
    by (cases "rev (dropWhile P (rev ?d))") auto
qed

lemma TrimSpace_idem [simp]: "TrimSpace (TrimSpace s) = TrimSpace s"
  by (simp add: TrimSpace_def dropWhile_rev_dropWhile)

section \<open>Ranging over a string\<close>

text \<open>
  \<^verbatim>\<open>for _, r := range s\<close> decodes UTF-8: an ill-formed byte yields the rune U+FFFD and is
  skipped alone. \<open>utf8_tail\<close> decodes the continuation bytes after a lead byte \<open>a \<ge> 0x80\<close>
  and says how many it used.
\<close>

definition cont :: "nat \<Rightarrow> bool" where
  "cont b \<longleftrightarrow> 0x80 \<le> b \<and> b \<le> 0xBF"

definition utf8_tail :: "nat \<Rightarrow> nat list \<Rightarrow> (nat \<times> nat) option" where
  "utf8_tail a bs =
     (case bs of
        [] \<Rightarrow> None
      | b # bs1 \<Rightarrow>
          if 0xC2 \<le> a \<and> a \<le> 0xDF then
            (if cont b then Some ((a - 0xC0) * 64 + (b - 0x80), 1) else None)
          else (case bs1 of
            [] \<Rightarrow> None
          | c # bs2 \<Rightarrow>
              if 0xE0 \<le> a \<and> a \<le> 0xEF then
                (if cont b \<and> cont c \<and> (a = 0xE0 \<longrightarrow> 0xA0 \<le> b) \<and> (a = 0xED \<longrightarrow> b \<le> 0x9F)
                 then Some ((a - 0xE0) * 4096 + (b - 0x80) * 64 + (c - 0x80), 2) else None)
              else (case bs2 of
                [] \<Rightarrow> None
              | d # _ \<Rightarrow>
                  if 0xF0 \<le> a \<and> a \<le> 0xF4 \<and> cont b \<and> cont c \<and> cont d \<and>
                     (a = 0xF0 \<longrightarrow> 0x90 \<le> b) \<and> (a = 0xF4 \<longrightarrow> b \<le> 0x8F)
                  then Some ((a - 0xF0) * 262144 + (b - 0x80) * 4096 + (c - 0x80) * 64 + (d - 0x80), 3)
                  else None)))"

function runes_of_bytes :: "nat list \<Rightarrow> nat list" where
  "runes_of_bytes [] = []"
| "runes_of_bytes (a # bs) =
     (if a < 0x80 then a # runes_of_bytes bs
      else (case utf8_tail a bs of
              None \<Rightarrow> 0xFFFD # runes_of_bytes bs
            | Some (r, n) \<Rightarrow> r # runes_of_bytes (drop n bs)))"
  by pat_completeness auto
termination
  by (relation "measure length") auto

definition bytes :: "string \<Rightarrow> nat list" where
  "bytes s = map of_char s"

definition runes :: "string \<Rightarrow> nat list" where
  "runes s = runes_of_bytes (bytes s)"

definition is_ascii :: "string \<Rightarrow> bool" where
  "is_ascii s \<longleftrightarrow> list_all (\<lambda>b. b < 128) (bytes s)"

lemma runes_of_bytes_ascii: "list_all (\<lambda>b. b < 128) bs \<Longrightarrow> runes_of_bytes bs = bs"
  by (induction bs) auto

lemma runes_ascii: "is_ascii s \<Longrightarrow> runes s = bytes s"
  by (simp add: runes_def is_ascii_def runes_of_bytes_ascii)

section \<open>Lists and association lists\<close>

lemma map_of_filter_key: "map_of (filter (\<lambda>(a, b). P a) xs) k = (if P k then map_of xs k else None)"
  by (induction xs) auto

lemma map_of_filter_distinct:
  "distinct (map fst xs) \<Longrightarrow>
   map_of (filter P xs) k = (case map_of xs k of Some v \<Rightarrow> if P (k, v) then Some v else None | None \<Rightarrow> None)"
  by (induction xs) (auto split: option.splits simp: map_of_eq_None_iff dest: map_of_SomeD)

lemma distinct_map_fst_filter [simp]: "distinct (map fst xs) \<Longrightarrow> distinct (map fst (filter P xs))"
  by (induction xs) auto

lemma find_unique: "distinct (map f xs) \<Longrightarrow> find (\<lambda>x. f x = t) xs = Some x \<longleftrightarrow> x \<in> set xs \<and> f x = t"
  by (induction xs) auto

lemma append_cancel_left_neq [key_simps]: "p @ a = p @ b \<longleftrightarrow> a = b"
  by simp

end
