(* ===== verification/Go_Errors.thy ===== *)
theory Go_Errors
  imports Prelude
begin

text \<open>
  Error values. A Go \<^verbatim>\<open>error\<close> is one of: a plain message (\<^verbatim>\<open>errors.New\<close> or \<^verbatim>\<open>fmt.Errorf\<close> without
  \<open>%w\<close>), a package-level sentinel compared by identity, a message wrapped around another error
  with \<open>%w\<close>, an HTTP status error of the webhook dispatcher, or an \<^verbatim>\<open>AppError\<close> of
  \<^verbatim>\<open>internal/errors\<close>. \<^verbatim>\<open>AppError\<close> has no \<^verbatim>\<open>Unwrap\<close> method, so \<^verbatim>\<open>errors.Is\<close> and \<^verbatim>\<open>errors.As\<close> stop there.
\<close>

datatype go_error =
    Errorf string
  | Sentinel string
  | Wrap string go_error string
  | HTTPStatus int
  | AppError string string "go_error option"

abbreviation RedisNil :: go_error where "RedisNil \<equiv> Sentinel ''redis: nil''"
abbreviation DeadlineExceeded :: go_error where "DeadlineExceeded \<equiv> Sentinel ''context deadline exceeded''"
abbreviation Canceled :: go_error where "Canceled \<equiv> Sentinel ''context canceled''"

definition CodeNotFound :: string where "CodeNotFound = ''NOT_FOUND''"
definition CodeInvalidArgument :: string where "CodeInvalidArgument = ''INVALID_ARGUMENT''"
definition CodeInternal :: string where "CodeInternal = ''INTERNAL_ERROR''"
definition CodeUnauthorized :: string where "CodeUnauthorized = ''UNAUTHORIZED''"
definition CodePermissionDenied :: string where "CodePermissionDenied = ''PERMISSION_DENIED''"
definition CodeQueueFull :: string where "CodeQueueFull = ''QUEUE_FULL''"
definition CodeTooManyRequests :: string where "CodeTooManyRequests = ''TOO_MANY_REQUESTS''"
definition CodeConflict :: string where "CodeConflict = ''CONFLICT''"

lemmas code_defs =
  CodeNotFound_def CodeInvalidArgument_def CodeInternal_def CodeUnauthorized_def
  CodePermissionDenied_def CodeQueueFull_def CodeTooManyRequests_def CodeConflict_def

fun err_msg :: "go_error \<Rightarrow> string" where
  \<comment> \<open>the method \<open>Error()\<close>\<close>
  "err_msg (Errorf s) = s"
| "err_msg (Sentinel s) = s"
| "err_msg (Wrap p e q) = p @ err_msg e @ q"
| "err_msg (HTTPStatus n) = ''server returned status: '' @ itoa n"
| "err_msg (AppError c m None) = ''['' @ c @ ''] '' @ m"
| "err_msg (AppError c m (Some e)) = ''['' @ c @ ''] '' @ m @ '': '' @ err_msg e"

fun errors_Is :: "go_error \<Rightarrow> go_error \<Rightarrow> bool" where
  "errors_Is (Wrap p e q) t = (Wrap p e q = t \<or> errors_Is e t)"
| "errors_Is e t = (e = t)"

fun errors_As_AppError :: "go_error \<Rightarrow> (string \<times> string) option" where
  "errors_As_AppError (AppError c m e) = Some (c, m)"
| "errors_As_AppError (Wrap p e q) = errors_As_AppError e"
| "errors_As_AppError _ = None"

definition NewNotFound :: "string \<Rightarrow> string \<Rightarrow> go_error" where
  "NewNotFound resource rid = AppError CodeNotFound (resource @ '' not found: '' @ rid) None"

definition NewInvalidArgument :: "string \<Rightarrow> go_error" where
  "NewInvalidArgument msg = AppError CodeInvalidArgument msg None"

definition NewInternal :: "string \<Rightarrow> go_error \<Rightarrow> go_error" where
  "NewInternal msg e = AppError CodeInternal msg (Some e)"

definition NewQueueFull :: go_error where
  "NewQueueFull = AppError CodeQueueFull ''queue overloaded; please try again later'' None"

definition NewTooManyRequests :: "string \<Rightarrow> go_error" where
  "NewTooManyRequests msg = AppError CodeTooManyRequests msg None"

definition NewConflict :: "string \<Rightarrow> go_error" where
  "NewConflict msg = AppError CodeConflict msg None"

definition NewForbidden :: "string \<Rightarrow> go_error" where
  "NewForbidden msg = AppError CodePermissionDenied msg None"

definition IsCode :: "go_error \<Rightarrow> string \<Rightarrow> bool" where
  "IsCode e code \<longleftrightarrow> (case errors_As_AppError e of Some (c, m) \<Rightarrow> c = code | None \<Rightarrow> False)"

lemmas app_error_defs =
  NewNotFound_def NewInvalidArgument_def NewInternal_def NewQueueFull_def
  NewTooManyRequests_def NewConflict_def NewForbidden_def

end
