(* ===== verification/Json.thy ===== *)
theory Json
  imports Go_Errors "HOL-Library.Monad_Syntax"
begin

text \<open>
  JSON documents. \<^verbatim>\<open>json.Marshal\<close> is modelled down to the document tree: the bytes of a document are
  identified with the tree, an RFC 3339 string with the instant
  (\<open>JTime\<close>; where a plain string is wanted it is read back as \<open>time_text\<close>). A dynamic Go
  value of type \<^verbatim>\<open>interface{}\<close> is its document too, with \<open>JNull\<close> for nil. A \<^verbatim>\<open>float64\<close> is an exact
  rational. \<open>jget\<close> is the lookup of a tagged struct field; the \<open>dec_\<close> functions are what
  \<^verbatim>\<open>json.Unmarshal\<close> does with one field: a missing key or a null leaves the zero value, a value of
  the wrong kind is an error.
\<close>

datatype json =
    JNull
  | JBool bool
  | JNum rat
  | JStr string
  | JTime time
  | JArr "json list"
  | JObj "(string \<times> json) list"

type_synonym fields = "(string \<times> json) list"

fun jget :: "fields \<Rightarrow> string \<Rightarrow> json option" where
  "jget [] k = None"
| "jget ((k', v) # fs) k = (if k' = k then Some v else jget fs k)"

definition omit :: "bool \<Rightarrow> string \<times> json \<Rightarrow> fields" where
  \<comment> \<open>the tag option \<open>omitempty\<close>\<close>
  "omit b kv = (if b then [] else [kv])"

definition dec_str :: "fields \<Rightarrow> string \<Rightarrow> string option" where
  "dec_str fs k = (case jget fs k of None \<Rightarrow> Some '''' | Some JNull \<Rightarrow> Some '''' | Some (JStr s) \<Rightarrow> Some s
     | Some (JTime t) \<Rightarrow> Some (time_text t) | _ \<Rightarrow> None)"

definition dec_bool :: "fields \<Rightarrow> string \<Rightarrow> bool option" where
  "dec_bool fs k = (case jget fs k of None \<Rightarrow> Some False | Some JNull \<Rightarrow> Some False | Some (JBool b) \<Rightarrow> Some b | _ \<Rightarrow> None)"

definition dec_float :: "fields \<Rightarrow> string \<Rightarrow> rat option" where
  "dec_float fs k = (case jget fs k of None \<Rightarrow> Some 0 | Some JNull \<Rightarrow> Some 0 | Some (JNum r) \<Rightarrow> Some r | _ \<Rightarrow> None)"

definition dec_int :: "fields \<Rightarrow> string \<Rightarrow> int option" where
  "dec_int fs k = (case jget fs k of None \<Rightarrow> Some 0 | Some JNull \<Rightarrow> Some 0
     | Some (JNum r) \<Rightarrow> (if of_int \<lfloor>r\<rfloor> = r then Some \<lfloor>r\<rfloor> else None) | _ \<Rightarrow> None)"

definition dec_time :: "fields \<Rightarrow> string \<Rightarrow> time option" where
  "dec_time fs k = (case jget fs k of None \<Rightarrow> Some zero_time | Some JNull \<Rightarrow> Some zero_time | Some (JTime t) \<Rightarrow> Some t | _ \<Rightarrow> None)"

definition dec_any :: "fields \<Rightarrow> string \<Rightarrow> json option" where
  "dec_any fs k = (case jget fs k of None \<Rightarrow> Some JNull | Some v \<Rightarrow> Some v)"

fun dec_strings :: "json list \<Rightarrow> string list option" where
  "dec_strings [] = Some []"
| "dec_strings (JStr s # vs) = map_option ((#) s) (dec_strings vs)"
| "dec_strings (JTime t # vs) = map_option ((#) (time_text t)) (dec_strings vs)"
| "dec_strings (JNull # vs) = map_option ((#) '''') (dec_strings vs)"
| "dec_strings _ = None"

definition dec_strs :: "fields \<Rightarrow> string \<Rightarrow> string list option" where
  "dec_strs fs k = (case jget fs k of None \<Rightarrow> Some [] | Some JNull \<Rightarrow> Some [] | Some (JArr vs) \<Rightarrow> dec_strings vs | _ \<Rightarrow> None)"

definition dec_map :: "fields \<Rightarrow> string \<Rightarrow> fields option option" where
  \<comment> \<open>a \<open>map[string]interface{}\<close>: the inner \<open>None\<close> is the nil map\<close>
  "dec_map fs k = (case jget fs k of None \<Rightarrow> Some None | Some JNull \<Rightarrow> Some None | Some (JObj m) \<Rightarrow> Some (Some m) | _ \<Rightarrow> None)"

fun dec_pairs :: "fields \<Rightarrow> (string \<times> string) list option" where
  "dec_pairs [] = Some []"
| "dec_pairs ((k, JStr s) # fs) = map_option ((#) (k, s)) (dec_pairs fs)"
| "dec_pairs ((k, JTime t) # fs) = map_option ((#) (k, time_text t)) (dec_pairs fs)"
| "dec_pairs ((k, JNull) # fs) = map_option ((#) (k, '''')) (dec_pairs fs)"
| "dec_pairs _ = None"

definition dec_strmap :: "fields \<Rightarrow> string \<Rightarrow> (string \<times> string) list option" where
  "dec_strmap fs k = (case jget fs k of None \<Rightarrow> Some [] | Some JNull \<Rightarrow> Some [] | Some (JObj m) \<Rightarrow> dec_pairs m | _ \<Rightarrow> None)"

definition jint :: "int \<Rightarrow> json" where
  "jint i = JNum (of_int i)"

definition jstrs :: "string list \<Rightarrow> json" where
  "jstrs xs = JArr (map JStr xs)"

definition jpairs :: "(string \<times> string) list \<Rightarrow> json" where
  "jpairs m = JObj (map (\<lambda>(k, v). (k, JStr v)) m)"

definition as_string :: "json option \<Rightarrow> string" where
  \<comment> \<open>\<open>s, _ := payload[k].(string)\<close>: the empty string unless the value is a string\<close>
  "as_string v = (case v of Some (JStr s) \<Rightarrow> s | Some (JTime t) \<Rightarrow> time_text t | _ \<Rightarrow> '''')"

lemma jget_append [simp]:
  "jget (xs @ ys) k = (case jget xs k of None \<Rightarrow> jget ys k | Some v \<Rightarrow> Some v)"
  by (induction xs) auto

lemma jget_omit [simp]: "jget (omit e (k', v)) k = (if k' = k \<and> \<not> e then Some v else None)"
  by (simp add: omit_def)

lemma dec_strings_map [simp]: "dec_strings (map JStr xs) = Some xs"
  by (induction xs) auto

lemma dec_pairs_map [simp]: "dec_pairs (map (\<lambda>(k, v). (k, JStr v)) m) = Some m"
  by (induction m) auto

lemma jint_floor [simp]: "(of_int \<lfloor>of_int i :: rat\<rfloor> :: rat) = of_int i"
  by simp

lemmas dec_defs = dec_str_def dec_bool_def dec_float_def dec_int_def dec_time_def dec_any_def
  dec_strs_def dec_map_def dec_strmap_def

definition json_error :: go_error where
  \<comment> \<open>the error of a failed \<open>json.Unmarshal\<close>; its text is not modelled\<close>
  "json_error = Errorf ''json: cannot unmarshal value''"

end
