(* ===== verification/Breaker.thy ===== *)
theory Breaker
  imports Json Go_Errors
begin

text \<open>
  The circuit breaker of \<^verbatim>\<open>internal/worker/plugin/circuitbreaker.go\<close>: per job type a counter of consecutive
  failures and one of three states. The map is an association list. \<^verbatim>\<open>IsAllowed\<close> reads the entry
  outside the lock; here every method is one step. The Prometheus gauge is left out.
\<close>

section \<open>State and operations\<close>

datatype BreakerState = StateClosed | StateOpen | StateHalfOpen

record pluginBreaker =
  pbFailures :: int
  pbLastFailure :: time
  pbState :: BreakerState

record CircuitBreaker =
  cbPlugins :: "(string \<times> pluginBreaker) list"
  cbThreshold :: int
  cbCooldown :: duration

definition NewCircuitBreaker :: "int \<Rightarrow> duration \<Rightarrow> CircuitBreaker" where
  "NewCircuitBreaker threshold cooldown =
     \<lparr>cbPlugins = [], cbThreshold = (if threshold \<le> 0 then 5 else threshold),
      cbCooldown = (if cooldown \<le> 0 then 30 * Second else cooldown)\<rparr>"

definition put_breaker :: "string \<Rightarrow> pluginBreaker \<Rightarrow> CircuitBreaker \<Rightarrow> CircuitBreaker" where
  "put_breaker t pb cb = cb\<lparr>cbPlugins := AList.update t pb (cbPlugins cb)\<rparr>"

definition CircuitBreaker_IsAllowed :: "time \<Rightarrow> string \<Rightarrow> CircuitBreaker \<Rightarrow> bool \<times> CircuitBreaker" where
  "CircuitBreaker_IsAllowed now jobType cb =
     (case map_of (cbPlugins cb) jobType of
        None \<Rightarrow> (True, cb)
      | Some pb \<Rightarrow>
          (case pbState pb of
             StateClosed \<Rightarrow> (True, cb)
           | StateHalfOpen \<Rightarrow> (True, cb)
           | StateOpen \<Rightarrow>
               (if cbCooldown cb < now - pbLastFailure pb
                then (True, put_breaker jobType (pb\<lparr>pbState := StateHalfOpen\<rparr>) cb)
                else (False, cb))))"

definition CircuitBreaker_RecordSuccess :: "string \<Rightarrow> CircuitBreaker \<Rightarrow> CircuitBreaker" where
  "CircuitBreaker_RecordSuccess jobType cb =
     (case map_of (cbPlugins cb) jobType of
        None \<Rightarrow> cb
      | Some pb \<Rightarrow> put_breaker jobType (pb\<lparr>pbFailures := 0, pbState := StateClosed\<rparr>) cb)"

definition CircuitBreaker_RecordFailure :: "time \<Rightarrow> string \<Rightarrow> CircuitBreaker \<Rightarrow> CircuitBreaker" where
  "CircuitBreaker_RecordFailure now jobType cb =
     (let pb = (case map_of (cbPlugins cb) jobType of
                  None \<Rightarrow> \<lparr>pbFailures = 0, pbLastFailure = zero_time, pbState = StateClosed\<rparr> | Some pb \<Rightarrow> pb);
          pb1 = pb\<lparr>pbFailures := pbFailures pb + 1, pbLastFailure := now\<rparr>;
          pb2 = (if cbThreshold cb \<le> pbFailures pb1 then pb1\<lparr>pbState := StateOpen\<rparr> else pb1)
      in put_breaker jobType pb2 cb)"

definition CircuitBreaker_State :: "string \<Rightarrow> CircuitBreaker \<Rightarrow> BreakerState" where
  "CircuitBreaker_State jobType cb =
     (case map_of (cbPlugins cb) jobType of Some pb \<Rightarrow> pbState pb | None \<Rightarrow> StateClosed)"

definition CircuitBreaker_Reset :: "string \<Rightarrow> CircuitBreaker \<Rightarrow> CircuitBreaker" where
  "CircuitBreaker_Reset jobType cb =
     (case map_of (cbPlugins cb) jobType of
        Some pb \<Rightarrow> put_breaker jobType (pb\<lparr>pbFailures := 0, pbState := StateClosed\<rparr>) cb
      | None \<Rightarrow> cb)"

definition breaker_label :: "int \<Rightarrow> pluginBreaker \<Rightarrow> string" where
  "breaker_label threshold pb =
     (case pbState pb of
        StateClosed \<Rightarrow> ''closed''
      | StateOpen \<Rightarrow> ''open ('' @ itoa (pbFailures pb) @ ''/'' @ itoa threshold @ '' failures)''
      | StateHalfOpen \<Rightarrow> ''half-open'')"

definition CircuitBreaker_Status :: "CircuitBreaker \<Rightarrow> (string \<times> string) list" where
  "CircuitBreaker_Status cb = map (\<lambda>(t, pb). (t, breaker_label (cbThreshold cb) pb)) (cbPlugins cb)"

section \<open>State machine and invariant\<close>

inductive cb_step :: "CircuitBreaker \<Rightarrow> CircuitBreaker \<Rightarrow> bool" where
  allowed: "cb_step cb (snd (CircuitBreaker_IsAllowed now t cb))"
| success: "cb_step cb (CircuitBreaker_RecordSuccess t cb)"
| failure: "cb_step cb (CircuitBreaker_RecordFailure now t cb)"
| reset: "cb_step cb (CircuitBreaker_Reset t cb)"

definition pb_ok :: "int \<Rightarrow> pluginBreaker \<Rightarrow> bool" where
  "pb_ok threshold pb \<longleftrightarrow> 0 \<le> pbFailures pb \<and> (pbState pb = StateClosed \<longleftrightarrow> pbFailures pb < threshold)"

definition cb_ok :: "CircuitBreaker \<Rightarrow> bool" where
  "cb_ok cb \<longleftrightarrow> 0 < cbThreshold cb \<and> 0 < cbCooldown cb \<and> distinct (map fst (cbPlugins cb)) \<and>
     (\<forall>t pb. map_of (cbPlugins cb) t = Some pb \<longrightarrow> pb_ok (cbThreshold cb) pb)"

lemma put_breaker_get [simp]:
  "map_of (cbPlugins (put_breaker t pb cb)) t' = (if t' = t then Some pb else map_of (cbPlugins cb) t')"
  "cbThreshold (put_breaker t pb cb) = cbThreshold cb" "cbCooldown (put_breaker t pb cb) = cbCooldown cb"
  by (simp_all add: put_breaker_def update_conv')

lemma put_breaker_ok: "cb_ok cb \<Longrightarrow> pb_ok (cbThreshold cb) pb \<Longrightarrow> cb_ok (put_breaker t pb cb)"
  by (simp add: cb_ok_def put_breaker_def update_conv' distinct_update)

lemma cb_ok_new: "cb_ok (NewCircuitBreaker n d)"
  by (simp add: cb_ok_def NewCircuitBreaker_def)

lemma cb_ok_get: "cb_ok cb \<Longrightarrow> map_of (cbPlugins cb) t = Some pb \<Longrightarrow> pb_ok (cbThreshold cb) pb"
  and cb_ok_pos: "cb_ok cb \<Longrightarrow> 0 < cbThreshold cb"
  by (simp_all add: cb_ok_def)

lemma closed_ok: "cb_ok cb \<Longrightarrow> pb_ok (cbThreshold cb) (pb\<lparr>pbFailures := 0, pbState := StateClosed\<rparr>)"
  by (simp add: pb_ok_def cb_ok_pos)

lemma IsAllowed_ok: "cb_ok cb \<Longrightarrow> cb_ok (snd (CircuitBreaker_IsAllowed now t cb))"
  using cb_ok_get [of cb t]
  by (auto simp: CircuitBreaker_IsAllowed_def pb_ok_def split: option.split BreakerState.split intro!: put_breaker_ok)

lemma RecordSuccess_ok: "cb_ok cb \<Longrightarrow> cb_ok (CircuitBreaker_RecordSuccess t cb)"
  by (simp add: CircuitBreaker_RecordSuccess_def put_breaker_ok closed_ok split: option.split)

lemma Reset_ok: "cb_ok cb \<Longrightarrow> cb_ok (CircuitBreaker_Reset t cb)"
  by (simp add: CircuitBreaker_Reset_def put_breaker_ok closed_ok split: option.split)

lemma RecordFailure_ok: "cb_ok cb \<Longrightarrow> cb_ok (CircuitBreaker_RecordFailure now t cb)"
  using cb_ok_get [of cb t] unfolding CircuitBreaker_RecordFailure_def Let_def
  by (intro put_breaker_ok) (auto simp: pb_ok_def split: option.splits)

lemma cb_step_ok: "cb_step cb cb' \<Longrightarrow> cb_ok cb \<Longrightarrow> cb_ok cb'"
  by (induction rule: cb_step.induct) (simp_all add: IsAllowed_ok RecordSuccess_ok RecordFailure_ok Reset_ok)

section \<open>Failure counts\<close>

definition failures_of :: "string \<Rightarrow> CircuitBreaker \<Rightarrow> int" where
  "failures_of t cb = (case map_of (cbPlugins cb) t of None \<Rightarrow> 0 | Some pb \<Rightarrow> pbFailures pb)"

lemma IsAllowed_failures: "failures_of t (snd (CircuitBreaker_IsAllowed now u cb)) = failures_of t cb"
  by (auto simp: failures_of_def CircuitBreaker_IsAllowed_def split: option.split BreakerState.split)

lemma IsAllowed_refused: "\<not> fst (CircuitBreaker_IsAllowed now t cb) \<Longrightarrow> snd (CircuitBreaker_IsAllowed now t cb) = cb"
  by (auto simp: CircuitBreaker_IsAllowed_def split: option.splits BreakerState.splits if_splits)

lemma failures_of_record [simp]:
  "failures_of t (CircuitBreaker_RecordFailure now t cb) = failures_of t cb + 1"
  "failures_of t (CircuitBreaker_RecordSuccess t cb) = 0"
  by (simp_all add: failures_of_def CircuitBreaker_RecordFailure_def CircuitBreaker_RecordSuccess_def Let_def
      split: option.split)

section \<open>Properties\<close>



end
