(* ===== verification/Jobs.thy ===== *)
theory Jobs
  imports Json
begin

text \<open>
  The domain model of \<^verbatim>\<open>internal/jobs/job.go\<close>: the struct \<^verbatim>\<open>Job\<close> with its JSON encoding,
  \<^verbatim>\<open>NewJob\<close> and the retry delay \<^verbatim>\<open>BackoffDelay\<close>. Statuses, priorities and the backoff settings are
  Go string types whose values are not restricted to the declared constants, so they are strings.
\<close>

section \<open>Data\<close>

abbreviation StatusPending :: string where "StatusPending \<equiv> ''pending''"
abbreviation StatusProcessing :: string where "StatusProcessing \<equiv> ''processing''"
abbreviation StatusCompleted :: string where "StatusCompleted \<equiv> ''completed''"
abbreviation StatusFailed :: string where "StatusFailed \<equiv> ''failed''"
abbreviation StatusCancelled :: string where "StatusCancelled \<equiv> ''cancelled''"
abbreviation StatusRecurring :: string where "StatusRecurring \<equiv> ''recurring''"

abbreviation PriorityLow :: string where "PriorityLow \<equiv> ''low''"
abbreviation PriorityMedium :: string where "PriorityMedium \<equiv> ''medium''"
abbreviation PriorityHigh :: string where "PriorityHigh \<equiv> ''high''"

abbreviation BackoffExponential :: string where "BackoffExponential \<equiv> ''exponential''"
abbreviation BackoffLinear :: string where "BackoffLinear \<equiv> ''linear''"
abbreviation BackoffFixed :: string where "BackoffFixed \<equiv> ''fixed''"

abbreviation JitterNone :: string where "JitterNone \<equiv> ''none''"
abbreviation JitterFull :: string where "JitterFull \<equiv> ''full''"
abbreviation JitterEqual :: string where "JitterEqual \<equiv> ''equal''"

record WebhookConfig =
  wcURL :: string
  wcSecret :: string
  wcEvents :: "string list"
  wcLastStatus :: int
  wcAttempts :: int

record AttemptError =
  aeError :: string
  aeTimestamp :: time
  aeAttempt :: int

record Job =
  jID :: string
  jType :: string
  jPayload :: "fields option"
  jLabels :: "(string \<times> string) list"
  jStatus :: string
  jPriority :: string
  jRetries :: int
  jMaxRetries :: int
  jBackoffAlgorithm :: string
  jBackoffJitter :: string
  jCronExpr :: string
  jCreatedAt :: time
  jUpdatedAt :: time
  jRunAt :: time
  jProcessedBy :: string
  jCorrelationID :: string
  jTimeout :: int
  jVersion :: int
  jTenantID :: string
  jPaused :: bool
  jProgress :: rat
  jResult :: json
  jWebhook :: "WebhookConfig option"
  jDedupKey :: string
  jDependencies :: "string list"
  jShardKey :: string
  jTraceID :: string
  jExpiresAt :: time
  jErrorHistory :: "AttemptError list"

definition zero_job :: Job where
  \<comment> \<open>the zero value of the struct\<close>
  "zero_job = \<lparr>jID = '''', jType = '''', jPayload = None, jLabels = [], jStatus = '''', jPriority = '''',
     jRetries = 0, jMaxRetries = 0, jBackoffAlgorithm = '''', jBackoffJitter = '''', jCronExpr = '''',
     jCreatedAt = zero_time, jUpdatedAt = zero_time, jRunAt = zero_time, jProcessedBy = '''',
     jCorrelationID = '''', jTimeout = 0, jVersion = 0, jTenantID = '''', jPaused = False, jProgress = 0,
     jResult = JNull, jWebhook = None, jDedupKey = '''', jDependencies = [], jShardKey = '''',
     jTraceID = '''', jExpiresAt = zero_time, jErrorHistory = []\<rparr>"

section \<open>NewJob\<close>

text \<open>
  The two identifiers drawn from \<^verbatim>\<open>uuid.New\<close> are arguments: \<open>uuid1\<close> for the correlation id,
  \<open>uuid2\<close> for the job id.
\<close>

definition NewJob :: "string \<Rightarrow> string \<Rightarrow> time \<Rightarrow> string \<Rightarrow> fields option \<Rightarrow> (string \<times> string) list \<Rightarrow> string
    \<Rightarrow> int \<Rightarrow> time \<Rightarrow> string \<Rightarrow> int \<Rightarrow> int \<Rightarrow> string \<Rightarrow> Job" where
  "NewJob uuid1 uuid2 now jobType payload labels priority maxRetries runAt correlationID timeout version tenantID =
     (let priority' = (if priority = '''' then PriorityMedium else priority);
          correlationID' = (if correlationID = '''' then uuid1 else correlationID);
          version' = (if version \<le> 0 then 1 else version);
          runAt' = (if IsZero runAt then now else runAt)
      in zero_job\<lparr>
           jID := uuid2, jType := jobType, jPayload := payload, jLabels := labels,
           jStatus := StatusPending, jPriority := priority', jRetries := 0, jMaxRetries := maxRetries,
           jBackoffAlgorithm := BackoffExponential, jBackoffJitter := JitterNone,
           jCreatedAt := now, jUpdatedAt := now, jRunAt := runAt',
           jCorrelationID := correlationID', jTimeout := timeout, jVersion := version',
           jTenantID := tenantID\<rparr>)"

section \<open>BackoffDelay\<close>

text \<open>
  Durations are 64-bit. \<open>rnd n\<close> is the result of \<^verbatim>\<open>rand.Int63n(n)\<close>; both calls pass a positive
  bound. The \<open>case\<close> on the job is the nil check.
\<close>

definition base_delay :: "string \<Rightarrow> int \<Rightarrow> 64 word" where
  "base_delay algorithm retry =
     (if algorithm = BackoffLinear then word_of_int retry * word_of_int Second
      else if algorithm = BackoffFixed then word_of_int Second
      else push_bit (nat retry) 1 * word_of_int Second)"

definition jitter_delay :: "(int \<Rightarrow> int) \<Rightarrow> string \<Rightarrow> duration \<Rightarrow> duration" where
  "jitter_delay rnd jitter delay =
     (if jitter = JitterFull then
        (let n = (if delay \<le> 0 then 1 else delay) in rnd n)
      else if jitter = JitterEqual then
        (let n = (if delay \<le> 0 then 1 else delay);
             half = (if n div 2 \<le> 0 then 1 else n div 2)
         in half + rnd half)
      else delay)"

definition BackoffDelay :: "(int \<Rightarrow> int) \<Rightarrow> Job option \<Rightarrow> duration" where
  "BackoffDelay rnd job =
     (case job of
        None \<Rightarrow> 2 * Second
      | Some j \<Rightarrow>
          (let retry = (if jRetries j \<le> 0 then 1 else jRetries j)
           in jitter_delay rnd (jBackoffJitter j) (sint (base_delay (jBackoffAlgorithm j) retry))))"

section \<open>JSON encoding of jobs\<close>

definition webhook_json :: "WebhookConfig \<Rightarrow> json" where
  "webhook_json w = JObj (
     omit (wcURL w = '''') (''url'', JStr (wcURL w)) @
     omit (wcSecret w = '''') (''secret'', JStr (wcSecret w)) @
     omit (wcEvents w = []) (''events'', jstrs (wcEvents w)) @
     omit (wcLastStatus w = 0) (''last_status'', jint (wcLastStatus w)) @
     omit (wcAttempts w = 0) (''attempts'', jint (wcAttempts w)))"

definition json_webhook :: "json \<Rightarrow> WebhookConfig option" where
  "json_webhook v = (case v of JObj fs \<Rightarrow>
     do { url \<leftarrow> dec_str fs ''url''; secret \<leftarrow> dec_str fs ''secret''; events \<leftarrow> dec_strs fs ''events'';
          ls \<leftarrow> dec_int fs ''last_status''; att \<leftarrow> dec_int fs ''attempts'';
          Some \<lparr>wcURL = url, wcSecret = secret, wcEvents = events, wcLastStatus = ls, wcAttempts = att\<rparr> }
     | _ \<Rightarrow> None)"

definition attempt_json :: "AttemptError \<Rightarrow> json" where
  "attempt_json a = JObj [(''error'', JStr (aeError a)), (''timestamp'', JTime (aeTimestamp a)),
     (''attempt'', jint (aeAttempt a))]"

definition json_attempt :: "json \<Rightarrow> AttemptError option" where
  "json_attempt v = (case v of JObj fs \<Rightarrow>
     do { e \<leftarrow> dec_str fs ''error''; t \<leftarrow> dec_time fs ''timestamp''; n \<leftarrow> dec_int fs ''attempt'';
          Some \<lparr>aeError = e, aeTimestamp = t, aeAttempt = n\<rparr> }
     | _ \<Rightarrow> None)"

definition dec_webhook :: "fields \<Rightarrow> string \<Rightarrow> WebhookConfig option option" where
  "dec_webhook fs k = (case jget fs k of None \<Rightarrow> Some None | Some JNull \<Rightarrow> Some None
     | Some v \<Rightarrow> map_option Some (json_webhook v))"

fun json_attempts :: "json list \<Rightarrow> AttemptError list option" where
  "json_attempts [] = Some []"
| "json_attempts (v # vs) =
     (case json_attempt v of None \<Rightarrow> None | Some a \<Rightarrow> map_option ((#) a) (json_attempts vs))"

definition dec_attempts :: "fields \<Rightarrow> string \<Rightarrow> AttemptError list option" where
  "dec_attempts fs k = (case jget fs k of None \<Rightarrow> Some [] | Some JNull \<Rightarrow> Some []
     | Some (JArr vs) \<Rightarrow> json_attempts vs | _ \<Rightarrow> None)"

definition job_fields :: "Job \<Rightarrow> fields" where
  "job_fields j =
     [(''id'', JStr (jID j)), (''type'', JStr (jType j)),
      (''payload'', (case jPayload j of None \<Rightarrow> JNull | Some m \<Rightarrow> JObj m))] @
     omit (jLabels j = []) (''labels'', jpairs (jLabels j)) @
     [(''status'', JStr (jStatus j)), (''priority'', JStr (jPriority j)),
      (''retries'', jint (jRetries j)), (''max_retries'', jint (jMaxRetries j))] @
     omit (jBackoffAlgorithm j = '''') (''backoff_algorithm'', JStr (jBackoffAlgorithm j)) @
     omit (jBackoffJitter j = '''') (''backoff_jitter'', JStr (jBackoffJitter j)) @
     omit (jCronExpr j = '''') (''cron_expr'', JStr (jCronExpr j)) @
     [(''created_at'', JTime (jCreatedAt j)), (''updated_at'', JTime (jUpdatedAt j)),
      (''run_at'', JTime (jRunAt j))] @
     omit (jProcessedBy j = '''') (''processed_by'', JStr (jProcessedBy j)) @
     omit (jCorrelationID j = '''') (''correlation_id'', JStr (jCorrelationID j)) @
     omit (jTimeout j = 0) (''timeout'', jint (jTimeout j)) @
     [(''version'', jint (jVersion j)), (''tenant_id'', JStr (jTenantID j)),
      (''paused'', JBool (jPaused j)), (''progress'', JNum (jProgress j))] @
     omit (jResult j = JNull) (''result'', jResult j) @
     omit (jWebhook j = None) (''webhook'', webhook_json (the (jWebhook j))) @
     omit (jDedupKey j = '''') (''dedup_key'', JStr (jDedupKey j)) @
     omit (jDependencies j = []) (''dependencies'', jstrs (jDependencies j)) @
     omit (jShardKey j = '''') (''shard_key'', JStr (jShardKey j)) @
     omit (jTraceID j = '''') (''trace_id'', JStr (jTraceID j)) @
     [(''expires_at'', JTime (jExpiresAt j))] @
     omit (jErrorHistory j = []) (''error_history'', JArr (map attempt_json (jErrorHistory j)))"

definition job_json :: "Job \<Rightarrow> json" where
  \<comment> \<open>\<open>json.Marshal(job)\<close>\<close>
  "job_json j = JObj (job_fields j)"

definition json_job :: "json \<Rightarrow> Job option" where
  \<comment> \<open>\<open>json.Unmarshal(data, &job)\<close> into a zero job; \<open>None\<close> is the error\<close>
  "json_job v = (case v of JObj fs \<Rightarrow>
     do { id' \<leftarrow> dec_str fs ''id''; type \<leftarrow> dec_str fs ''type''; payload \<leftarrow> dec_map fs ''payload'';
          labels \<leftarrow> dec_strmap fs ''labels''; status \<leftarrow> dec_str fs ''status'';
          priority \<leftarrow> dec_str fs ''priority''; retries \<leftarrow> dec_int fs ''retries'';
          maxr \<leftarrow> dec_int fs ''max_retries''; algo \<leftarrow> dec_str fs ''backoff_algorithm'';
          jitter \<leftarrow> dec_str fs ''backoff_jitter''; cron \<leftarrow> dec_str fs ''cron_expr'';
          created \<leftarrow> dec_time fs ''created_at''; updated \<leftarrow> dec_time fs ''updated_at'';
          runat \<leftarrow> dec_time fs ''run_at''; proc \<leftarrow> dec_str fs ''processed_by'';
          corr \<leftarrow> dec_str fs ''correlation_id''; timeout \<leftarrow> dec_int fs ''timeout'';
          version \<leftarrow> dec_int fs ''version''; tenant \<leftarrow> dec_str fs ''tenant_id'';
          paused \<leftarrow> dec_bool fs ''paused''; progress \<leftarrow> dec_float fs ''progress'';
          res \<leftarrow> dec_any fs ''result''; hook \<leftarrow> dec_webhook fs ''webhook'';
          dedup \<leftarrow> dec_str fs ''dedup_key''; deps \<leftarrow> dec_strs fs ''dependencies'';
          shard \<leftarrow> dec_str fs ''shard_key''; trace \<leftarrow> dec_str fs ''trace_id'';
          expires \<leftarrow> dec_time fs ''expires_at''; hist \<leftarrow> dec_attempts fs ''error_history'';
          Some \<lparr>jID = id', jType = type, jPayload = payload, jLabels = labels, jStatus = status,
            jPriority = priority, jRetries = retries, jMaxRetries = maxr, jBackoffAlgorithm = algo,
            jBackoffJitter = jitter, jCronExpr = cron, jCreatedAt = created, jUpdatedAt = updated,
            jRunAt = runat, jProcessedBy = proc, jCorrelationID = corr, jTimeout = timeout,
            jVersion = version, jTenantID = tenant, jPaused = paused, jProgress = progress,
            jResult = res, jWebhook = hook, jDedupKey = dedup, jDependencies = deps,
            jShardKey = shard, jTraceID = trace, jExpiresAt = expires, jErrorHistory = hist\<rparr> }
     | JNull \<Rightarrow> Some zero_job
     | _ \<Rightarrow> None)"

section \<open>Lemmas\<close>

lemma json_webhook_json [simp]: "json_webhook (webhook_json w) = Some w"
  by (cases w) (simp add: json_webhook_def webhook_json_def dec_defs jint_def jstrs_def)

lemma json_attempt_json [simp]: "json_attempt (attempt_json a) = Some a"
  by (cases a) (simp add: json_attempt_def attempt_json_def dec_defs jint_def)

lemma json_attempts_map [simp]: "json_attempts (map attempt_json as) = Some as"
  by (induction as) auto

lemma webhook_json_neq_JNull [simp]: "webhook_json w \<noteq> JNull"
  by (simp add: webhook_json_def)

lemma dec_str_job_fields [simp]:
  "dec_str (job_fields j) ''id'' = Some (jID j)"
  "dec_str (job_fields j) ''type'' = Some (jType j)"
  "dec_str (job_fields j) ''status'' = Some (jStatus j)"
  "dec_str (job_fields j) ''priority'' = Some (jPriority j)"
  "dec_str (job_fields j) ''backoff_algorithm'' = Some (jBackoffAlgorithm j)"
  "dec_str (job_fields j) ''backoff_jitter'' = Some (jBackoffJitter j)"
  "dec_str (job_fields j) ''cron_expr'' = Some (jCronExpr j)"
  "dec_str (job_fields j) ''processed_by'' = Some (jProcessedBy j)"
  "dec_str (job_fields j) ''correlation_id'' = Some (jCorrelationID j)"
  "dec_str (job_fields j) ''tenant_id'' = Some (jTenantID j)"
  "dec_str (job_fields j) ''dedup_key'' = Some (jDedupKey j)"
  "dec_str (job_fields j) ''shard_key'' = Some (jShardKey j)"
  "dec_str (job_fields j) ''trace_id'' = Some (jTraceID j)"
  by (simp_all add: dec_str_def job_fields_def)

lemma dec_int_job_fields [simp]:
  "dec_int (job_fields j) ''retries'' = Some (jRetries j)"
  "dec_int (job_fields j) ''max_retries'' = Some (jMaxRetries j)"
  "dec_int (job_fields j) ''timeout'' = Some (jTimeout j)"
  "dec_int (job_fields j) ''version'' = Some (jVersion j)"
  by (simp_all add: dec_int_def job_fields_def jint_def)

lemma dec_time_job_fields [simp]:
  "dec_time (job_fields j) ''created_at'' = Some (jCreatedAt j)"
  "dec_time (job_fields j) ''updated_at'' = Some (jUpdatedAt j)"
  "dec_time (job_fields j) ''run_at'' = Some (jRunAt j)"
  "dec_time (job_fields j) ''expires_at'' = Some (jExpiresAt j)"
  by (simp_all add: dec_time_def job_fields_def)

lemma dec_other_job_fields [simp]:
  "dec_map (job_fields j) ''payload'' = Some (jPayload j)"
  "dec_strmap (job_fields j) ''labels'' = Some (jLabels j)"
  "dec_bool (job_fields j) ''paused'' = Some (jPaused j)"
  "dec_float (job_fields j) ''progress'' = Some (jProgress j)"
  "dec_any (job_fields j) ''result'' = Some (jResult j)"
  "dec_strs (job_fields j) ''dependencies'' = Some (jDependencies j)"
  by (simp_all add: dec_map_def dec_strmap_def dec_bool_def dec_float_def dec_any_def dec_strs_def
      job_fields_def jpairs_def jstrs_def split: option.split)

lemma dec_webhook_job_fields [simp]: "dec_webhook (job_fields j) ''webhook'' = Some (jWebhook j)"
  by (cases "jWebhook j"; cases "webhook_json (the (jWebhook j))")
     (simp_all add: dec_webhook_def job_fields_def, (metis json_webhook_json)+)

lemma dec_attempts_job_fields [simp]:
  "dec_attempts (job_fields j) ''error_history'' = Some (jErrorHistory j)"
  by (simp add: dec_attempts_def job_fields_def)

lemma json_job_fields: "json_job (JObj (job_fields j)) = Some j"
  by (simp add: json_job_def)

lemma json_job_json [simp]: "json_job (job_json j) = Some j"
  by (simp add: job_json_def json_job_fields)

lemma job_json_inject [simp]: "job_json i = job_json j \<longleftrightarrow> i = j"
  by (metis json_job_json option.inject)

lemma sint_word_of_int_64:
  assumes "- (2 ^ 63) \<le> i" and "i < 2 ^ 63"
  shows "sint (word_of_int i :: 64 word) = i"
  using assms by (simp add: signed_of_int signed_take_bit_int_eq_self)

lemma base_exponential_word:
  "(push_bit n 1 * word_of_int Second :: 64 word) = word_of_int (2 ^ n * Second)"
  by (simp add: push_bit_eq_mult)

lemma sint_base_exponential:
  assumes "n \<le> 33"
  shows "sint (push_bit n 1 * word_of_int Second :: 64 word) = 2 ^ n * Second"
proof -
  from assms have "(2::int) ^ n \<le> 2 ^ 33" by (rule power_increasing) simp
  moreover have "(0::int) \<le> 2 ^ n" by simp
  ultimately show ?thesis
    unfolding base_exponential_word by (intro sint_word_of_int_64; simp; linarith)
qed

lemma base_exponential_vanishes:
  assumes "55 \<le> n"
  shows "(push_bit n 1 * word_of_int Second :: 64 word) = 0"
proof -
  from assms obtain k where n: "n = k + 55" by (metis le_Suc_ex add.commute)
  have "(2::int) ^ n * Second = 2 ^ LENGTH(64) * (2 ^ k * 1953125)"
    by (simp add: n power_add)
  then have "2 ^ LENGTH(64) dvd (2::int) ^ n * Second" by (metis dvd_triv_left)
  then show ?thesis
    unfolding base_exponential_word by (simp only: word_of_int_eq_0_iff)
qed

lemma BackoffDelay_Some:
  "BackoffDelay rnd (Some j) =
     jitter_delay rnd (jBackoffJitter j) (sint (base_delay (jBackoffAlgorithm j) (max 1 (jRetries j))))"
  by (simp add: BackoffDelay_def max_def)

lemma base_delay_exponential:
  assumes "algo \<noteq> BackoffLinear" and "algo \<noteq> BackoffFixed" and "r \<le> 33"
  shows "sint (base_delay algo r) = 2 ^ nat r * Second"
proof -
  have "nat r \<le> 33" using assms(3) by simp
  then show ?thesis
    using assms(1,2) by (simp only: base_delay_def if_False simp_thms sint_base_exponential)
qed

lemma base_delay_linear:
  assumes "0 \<le> r" and "r \<le> 9223372036"
  shows "sint (base_delay BackoffLinear r) = r * Second"
proof -
  have "base_delay BackoffLinear r = word_of_int (r * Second)" by (simp add: base_delay_def)
  moreover have "sint (word_of_int (r * Second) :: 64 word) = r * Second"
    using assms by (intro sint_word_of_int_64) simp_all
  ultimately show ?thesis by simp
qed

lemma base_delay_fixed: "sint (base_delay BackoffFixed r) = Second"
proof -
  have "base_delay BackoffFixed r = word_of_int Second" by (simp add: base_delay_def)
  then show ?thesis using sint_word_of_int_64 [of Second] by simp
qed

section \<open>Properties\<close>

text \<open>
  Without jitter the retry delay is exactly what the algorithm promises, with no wrap-around:
  \<open>2^r\<close> seconds for the exponential (and any unknown) algorithm up to 33 retries, \<open>r\<close> seconds for the
  linear one up to 9223372036 retries, one second for the fixed one, where \<open>r\<close> is the retry
  count and at least 1.
\<close>

theorem BackoffDelay_exact:
  assumes "jBackoffJitter j \<noteq> JitterFull" and "jBackoffJitter j \<noteq> JitterEqual"
  shows "(jBackoffAlgorithm j \<notin> {BackoffLinear, BackoffFixed} \<and> jRetries j \<le> 33 \<longrightarrow>
            BackoffDelay rnd (Some j) = 2 ^ nat (max 1 (jRetries j)) * Second) \<and>
         (jBackoffAlgorithm j = BackoffLinear \<and> jRetries j \<le> 9223372036 \<longrightarrow>
            BackoffDelay rnd (Some j) = max 1 (jRetries j) * Second) \<and>
         (jBackoffAlgorithm j = BackoffFixed \<longrightarrow> BackoffDelay rnd (Some j) = Second)"
  using assms
  by (simp add: BackoffDelay_Some jitter_delay_def base_delay_exponential base_delay_linear
      base_delay_fixed)

theorem BackoffDelay_exact_witness:
  "BackoffDelay (\<lambda>n. 0) (Some (zero_job\<lparr>jRetries := 5\<rparr>)) = 32 * Second \<and>
   BackoffDelay (\<lambda>n. 0) (Some (zero_job\<lparr>jRetries := 5, jBackoffAlgorithm := BackoffLinear\<rparr>)) = 5 * Second"
  using BackoffDelay_exact [of "zero_job\<lparr>jRetries := 5\<rparr>" "\<lambda>n. 0"]
    BackoffDelay_exact [of "zero_job\<lparr>jRetries := 5, jBackoffAlgorithm := BackoffLinear\<rparr>" "\<lambda>n. 0"]
  by (simp add: zero_job_def)

text \<open>
  The exponential delay is not monotone in the retry count: it is computed in 64 bits, so
  from the 55th retry on the delay without jitter is zero, and the job is
  rescheduled immediately; at the 34th retry it is already negative.
\<close>

theorem BackoffDelay_overflow:
  assumes "jBackoffAlgorithm j \<notin> {BackoffLinear, BackoffFixed}"
    and "jBackoffJitter j \<notin> {JitterFull, JitterEqual}"
  shows "(55 \<le> jRetries j \<longrightarrow> BackoffDelay rnd (Some j) = 0) \<and>
         (jRetries j = 34 \<longrightarrow> BackoffDelay rnd (Some j) < 0)"
proof -
  have "BackoffDelay rnd (Some j) = 0" if "55 \<le> jRetries j"
  proof -
    have "55 \<le> nat (max 1 (jRetries j))" using that by simp
    then have "base_delay (jBackoffAlgorithm j) (max 1 (jRetries j)) = 0"
      using assms by (simp only: base_delay_def base_exponential_vanishes) simp
    then show ?thesis using assms by (simp add: BackoffDelay_Some jitter_delay_def)
  qed
  moreover have "sint (word_of_int (2 ^ 34 * Second) :: 64 word) < 0" by (simp add: signed_of_int)
  ultimately show ?thesis
    using assms by (simp add: BackoffDelay_Some jitter_delay_def base_delay_def base_exponential_word
        del: of_int_numeral)
qed

theorem BackoffDelay_overflow_witness:
  "BackoffDelay (\<lambda>n. 0) (Some (zero_job\<lparr>jRetries := 60\<rparr>)) = 0 \<and>
   BackoffDelay (\<lambda>n. 0) (Some (zero_job\<lparr>jRetries := 34\<rparr>)) < 0"
  using BackoffDelay_overflow [of "zero_job\<lparr>jRetries := 60\<rparr>" "\<lambda>n. 0"]
    BackoffDelay_overflow [of "zero_job\<lparr>jRetries := 34\<rparr>" "\<lambda>n. 0"] by (simp add: zero_job_def)

text \<open>
  Jitter never lengthens a delay: if \<open>rand.Int63n(n)\<close> lies in \<open>[0, n)\<close> as documented and the
  base delay is at least two nanoseconds, full jitter yields a delay in \<open>[0, base)\<close> and equal jitter
  one in \<open>[base/2, base)\<close>.
\<close>

theorem jitter_bounds:
  assumes "\<And>n. 0 < n \<Longrightarrow> 0 \<le> rnd n \<and> rnd n < n" and "2 \<le> delay"
  shows "0 \<le> jitter_delay rnd JitterFull delay \<and> jitter_delay rnd JitterFull delay < delay \<and>
         delay div 2 \<le> jitter_delay rnd JitterEqual delay \<and> jitter_delay rnd JitterEqual delay < delay"
  using assms(1) [of delay] assms(1) [of "delay div 2"] assms(2)
  by (auto simp: jitter_delay_def Let_def)

theorem jitter_bounds_witness:
  "jitter_delay (\<lambda>n. n - 1) JitterEqual Second < Second"
  using jitter_bounds [of "\<lambda>n. n - 1" Second] by simp


end
