(* ===== verification/Store.thy ===== *)
theory Store
  imports Jobs
begin

text \<open>
  The persistence contract of \<^verbatim>\<open>internal/storage/models/models.go\<close>: the interface \<^verbatim>\<open>Store\<close> as a
  record of operations over a state \<open>'w\<close>, the search filter, and the locale \<open>job_store\<close> with the laws
  its clients rely on. \<open>lookup w\<close> is the map from ids to records that a state stands for. The
  operation \<^verbatim>\<open>Dequeue\<close> of the interface answers an optional job (a nil pointer).
\<close>

section \<open>Data\<close>

abbreviation ErrJobNotFound :: go_error where "ErrJobNotFound \<equiv> Sentinel ''job not found''"
abbreviation ErrClientNotFound :: go_error where "ErrClientNotFound \<equiv> Sentinel ''client not found''"

definition not_found :: "string \<Rightarrow> go_error" where
  \<comment> \<open>\<open>fmt.Errorf("%w: %s", ErrJobNotFound, id)\<close>\<close>
  "not_found i = Wrap '''' ErrJobNotFound ('': '' @ i)"

record JobFilter =
  fTenantID :: string
  fStatus :: string
  fType :: string
  fSearchQuery :: string
  fLabelKey :: string
  fLabelValue :: string
  fCreatedAfter :: time
  fCreatedBefore :: time
  fLimit :: int
  fOffset :: int

definition empty_filter :: JobFilter where
  "empty_filter = \<lparr>fTenantID = '''', fStatus = '''', fType = '''', fSearchQuery = '''', fLabelKey = '''',
     fLabelValue = '''', fCreatedAfter = zero_time, fCreatedBefore = zero_time, fLimit = 0, fOffset = 0\<rparr>"

record ClientRecord =
  crTenantID :: string
  crCreatedAt :: time

type_synonym queue_lengths = "(string \<times> (string \<times> int) list) list"

record 'w Store =
  st_Save :: "time \<Rightarrow> Job \<Rightarrow> 'w \<Rightarrow> go_error option \<times> 'w"
  st_SaveBatch :: "time \<Rightarrow> Job list \<Rightarrow> 'w \<Rightarrow> go_error option \<times> 'w"
  st_GetByID :: "time \<Rightarrow> string \<Rightarrow> 'w \<Rightarrow> (go_error + Job) \<times> 'w"
  st_UpdateStatus :: "time \<Rightarrow> string \<Rightarrow> string \<Rightarrow> string \<Rightarrow> 'w \<Rightarrow> go_error option \<times> 'w"
  st_UpdateProgress :: "time \<Rightarrow> string \<Rightarrow> rat \<Rightarrow> 'w \<Rightarrow> go_error option \<times> 'w"
  st_UpdateResult :: "time \<Rightarrow> string \<Rightarrow> string \<Rightarrow> string \<Rightarrow> json \<Rightarrow> 'w \<Rightarrow> go_error option \<times> 'w"
  st_GetByWorkerAndStatus :: "time \<Rightarrow> string \<Rightarrow> string \<Rightarrow> 'w \<Rightarrow> (go_error + Job list) \<times> 'w"
  st_Enqueue :: "time \<Rightarrow> Job \<Rightarrow> 'w \<Rightarrow> go_error option \<times> 'w"
  st_Dequeue :: "time \<Rightarrow> string \<Rightarrow> string \<Rightarrow> 'w \<Rightarrow> (go_error + Job option) \<times> 'w"
  st_Heartbeat :: "time \<Rightarrow> string \<Rightarrow> 'w \<Rightarrow> go_error option \<times> 'w"
  st_Complete :: "time \<Rightarrow> string \<Rightarrow> json \<Rightarrow> 'w \<Rightarrow> go_error option \<times> 'w"
  st_Fail :: "time \<Rightarrow> string \<Rightarrow> go_error \<Rightarrow> bool \<Rightarrow> 'w \<Rightarrow> go_error option \<times> 'w"
  st_ListJobs :: "time \<Rightarrow> string \<Rightarrow> string \<Rightarrow> string \<Rightarrow> int \<Rightarrow> int \<Rightarrow> 'w \<Rightarrow> (go_error + Job list) \<times> 'w"
  st_SearchJobs :: "time \<Rightarrow> JobFilter \<Rightarrow> 'w \<Rightarrow> (go_error + Job list) \<times> 'w"
  st_CountJobs :: "time \<Rightarrow> JobFilter \<Rightarrow> 'w \<Rightarrow> (go_error + int) \<times> 'w"
  st_RecoverOrphans :: "time \<Rightarrow> duration \<Rightarrow> 'w \<Rightarrow> (go_error + int) \<times> 'w"
  st_ArchiveOldJobs :: "time \<Rightarrow> time \<Rightarrow> 'w \<Rightarrow> (go_error + int) \<times> 'w"
  st_DeleteJob :: "time \<Rightarrow> string \<Rightarrow> 'w \<Rightarrow> go_error option \<times> 'w"
  st_DeleteJobsBefore :: "time \<Rightarrow> string \<Rightarrow> string \<Rightarrow> string \<Rightarrow> time \<Rightarrow> 'w \<Rightarrow> (go_error + int) \<times> 'w"
  st_IsDedupKeyTaken :: "time \<Rightarrow> string \<Rightarrow> string \<Rightarrow> 'w \<Rightarrow> (go_error + bool) \<times> 'w"
  st_GetByIDs :: "time \<Rightarrow> string list \<Rightarrow> 'w \<Rightarrow> (go_error + Job list) \<times> 'w"
  st_GetReadyDAGJobs :: "time \<Rightarrow> int \<Rightarrow> 'w \<Rightarrow> (go_error + Job list) \<times> 'w"
  st_GetDependentJobs :: "time \<Rightarrow> string \<Rightarrow> 'w \<Rightarrow> (go_error + Job list) \<times> 'w"
  st_GetQueueLengths :: "time \<Rightarrow> 'w \<Rightarrow> (go_error + queue_lengths) \<times> 'w"
  st_RegisterClient :: "time \<Rightarrow> string \<Rightarrow> string \<Rightarrow> 'w \<Rightarrow> go_error option \<times> 'w"
  st_VerifyClient :: "time \<Rightarrow> string \<Rightarrow> 'w \<Rightarrow> (go_error + string) \<times> 'w"
  st_ListClients :: "time \<Rightarrow> 'w \<Rightarrow> (go_error + ClientRecord list) \<times> 'w"
  st_RevokeClient :: "time \<Rightarrow> string \<Rightarrow> 'w \<Rightarrow> go_error option \<times> 'w"

section \<open>Shared pieces of the implementations\<close>

definition matches3 :: "string \<Rightarrow> string \<Rightarrow> string \<Rightarrow> Job \<Rightarrow> bool" where
  \<comment> \<open>the tenant, status and type tests; an empty string matches anything\<close>
  "matches3 tenantID status typeStr j \<longleftrightarrow>
     (tenantID = '''' \<or> jTenantID j = tenantID) \<and> (status = '''' \<or> jStatus j = status) \<and>
     (typeStr = '''' \<or> jType j = typeStr)"

definition finalized :: "string \<Rightarrow> bool" where
  "finalized status \<longleftrightarrow> status = StatusCompleted \<or> status = StatusFailed \<or> status = StatusCancelled"

definition newest_first :: "Job list \<Rightarrow> Job list" where
  \<comment> \<open>\<open>sort.Slice\<close> by \<open>CreatedAt.After\<close>\<close>
  "newest_first js = sort_key (\<lambda>j. - jCreatedAt j) js"

definition page :: "int \<Rightarrow> int \<Rightarrow> 'a list \<Rightarrow> 'a list" where
  \<comment> \<open>\<open>results[offset:end]\<close> with \<open>end = min (offset + limit) len\<close>\<close>
  "page offset limit xs =
     (if int (length xs) \<le> offset then []
      else (let e = min (offset + limit) (int (length xs))
            in take (nat (e - offset)) (drop (nat offset) xs)))"

fun incr_length :: "string \<Rightarrow> string \<Rightarrow> queue_lengths \<Rightarrow> queue_lengths" where
  \<comment> \<open>\<open>results[type][tenant]++\<close>, making the inner map on first use\<close>
  "incr_length ty tenant m =
     (let inner = (case map_of m ty of None \<Rightarrow> [] | Some i \<Rightarrow> i);
          n = (case map_of inner tenant of None \<Rightarrow> 0 | Some k \<Rightarrow> k)
      in AList.update ty (AList.update tenant (n + 1) inner) m)"

definition queue_lengths_of :: "Job list \<Rightarrow> queue_lengths" where
  "queue_lengths_of js =
     fold (\<lambda>j m. if jStatus j = StatusPending then incr_length (jType j) (jTenantID j) m else m) js []"

fun distinct_tenants :: "string list \<Rightarrow> string list \<Rightarrow> string list" where
  \<comment> \<open>the loop with the map \<open>seen\<close>\<close>
  "distinct_tenants seen [] = []"
| "distinct_tenants seen (t # ts) =
     (if t \<in> set seen then distinct_tenants seen ts else t # distinct_tenants (t # seen) ts)"

section \<open>Contract\<close>

locale job_store =
  fixes store :: "'w Store" and ok :: "'w \<Rightarrow> bool" and lookup :: "'w \<Rightarrow> string \<Rightarrow> Job option"
  assumes save_law: "ok w \<Longrightarrow> \<exists>w'. st_Save store now j w = (None, w') \<and> ok w' \<and> lookup w' = (lookup w)(jID j \<mapsto> j)"
    and get_some: "ok w \<Longrightarrow> lookup w i = Some j \<Longrightarrow> st_GetByID store now i w = (Inr j, w)"
    and get_none: "ok w \<Longrightarrow> lookup w i = None \<Longrightarrow> st_GetByID store now i w = (Inl (not_found i), w)"
    and lookup_id: "ok w \<Longrightarrow> lookup w i = Some j \<Longrightarrow> jID j = i"
    and status_some: "ok w \<Longrightarrow> lookup w i = Some j \<Longrightarrow>
      \<exists>w' u. st_UpdateStatus store now i s p w = (None, w') \<and> ok w' \<and>
             lookup w' = (lookup w)(i \<mapsto> j\<lparr>jStatus := s, jProcessedBy := p, jUpdatedAt := u\<rparr>)"
    and status_none: "ok w \<Longrightarrow> lookup w i = None \<Longrightarrow> st_UpdateStatus store now i s p w = (Some (not_found i), w)"
    and result_some: "ok w \<Longrightarrow> lookup w i = Some j \<Longrightarrow>
      \<exists>w'. st_UpdateResult store now i s p res w = (None, w') \<and> ok w' \<and>
           lookup w' = (lookup w)(i \<mapsto> j\<lparr>jStatus := s, jProcessedBy := p, jResult := res, jUpdatedAt := now\<rparr>)"
    and result_none: "ok w \<Longrightarrow> lookup w i = None \<Longrightarrow> st_UpdateResult store now i s p res w = (Some (not_found i), w)"
    and progress_some: "ok w \<Longrightarrow> lookup w i = Some j \<Longrightarrow>
      \<exists>w'. st_UpdateProgress store now i x w = (None, w') \<and> ok w' \<and>
           lookup w' = (lookup w)(i \<mapsto> j\<lparr>jProgress := x, jUpdatedAt := now\<rparr>)"
    and progress_none: "ok w \<Longrightarrow> lookup w i = None \<Longrightarrow> st_UpdateProgress store now i x w = (Some (not_found i), w)"
    and delete_law: "ok w \<Longrightarrow> \<exists>w'. st_DeleteJob store now i w = (None, w') \<and> ok w' \<and> lookup w' = (lookup w)(i := None)"
    and ids_law: "ok w \<Longrightarrow> st_GetByIDs store now is w = (Inr (List.map_filter (lookup w) is), w)"
begin

lemma save_get: "ok w \<Longrightarrow> st_GetByID store t (jID j) (snd (st_Save store now j w)) = (Inr j, snd (st_Save store now j w))"
  using save_law [of w now j] get_some by fastforce

lemma save_get_other:
  "ok w \<Longrightarrow> i \<noteq> jID j \<Longrightarrow> fst (st_GetByID store t i (snd (st_Save store now j w))) = fst (st_GetByID store t i w)"
  using save_law [of w now j] get_some [of _ i] get_none [of _ i] by (cases "lookup w i") fastforce+

lemma get_lookup:
  "ok w \<Longrightarrow> st_GetByID store now i w = ((case lookup w i of None \<Rightarrow> Inl (not_found i) | Some j \<Rightarrow> Inr j), w)"
  by (simp add: get_some get_none split: option.split)

end

section \<open>Lemmas\<close>

lemma newest_first_set [simp]: "set (newest_first js) = set js" "length (newest_first js) = length js"
  "mset (newest_first js) = mset js"
  by (simp_all add: newest_first_def)

lemma newest_first_sorted: "sorted_wrt (\<lambda>a b. jCreatedAt b \<le> jCreatedAt a) (newest_first js)"
proof -
  have "sorted (map (\<lambda>j. - jCreatedAt j) (newest_first js))" by (simp add: newest_first_def)
  then show ?thesis by (simp add: sorted_map sorted_wrt_iff_nth_less)
qed

lemma page_length:
  assumes "0 \<le> offset" and "0 \<le> limit"
  shows "int (length (page offset limit xs)) = max 0 (min limit (int (length xs) - offset))"
  using assms by (auto simp: page_def Let_def)

lemma page_eq: "0 \<le> offset \<Longrightarrow> 0 \<le> limit \<Longrightarrow> page offset limit xs = take (nat limit) (drop (nat offset) xs)"
  by (auto simp: page_def Let_def min_def nat_diff_distrib nat_add_distrib)

lemma not_found_is [simp]: "errors_Is (not_found i) ErrJobNotFound"
  by (simp add: not_found_def)

end
