(* ===== verification/Redis.thy ===== *)
theory Redis
  imports Json
begin

text \<open>
  The Redis server the task queue talks to. Redis and the client library are not part of the
  program: they are the parameter \<open>redis\<close> of every definition that uses them, and the locales
  \<open>redis_service\<close> and \<open>redis_up\<close> state what the program relies on, in terms of the documented
  effect of each command (\<open>redis_step\<close>). \<open>redis_ref\<close> is the instance that runs exactly these effects.

  A stored value is a text, a counter or a JSON document. Every data type has its own key space: the
  program never uses one key with two types. A sorted set is its members with their scores; the order
  in which \<^verbatim>\<open>ZRANGEBYSCORE\<close> lists members of equal score and the pages of a scan are fields of the
  service.
\<close>

section \<open>Database\<close>

datatype blob = Txt string | Num int | Doc json

record rdb =
  rStrs :: "(string \<times> blob \<times> time option) list"
  rHashes :: "string \<Rightarrow> (string \<times> blob) list"
  rLists :: "string \<Rightarrow> blob list"
  rZsets :: "string \<Rightarrow> (blob \<times> int) list"
  rSets :: "string \<Rightarrow> string list"
  rStreams :: "string \<Rightarrow> json list"
  rPubs :: "(string \<times> string) list"

definition empty_rdb :: rdb where
  "empty_rdb = \<lparr>rStrs = [], rHashes = (\<lambda>k. []), rLists = (\<lambda>k. []), rZsets = (\<lambda>k. []),
     rSets = (\<lambda>k. []), rStreams = (\<lambda>k. []), rPubs = []\<rparr>"

datatype rcmd =
    GET string
  | SET string blob "duration option"
  | SETNX string blob duration
  | DEL string
  | INCR string
  | EXPIRE string duration
  | MGET "string list"
  | HSET string string blob
  | HGET string string
  | HDEL string "string list"
  | HGETALL string
  | HMGET string "string list"
  | LPUSH string blob
  | RPOP string
  | BRPOP "string list"
  | LLEN string
  | LRANGE string int int
  | LTRIM string int int
  | ZADD string blob int
  | ZREM string blob
  | ZCARD string
  | ZREMRANGEBYSCORE string int
  | SADD string string
  | SREM string string
  | SISMEMBER string string
  | SMEMBERS string
  | XADD string json
  | PUBLISH string string

datatype reply =
    ROk
  | RNil
  | RInt int
  | RBlob blob
  | RKeyBlob string blob
  | RBlobs "blob list"
  | ROpts "blob option list"
  | RPairs "(string \<times> blob) list"
  | RStrings "string list"

section \<open>Documented effect of the commands\<close>

definition live :: "time \<Rightarrow> time option \<Rightarrow> bool" where
  "live now ex \<longleftrightarrow> (case ex of None \<Rightarrow> True | Some t \<Rightarrow> now < t)"

definition str_get :: "time \<Rightarrow> rdb \<Rightarrow> string \<Rightarrow> blob option" where
  "str_get now db k = (case map_of (rStrs db) k of
     Some (v, ex) \<Rightarrow> if live now ex then Some v else None | None \<Rightarrow> None)"

definition str_put :: "string \<Rightarrow> blob \<Rightarrow> time option \<Rightarrow> rdb \<Rightarrow> rdb" where
  "str_put k v ex db = db\<lparr>rStrs := AList.update k (v, ex) (rStrs db)\<rparr>"

definition str_del :: "string \<Rightarrow> rdb \<Rightarrow> rdb" where
  "str_del k db = db\<lparr>rStrs := AList.delete k (rStrs db)\<rparr>"

definition str_expiry :: "time \<Rightarrow> rdb \<Rightarrow> string \<Rightarrow> time option" where
  "str_expiry now db k = (case map_of (rStrs db) k of
     Some (v, ex) \<Rightarrow> if live now ex then ex else None | None \<Rightarrow> None)"

definition blob_int :: "blob \<Rightarrow> int" where
  "blob_int b = (case b of Num i \<Rightarrow> i | _ \<Rightarrow> 0)"

definition put_list :: "string \<Rightarrow> blob list \<Rightarrow> rdb \<Rightarrow> rdb" where
  "put_list k xs db = db\<lparr>rLists := (rLists db)(k := xs)\<rparr>"

definition put_hash :: "string \<Rightarrow> (string \<times> blob) list \<Rightarrow> rdb \<Rightarrow> rdb" where
  "put_hash k h db = db\<lparr>rHashes := (rHashes db)(k := h)\<rparr>"

definition put_zset :: "string \<Rightarrow> (blob \<times> int) list \<Rightarrow> rdb \<Rightarrow> rdb" where
  "put_zset k z db = db\<lparr>rZsets := (rZsets db)(k := z)\<rparr>"

definition put_set :: "string \<Rightarrow> string list \<Rightarrow> rdb \<Rightarrow> rdb" where
  "put_set k s db = db\<lparr>rSets := (rSets db)(k := s)\<rparr>"

definition hdel :: "string list \<Rightarrow> (string \<times> blob) list \<Rightarrow> (string \<times> blob) list" where
  "hdel fs h = filter (\<lambda>(f, v). f \<notin> set fs) h"

definition zrem :: "blob \<Rightarrow> (blob \<times> int) list \<Rightarrow> (blob \<times> int) list" where
  "zrem m z = filter (\<lambda>(x, s). x \<noteq> m) z"

definition zsweep :: "int \<Rightarrow> (blob \<times> int) list \<Rightarrow> (blob \<times> int) list" where
  \<comment> \<open>\<open>ZREMRANGEBYSCORE key -inf hi\<close>\<close>
  "zsweep hi z = filter (\<lambda>(x, s). hi < s) z"

definition range_slice :: "int \<Rightarrow> int \<Rightarrow> 'a list \<Rightarrow> 'a list" where
  \<comment> \<open>the inclusive ranges of \<open>LRANGE\<close> and \<open>LTRIM\<close>; negative indices count from the end\<close>
  "range_slice lo hi xs =
     (let n = int (length xs);
          a = max 0 (if lo < 0 then n + lo else lo);
          b = (if hi < 0 then n + hi else hi)
      in take (nat (b - a + 1)) (drop (nat a) xs))"

fun pop_first :: "string list \<Rightarrow> rdb \<Rightarrow> (string \<times> blob \<times> rdb) option" where
  \<comment> \<open>the rightmost element of the first non-empty list\<close>
  "pop_first [] db = None"
| "pop_first (k # ks) db =
     (if rLists db k = [] then pop_first ks db
      else Some (k, last (rLists db k), put_list k (butlast (rLists db k)) db))"

definition count_int :: "'a list \<Rightarrow> 'a list \<Rightarrow> reply" where
  "count_int before after = RInt (int (length before) - int (length after))"

fun redis_step :: "time \<Rightarrow> rcmd \<Rightarrow> rdb \<Rightarrow> reply \<times> rdb" where
  "redis_step now (GET k) db = ((case str_get now db k of None \<Rightarrow> RNil | Some v \<Rightarrow> RBlob v), db)"
| "redis_step now (SET k v ttl) db = (ROk, str_put k v (map_option ((+) now) ttl) db)"
| "redis_step now (SETNX k v ttl) db =
     (if str_get now db k = None then (RInt 1, str_put k v (Some (now + ttl)) db) else (RInt 0, db))"
| "redis_step now (DEL k) db = (RInt (if str_get now db k = None then 0 else 1), str_del k db)"
| "redis_step now (INCR k) db =
     (let n = (case str_get now db k of None \<Rightarrow> 0 | Some v \<Rightarrow> blob_int v) + 1
      in (RInt n, str_put k (Num n) (str_expiry now db k) db))"
| "redis_step now (EXPIRE k ttl) db =
     (case str_get now db k of
        None \<Rightarrow> (RInt 0, db)
      | Some v \<Rightarrow> (RInt 1, str_put k v (Some (now + ttl)) db))"
| "redis_step now (MGET ks) db = (ROpts (map (str_get now db) ks), db)"
| "redis_step now (HSET k f v) db =
     (RInt (if map_of (rHashes db k) f = None then 1 else 0), put_hash k (AList.update f v (rHashes db k)) db)"
| "redis_step now (HGET k f) db =
     ((case map_of (rHashes db k) f of None \<Rightarrow> RNil | Some v \<Rightarrow> RBlob v), db)"
| "redis_step now (HDEL k fs) db =
     (let h = hdel fs (rHashes db k) in (count_int (rHashes db k) h, put_hash k h db))"
| "redis_step now (HGETALL k) db = (RPairs (rHashes db k), db)"
| "redis_step now (HMGET k fs) db = (ROpts (map (map_of (rHashes db k)) fs), db)"
| "redis_step now (LPUSH k v) db =
     (RInt (int (length (rLists db k)) + 1), put_list k (v # rLists db k) db)"
| "redis_step now (RPOP k) db =
     (if rLists db k = [] then (RNil, db)
      else (RBlob (last (rLists db k)), put_list k (butlast (rLists db k)) db))"
| "redis_step now (BRPOP ks) db =
     (case pop_first ks db of None \<Rightarrow> (RNil, db) | Some (k, v, db') \<Rightarrow> (RKeyBlob k v, db'))"
| "redis_step now (LLEN k) db = (RInt (int (length (rLists db k))), db)"
| "redis_step now (LRANGE k lo hi) db = (RBlobs (range_slice lo hi (rLists db k)), db)"
| "redis_step now (LTRIM k lo hi) db = (ROk, put_list k (range_slice lo hi (rLists db k)) db)"
| "redis_step now (ZADD k m s) db =
     (RInt (if map_of (rZsets db k) m = None then 1 else 0), put_zset k (AList.update m s (rZsets db k)) db)"
| "redis_step now (ZREM k m) db =
     (let z = zrem m (rZsets db k) in (count_int (rZsets db k) z, put_zset k z db))"
| "redis_step now (ZCARD k) db = (RInt (int (length (rZsets db k))), db)"
| "redis_step now (ZREMRANGEBYSCORE k hi) db =
     (let z = zsweep hi (rZsets db k) in (count_int (rZsets db k) z, put_zset k z db))"
| "redis_step now (SADD k m) db =
     (if m \<in> set (rSets db k) then (RInt 0, db) else (RInt 1, put_set k (rSets db k @ [m]) db))"
| "redis_step now (SREM k m) db =
     (let s = filter ((\<noteq>) m) (rSets db k) in (count_int (rSets db k) s, put_set k s db))"
| "redis_step now (SISMEMBER k m) db = (RInt (if m \<in> set (rSets db k) then 1 else 0), db)"
| "redis_step now (SMEMBERS k) db = (RStrings (rSets db k), db)"
| "redis_step now (XADD k v) db = (ROk, db\<lparr>rStreams := (rStreams db)(k := rStreams db k @ [v])\<rparr>)"
| "redis_step now (PUBLISH ch m) db = (RInt 0, db\<lparr>rPubs := rPubs db @ [(ch, m)]\<rparr>)"

fun redis_multi :: "time \<Rightarrow> rcmd list \<Rightarrow> rdb \<Rightarrow> reply list \<times> rdb" where
  "redis_multi now [] db = ([], db)"
| "redis_multi now (c # cs) db =
     (let (r, db1) = redis_step now c db; (rs, db2) = redis_multi now cs db1 in (r # rs, db2))"

section \<open>The service\<close>

text \<open>
  \<open>rexec\<close> sends a list of commands in one \<^verbatim>\<open>MULTI\<close>/\<^verbatim>\<open>EXEC\<close> block (one command is a block of one),
  \<open>reval\<close> runs a Lua script given by its meaning, \<open>rorder\<close> lists a sorted set in range order,
  \<open>rhscan\<close> and \<open>rscan\<close> give the pages of a full iteration over a hash and over the keys with a
  prefix, with the error that cut it short if any.
\<close>

record redis =
  rexec :: "time \<Rightarrow> rcmd list \<Rightarrow> rdb \<Rightarrow> (go_error + reply list) \<times> rdb"
  reval :: "time \<Rightarrow> (rdb \<Rightarrow> (go_error + int) \<times> rdb) \<Rightarrow> rdb \<Rightarrow> (go_error + int) \<times> rdb"
  rorder :: "(blob \<times> int) list \<Rightarrow> (blob \<times> int) list"
  rhscan :: "string \<Rightarrow> rdb \<Rightarrow> (string \<times> blob) list list \<times> go_error option"
  rscan :: "time \<Rightarrow> string \<Rightarrow> rdb \<Rightarrow> string list list \<times> go_error option"

definition rcall :: "redis \<Rightarrow> time \<Rightarrow> rcmd \<Rightarrow> rdb \<Rightarrow> (go_error + reply) \<times> rdb" where
  \<comment> \<open>one command through the client library, which turns a nil reply into \<open>redis.Nil\<close>\<close>
  "rcall r now c db =
     (case rexec r now [c] db of
        (Inl e, db') \<Rightarrow> (Inl e, db')
      | (Inr rs, db') \<Rightarrow>
          (case rs of [] \<Rightarrow> (Inl RedisNil, db')
           | x # _ \<Rightarrow> (if x = RNil then Inl RedisNil else Inr x, db')))"

fun reply_int :: "reply \<Rightarrow> int" where
  "reply_int (RInt n) = n"
| "reply_int _ = 0"

fun reply_blob :: "reply \<Rightarrow> blob" where
  "reply_blob (RBlob b) = b"
| "reply_blob _ = Txt ''''"

fun reply_blobs :: "reply \<Rightarrow> blob list" where
  "reply_blobs (RBlobs bs) = bs"
| "reply_blobs _ = []"

fun reply_opts :: "reply \<Rightarrow> blob option list" where
  "reply_opts (ROpts bs) = bs"
| "reply_opts _ = []"

fun reply_pairs :: "reply \<Rightarrow> (string \<times> blob) list" where
  "reply_pairs (RPairs ps) = ps"
| "reply_pairs _ = []"

fun reply_strings :: "reply \<Rightarrow> string list" where
  "reply_strings (RStrings ss) = ss"
| "reply_strings _ = []"

definition blob_text :: "blob \<Rightarrow> string" where
  \<comment> \<open>a reply read as a Go string where the program stores texts only\<close>
  "blob_text b = (case b of Txt s \<Rightarrow> s | Num i \<Rightarrow> itoa i | Doc d \<Rightarrow> '''')"

definition blob_json :: "blob \<Rightarrow> json option" where
  \<comment> \<open>the JSON document in a value; \<open>None\<close> when it does not parse\<close>
  "blob_json b = (case b of Doc d \<Rightarrow> Some d | Num i \<Rightarrow> Some (jint i) | Txt s \<Rightarrow> None)"

definition live_keys :: "time \<Rightarrow> string \<Rightarrow> rdb \<Rightarrow> string list" where
  "live_keys now p db = map fst (filter (\<lambda>(k, v, ex). live now ex \<and> HasPrefix k p) (rStrs db))"

definition redis_ref :: redis where
  "redis_ref = \<lparr>rexec = (\<lambda>now cs db. let (rs, db') = redis_multi now cs db in (Inr rs, db')),
     reval = (\<lambda>now script db. script db), rorder = sort_key snd,
     rhscan = (\<lambda>k db. ([rHashes db k], None)), rscan = (\<lambda>now p db. ([live_keys now p db], None))\<rparr>"

locale redis_service =
  fixes r :: redis
  assumes exec_ok: "rexec r now cs db = (Inr rs, db') \<Longrightarrow> redis_multi now cs db = (rs, db')"
    and exec_err: "rexec r now cs db = (Inl e, db') \<Longrightarrow> db' = db \<or> db' = snd (redis_multi now cs db)"
    and exec_err_not_nil: "rexec r now cs db = (Inl e, db') \<Longrightarrow> e \<noteq> RedisNil"
    and eval_run: "reval r now script db = script db \<or>
                   (\<exists>e. e \<noteq> RedisNil \<and> (reval r now script db = (Inl e, db) \<or>
                        reval r now script db = (Inl e, snd (script db))))"
    and order_mset: "mset (rorder r z) = mset z"
    and order_sorted: "sorted (map snd (rorder r z))"
    and hscan_all: "rhscan r k db = (pages, None) \<Longrightarrow> set (concat pages) = set (rHashes db k)"
    and hscan_some: "set (concat (fst (rhscan r k db))) \<subseteq> set (rHashes db k)"
    and scan_all: "rscan r now p db = (kpages, None) \<Longrightarrow> set (concat kpages) = set (live_keys now p db)"
begin

lemma rcall_ok:
  assumes "rcall r now c db = (Inr x, db')"
  shows "redis_step now c db = (x, db') \<and> x \<noteq> RNil"
  using assms exec_ok [of now "[c]" db]
  by (auto simp: rcall_def split: prod.splits sum.splits list.splits if_splits)

lemma rcall_err:
  assumes "rcall r now c db = (Inl e, db')"
  shows "db' = db \<or> db' = snd (redis_step now c db)"
  using assms exec_ok [of now "[c]" db] exec_err [of now "[c]" db]
  by (fastforce simp: rcall_def split: prod.splits sum.splits list.splits if_splits)

lemma rcall_db: "snd (rcall r now c db) = db \<or> snd (rcall r now c db) = snd (redis_step now c db)"
  using rcall_ok rcall_err by (metis snd_conv surj_pair sum.exhaust)

end

locale redis_up = redis_service +
  assumes exec_up: "\<exists>rs. fst (rexec r now cs db) = Inr rs"
    and eval_up: "reval r now script db = script db"
    and hscan_up: "snd (rhscan r k db) = None"
    and scan_up: "snd (rscan r now p db) = None"
begin

lemma exec_eq: "rexec r now cs db = (Inr (fst (redis_multi now cs db)), snd (redis_multi now cs db))"
proof -
  obtain rs db' where e: "rexec r now cs db = (Inr rs, db')"
    using exec_up [of now cs db] by (metis prod.collapse)
  then show ?thesis using exec_ok [OF e] by simp
qed

lemma rcall_eq:
  "rcall r now c db =
     (let (x, db') = redis_step now c db in (if x = RNil then Inl RedisNil else Inr x, db'))"
  by (simp add: rcall_def exec_eq split: prod.splits)

lemma hscan_pages: "set (concat (fst (rhscan r k db))) = set (rHashes db k)"
  using hscan_all hscan_up by (metis prod.collapse)

lemma scan_pages: "set (concat (fst (rscan r now p db))) = set (live_keys now p db)"
  using scan_all scan_up by (metis prod.collapse)

end

interpretation rr: redis_up redis_ref
  by unfold_locales
     (auto simp: redis_ref_def Let_def split: prod.splits)

section \<open>Algebra of the effects\<close>

lemma redis_multi_append:
  "redis_multi now (cs @ ds) db =
     (let (rs, db1) = redis_multi now cs db; (ts, db2) = redis_multi now ds db1 in (rs @ ts, db2))"
  by (induction cs arbitrary: db) (auto split: prod.splits)

lemma put_list_get [redis_simps, simp]:
  "rLists (put_list k xs db) k' = (if k' = k then xs else rLists db k')"
  "rHashes (put_list k xs db) = rHashes db" "rZsets (put_list k xs db) = rZsets db"
  "rStrs (put_list k xs db) = rStrs db" "rSets (put_list k xs db) = rSets db"
  "rStreams (put_list k xs db) = rStreams db" "rPubs (put_list k xs db) = rPubs db"
  by (simp_all add: put_list_def)

lemma put_hash_get [redis_simps, simp]:
  "rHashes (put_hash k h db) k' = (if k' = k then h else rHashes db k')"
  "rLists (put_hash k h db) = rLists db" "rZsets (put_hash k h db) = rZsets db"
  "rStrs (put_hash k h db) = rStrs db" "rSets (put_hash k h db) = rSets db"
  "rStreams (put_hash k h db) = rStreams db" "rPubs (put_hash k h db) = rPubs db"
  by (simp_all add: put_hash_def)

lemma put_zset_get [redis_simps, simp]:
  "rZsets (put_zset k z db) k' = (if k' = k then z else rZsets db k')"
  "rLists (put_zset k z db) = rLists db" "rHashes (put_zset k z db) = rHashes db"
  "rStrs (put_zset k z db) = rStrs db" "rSets (put_zset k z db) = rSets db"
  "rStreams (put_zset k z db) = rStreams db" "rPubs (put_zset k z db) = rPubs db"
  by (simp_all add: put_zset_def)

lemma put_set_get [redis_simps, simp]:
  "rSets (put_set k s db) k' = (if k' = k then s else rSets db k')"
  "rLists (put_set k s db) = rLists db" "rHashes (put_set k s db) = rHashes db"
  "rStrs (put_set k s db) = rStrs db" "rZsets (put_set k s db) = rZsets db"
  "rStreams (put_set k s db) = rStreams db" "rPubs (put_set k s db) = rPubs db"
  by (simp_all add: put_set_def)

lemma str_put_get [redis_simps, simp]:
  "rLists (str_put k v ex db) = rLists db" "rHashes (str_put k v ex db) = rHashes db"
  "rZsets (str_put k v ex db) = rZsets db" "rSets (str_put k v ex db) = rSets db"
  "rStreams (str_put k v ex db) = rStreams db" "rPubs (str_put k v ex db) = rPubs db"
  by (simp_all add: str_put_def)

lemma str_del_get [redis_simps, simp]:
  "rLists (str_del k db) = rLists db" "rHashes (str_del k db) = rHashes db"
  "rZsets (str_del k db) = rZsets db" "rSets (str_del k db) = rSets db"
  "rStreams (str_del k db) = rStreams db" "rPubs (str_del k db) = rPubs db"
  by (simp_all add: str_del_def)

lemma str_get_put_list [redis_simps, simp]:
  "str_get now (put_list k xs db) = str_get now db" "str_get now (put_hash k h db) = str_get now db"
  "str_get now (put_zset k z db) = str_get now db" "str_get now (put_set k s db) = str_get now db"
  by (simp_all add: str_get_def fun_eq_iff)

lemma str_get_put [redis_simps, simp]:
  "str_get now (str_put k v ex db) k' =
     (if k' = k then (if live now ex then Some v else None) else str_get now db k')"
  by (simp add: str_get_def str_put_def update_conv')

lemma str_get_del [redis_simps, simp]:
  "str_get now (str_del k db) k' = (if k' = k then None else str_get now db k')"
  by (simp add: str_get_def str_del_def delete_conv')

lemma live_simps [redis_simps, simp]: "live now None" "live now (Some t) \<longleftrightarrow> now < t"
  by (simp_all add: live_def)

lemma hdel_map_of [simp]: "map_of (hdel fs h) f = (if f \<in> set fs then None else map_of h f)"
  using map_of_filter_key [of "\<lambda>f. f \<notin> set fs" h f] by (simp add: hdel_def)

lemma hdel_absent: "set fs \<inter> fst ` set h = {} \<Longrightarrow> hdel fs h = h"
  unfolding hdel_def by (rule filter_True) force

lemma zrem_map_of [simp]: "map_of (zrem m z) x = (if x = m then None else map_of z x)"
  using map_of_filter_key [of "\<lambda>x. x \<noteq> m" z x] by (simp add: zrem_def)

lemma zrem_keys [simp]: "fst ` set (zrem m z) = fst ` set z - {m}"
  by (force simp: zrem_def)

lemma hdel_keys [simp]: "fst ` set (hdel fs h) = fst ` set h - set fs"
  by (force simp: hdel_def)

lemma zrem_distinct [simp]: "distinct (map fst z) \<Longrightarrow> distinct (map fst (zrem m z))"
  by (simp add: zrem_def)

lemma hdel_distinct [simp]: "distinct (map fst h) \<Longrightarrow> distinct (map fst (hdel fs h))"
  by (simp add: hdel_def)

lemma hdel_length_single:
  assumes "distinct (map fst h)"
  shows "length (hdel [f] h) = (if map_of h f = None then length h else length h - 1)"
  using assms
proof (induction h)
  case (Cons kv h)
  obtain k v where kv: "kv = (k, v)" by (cases kv)
  show ?case
  proof (cases "k = f")
    case True
    then have "hdel [f] h = h" using Cons.prems kv by (intro hdel_absent) auto
    with True kv show ?thesis by (simp add: hdel_def)
  next
    case False
    then have "hdel [f] (kv # h) = kv # hdel [f] h" by (simp add: hdel_def kv)
    moreover have "map_of h f \<noteq> None \<Longrightarrow> 0 < length h" by (cases h) auto
    ultimately show ?thesis using False Cons kv by auto
  qed
qed (simp add: hdel_def)

lemma range_slice_prefix:
  "0 \<le> n \<Longrightarrow> range_slice 0 n xs = take (nat n + 1) xs"
  by (simp add: range_slice_def nat_add_distrib)

lemma range_slice_all: "range_slice 0 (- 1) xs = xs"
  by (simp add: range_slice_def)

section \<open>Well-formed databases\<close>

definition wf_rdb :: "rdb \<Rightarrow> bool" where
  "wf_rdb db \<longleftrightarrow> distinct (map fst (rStrs db)) \<and> (\<forall>k. distinct (map fst (rHashes db k))) \<and>
     (\<forall>k. distinct (map fst (rZsets db k))) \<and> (\<forall>k. distinct (rSets db k))"

lemma wf_empty_rdb [simp]: "wf_rdb empty_rdb"
  by (simp add: wf_rdb_def empty_rdb_def)

lemma wf_str_put [simp]: "wf_rdb db \<Longrightarrow> wf_rdb (str_put k v ex db)"
  by (simp add: wf_rdb_def str_put_def distinct_update)

lemma wf_str_del [simp]: "wf_rdb db \<Longrightarrow> wf_rdb (str_del k db)"
  by (simp add: wf_rdb_def str_del_def distinct_delete)

lemma wf_put_list [simp]: "wf_rdb (put_list k xs db) = wf_rdb db"
  by (simp add: wf_rdb_def)

lemma pop_first_wf: "pop_first ks db = Some (k, v, db') \<Longrightarrow> wf_rdb db' = wf_rdb db"
  by (induction ks) (auto split: if_splits)

lemma redis_step_wf: "wf_rdb db \<Longrightarrow> wf_rdb (snd (redis_step now c db))"
proof (cases c)
  case (BRPOP ks)
  assume "wf_rdb db"
  then show ?thesis using BRPOP pop_first_wf by (fastforce split: option.split prod.split)
qed (auto simp: Let_def wf_rdb_def distinct_update distinct_delete str_put_def str_del_def zsweep_def
    split: option.split)

lemma redis_multi_wf: "wf_rdb db \<Longrightarrow> wf_rdb (snd (redis_multi now cs db))"
proof (induction cs arbitrary: db)
  case (Cons c cs)
  then show ?case using redis_step_wf [OF Cons.prems, of now c] by (simp split: prod.split) (metis snd_conv)
qed simp

lemma zrem_idem [simp]: "zrem m (zrem m z) = zrem m z"
  by (simp add: zrem_def)

end
