(* ===== verification/RedisQueue.thy ===== *)
theory RedisQueue
  imports Jobs Redis "HOL-Library.List_Lexorder" "HOL-Library.Char_ord"
begin

text \<open>
  The broker of \<^verbatim>\<open>internal/queue/redis/redis.go\<close>: definitions only. Pending jobs are in nine Redis
  lists (three priorities times three partitions), scheduled ones in a sorted set by due time, in-flight
  ones in a hash of payloads and a sorted set by visibility deadline; jobs over a limit wait in
  deferred lists, failed ones in the dead-letter list.

  Every operation takes the queue, the current time and the database, and returns its result with
  the new database. A Go result \<^verbatim>\<open>(T, error)\<close> is \<open>go_error + 't\<close>, a lone \<^verbatim>\<open>error\<close> is \<open>go_error option\<close>.
\<close>

section \<open>Keys and partitions\<close>

definition defaultQueueKey :: string where "defaultQueueKey = ''task_queue:jobs''"
definition processingSetKey :: string where "processingSetKey = ''task_queue:in_flight''"
definition payloadsKey :: string where "payloadsKey = ''task_queue:payloads''"
definition visibilityTimeout :: duration where "visibilityTimeout = 30 * Second"
definition tenantSetKey :: string where "tenantSetKey = ''task_queue:tenants''"
definition processedTTL :: duration where "processedTTL = 24 * Hour"

record RedisQueue =
  client :: redis
  qHigh :: string
  qMedium :: string
  qLow :: string
  qDelayed :: string
  dlqKey :: string
  numPartitions :: int
  metricsTotal :: string
  metricsCompleted :: string
  metricsFailed :: string
  heartbeatPrefix :: string
  processedKey :: string
  rateLimit :: int

definition NewWithRateLimit :: "redis \<Rightarrow> string \<Rightarrow> int \<Rightarrow> RedisQueue" where
  "NewWithRateLimit c queueName limit =
     (let baseKey = (if queueName \<noteq> '''' then ''task_queue:'' @ queueName else defaultQueueKey)
      in \<lparr>client = c, qHigh = baseKey @ '':high'', qMedium = baseKey @ '':medium'',
          qLow = baseKey @ '':low'', qDelayed = ''delayed_jobs'', dlqKey = baseKey @ '':dead_letter'',
          numPartitions = 3, metricsTotal = baseKey @ '':metrics:total'',
          metricsCompleted = baseKey @ '':metrics:completed'', metricsFailed = baseKey @ '':metrics:failed'',
          heartbeatPrefix = baseKey @ '':workers:heartbeat:'', processedKey = baseKey @ '':processed'',
          rateLimit = limit\<rparr>)"

definition RedisQueue_New :: "redis \<Rightarrow> string \<Rightarrow> RedisQueue" where
  "RedisQueue_New c queueName = NewWithRateLimit c queueName 10"

definition rune_sum :: "string \<Rightarrow> int" where
  \<comment> \<open>\<open>for _, b := range jobID { sum += int(b) }\<close>\<close>
  "rune_sum s = sum_list (map int (runes s))"

definition byte_sum :: "string \<Rightarrow> int" where
  \<comment> \<open>the loop over \<open>string.byte(id, i)\<close> of the Lua scripts\<close>
  "byte_sum s = sum_list (map int (bytes s))"

definition partition_key :: "string \<Rightarrow> int \<Rightarrow> string" where
  "partition_key base i = base @ '':'' @ itoa i"

definition priority_base :: "RedisQueue \<Rightarrow> string \<Rightarrow> string" where
  "priority_base q priority =
     (if priority = PriorityHigh then qHigh q else if priority = PriorityLow then qLow q else qMedium q)"

definition getPartitionedKey :: "RedisQueue \<Rightarrow> string \<Rightarrow> string \<Rightarrow> string" where
  "getPartitionedKey q jobID priority =
     partition_key (priority_base q priority) (rune_sum jobID mod numPartitions q + 1)"

definition partition_keys :: "RedisQueue \<Rightarrow> string \<Rightarrow> string list" where
  "partition_keys q base = map (partition_key base) [1..numPartitions q]"

definition getFairPartitionKeys :: "RedisQueue \<Rightarrow> nat \<Rightarrow> string list" where
  \<comment> \<open>\<open>r\<close> is the draw \<open>rand.Intn(100)\<close>\<close>
  "getFairPartitionKeys q r =
     concat (map (partition_keys q)
       (if r < 70 then [qHigh q, qMedium q, qLow q]
        else if r < 90 then [qMedium q, qHigh q, qLow q]
        else [qLow q, qHigh q, qMedium q]))"

section \<open>Enqueue and Size\<close>

definition unmarshal_job :: "blob \<Rightarrow> Job option" where
  "unmarshal_job b = Option.bind (blob_json b) json_job"

definition RedisQueue_Enqueue ::
    "RedisQueue \<Rightarrow> string \<Rightarrow> time \<Rightarrow> Job option \<Rightarrow> rdb \<Rightarrow> go_error option \<times> Job option \<times> rdb" where
  \<comment> \<open>\<open>trace\<close> is the trace id in the context; the job is returned as the call leaves it\<close>
  "RedisQueue_Enqueue q trace now job db =
     (case job of
        None \<Rightarrow> (Some (Errorf ''queue: cannot enqueue a nil job''), None, db)
      | Some j0 \<Rightarrow>
          (let j = j0\<lparr>jTraceID := trace\<rparr>; payload = Doc (job_json j);
               (err, db1) =
                 (if now < jRunAt j then
                    (case rcall (client q) now (ZADD (qDelayed q) payload (Unix (jRunAt j))) db of
                       (Inl e, db') \<Rightarrow> (Some (Wrap (''queue: ZADD failed for scheduled job '' @ jID j @ '': '') e ''''), db')
                     | (Inr _, db') \<Rightarrow> (None, db'))
                  else
                    (case rcall (client q) now (LPUSH (getPartitionedKey q (jID j) (jPriority j)) payload) db of
                       (Inl e, db') \<Rightarrow> (Some (Wrap (''queue: LPUSH failed for job '' @ jID j @ '': '') e ''''), db')
                     | (Inr _, db') \<Rightarrow> (None, db')))
           in if err \<noteq> None then (err, Some j, db1)
              else if jRetries j = 0 then (None, Some j, snd (rcall (client q) now (INCR (metricsTotal q)) db1))
              else (None, Some j, db1)))"

definition rcall_int :: "redis \<Rightarrow> time \<Rightarrow> rcmd \<Rightarrow> rdb \<Rightarrow> (go_error + int) \<times> rdb" where
  "rcall_int r now c db =
     (case rcall r now c db of (Inl e, db') \<Rightarrow> (Inl e, db') | (Inr x, db') \<Rightarrow> (Inr (reply_int x), db'))"

definition rcall_err :: "redis \<Rightarrow> time \<Rightarrow> rcmd \<Rightarrow> rdb \<Rightarrow> go_error option \<times> rdb" where
  \<comment> \<open>the method \<open>Err()\<close> of a command\<close>
  "rcall_err r now c db =
     (case rcall r now c db of (Inl e, db') \<Rightarrow> (Some e, db') | (Inr x, db') \<Rightarrow> (None, db'))"

definition int_or_0 :: "go_error + int \<Rightarrow> int" where
  \<comment> \<open>\<open>n, _ := cmd.Result()\<close>\<close>
  "int_or_0 v = (case v of Inl e \<Rightarrow> 0 | Inr n \<Rightarrow> n)"

definition RedisQueue_Size :: "RedisQueue \<Rightarrow> time \<Rightarrow> rdb \<Rightarrow> (go_error + int) \<times> rdb" where
  "RedisQueue_Size q now db =
     (let (h, db1) = rcall_int (client q) now (LLEN (qHigh q)) db;
          (m, db2) = rcall_int (client q) now (LLEN (qMedium q)) db1;
          (l, db3) = rcall_int (client q) now (LLEN (qLow q)) db2
      in (Inr (int_or_0 h + int_or_0 m + int_or_0 l), db3))"

section \<open>Dequeue\<close>

definition dec_limit_state :: "json \<Rightarrow> (int \<times> bool) option" where
  \<comment> \<open>the partial struct with \<open>concurrency_limit\<close> and \<open>paused\<close>\<close>
  "dec_limit_state d = (case d of
     JObj fs \<Rightarrow> do { l \<leftarrow> dec_int fs ''concurrency_limit''; p \<leftarrow> dec_bool fs ''paused''; Some (l, p) }
   | JNull \<Rightarrow> Some (0, False) | _ \<Rightarrow> None)"

definition dec_limit :: "json \<Rightarrow> int option" where
  "dec_limit d = (case d of JObj fs \<Rightarrow> dec_int fs ''concurrency_limit'' | JNull \<Rightarrow> Some 0 | _ \<Rightarrow> None)"

definition tenantsKey :: string where "tenantsKey = ''task_queue:tenants:registered''"
definition jobTypesKey :: string where "jobTypesKey = ''task_queue:job_types:registered''"

definition getTenantLimit :: "RedisQueue \<Rightarrow> time \<Rightarrow> string \<Rightarrow> rdb \<Rightarrow> int \<times> rdb" where
  "getTenantLimit q now tenantID db =
     (case rcall (client q) now (HGET tenantsKey tenantID) db of
        (Inl e, db') \<Rightarrow> (0, db')
      | (Inr x, db') \<Rightarrow>
          ((case Option.bind (blob_json (reply_blob x)) dec_limit of Some n \<Rightarrow> n | None \<Rightarrow> 0), db'))"

definition getJobTypeState ::
    "RedisQueue \<Rightarrow> time \<Rightarrow> string \<Rightarrow> rdb \<Rightarrow> (go_error + int \<times> bool) \<times> rdb" where
  "getJobTypeState q now jobType db =
     (case rcall (client q) now (HGET jobTypesKey jobType) db of
        (Inl e, db') \<Rightarrow> (if errors_Is e RedisNil then Inr (0, False) else Inl e, db')
      | (Inr x, db') \<Rightarrow>
          ((case Option.bind (blob_json (reply_blob x)) dec_limit_state of
              Some st \<Rightarrow> Inr st | None \<Rightarrow> Inl json_error), db'))"

definition active_type_key :: "string \<Rightarrow> string" where "active_type_key t = ''task_queue:active_type:'' @ t"
definition active_tenant_key :: "string \<Rightarrow> string" where "active_tenant_key t = ''task_queue:active_tenant:'' @ t"
definition deferred_key :: "string \<Rightarrow> string" where "deferred_key t = ''task_queue:deferred:'' @ t"
definition deferred_tenant_key :: "string \<Rightarrow> string" where "deferred_tenant_key t = ''task_queue:deferred_tenant:'' @ t"
definition job_active_key :: "string \<Rightarrow> string" where "job_active_key i = ''task_queue:job_active_key:'' @ i"
definition job_active_tenant_key :: "string \<Rightarrow> string" where
  "job_active_tenant_key i = ''task_queue:job_active_tenant_key:'' @ i"

definition active_count :: "RedisQueue \<Rightarrow> time \<Rightarrow> string \<Rightarrow> rdb \<Rightarrow> (go_error + int) \<times> rdb" where
  \<comment> \<open>drop the entries whose visibility deadline has passed, then count\<close>
  "active_count q now key db =
     (let db1 = snd (rcall (client q) now (ZREMRANGEBYSCORE key (Unix now)) db)
      in rcall_int (client q) now (ZCARD key) db1)"

definition defer_job :: "RedisQueue \<Rightarrow> time \<Rightarrow> string \<Rightarrow> blob \<Rightarrow> string \<Rightarrow> rdb \<Rightarrow> (go_error + Job) option \<times> rdb" where
  "defer_job q now key raw what db =
     (case rcall (client q) now (LPUSH key raw) db of
        (Inl e, db') \<Rightarrow> (Some (Inl (Wrap (''queue: failed to defer job '' @ what @ '': '') e '''')), db')
      | (Inr _, db') \<Rightarrow> (None, db'))"

definition track_cmds :: "time \<Rightarrow> Job \<Rightarrow> rcmd list" where
  "track_cmds now job =
     (let timeoutAt = Unix (now + visibilityTimeout); i = jID job in
      [HSET payloadsKey i (Doc (job_json job)),
       ZADD processingSetKey (Txt i) timeoutAt,
       ZADD (active_type_key (jType job)) (Txt i) timeoutAt,
       SET (job_active_key i) (Txt (active_type_key (jType job))) (Some (visibilityTimeout + Hour)),
       ZADD (active_tenant_key (jTenantID job)) (Txt i) timeoutAt,
       SET (job_active_tenant_key i) (Txt (active_tenant_key (jTenantID job))) (Some (visibilityTimeout + Hour))])"

definition start_job :: "RedisQueue \<Rightarrow> time \<Rightarrow> Job \<Rightarrow> rdb \<Rightarrow> (go_error + Job) option \<times> rdb" where
  "start_job q now job0 db =
     (let job = job0\<lparr>jStatus := StatusProcessing, jUpdatedAt := now\<rparr> in
      (case rexec (client q) now (track_cmds now job) db of
         (Inl e, db') \<Rightarrow> (Some (Inl (Wrap ''queue: Dequeue tracking failed: '' e '''')), db')
       | (Inr _, db') \<Rightarrow> (Some (Inr job), db')))"

definition type_gate :: "RedisQueue \<Rightarrow> time \<Rightarrow> Job \<Rightarrow> int \<Rightarrow> blob \<Rightarrow> rdb \<Rightarrow> (go_error + Job) option \<times> rdb" where
  "type_gate q now job limit raw db =
     (if 0 < limit then
        (case active_count q now (active_type_key (jType job)) db of
           (Inl e, db') \<Rightarrow>
             (Some (Inl (Wrap (''queue: failed to check active count for '' @ jType job @ '': '') e '''')), db')
         | (Inr n, db') \<Rightarrow>
             (if limit \<le> n then defer_job q now (deferred_key (jType job)) raw (jID job) db'
              else start_job q now job db'))
      else start_job q now job db)"

definition tenant_gate :: "RedisQueue \<Rightarrow> time \<Rightarrow> Job \<Rightarrow> int \<Rightarrow> blob \<Rightarrow> rdb \<Rightarrow> (go_error + Job) option \<times> rdb" where
  "tenant_gate q now job limit raw db =
     (let (tenantLimit, db1) = getTenantLimit q now (jTenantID job) db in
      if 0 < tenantLimit then
        (case active_count q now (active_tenant_key (jTenantID job)) db1 of
           (Inl e, db') \<Rightarrow>
             (Some (Inl (Wrap (''queue: failed to check active count for tenant '' @ jTenantID job @ '': '') e '''')), db')
         | (Inr n, db') \<Rightarrow>
             (if tenantLimit \<le> n then
                defer_job q now (deferred_tenant_key (jTenantID job)) raw (''for tenant '' @ jTenantID job) db'
              else type_gate q now job limit raw db'))
      else type_gate q now job limit raw db1)"

definition dequeue_body :: "RedisQueue \<Rightarrow> time \<Rightarrow> string list \<Rightarrow> rdb \<Rightarrow> (go_error + Job) option \<times> rdb" where
  \<comment> \<open>one round of the loop; \<open>None\<close> is \<open>continue\<close>\<close>
  "dequeue_body q now keys db =
     (case rcall (client q) now (BRPOP keys) db of
        (Inl e, db1) \<Rightarrow>
          (Some (Inl (if e = RedisNil then Errorf ''queue: dequeue timed out, no jobs available''
                      else Wrap ''queue: BRPOP failed: '' e '''')), db1)
      | (Inr res, db1) \<Rightarrow>
          (case res of
             RKeyBlob k raw \<Rightarrow>
               (case unmarshal_job raw of
                  None \<Rightarrow> (Some (Inl (Wrap ''queue: failed to deserialise job payload: '' json_error '''')), db1)
                | Some job \<Rightarrow>
                    (case getJobTypeState q now (jType job) db1 of
                       (Inl e, db2) \<Rightarrow>
                         (Some (Inl (Wrap (''queue: failed to get state for job type '' @ jType job @ '': '') e '''')), db2)
                     | (Inr (limit, paused), db2) \<Rightarrow>
                         (if paused then defer_job q now (deferred_key (jType job)) raw (jID job) db2
                          else tenant_gate q now job limit raw db2)))
           | _ \<Rightarrow> (Some (Inl (Errorf ''queue: unexpected BRPOP result length'')), db1)))"

fun dequeue_loop :: "nat \<Rightarrow> RedisQueue \<Rightarrow> time \<Rightarrow> string list \<Rightarrow> rdb \<Rightarrow> (go_error + Job) option \<times> rdb" where
  "dequeue_loop 0 q now keys db = (None, db)"
| "dequeue_loop (Suc n) q now keys db =
     (case dequeue_body q now keys db of
        (None, db') \<Rightarrow> dequeue_loop n q now keys db'
      | (Some res, db') \<Rightarrow> (Some res, db'))"

definition RedisQueue_Dequeue :: "nat \<Rightarrow> RedisQueue \<Rightarrow> nat \<Rightarrow> time \<Rightarrow> rdb \<Rightarrow> (go_error + Job) option \<times> rdb" where
  \<comment> \<open>\<open>fuel\<close> bounds the rounds; \<open>None\<close> means it was not enough\<close>
  "RedisQueue_Dequeue fuel q rnd now db = dequeue_loop fuel q now (getFairPartitionKeys q rnd) db"

section \<open>Ack and Fail\<close>

definition get_text :: "redis \<Rightarrow> time \<Rightarrow> string \<Rightarrow> rdb \<Rightarrow> string \<times> rdb" where
  \<comment> \<open>\<open>s, _ := client.Get(ctx, k).Result()\<close>\<close>
  "get_text r now k db =
     (case rcall r now (GET k) db of (Inl e, db') \<Rightarrow> ('''', db') | (Inr x, db') \<Rightarrow> (blob_text (reply_blob x), db'))"

definition untrack :: "RedisQueue \<Rightarrow> time \<Rightarrow> string \<Rightarrow> rdb \<Rightarrow> (go_error + reply list) \<times> rdb" where
  \<comment> \<open>the transaction that drops an in-flight job, shared by \<open>Ack\<close> and \<open>Fail\<close>\<close>
  "untrack q now jobID db =
     (let (activeKey, db1) = get_text (client q) now (job_active_key jobID) db;
          (activeTenantKey, db2) = get_text (client q) now (job_active_tenant_key jobID) db1
      in rexec (client q) now
           ([HDEL payloadsKey [jobID], ZREM processingSetKey (Txt jobID)] @
            (if activeKey \<noteq> '''' then [ZREM activeKey (Txt jobID), DEL (job_active_key jobID)] else []) @
            (if activeTenantKey \<noteq> '''' then [ZREM activeTenantKey (Txt jobID), DEL (job_active_tenant_key jobID)] else []))
           db2)"

definition RedisQueue_Ack :: "RedisQueue \<Rightarrow> time \<Rightarrow> string \<Rightarrow> rdb \<Rightarrow> go_error option \<times> rdb" where
  "RedisQueue_Ack q now jobID db =
     (if jobID = '''' then (Some (Errorf ''queue: jobID must not be empty''), db)
      else (case untrack q now jobID db of
              (Inl e, db') \<Rightarrow> (Some (Wrap ''queue: Ack pipeline failed: '' e ''''), db')
            | (Inr cmds, db') \<Rightarrow>
                (if reply_int (hd cmds) = 0
                 then (Some (Errorf (''queue: job '' @ jobID @ '' not found in active set'')), db')
                 else (None, snd (rcall (client q) now (INCR (metricsCompleted q)) db')))))"

definition fail_update :: "time \<Rightarrow> go_error option \<Rightarrow> Job \<Rightarrow> Job" where
  "fail_update now reason job =
     (let job1 = job\<lparr>jStatus := StatusFailed, jUpdatedAt := now\<rparr> in
      (case reason of
         None \<Rightarrow> job1
       | Some e \<Rightarrow>
           (let m = (case jPayload job1 of None \<Rightarrow> [] | Some m \<Rightarrow> m)
            in job1\<lparr>jPayload := Some (AList.update ''_error_reason'' (JStr (err_msg e)) m)\<rparr>)))"

definition dlq_cmds :: "RedisQueue \<Rightarrow> Job \<Rightarrow> rcmd list" where
  "dlq_cmds q job = [LPUSH (dlqKey q) (Doc (job_json job)), LTRIM (dlqKey q) 0 9999]"

definition RedisQueue_Fail ::
    "RedisQueue \<Rightarrow> time \<Rightarrow> string \<Rightarrow> go_error option \<Rightarrow> rdb \<Rightarrow> go_error option \<times> rdb" where
  "RedisQueue_Fail q now jobID reason db =
     (if jobID = '''' then (Some (Errorf ''queue: jobID must not be empty''), db)
      else (case rcall (client q) now (HGET payloadsKey jobID) db of
        (Inl e, db1) \<Rightarrow>
          (Some (if e = RedisNil then Errorf (''queue: job '' @ jobID @ '' not found in processing set'')
                 else Wrap (''queue: HGet failed for job '' @ jobID @ '': '') e ''''), db1)
      | (Inr raw, db1) \<Rightarrow>
          (case unmarshal_job (reply_blob raw) of
             None \<Rightarrow> (Some (Wrap (''queue: failed to deserialise job '' @ jobID @ '': '') json_error ''''), db1)
           | Some job \<Rightarrow>
               (case untrack q now jobID db1 of
                  (Inl e, db2) \<Rightarrow> (Some (Wrap ''queue: Fail cleanup failed: '' e ''''), db2)
                | (Inr _, db2) \<Rightarrow>
                    (case rexec (client q) now (dlq_cmds q (fail_update now reason job)) db2 of
                       (Inl e, db3) \<Rightarrow>
                         (Some (Wrap (''queue: failed to push job '' @ jID job @ '' to dead-letter queue: '') e ''''), db3)
                     | (Inr _, db3) \<Rightarrow> (None, snd (rcall (client q) now (INCR (metricsFailed q)) db3)))))))"

definition RedisQueue_GetFailedJobs :: "RedisQueue \<Rightarrow> time \<Rightarrow> rdb \<Rightarrow> (go_error + Job list) \<times> rdb" where
  "RedisQueue_GetFailedJobs q now db =
     (case rcall (client q) now (LRANGE (dlqKey q) 0 (- 1)) db of
        (Inl e, db') \<Rightarrow> (Inl (Wrap ''queue: failed to fetch dead-letter queue: '' e ''''), db')
      | (Inr x, db') \<Rightarrow> (Inr (List.map_filter unmarshal_job (reply_blobs x)), db'))"

section \<open>Workers and metrics\<close>

record WorkerInfo =
  wiID :: string
  wiLastHeartbeat :: blob

record QueueMetrics =
  qmTotalJobs :: int
  qmCompletedJobs :: int
  qmFailedJobs :: int
  qmActiveJobs :: int
  qmWorkerCount :: int

definition RedisQueue_RegisterHeartbeat :: "RedisQueue \<Rightarrow> time \<Rightarrow> string \<Rightarrow> rdb \<Rightarrow> go_error option \<times> rdb" where
  \<comment> \<open>the RFC 3339 text of an instant keeps whole seconds\<close>
  "RedisQueue_RegisterHeartbeat q now workerID db =
     rcall_err (client q) now
       (SET (heartbeatPrefix q @ workerID) (Doc (JTime (Unix now * Second))) (Some (30 * Second))) db"

fun collect_workers :: "RedisQueue \<Rightarrow> time \<Rightarrow> string list \<Rightarrow> rdb \<Rightarrow> WorkerInfo list \<times> rdb" where
  "collect_workers q now [] db = ([], db)"
| "collect_workers q now (k # ks) db =
     (case rcall (client q) now (GET k) db of
        (Inl e, db') \<Rightarrow> collect_workers q now ks db'
      | (Inr x, db') \<Rightarrow>
          (let (ws, db2) = collect_workers q now ks db'
           in (\<lparr>wiID = drop (length (heartbeatPrefix q)) k, wiLastHeartbeat = reply_blob x\<rparr> # ws, db2)))"

definition RedisQueue_GetActiveWorkers :: "RedisQueue \<Rightarrow> time \<Rightarrow> rdb \<Rightarrow> (go_error + WorkerInfo list) \<times> rdb" where
  "RedisQueue_GetActiveWorkers q now db =
     (let (pages, err) = rscan (client q) now (heartbeatPrefix q) db;
          (workers, db') = collect_workers q now (concat pages) db
      in (case err of None \<Rightarrow> Inr workers | Some e \<Rightarrow> Inl (Wrap ''queue: heartbeat scan failed: '' e ''''), db'))"

definition parseStr2Int :: "blob option \<Rightarrow> int" where
  "parseStr2Int v = (case v of None \<Rightarrow> 0 | Some b \<Rightarrow> blob_int b)"

definition RedisQueue_GetMetrics :: "RedisQueue \<Rightarrow> time \<Rightarrow> rdb \<Rightarrow> (go_error + QueueMetrics) \<times> rdb" where
  "RedisQueue_GetMetrics q now db =
     (case rcall (client q) now (MGET [metricsTotal q, metricsCompleted q, metricsFailed q]) db of
        (Inl e, db1) \<Rightarrow> (Inl (Wrap ''queue: failed to fetch metrics: '' e ''''), db1)
      | (Inr x, db1) \<Rightarrow>
          (case rcall_int (client q) now (ZCARD processingSetKey) db1 of
             (Inl e, db2) \<Rightarrow> (Inl (Wrap ''queue: failed to fetch active count: '' e ''''), db2)
           | (Inr active, db2) \<Rightarrow>
               (let (ws, db3) = RedisQueue_GetActiveWorkers q now db2;
                    res = reply_opts x
                in (Inr \<lparr>qmTotalJobs = parseStr2Int (res ! 0), qmCompletedJobs = parseStr2Int (res ! 1),
                         qmFailedJobs = parseStr2Int (res ! 2), qmActiveJobs = active,
                         qmWorkerCount = (case ws of Inl e \<Rightarrow> 0 | Inr l \<Rightarrow> int (length l))\<rparr>, db3))))"

section \<open>Promotion and reclaim\<close>

text \<open>
  The two Lua scripts run inside Redis, without interleaving. \<open>order\<close> is the range order of the
  server. A script that meets a value it cannot decode stops with an error and keeps the effects
  of the members it has handled.
\<close>

definition zrange :: "((blob \<times> int) list \<Rightarrow> (blob \<times> int) list) \<Rightarrow> rdb \<Rightarrow> string \<Rightarrow> int \<Rightarrow> blob list" where
  \<comment> \<open>\<open>ZRANGEBYSCORE key 0 hi\<close>\<close>
  "zrange order db key hi = map fst (filter (\<lambda>(m, s). 0 \<le> s \<and> s \<le> hi) (order (rZsets db key)))"

definition lua_field :: "blob \<Rightarrow> string \<Rightarrow> json option" where
  \<comment> \<open>\<open>cjson.decode(v).k\<close>\<close>
  "lua_field b k = (case b of Doc (JObj fs) \<Rightarrow> jget fs k | _ \<Rightarrow> None)"

definition lua_target :: "RedisQueue \<Rightarrow> blob \<Rightarrow> string \<Rightarrow> string" where
  "lua_target q job i =
     partition_key
       (if lua_field job ''priority'' = Some (JStr ''high'') then qHigh q
        else if lua_field job ''priority'' = Some (JStr ''low'') then qLow q else qMedium q)
       (byte_sum i mod numPartitions q + 1)"

definition lua_error :: go_error where
  "lua_error = Errorf ''ERR Error running script''"

definition lua_object :: "blob \<Rightarrow> bool" where
  \<comment> \<open>the value decodes to a Lua table\<close>
  "lua_object b \<longleftrightarrow> (case b of Doc (JObj fs) \<Rightarrow> True | Doc (JArr vs) \<Rightarrow> True | _ \<Rightarrow> False)"

fun promote_each :: "RedisQueue \<Rightarrow> time \<Rightarrow> blob list \<Rightarrow> rdb \<Rightarrow> go_error option \<times> rdb" where
  "promote_each q now [] db = (None, db)"
| "promote_each q now (job # jobs) db =
     (case lua_field job ''id'' of
        Some (JStr i) \<Rightarrow>
          (let db1 = snd (redis_step now (LPUSH (lua_target q job i) job) db);
               db2 = snd (redis_step now (ZREM (qDelayed q) job) db1)
           in promote_each q now jobs db2)
      | _ \<Rightarrow> (Some lua_error, db))"

definition promoteScheduledJobsScript ::
    "((blob \<times> int) list \<Rightarrow> (blob \<times> int) list) \<Rightarrow> RedisQueue \<Rightarrow> time \<Rightarrow> rdb \<Rightarrow> (go_error + int) \<times> rdb" where
  "promoteScheduledJobsScript order q now db =
     (let jobs = zrange order db (qDelayed q) (Unix now) in
      (case promote_each q now jobs db of
         (Some e, db') \<Rightarrow> (Inl e, db') | (None, db') \<Rightarrow> (Inr (int (length jobs)), db')))"

definition RedisQueue_PromoteScheduledJobs :: "RedisQueue \<Rightarrow> time \<Rightarrow> rdb \<Rightarrow> (go_error + int) \<times> rdb" where
  "RedisQueue_PromoteScheduledJobs q now db =
     (case reval (client q) now (promoteScheduledJobsScript (rorder (client q)) q now) db of
        (Inl e, db') \<Rightarrow>
          (if e \<noteq> RedisNil then Inl (Wrap ''queue: failed to execute promotion script: '' e '''') else Inr 0, db')
      | (Inr n, db') \<Rightarrow> (Inr n, db'))"

fun reclaim_each :: "RedisQueue \<Rightarrow> time \<Rightarrow> blob list \<Rightarrow> rdb \<Rightarrow> go_error option \<times> rdb" where
  "reclaim_each q now [] db = (None, db)"
| "reclaim_each q now (m # ms) db =
     (let i = blob_text m;
          clean = (\<lambda>db1. snd (redis_step now (HDEL payloadsKey [i])
                           (snd (redis_step now (ZREM processingSetKey m) db1))))
      in (case map_of (rHashes db payloadsKey) i of
            None \<Rightarrow> reclaim_each q now ms (clean db)
          | Some payload \<Rightarrow>
              (if lua_object payload
               then reclaim_each q now ms (clean (snd (redis_step now (LPUSH (lua_target q payload i) payload) db)))
               else (Some lua_error, db))))"

definition reclaimTimedOutJobsScript ::
    "((blob \<times> int) list \<Rightarrow> (blob \<times> int) list) \<Rightarrow> RedisQueue \<Rightarrow> time \<Rightarrow> rdb \<Rightarrow> (go_error + int) \<times> rdb" where
  "reclaimTimedOutJobsScript order q now db =
     (let jobs = zrange order db processingSetKey (Unix now) in
      (case reclaim_each q now jobs db of
         (Some e, db') \<Rightarrow> (Inl e, db') | (None, db') \<Rightarrow> (Inr (int (length jobs)), db')))"

definition RedisQueue_ReclaimTimedOutJobs :: "RedisQueue \<Rightarrow> time \<Rightarrow> rdb \<Rightarrow> (go_error + int) \<times> rdb" where
  "RedisQueue_ReclaimTimedOutJobs q now db =
     (case reval (client q) now (reclaimTimedOutJobsScript (rorder (client q)) q now) db of
        (Inl e, db') \<Rightarrow>
          (if e \<noteq> RedisNil then Inl (Wrap ''queue: failed to execute reclaim script: '' e '''') else Inr 0, db')
      | (Inr n, db') \<Rightarrow> (Inr n, db'))"

section \<open>Idempotency, rate limit, tenants\<close>

definition processed_key :: "RedisQueue \<Rightarrow> string \<Rightarrow> string" where
  "processed_key q jobID = processedKey q @ '':'' @ jobID"

definition RedisQueue_IsProcessed :: "RedisQueue \<Rightarrow> time \<Rightarrow> string \<Rightarrow> rdb \<Rightarrow> (bool \<times> go_error option) \<times> rdb" where
  "RedisQueue_IsProcessed q now jobID db =
     (case rcall (client q) now (GET (processed_key q jobID)) db of
        (Inl e, db') \<Rightarrow> (if errors_Is e RedisNil then (False, None) else (False, Some e), db')
      | (Inr _, db') \<Rightarrow> ((True, None), db'))"

definition RedisQueue_MarkProcessed :: "RedisQueue \<Rightarrow> time \<Rightarrow> string \<Rightarrow> rdb \<Rightarrow> go_error option \<times> rdb" where
  "RedisQueue_MarkProcessed q now jobID db =
     rcall_err (client q) now (SET (processed_key q jobID) (Txt ''1'') (Some processedTTL)) db"

definition CleanupProcessedIDs :: "RedisQueue \<Rightarrow> rdb \<Rightarrow> (go_error + int) \<times> rdb" where
  "CleanupProcessedIDs q db = (Inr 0, db)"

definition rate_key :: "string \<Rightarrow> string" where
  "rate_key tenantID = ''task_queue:tenant:'' @ tenantID @ '':rate''"

definition RedisQueue_IsAllowed :: "RedisQueue \<Rightarrow> time \<Rightarrow> string \<Rightarrow> rdb \<Rightarrow> (go_error + bool) \<times> rdb" where
  "RedisQueue_IsAllowed q now tenantID db =
     (if rateLimit q = 0 then (Inr True, db)
      else if tenantID = '''' then (Inr True, db)
      else (case rcall_int (client q) now (INCR (rate_key tenantID)) db of
              (Inl e, db1) \<Rightarrow> (Inl e, db1)
            | (Inr val, db1) \<Rightarrow>
                (let db2 = (if val = 1 then
                              snd (rcall (client q) now (SADD tenantSetKey tenantID)
                                (snd (rcall (client q) now (EXPIRE (rate_key tenantID) Second) db1)))
                            else db1)
                 in (Inr (val \<le> rateLimit q), db2))))"

definition RedisQueue_UpdateTenantConfig :: "RedisQueue \<Rightarrow> time \<Rightarrow> string \<Rightarrow> int \<Rightarrow> rdb \<Rightarrow> go_error option \<times> rdb" where
  "RedisQueue_UpdateTenantConfig q now tenantID limit db =
     rcall_err (client q) now (HSET tenantsKey tenantID (Doc (JObj [(''concurrency_limit'', jint limit)]))) db"

record TenantRateStatus =
  trTenant :: string
  trCurrent :: int
  trLimit :: int
  trWindowSeconds :: int
  trLimited :: bool

fun rate_statuses :: "RedisQueue \<Rightarrow> time \<Rightarrow> string list \<Rightarrow> rdb \<Rightarrow> TenantRateStatus list \<times> rdb" where
  "rate_statuses q now [] db = ([], db)"
| "rate_statuses q now (t # ts) db =
     (if t = '''' then rate_statuses q now ts db
      else (let (res, db1) = rcall (client q) now (GET (rate_key t)) db;
                val = (case res of Inl e \<Rightarrow> 0 | Inr x \<Rightarrow> blob_int (reply_blob x));
                (rest, db2) = rate_statuses q now ts db1
            in (\<lparr>trTenant = t, trCurrent = val, trLimit = rateLimit q, trWindowSeconds = 1,
                 trLimited = (rateLimit q \<le> val)\<rparr> # rest, db2)))"

definition RedisQueue_RateLimitStatus :: "RedisQueue \<Rightarrow> time \<Rightarrow> rdb \<Rightarrow> (go_error + TenantRateStatus list) \<times> rdb" where
  "RedisQueue_RateLimitStatus q now db =
     (if rateLimit q = 0 then (Inr [], db)
      else (case rcall (client q) now (SMEMBERS tenantSetKey) db of
              (Inl e, db1) \<Rightarrow> (Inl e, db1)
            | (Inr x, db1) \<Rightarrow>
                (let (sts, db2) = rate_statuses q now (reply_strings x) db1
                 in (Inr (sort_key trTenant sts), db2))))"

section \<open>Depth report\<close>

record PriorityTierDepth =
  ptTotal :: int
  ptPartitions :: "(string \<times> int) list"

record PriorityDepthReport =
  pdDequeueWeights :: "(string \<times> int) list"
  pdPartitionsPerPriority :: int
  pdByPriority :: "(string \<times> PriorityTierDepth) list"

fun tier_depth :: "RedisQueue \<Rightarrow> time \<Rightarrow> string \<Rightarrow> int list \<Rightarrow> PriorityTierDepth \<Rightarrow> rdb
    \<Rightarrow> (go_error + PriorityTierDepth) \<times> rdb" where
  "tier_depth q now base [] td db = (Inr td, db)"
| "tier_depth q now base (i # is) td db =
     (case rcall_int (client q) now (LLEN (partition_key base i)) db of
        (Inl e, db') \<Rightarrow> (Inl (Wrap (''queue: LLen '' @ partition_key base i @ '': '') e ''''), db')
      | (Inr n, db') \<Rightarrow>
          tier_depth q now base is
            (td\<lparr>ptPartitions := AList.update (itoa i) n (ptPartitions td), ptTotal := ptTotal td + n\<rparr>) db')"

fun tier_depths :: "RedisQueue \<Rightarrow> time \<Rightarrow> (string \<times> string) list \<Rightarrow> PriorityDepthReport \<Rightarrow> rdb
    \<Rightarrow> (PriorityDepthReport \<times> go_error option) \<times> rdb" where
  "tier_depths q now [] report db = ((report, None), db)"
| "tier_depths q now ((name, base) # tiers) report db =
     (case tier_depth q now base [1..numPartitions q] \<lparr>ptTotal = 0, ptPartitions = []\<rparr> db of
        (Inl e, db') \<Rightarrow> ((report, Some e), db')
      | (Inr td, db') \<Rightarrow>
          tier_depths q now tiers (report\<lparr>pdByPriority := AList.update name td (pdByPriority report)\<rparr>) db')"

definition RedisQueue_PriorityPartitionDepths ::
    "RedisQueue \<Rightarrow> time \<Rightarrow> rdb \<Rightarrow> (PriorityDepthReport \<times> go_error option) \<times> rdb" where
  "RedisQueue_PriorityPartitionDepths q now db =
     tier_depths q now [(''high'', qHigh q), (''medium'', qMedium q), (''low'', qLow q)]
       \<lparr>pdDequeueWeights = [(''high'', 70), (''medium'', 20), (''low'', 10)],
        pdPartitionsPerPriority = numPartitions q, pdByPriority = []\<rparr> db"

section \<open>Deferred jobs\<close>

definition dec_id_priority :: "blob \<Rightarrow> (string \<times> string) option" where
  \<comment> \<open>the partial struct with \<open>id\<close> and \<open>priority\<close>\<close>
  "dec_id_priority b = (case blob_json b of
     Some (JObj fs) \<Rightarrow> do { i \<leftarrow> dec_str fs ''id''; p \<leftarrow> dec_str fs ''priority''; Some (i, p) }
   | Some JNull \<Rightarrow> Some ('''', '''') | _ \<Rightarrow> None)"

fun reconcile_move :: "nat \<Rightarrow> RedisQueue \<Rightarrow> time \<Rightarrow> string \<Rightarrow> int \<Rightarrow> rdb \<Rightarrow> int \<times> rdb" where
  \<comment> \<open>\<open>for i := 0; i < available; i++\<close>\<close>
  "reconcile_move 0 q now key moved db = (moved, db)"
| "reconcile_move (Suc n) q now key moved db =
     (case rcall (client q) now (RPOP key) db of
        (Inl e, db1) \<Rightarrow> (if errors_Is e RedisNil then (moved, db1) else reconcile_move n q now key moved db1)
      | (Inr x, db1) \<Rightarrow>
          (case dec_id_priority (reply_blob x) of
             None \<Rightarrow> reconcile_move n q now key moved db1
           | Some (i, p) \<Rightarrow>
               reconcile_move n q now key (moved + 1)
                 (snd (rcall (client q) now (LPUSH (getPartitionedKey q i p) (reply_blob x)) db1))))"

definition reconcile_one :: "RedisQueue \<Rightarrow> time \<Rightarrow> string \<Rightarrow> string \<Rightarrow> int \<Rightarrow> int \<Rightarrow> rdb \<Rightarrow> int \<times> rdb" where
  "reconcile_one q now deferredKey activeKey limit moved db =
     (case rcall_int (client q) now (LLEN deferredKey) db of
        (Inl e, db1) \<Rightarrow> (moved, db1)
      | (Inr deferredCount, db1) \<Rightarrow>
          (if deferredCount = 0 then (moved, db1)
           else if limit \<le> 0 then reconcile_move (nat deferredCount) q now deferredKey moved db1
           else (case active_count q now activeKey db1 of
                   (Inl e, db2) \<Rightarrow> (moved, db2)
                 | (Inr activeCount, db2) \<Rightarrow>
                     (if limit - activeCount \<le> 0 then (moved, db2)
                      else reconcile_move (nat (limit - activeCount)) q now deferredKey moved db2))))"

fun reconcile_types :: "RedisQueue \<Rightarrow> time \<Rightarrow> (string \<times> blob) list \<Rightarrow> int \<Rightarrow> rdb \<Rightarrow> int \<times> rdb" where
  "reconcile_types q now [] moved db = (moved, db)"
| "reconcile_types q now ((typeName, raw) # ts) moved db =
     (case Option.bind (blob_json raw) dec_limit_state of
        None \<Rightarrow> reconcile_types q now ts moved db
      | Some (limit, paused) \<Rightarrow>
          (if paused then reconcile_types q now ts moved db
           else (let (moved', db') = reconcile_one q now (deferred_key typeName) (active_type_key typeName) limit moved db
                 in reconcile_types q now ts moved' db')))"

fun reconcile_tenants :: "RedisQueue \<Rightarrow> time \<Rightarrow> (string \<times> blob) list \<Rightarrow> int \<Rightarrow> rdb \<Rightarrow> int \<times> rdb" where
  "reconcile_tenants q now [] moved db = (moved, db)"
| "reconcile_tenants q now ((tenantID, raw) # ts) moved db =
     (case Option.bind (blob_json raw) dec_limit of
        None \<Rightarrow> reconcile_tenants q now ts moved db
      | Some limit \<Rightarrow>
          (let (moved', db') = reconcile_one q now (deferred_tenant_key tenantID) (active_tenant_key tenantID) limit moved db
           in reconcile_tenants q now ts moved' db'))"

definition RedisQueue_ReconcileDeferredJobs :: "RedisQueue \<Rightarrow> time \<Rightarrow> rdb \<Rightarrow> (go_error + int) \<times> rdb" where
  "RedisQueue_ReconcileDeferredJobs q now db =
     (case rcall (client q) now (HGETALL jobTypesKey) db of
        (Inl e, db1) \<Rightarrow> (Inl e, db1)
      | (Inr allTypes, db1) \<Rightarrow>
          (let (moved1, db2) = reconcile_types q now (reply_pairs allTypes) 0 db1 in
           (case rcall (client q) now (HGETALL tenantsKey) db2 of
              (Inl e, db3) \<Rightarrow> (Inr moved1, db3)
            | (Inr allTenants, db3) \<Rightarrow>
                (let (moved2, db4) = reconcile_tenants q now (reply_pairs allTenants) moved1 db3
                 in (Inr moved2, db4)))))"

section \<open>Events, cancellation, pausing a job type\<close>

definition RedisQueue_PublishWebhookEvent :: "RedisQueue \<Rightarrow> time \<Rightarrow> json \<Rightarrow> rdb \<Rightarrow> go_error option \<times> rdb" where
  "RedisQueue_PublishWebhookEvent q now event db =
     rcall_err (client q) now (XADD ''task_queue:webhooks:stream'' event) db"

definition RedisQueue_PublishCancellation :: "RedisQueue \<Rightarrow> time \<Rightarrow> string \<Rightarrow> rdb \<Rightarrow> go_error option \<times> rdb" where
  "RedisQueue_PublishCancellation q now jobID db =
     rcall_err (client q) now (PUBLISH ''task_queue:cancellations'' jobID) db"

definition pausedTypesKey :: string where "pausedTypesKey = ''task_queue:paused:jobtype''"

definition RedisQueue_PauseJobType :: "RedisQueue \<Rightarrow> time \<Rightarrow> string \<Rightarrow> rdb \<Rightarrow> go_error option \<times> rdb" where
  "RedisQueue_PauseJobType q now jobType db = rcall_err (client q) now (SADD pausedTypesKey jobType) db"

definition RedisQueue_ResumeJobType :: "RedisQueue \<Rightarrow> time \<Rightarrow> string \<Rightarrow> rdb \<Rightarrow> go_error option \<times> rdb" where
  "RedisQueue_ResumeJobType q now jobType db = rcall_err (client q) now (SREM pausedTypesKey jobType) db"

definition RedisQueue_IsJobTypePaused :: "RedisQueue \<Rightarrow> time \<Rightarrow> string \<Rightarrow> rdb \<Rightarrow> (go_error + bool) \<times> rdb" where
  "RedisQueue_IsJobTypePaused q now jobType db =
     (case rcall_int (client q) now (SISMEMBER pausedTypesKey jobType) db of
        (Inl e, db') \<Rightarrow> (Inl e, db') | (Inr n, db') \<Rightarrow> (Inr (n = 1), db'))"

definition RedisQueue_GetPausedJobTypes :: "RedisQueue \<Rightarrow> time \<Rightarrow> rdb \<Rightarrow> (go_error + string list) \<times> rdb" where
  "RedisQueue_GetPausedJobTypes q now db =
     (case rcall (client q) now (SMEMBERS pausedTypesKey) db of
        (Inl e, db') \<Rightarrow> (Inl e, db') | (Inr x, db') \<Rightarrow> (Inr (reply_strings x), db'))"

end
