(* ===== verification/Webhooks.thy ===== *)
theory Webhooks
  imports RedisQueue
begin

text \<open>
  \<^verbatim>\<open>internal/webhooks\<close> (event names, the registry of tenant webhooks, the bounded delivery history)
  and \<^verbatim>\<open>internal/jobtypes\<close> (the registry of job types). Both registries are Redis hashes of JSON
  documents. A range over the map \<^verbatim>\<open>HGETALL\<close> returns follows the order of the hash.
\<close>

section \<open>Event names\<close>

definition NormalizeEvent :: "string \<Rightarrow> string" where
  "NormalizeEvent event = TrimPrefix (TrimSpace event) ''job.''"

definition NormalizeEvents :: "string list \<Rightarrow> string list" where
  "NormalizeEvents events =
     (if events = [] then [''completed'', ''failed'']
      else (let out = filter (\<lambda>e. e \<noteq> '''') (map (\<lambda>e. TrimPrefix (TrimSpace e) ''job.'') events)
            in if out = [] then [''completed'', ''failed''] else out))"

section \<open>Registered webhooks\<close>

definition webhookStoreKey :: string where "webhookStoreKey = ''task_queue:webhooks:registered''"

record RegisteredWebhook =
  rwID :: string
  rwTenantID :: string
  rwURL :: string
  rwSecret :: string
  rwEvents :: "string list"
  rwCreatedAt :: time

definition regwebhook_fields :: "RegisteredWebhook \<Rightarrow> fields" where
  "regwebhook_fields w = [(''id'', JStr (rwID w)), (''tenant_id'', JStr (rwTenantID w)), (''url'', JStr (rwURL w))] @
     omit (rwSecret w = '''') (''secret'', JStr (rwSecret w)) @
     [(''events'', jstrs (rwEvents w)), (''created_at'', JTime (rwCreatedAt w))]"

definition json_regwebhook :: "blob \<Rightarrow> RegisteredWebhook option" where
  "json_regwebhook b = (case blob_json b of
     Some (JObj fs) \<Rightarrow>
       do { i \<leftarrow> dec_str fs ''id''; t \<leftarrow> dec_str fs ''tenant_id''; u \<leftarrow> dec_str fs ''url'';
            s \<leftarrow> dec_str fs ''secret''; es \<leftarrow> dec_strs fs ''events''; c \<leftarrow> dec_time fs ''created_at'';
            Some \<lparr>rwID = i, rwTenantID = t, rwURL = u, rwSecret = s, rwEvents = es, rwCreatedAt = c\<rparr> }
   | Some JNull \<Rightarrow> Some \<lparr>rwID = '''', rwTenantID = '''', rwURL = '''', rwSecret = '''', rwEvents = [], rwCreatedAt = zero_time\<rparr>
   | _ \<Rightarrow> None)"

definition put_webhook :: "redis \<Rightarrow> time \<Rightarrow> RegisteredWebhook \<Rightarrow> rdb \<Rightarrow> (go_error + RegisteredWebhook) \<times> rdb" where
  \<comment> \<open>marshal and \<open>HSET\<close>, the end of \<open>Create\<close> and \<open>Update\<close>\<close>
  "put_webhook r now w db =
     (case rcall r now (HSET webhookStoreKey (rwID w) (Doc (JObj (regwebhook_fields w)))) db of
        (Inl e, db') \<Rightarrow> (Inl (Wrap ''webhook_store: hset: '' e ''''), db')
      | (Inr _, db') \<Rightarrow> (Inr w, db'))"

definition WebhookStore_Create ::
    "redis \<Rightarrow> string \<Rightarrow> time \<Rightarrow> string \<Rightarrow> string \<Rightarrow> string \<Rightarrow> string list \<Rightarrow> rdb \<Rightarrow> (go_error + RegisteredWebhook) \<times> rdb" where
  \<comment> \<open>\<open>uuid\<close> is the fresh identifier\<close>
  "WebhookStore_Create r uuid now tenantID url secret events =
     put_webhook r now \<lparr>rwID = uuid, rwTenantID = tenantID, rwURL = url, rwSecret = secret,
       rwEvents = NormalizeEvents events, rwCreatedAt = now\<rparr>"

definition WebhookStore_GetByID :: "redis \<Rightarrow> time \<Rightarrow> string \<Rightarrow> rdb \<Rightarrow> (go_error + RegisteredWebhook) \<times> rdb" where
  "WebhookStore_GetByID r now i db =
     (case rcall r now (HGET webhookStoreKey i) db of
        (Inl e, db') \<Rightarrow> (Inl (Wrap ''webhook_store: hget: '' e ''''), db')
      | (Inr x, db') \<Rightarrow>
          ((case json_regwebhook (reply_blob x) of
              None \<Rightarrow> Inl (Wrap ''webhook_store: unmarshal: '' json_error '''') | Some w \<Rightarrow> Inr w), db'))"

definition WebhookStore_List :: "redis \<Rightarrow> time \<Rightarrow> string \<Rightarrow> rdb \<Rightarrow> (go_error + RegisteredWebhook list) \<times> rdb" where
  "WebhookStore_List r now tenantID db =
     (case rcall r now (HGETALL webhookStoreKey) db of
        (Inl e, db') \<Rightarrow> (Inl (Wrap ''webhook_store: hgetall: '' e ''''), db')
      | (Inr x, db') \<Rightarrow>
          (Inr (filter (\<lambda>w. tenantID = '''' \<or> rwTenantID w = tenantID)
                 (List.map_filter json_regwebhook (map snd (reply_pairs x)))), db'))"

definition WebhookStore_Update ::
    "redis \<Rightarrow> time \<Rightarrow> string \<Rightarrow> string \<Rightarrow> string \<Rightarrow> string list \<Rightarrow> rdb \<Rightarrow> (go_error + RegisteredWebhook) \<times> rdb" where
  "WebhookStore_Update r now i url secret events db =
     (case WebhookStore_GetByID r now i db of
        (Inl e, db') \<Rightarrow> (Inl e, db')
      | (Inr w, db') \<Rightarrow>
          (let w1 = (if url \<noteq> '''' then w\<lparr>rwURL := url\<rparr> else w);
               w2 = (if secret \<noteq> '''' then w1\<lparr>rwSecret := secret\<rparr> else w1);
               w3 = (if events \<noteq> [] then w2\<lparr>rwEvents := NormalizeEvents events\<rparr> else w2)
           in put_webhook r now w3 db'))"

definition WebhookStore_Delete :: "redis \<Rightarrow> time \<Rightarrow> string \<Rightarrow> rdb \<Rightarrow> go_error option \<times> rdb" where
  "WebhookStore_Delete r now i db = rcall_err r now (HDEL webhookStoreKey [i]) db"

definition event_matches :: "string \<Rightarrow> RegisteredWebhook \<Rightarrow> bool" where
  "event_matches status w \<longleftrightarrow>
     list_ex (\<lambda>e. NormalizeEvent e = NormalizeEvent status \<or> e = ''*'') (rwEvents w)"

definition WebhookStore_Match :: "redis \<Rightarrow> time \<Rightarrow> string \<Rightarrow> string \<Rightarrow> rdb \<Rightarrow> (go_error + RegisteredWebhook list) \<times> rdb" where
  "WebhookStore_Match r now tenantID status db =
     (case WebhookStore_List r now tenantID db of
        (Inl e, db') \<Rightarrow> (Inl e, db')
      | (Inr ws, db') \<Rightarrow> (Inr (filter (event_matches status) ws), db'))"

section \<open>Delivery history\<close>

definition MaxDeliveriesPerURL :: int where "MaxDeliveriesPerURL = 50"

record DeliveryRecord =
  drTimestamp :: time
  drJobID :: string
  drTenantID :: string
  drURL :: string
  drStatusCode :: int
  drAttempt :: int
  drSuccess :: bool
  drError :: string
  drBackoffMs :: int

definition delivery_json :: "DeliveryRecord \<Rightarrow> json" where
  "delivery_json d = JObj ([(''timestamp'', JTime (drTimestamp d)), (''job_id'', JStr (drJobID d)),
     (''tenant_id'', JStr (drTenantID d)), (''url'', JStr (drURL d)), (''status_code'', jint (drStatusCode d)),
     (''attempt'', jint (drAttempt d)), (''success'', JBool (drSuccess d))] @
     omit (drError d = '''') (''error'', JStr (drError d)) @
     omit (drBackoffMs d = 0) (''backoff_ms'', jint (drBackoffMs d)))"

definition json_delivery :: "blob \<Rightarrow> DeliveryRecord option" where
  "json_delivery b = (case blob_json b of
     Some (JObj fs) \<Rightarrow>
       do { t \<leftarrow> dec_time fs ''timestamp''; j \<leftarrow> dec_str fs ''job_id''; te \<leftarrow> dec_str fs ''tenant_id'';
            u \<leftarrow> dec_str fs ''url''; s \<leftarrow> dec_int fs ''status_code''; a \<leftarrow> dec_int fs ''attempt'';
            ok \<leftarrow> dec_bool fs ''success''; e \<leftarrow> dec_str fs ''error''; m \<leftarrow> dec_int fs ''backoff_ms'';
            Some \<lparr>drTimestamp = t, drJobID = j, drTenantID = te, drURL = u, drStatusCode = s, drAttempt = a,
                  drSuccess = ok, drError = e, drBackoffMs = m\<rparr> }
   | _ \<Rightarrow> None)"

definition deliveries_key :: "string \<Rightarrow> string" where
  "deliveries_key url = ''task_queue:webhooks:deliveries:'' @ url"

definition RecordDelivery :: "redis \<Rightarrow> time \<Rightarrow> DeliveryRecord \<Rightarrow> rdb \<Rightarrow> go_error option \<times> rdb" where
  "RecordDelivery r now rec db =
     (case rexec r now [LPUSH (deliveries_key (drURL rec)) (Doc (delivery_json rec)),
                        LTRIM (deliveries_key (drURL rec)) 0 (MaxDeliveriesPerURL - 1)] db of
        (Inl e, db') \<Rightarrow> (Some (Wrap ''webhook: record delivery: '' e ''''), db')
      | (Inr _, db') \<Rightarrow> (None, db'))"

definition ListDeliveries :: "redis \<Rightarrow> time \<Rightarrow> string \<Rightarrow> int \<Rightarrow> rdb \<Rightarrow> (go_error + DeliveryRecord list) \<times> rdb" where
  "ListDeliveries r now url limit db =
     (let limit' = (if limit \<le> 0 \<or> MaxDeliveriesPerURL < limit then MaxDeliveriesPerURL else limit) in
      (case rcall r now (LRANGE (deliveries_key url) 0 (limit' - 1)) db of
         (Inl e, db') \<Rightarrow> (Inl (Wrap ''webhook: list deliveries: '' e ''''), db')
       | (Inr x, db') \<Rightarrow> (Inr (List.map_filter json_delivery (reply_blobs x)), db')))"

section \<open>Job types\<close>

record JobType =
  jtID :: string
  jtName :: string
  jtDescription :: string
  jtHandler :: string
  jtPayloadHint :: string
  jtBuiltIn :: bool
  jtConcurrencyLimit :: int
  jtPaused :: bool
  jtCreatedAt :: time

definition zero_job_type :: JobType where
  "zero_job_type = \<lparr>jtID = '''', jtName = '''', jtDescription = '''', jtHandler = '''', jtPayloadHint = '''',
     jtBuiltIn = False, jtConcurrencyLimit = 0, jtPaused = False, jtCreatedAt = zero_time\<rparr>"

definition BuiltIn :: "JobType list" where
  \<comment> \<open>descriptions are not modelled\<close>
  "BuiltIn = map (\<lambda>n. zero_job_type\<lparr>jtName := n, jtHandler := n, jtBuiltIn := True\<rparr>) [''email'', ''image'', ''http'']"

definition job_type_fields :: "JobType \<Rightarrow> fields" where
  "job_type_fields t =
     omit (jtID t = '''') (''id'', JStr (jtID t)) @
     [(''name'', JStr (jtName t)), (''description'', JStr (jtDescription t)), (''handler'', JStr (jtHandler t))] @
     omit (jtPayloadHint t = '''') (''payload_hint'', JStr (jtPayloadHint t)) @
     omit (\<not> jtBuiltIn t) (''built_in'', JBool (jtBuiltIn t)) @
     omit (jtConcurrencyLimit t = 0) (''concurrency_limit'', jint (jtConcurrencyLimit t)) @
     omit (\<not> jtPaused t) (''paused'', JBool (jtPaused t)) @
     [(''created_at'', JTime (jtCreatedAt t))]"

definition json_job_type :: "blob \<Rightarrow> JobType option" where
  "json_job_type b = (case blob_json b of
     Some (JObj fs) \<Rightarrow>
       do { i \<leftarrow> dec_str fs ''id''; n \<leftarrow> dec_str fs ''name''; d \<leftarrow> dec_str fs ''description'';
            h \<leftarrow> dec_str fs ''handler''; p \<leftarrow> dec_str fs ''payload_hint''; bi \<leftarrow> dec_bool fs ''built_in'';
            l \<leftarrow> dec_int fs ''concurrency_limit''; pa \<leftarrow> dec_bool fs ''paused''; c \<leftarrow> dec_time fs ''created_at'';
            Some \<lparr>jtID = i, jtName = n, jtDescription = d, jtHandler = h, jtPayloadHint = p, jtBuiltIn = bi,
                  jtConcurrencyLimit = l, jtPaused = pa, jtCreatedAt = c\<rparr> }
   | Some JNull \<Rightarrow> Some zero_job_type
   | _ \<Rightarrow> None)"

definition is_built_in :: "string \<Rightarrow> bool" where
  "is_built_in name \<longleftrightarrow> list_ex (\<lambda>b. jtName b = name) BuiltIn"

definition JobTypes_GetByName :: "redis \<Rightarrow> time \<Rightarrow> string \<Rightarrow> rdb \<Rightarrow> (go_error + JobType) \<times> rdb" where
  "JobTypes_GetByName r now name db =
     (case rcall r now (HGET jobTypesKey name) db of
        (Inl e, db') \<Rightarrow> (Inl e, db')
      | (Inr x, db') \<Rightarrow>
          ((case json_job_type (reply_blob x) of None \<Rightarrow> Inl json_error | Some t \<Rightarrow> Inr t), db'))"

definition JobTypes_Create ::
    "redis \<Rightarrow> string \<Rightarrow> time \<Rightarrow> string \<Rightarrow> string \<Rightarrow> string \<Rightarrow> string \<Rightarrow> rdb \<Rightarrow> (go_error + JobType) \<times> rdb" where
  "JobTypes_Create r uuid now name description handler payloadHint db =
     (if name = '''' then (Inl (Errorf ''job type name is required''), db)
      else (let handler' = (if handler = '''' then ''http'' else handler) in
        if is_built_in name then (Inl (Errorf (''job type '' @ quoted name @ '' is built-in and cannot be re-registered'')), db)
        else (case JobTypes_GetByName r now name db of
          (Inr t, db1) \<Rightarrow> (Inl (Errorf (''job type '' @ quoted name @ '' already exists'')), db1)
        | (Inl e, db1) \<Rightarrow>
            (let jt = zero_job_type\<lparr>jtID := uuid, jtName := name, jtDescription := description, jtHandler := handler',
                        jtPayloadHint := payloadHint, jtCreatedAt := now\<rparr> in
             (case rcall r now (HSET jobTypesKey name (Doc (JObj (job_type_fields jt)))) db1 of
                (Inl e', db2) \<Rightarrow> (Inl e', db2)
              | (Inr _, db2) \<Rightarrow> (Inr jt, db2))))))"

definition JobTypes_List :: "redis \<Rightarrow> time \<Rightarrow> rdb \<Rightarrow> (go_error + JobType list) \<times> rdb" where
  "JobTypes_List r now db =
     (case rcall r now (HGETALL jobTypesKey) db of
        (Inl e, db') \<Rightarrow> (Inl e, db')
      | (Inr x, db') \<Rightarrow> (Inr (BuiltIn @ List.map_filter json_job_type (map snd (reply_pairs x))), db'))"

definition JobTypes_Delete :: "redis \<Rightarrow> time \<Rightarrow> string \<Rightarrow> rdb \<Rightarrow> go_error option \<times> rdb" where
  "JobTypes_Delete r now name db =
     (if is_built_in name then (Some (Errorf (''cannot delete built-in job type '' @ quoted name)), db)
      else rcall_err r now (HDEL jobTypesKey [name]) db)"

definition HandlerFor :: "redis \<Rightarrow> time \<Rightarrow> string \<Rightarrow> rdb \<Rightarrow> string \<times> rdb" where
  "HandlerFor r now jobType db =
     (case find (\<lambda>b. jtName b = jobType) BuiltIn of
        Some b \<Rightarrow> (jtHandler b, db)
      | None \<Rightarrow> (case JobTypes_GetByName r now jobType db of
                   (Inl e, db') \<Rightarrow> ('''', db') | (Inr t, db') \<Rightarrow> (jtHandler t, db')))"

definition JobTypes_IsAllowed :: "redis \<Rightarrow> time \<Rightarrow> string \<Rightarrow> rdb \<Rightarrow> bool \<times> rdb" where
  "JobTypes_IsAllowed r now jobType db =
     (if is_built_in jobType then (True, db)
      else (case JobTypes_GetByName r now jobType db of
              (Inl e, db') \<Rightarrow> (False, db') | (Inr t, db') \<Rightarrow> (True, db')))"

end
