(* ===== verification/Sse.thy ===== *)
theory Sse
  imports Json
begin

text \<open>
  The server-sent-events broker of \<^verbatim>\<open>internal/sse/broker.go\<close>. A client is a channel with a buffer of
  64 messages; channels are numbered and the map of clients is an association list from the number
  to the buffered messages, oldest first. \<^verbatim>\<open>Publish\<close> never blocks: a full buffer drops the message.
\<close>

record Event =
  evKind :: string
  evJobID :: string
  evStatus :: string
  evType :: string
  evTenant :: string
  evError :: string
  evProgress :: rat

definition zero_event :: Event where
  "zero_event = \<lparr>evKind = '''', evJobID = '''', evStatus = '''', evType = '''', evTenant = '''', evError = '''', evProgress = 0\<rparr>"

definition event_json :: "Event \<Rightarrow> json" where
  "event_json e = JObj (
     omit (evKind e = '''') (''kind'', JStr (evKind e)) @
     [(''job_id'', JStr (evJobID e)), (''status'', JStr (evStatus e)), (''type'', JStr (evType e))] @
     omit (evTenant e = '''') (''tenant_id'', JStr (evTenant e)) @
     omit (evError e = '''') (''error'', JStr (evError e)) @
     omit (evProgress e = 0) (''progress'', JNum (evProgress e)))"

record Broker =
  brClients :: "(nat \<times> json list) list"
  brNext :: nat

definition NewBroker :: Broker where
  "NewBroker = \<lparr>brClients = [], brNext = 0\<rparr>"

definition Broker_Subscribe :: "Broker \<Rightarrow> nat \<times> Broker" where
  "Broker_Subscribe b = (brNext b, b\<lparr>brClients := brClients b @ [(brNext b, [])], brNext := brNext b + 1\<rparr>)"

definition Broker_Unsubscribe :: "nat \<Rightarrow> Broker \<Rightarrow> Broker" where
  "Broker_Unsubscribe ch b = b\<lparr>brClients := AList.delete ch (brClients b)\<rparr>"

definition offer :: "json \<Rightarrow> json list \<Rightarrow> json list" where
  \<comment> \<open>\<open>select { case ch <- msg: default: }\<close>\<close>
  "offer msg buf = (if length buf < 64 then buf @ [msg] else buf)"

definition Broker_Publish :: "Event \<Rightarrow> Broker \<Rightarrow> Broker" where
  "Broker_Publish ev b = b\<lparr>brClients := map (\<lambda>(ch, buf). (ch, offer (event_json ev) buf)) (brClients b)\<rparr>"

definition ClientCount :: "Broker \<Rightarrow> nat" where
  "ClientCount b = length (brClients b)"

definition Broker_Receive :: "nat \<Rightarrow> Broker \<Rightarrow> json option \<times> Broker" where
  \<comment> \<open>the reader of a channel takes the oldest buffered message\<close>
  "Broker_Receive ch b =
     (case map_of (brClients b) ch of
        Some (m # buf) \<Rightarrow> (Some m, b\<lparr>brClients := AList.update ch buf (brClients b)\<rparr>)
      | _ \<Rightarrow> (None, b))"

section \<open>State machine and invariant\<close>

inductive broker_step :: "Broker \<Rightarrow> Broker \<Rightarrow> bool" where
  subscribe: "broker_step b (snd (Broker_Subscribe b))"
| unsubscribe: "broker_step b (Broker_Unsubscribe ch b)"
| publish: "broker_step b (Broker_Publish ev b)"
| receive: "broker_step b (snd (Broker_Receive ch b))"

definition broker_ok :: "Broker \<Rightarrow> bool" where
  "broker_ok b \<longleftrightarrow> distinct (map fst (brClients b)) \<and>
     (\<forall>(ch, buf)\<in>set (brClients b). ch < brNext b \<and> length buf \<le> 64)"

lemma offer_length: "length buf \<le> 64 \<Longrightarrow> length (offer m buf) \<le> 64"
  by (simp add: offer_def)

lemma broker_ok_update:
  assumes "broker_ok b" and "map_of (brClients b) ch = Some buf" and "length buf' \<le> length buf"
  shows "broker_ok (b\<lparr>brClients := AList.update ch buf' (brClients b)\<rparr>)"
proof -
  have "(ch, buf) \<in> set (brClients b)" using assms(2) by (rule map_of_SomeD)
  moreover have "set (AList.update ch buf' cs) \<subseteq> insert (ch, buf') (set cs)" for cs :: "(nat \<times> json list) list"
    by (induction cs) auto
  ultimately show ?thesis using assms by (fastforce simp: broker_ok_def distinct_update)
qed

lemma broker_ok_new: "broker_ok NewBroker"
  by (simp add: broker_ok_def NewBroker_def)

lemma broker_step_ok: "broker_step b b' \<Longrightarrow> broker_ok b \<Longrightarrow> broker_ok b'"
proof (induction rule: broker_step.induct)
  case (subscribe b)
  then show ?case by (fastforce simp: broker_ok_def Broker_Subscribe_def)
next
  case (unsubscribe b ch)
  then show ?case by (auto simp: broker_ok_def Broker_Unsubscribe_def distinct_delete AList.delete_eq)
next
  case (publish b ev)
  then show ?case
    by (fastforce simp: broker_ok_def Broker_Publish_def offer_length case_prod_beta' comp_def)
next
  case (receive b ch)
  then show ?case
    by (auto simp: Broker_Receive_def broker_ok_update split: option.split list.split)
qed

text \<open>
  In every reachable state of the event broker each client has one channel and no channel
  buffers more than 64 messages: a slow client loses messages and never blocks a publisher.
\<close>

theorem broker_buffers_bounded:
  assumes "broker_step\<^sup>*\<^sup>* NewBroker b"
  shows "distinct (map fst (brClients b)) \<and> (\<forall>(ch, buf)\<in>set (brClients b). length buf \<le> 64)"
proof -
  from assms have "broker_ok b"
    by (induction rule: rtranclp_induct) (rule broker_ok_new, rule broker_step_ok)
  then show ?thesis by (auto simp: broker_ok_def)
qed

theorem broker_buffers_bounded_witness:
  "list_all (\<lambda>(ch, buf). length buf \<le> 64) (brClients (Broker_Publish zero_event (snd (Broker_Subscribe NewBroker))))"
proof -
  have "broker_step\<^sup>*\<^sup>* NewBroker (Broker_Publish zero_event (snd (Broker_Subscribe NewBroker)))"
    by (rule rtranclp.rtrancl_into_rtrancl, rule r_into_rtranclp, rule broker_step.subscribe, rule broker_step.publish)
  from broker_buffers_bounded [OF this] show ?thesis by (simp add: list_all_iff)
qed

end
