(* ===== verification/JobService.thy ===== *)
theory JobService
  imports Store Webhooks Sse
begin

text \<open>
  The orchestration layer of \<^verbatim>\<open>internal/service/job_service.go\<close>: definitions. A service is a value of
  \<open>JobService\<close>; its operations act on a \<open>world\<close> made of the state of the job store, the Redis database
  and the event broker. The store is any implementation of the interface over worlds (so a Redis
  store may share the database with the queue); the queue is the Redis queue, the only implementation in the
  program. Logging is left out. The cron parser is a parameter: \<open>svcCron\<close> maps an expression to the
  function giving the next instant, or to \<open>None\<close> when it does not parse. \<open>svcFmt\<close> is the verb \<open>%v\<close> on a
  value that is no string. A timestamp text is \<open>JTime\<close> when it is valid RFC 3339 and \<open>JStr\<close> otherwise. The trace id
  of the context is the argument \<open>tr\<close>, fresh identifiers are arguments.
\<close>

section \<open>Worlds and lifting\<close>

record 's world =
  wStore :: 's
  wDb :: rdb
  wSse :: Broker

definition on_db :: "(rdb \<Rightarrow> 'x \<times> rdb) \<Rightarrow> 's world \<Rightarrow> 'x \<times> 's world" where
  "on_db f w = (let (x, db) = f (wDb w) in (x, w\<lparr>wDb := db\<rparr>))"

record 's JobService =
  svcQueue :: RedisQueue
  svcStore :: "'s world Store"
  svcMaxQueueSize :: int
  svcHasWebhooks :: bool
  svcHasJobTypes :: bool
  svcHasSse :: bool
  svcCron :: "string \<Rightarrow> (time \<Rightarrow> time) option"
  svcFmt :: "json \<Rightarrow> string"

definition JobService_New ::
    "RedisQueue \<Rightarrow> 's world Store \<Rightarrow> int \<Rightarrow> (string \<Rightarrow> (time \<Rightarrow> time) option) \<Rightarrow> (json \<Rightarrow> string) \<Rightarrow> 's JobService" where
  "JobService_New q store maxQueueSize cron fmt =
     \<lparr>svcQueue = q, svcStore = store, svcMaxQueueSize = maxQueueSize, svcHasWebhooks = False, svcHasJobTypes = False,
      svcHasSse = False, svcCron = cron, svcFmt = fmt\<rparr>"

definition SetSSEBroker :: "'s JobService \<Rightarrow> 's JobService" where "SetSSEBroker s = s\<lparr>svcHasSse := True\<rparr>"
definition SetWebhookStore :: "'s JobService \<Rightarrow> 's JobService" where "SetWebhookStore s = s\<lparr>svcHasWebhooks := True\<rparr>"
definition SetJobTypeStore :: "'s JobService \<Rightarrow> 's JobService" where "SetJobTypeStore s = s\<lparr>svcHasJobTypes := True\<rparr>"

abbreviation svcRedis :: "'s JobService \<Rightarrow> redis" where "svcRedis s \<equiv> client (svcQueue s)"

definition allowedJobTypes :: "string list" where
  "allowedJobTypes = [''email'', ''image'', ''http'', ''test'', ''test-success'', ''test-fail'', ''test-scheduled'']"

definition defaultMaxRetries :: int where "defaultMaxRetries = 3"

definition isJobTypeAllowed :: "'s JobService \<Rightarrow> time \<Rightarrow> string \<Rightarrow> 's world \<Rightarrow> bool \<times> 's world" where
  "isJobTypeAllowed s now jobType w =
     (if jobType \<in> set allowedJobTypes then (True, w)
      else if svcHasJobTypes s then on_db (JobTypes_IsAllowed (svcRedis s) now jobType) w
      else (False, w))"

section \<open>Events\<close>

definition publishSSE :: "'s JobService \<Rightarrow> string \<Rightarrow> string \<Rightarrow> string \<Rightarrow> string \<Rightarrow> 's world \<Rightarrow> 's world" where
  "publishSSE s jobID status jobType tenantID w =
     (if svcHasSse s then
        w\<lparr>wSse := Broker_Publish (zero_event\<lparr>evKind := ''job'', evJobID := jobID, evStatus := status,
                    evType := jobType, evTenant := tenantID\<rparr>) (wSse w)\<rparr>
      else w)"

definition publishRateLimitSSE :: "'s JobService \<Rightarrow> string \<Rightarrow> 's world \<Rightarrow> 's world" where
  "publishRateLimitSSE s tenantID w =
     (if svcHasSse s then
        w\<lparr>wSse := Broker_Publish (zero_event\<lparr>evKind := ''rate_limit'', evType := ''rate_limit'',
                    evStatus := ''rejected'', evTenant := tenantID\<rparr>) (wSse w)\<rparr>
      else w)"

definition job_webhook_targets :: "Job \<Rightarrow> string \<Rightarrow> (string \<times> string) list" where
  \<comment> \<open>the per-job part: the URL with its secret if one of the events matches\<close>
  "job_webhook_targets job event =
     (case jWebhook job of
        None \<Rightarrow> []
      | Some wc \<Rightarrow>
          (if wcURL wc \<noteq> '''' \<and> list_ex (\<lambda>e. NormalizeEvent e = NormalizeEvent event) (wcEvents wc)
           then [(wcURL wc, wcSecret wc)] else []))"

definition collectWebhookTargetsForEvent ::
    "'s JobService \<Rightarrow> time \<Rightarrow> Job \<Rightarrow> string \<Rightarrow> rdb \<Rightarrow> (string \<times> string) list \<times> rdb" where
  "collectWebhookTargetsForEvent s now job event db =
     (if svcHasWebhooks s then
        (case WebhookStore_Match (svcRedis s) now (jTenantID job) event db of
           (Inl e, db') \<Rightarrow> (job_webhook_targets job event, db')
         | (Inr ws, db') \<Rightarrow> (job_webhook_targets job event @ map (\<lambda>h. (rwURL h, rwSecret h)) ws, db'))
      else (job_webhook_targets job event, db))"

definition webhook_error_text :: "'s JobService \<Rightarrow> string \<Rightarrow> json \<Rightarrow> string" where
  "webhook_error_text s event result =
     (if event = StatusFailed then
        (case result of JStr t \<Rightarrow> t | JNull \<Rightarrow> '''' | v \<Rightarrow> svcFmt s v)
      else '''')"

fun publish_each :: "'s JobService \<Rightarrow> time \<Rightarrow> Job \<Rightarrow> string \<Rightarrow> json \<Rightarrow> (string \<times> string) list \<Rightarrow> rdb \<Rightarrow> rdb" where
  "publish_each s now job event result [] db = db"
| "publish_each s now job event result ((url, secret) # ts) db =
     publish_each s now job event result ts
       (snd (RedisQueue_PublishWebhookEvent (svcQueue s) now
          (JObj [(''job_id'', JStr (jID job)), (''tenant_id'', JStr (jTenantID job)), (''status'', JStr event),
                 (''result'', result), (''error'', JStr (webhook_error_text s event result)),
                 (''timestamp'', JTime now), (''url'', JStr url), (''secret'', JStr secret)]) db))"

definition publishWebhookEvent :: "'s JobService \<Rightarrow> time \<Rightarrow> Job \<Rightarrow> string \<Rightarrow> json \<Rightarrow> 's world \<Rightarrow> 's world" where
  "publishWebhookEvent s now job event result w =
     (let (targets, db) = collectWebhookTargetsForEvent s now job event (wDb w)
      in w\<lparr>wDb := publish_each s now job event result targets db\<rparr>)"

section \<open>CreateJob\<close>

record JobRequest =
  rqType :: string
  rqPayload :: "fields option"
  rqLabels :: "(string \<times> string) list"
  rqPriority :: string
  rqMaxRetries :: int
  rqBackoffAlgorithm :: string
  rqBackoffJitter :: string
  rqCronExpr :: string
  rqRunAt :: json
  rqCorrelationID :: string
  rqTimeout :: int
  rqVersion :: int
  rqTenantID :: string
  rqWebhook :: "WebhookConfig option"
  rqDedupKey :: string
  rqDependencies :: "string list"
  rqShardKey :: string
  rqTTLSeconds :: int

fun Contains :: "string \<Rightarrow> string \<Rightarrow> bool" where
  "Contains [] p = (p = '''')"
| "Contains (c # cs) p = (HasPrefix (c # cs) p \<or> Contains cs p)"

definition dedup_check :: "'s JobService \<Rightarrow> time \<Rightarrow> JobRequest \<Rightarrow> 's world \<Rightarrow> go_error option \<times> 's world" where
  "dedup_check s now rq w =
     (if rqDedupKey rq \<noteq> '''' then
        (case st_IsDedupKeyTaken (svcStore s) now (rqDedupKey rq) (rqTenantID rq) w of
           (Inl e, w') \<Rightarrow> (None, w')
         | (Inr taken, w') \<Rightarrow>
             (if taken then Some (NewConflict ''job with this dedup_key already exists'') else None, w'))
      else (None, w))"

definition dependency_check :: "'s JobService \<Rightarrow> time \<Rightarrow> string list \<Rightarrow> 's world \<Rightarrow> (go_error + bool) \<times> 's world" where
  \<comment> \<open>whether all dependencies are completed; an error if one is unknown\<close>
  "dependency_check s now dependencies w =
     (if dependencies \<noteq> [] then
        (case st_GetByIDs (svcStore s) now dependencies w of
           (Inl e, w') \<Rightarrow> (Inl (NewInvalidArgument (''failed to validate dependencies: '' @ err_msg e)), w')
         | (Inr deps, w') \<Rightarrow>
             (if length deps \<noteq> length dependencies
              then (Inl (NewInvalidArgument ''one or more dependency job IDs not found''), w')
              else (Inr (list_all (\<lambda>d. jStatus d = StatusCompleted) deps), w')))
      else (Inr True, w))"

definition rate_check :: "'s JobService \<Rightarrow> time \<Rightarrow> string \<Rightarrow> 's world \<Rightarrow> go_error option \<times> 's world" where
  "rate_check s now tenantID w =
     (case on_db (RedisQueue_IsAllowed (svcQueue s) now tenantID) w of
        (Inl e, w') \<Rightarrow> (None, w')
      | (Inr allowed, w') \<Rightarrow>
          (if allowed then (None, w')
           else (Some (NewTooManyRequests ''tenant rate limit exceeded''), publishRateLimitSSE s tenantID w')))"

definition run_at_check :: "time \<Rightarrow> json \<Rightarrow> go_error + time" where
  "run_at_check now runAt =
     (if runAt \<noteq> JStr '''' then
        (case runAt of
           JTime t \<Rightarrow> (if t < now then Inl (NewInvalidArgument ''run_at timestamp must be in the future'') else Inr t)
         | _ \<Rightarrow> Inl (NewInvalidArgument ''invalid run_at timestamp: parsing time''))
      else Inr zero_time)"

definition size_check :: "'s JobService \<Rightarrow> time \<Rightarrow> 's world \<Rightarrow> go_error option \<times> 's world" where
  "size_check s now w =
     (if 0 < svcMaxQueueSize s then
        (case on_db (RedisQueue_Size (svcQueue s) now) w of
           (Inl e, w') \<Rightarrow> (None, w')
         | (Inr cnt, w') \<Rightarrow> (if svcMaxQueueSize s \<le> cnt then Some NewQueueFull else None, w'))
      else (None, w))"

definition build_job :: "'s JobService \<Rightarrow> string \<Rightarrow> string \<Rightarrow> time \<Rightarrow> JobRequest \<Rightarrow> time \<Rightarrow> Job" where
  "build_job s uuid1 uuid2 now rq runAt =
     (let maxRetries = (if rqMaxRetries rq \<le> 0 then defaultMaxRetries else rqMaxRetries rq);
          timeout = (if rqTimeout rq \<le> 0 then 60 else rqTimeout rq);
          j0 = NewJob uuid1 uuid2 now (rqType rq) (rqPayload rq) (rqLabels rq) (rqPriority rq) maxRetries runAt
                 (rqCorrelationID rq) timeout (rqVersion rq) (rqTenantID rq);
          j1 = j0\<lparr>jWebhook := rqWebhook rq, jDedupKey := rqDedupKey rq, jDependencies := rqDependencies rq,
                  jShardKey := rqShardKey rq\<rparr>;
          j2 = (if rqBackoffAlgorithm rq \<noteq> '''' then j1\<lparr>jBackoffAlgorithm := rqBackoffAlgorithm rq\<rparr> else j1);
          j3 = (if rqBackoffJitter rq \<noteq> '''' then j2\<lparr>jBackoffJitter := rqBackoffJitter rq\<rparr> else j2)
      in if rqCronExpr rq \<noteq> '''' then
           (let j4 = j3\<lparr>jCronExpr := rqCronExpr rq, jStatus := StatusRecurring\<rparr>
            in case svcCron s (rqCronExpr rq) of Some nxt \<Rightarrow> j4\<lparr>jRunAt := nxt now\<rparr> | None \<Rightarrow> j4)
         else j3)"

definition submit_job :: "'s JobService \<Rightarrow> string \<Rightarrow> time \<Rightarrow> bool \<Rightarrow> Job \<Rightarrow> 's world \<Rightarrow> (go_error + Job) \<times> 's world" where
  \<comment> \<open>persist, enqueue unless recurring or waiting for dependencies, announce\<close>
  "submit_job s tr now allMet job w =
     (case st_Save (svcStore s) now job w of
        (Some e, w1) \<Rightarrow>
          (Inl (if Contains (err_msg e) ''idx_jobs_dedup_key_unique'' \<or> Contains (err_msg e) ''duplicate key''
                then NewConflict ''job with this dedup_key already exists concurrently''
                else NewInternal ''failed to persist job'' e), w1)
      | (None, w1) \<Rightarrow>
          (let (err, job', w2) =
             (if jStatus job \<noteq> StatusRecurring \<and> allMet then
                (let (e, j', db') = RedisQueue_Enqueue (svcQueue s) tr now (Some job) (wDb w1)
                 in (e, (case j' of Some j \<Rightarrow> j | None \<Rightarrow> job), w1\<lparr>wDb := db'\<rparr>))
              else (None, job, w1))
           in (case err of
                 Some e \<Rightarrow> (Inl (NewInternal ''failed to enqueue job'' e), w2)
               | None \<Rightarrow>
                   (Inr job', publishSSE s (jID job') ''created'' (jType job') (jTenantID job')
                      (publishWebhookEvent s now job' ''created'' (JObj [(''type'', JStr (jType job'))]) w2)))))"

definition JobService_CreateJob ::
    "'s JobService \<Rightarrow> string \<Rightarrow> string \<Rightarrow> string \<Rightarrow> time \<Rightarrow> JobRequest \<Rightarrow> 's world \<Rightarrow> (go_error + Job) \<times> 's world" where
  "JobService_CreateJob s uuid1 uuid2 tr now rq w =
     (case isJobTypeAllowed s now (rqType rq) w of
        (False, w1) \<Rightarrow> (Inl (NewInvalidArgument (''unsupported job type '' @ quoted (rqType rq))), w1)
      | (True, w1) \<Rightarrow>
          (case dedup_check s now rq w1 of
             (Some e, w2) \<Rightarrow> (Inl e, w2)
           | (None, w2) \<Rightarrow>
               (case dependency_check s now (rqDependencies rq) w2 of
                  (Inl e, w3) \<Rightarrow> (Inl e, w3)
                | (Inr allMet, w3) \<Rightarrow>
                    (case rate_check s now (rqTenantID rq) w3 of
                       (Some e, w4) \<Rightarrow> (Inl e, w4)
                     | (None, w4) \<Rightarrow>
                         (case run_at_check now (rqRunAt rq) of
                            Inl e \<Rightarrow> (Inl e, w4)
                          | Inr runAt \<Rightarrow>
                              (case size_check s now w4 of
                                 (Some e, w5) \<Rightarrow> (Inl e, w5)
                               | (None, w5) \<Rightarrow>
                                   submit_job s tr now allMet (build_job s uuid1 uuid2 now rq runAt) w5))))))"

section \<open>CreateJobBatch\<close>

definition batch_job :: "string \<Rightarrow> time \<Rightarrow> JobRequest \<Rightarrow> Job" where
  "batch_job uuid now rq =
     (let maxR = (if rqMaxRetries rq = 0 then 3 else rqMaxRetries rq);
          runAt = (case rqRunAt rq of JTime t \<Rightarrow> t | _ \<Rightarrow> now);
          j = zero_job\<lparr>jID := uuid, jType := rqType rq, jPayload := rqPayload rq, jStatus := StatusPending,
                jPriority := rqPriority rq, jMaxRetries := maxR, jCorrelationID := rqCorrelationID rq,
                jTimeout := rqTimeout rq, jVersion := rqVersion rq, jTenantID := rqTenantID rq,
                jWebhook := rqWebhook rq, jDedupKey := rqDedupKey rq, jDependencies := rqDependencies rq,
                jShardKey := rqShardKey rq, jCronExpr := rqCronExpr rq, jRunAt := runAt, jCreatedAt := now,
                jUpdatedAt := now\<rparr>
      in j\<lparr>jPriority := (if jPriority j = '''' then PriorityMedium else jPriority j),
           jTimeout := (if jTimeout j = 0 then 60 else jTimeout j),
           jVersion := (if jVersion j = 0 then 1 else jVersion j)\<rparr>)"

fun enqueue_batch :: "'s JobService \<Rightarrow> string \<Rightarrow> time \<Rightarrow> Job list \<Rightarrow> rdb \<Rightarrow> Job list \<times> rdb" where
  \<comment> \<open>the enqueue loop over the batch; members with dependencies are skipped\<close>
  "enqueue_batch s tr now [] db = ([], db)"
| "enqueue_batch s tr now (j # js) db =
     (if jDependencies j = [] then
        (let (e, j', db1) = RedisQueue_Enqueue (svcQueue s) tr now (Some j) db;
             (js', db2) = enqueue_batch s tr now js db1
         in ((case j' of Some k \<Rightarrow> k | None \<Rightarrow> j) # js', db2))
      else (let (js', db2) = enqueue_batch s tr now js db in (j # js', db2)))"

definition JobService_CreateJobBatch ::
    "'s JobService \<Rightarrow> (nat \<Rightarrow> string) \<Rightarrow> string \<Rightarrow> time \<Rightarrow> JobRequest list \<Rightarrow> 's world \<Rightarrow> (go_error + Job list) \<times> 's world" where
  \<comment> \<open>\<open>uuids i\<close> is the identifier drawn for the \<open>i\<close>-th request\<close>
  "JobService_CreateJobBatch s uuids tr now requests w =
     (if requests = [] then (Inr [], w)
      else (let batch = map (\<lambda>(i, rq). batch_job (uuids i) now rq) (enumerate 0 requests) in
        (case st_SaveBatch (svcStore s) now batch w of
           (Some e, w1) \<Rightarrow> (Inl (NewInternal ''failed to persist job batch'' e), w1)
         | (None, w1) \<Rightarrow>
             (let (batch', db) = enqueue_batch s tr now batch (wDb w1);
                  w2 = fold (\<lambda>j. publishWebhookEvent s now j ''created'' (JObj [(''job_id'', JStr (jID j))])) batch' (w1\<lparr>wDb := db\<rparr>)
              in (Inr batch', w2)))))"

section \<open>Queue proxies\<close>

definition JobService_Enqueue :: "'s JobService \<Rightarrow> string \<Rightarrow> time \<Rightarrow> Job option \<Rightarrow> 's world \<Rightarrow> go_error option \<times> Job option \<times> 's world" where
  "JobService_Enqueue s tr now job w =
     (let (e, j, db) = RedisQueue_Enqueue (svcQueue s) tr now job (wDb w) in (e, j, w\<lparr>wDb := db\<rparr>))"

definition JobService_Ack :: "'s JobService \<Rightarrow> time \<Rightarrow> string \<Rightarrow> 's world \<Rightarrow> go_error option \<times> 's world" where
  "JobService_Ack s now jobID = on_db (RedisQueue_Ack (svcQueue s) now jobID)"

definition JobService_Fail :: "'s JobService \<Rightarrow> time \<Rightarrow> string \<Rightarrow> go_error option \<Rightarrow> 's world \<Rightarrow> go_error option \<times> 's world" where
  "JobService_Fail s now jobID e = on_db (RedisQueue_Fail (svcQueue s) now jobID e)"

definition JobService_IsProcessed :: "'s JobService \<Rightarrow> time \<Rightarrow> string \<Rightarrow> 's world \<Rightarrow> (bool \<times> go_error option) \<times> 's world" where
  "JobService_IsProcessed s now jobID = on_db (RedisQueue_IsProcessed (svcQueue s) now jobID)"

definition JobService_MarkProcessed :: "'s JobService \<Rightarrow> time \<Rightarrow> string \<Rightarrow> 's world \<Rightarrow> go_error option \<times> 's world" where
  "JobService_MarkProcessed s now jobID = on_db (RedisQueue_MarkProcessed (svcQueue s) now jobID)"

definition JobService_IsJobTypePaused :: "'s JobService \<Rightarrow> time \<Rightarrow> string \<Rightarrow> 's world \<Rightarrow> (go_error + bool) \<times> 's world" where
  "JobService_IsJobTypePaused s now jobType = on_db (RedisQueue_IsJobTypePaused (svcQueue s) now jobType)"

definition JobService_Dequeue :: "nat \<Rightarrow> 's JobService \<Rightarrow> nat \<Rightarrow> time \<Rightarrow> 's world \<Rightarrow> (go_error + Job option) option \<times> 's world" where
  \<comment> \<open>the outer \<open>None\<close>: the fuel of the queue's loop was not enough\<close>
  "JobService_Dequeue fuel s rnd now w =
     (case on_db (RedisQueue_Dequeue fuel (svcQueue s) rnd now) w of
        (None, w1) \<Rightarrow> (None, w1)
      | (Some (Inl e), w1) \<Rightarrow> (Some (Inl e), w1)
      | (Some (Inr job), w1) \<Rightarrow>
          (if jDependencies job \<noteq> [] then
             (case st_GetByIDs (svcStore s) now (jDependencies job) w1 of
                (Inl e, w2) \<Rightarrow> (Some (Inr (Some job)), w2)
              | (Inr deps, w2) \<Rightarrow>
                  (if list_all (\<lambda>d. jStatus d = StatusCompleted) deps then (Some (Inr (Some job)), w2)
                   else (let w3 = snd (st_UpdateStatus (svcStore s) now (jID job) StatusPending '''' w2);
                             w4 = snd (JobService_Ack s now (jID job) w3)
                         in (Some (Inr None), w4))))
           else (Some (Inr (Some job)), w1)))"

section \<open>Single jobs\<close>

definition JobService_GetJobStatus :: "'s JobService \<Rightarrow> time \<Rightarrow> string \<Rightarrow> 's world \<Rightarrow> (go_error + Job) \<times> 's world" where
  "JobService_GetJobStatus s now jobID w =
     (case st_GetByID (svcStore s) now jobID w of
        (Inl e, w') \<Rightarrow>
          (Inl (if errors_Is e ErrJobNotFound then NewNotFound ''job'' jobID else NewInternal ''database query failed'' e), w')
      | (Inr j, w') \<Rightarrow> (Inr j, w'))"

definition set_paused :: "bool \<Rightarrow> 's JobService \<Rightarrow> time \<Rightarrow> string \<Rightarrow> 's world \<Rightarrow> go_error option \<times> 's world" where
  "set_paused b s now jobID w =
     (case st_GetByID (svcStore s) now jobID w of
        (Inl e, w') \<Rightarrow> (Some e, w')
      | (Inr j, w') \<Rightarrow> st_Save (svcStore s) now (j\<lparr>jPaused := b, jUpdatedAt := now\<rparr>) w')"

definition JobService_PauseJob :: "'s JobService \<Rightarrow> time \<Rightarrow> string \<Rightarrow> 's world \<Rightarrow> go_error option \<times> 's world" where
  "JobService_PauseJob = set_paused True"

definition JobService_ResumeJob :: "'s JobService \<Rightarrow> time \<Rightarrow> string \<Rightarrow> 's world \<Rightarrow> go_error option \<times> 's world" where
  "JobService_ResumeJob = set_paused False"

definition JobService_CancelJob :: "'s JobService \<Rightarrow> time \<Rightarrow> string \<Rightarrow> 's world \<Rightarrow> go_error option \<times> 's world" where
  "JobService_CancelJob s now jobID w =
     (case st_UpdateStatus (svcStore s) now jobID StatusCancelled '''' w of
        (Some e, w1) \<Rightarrow> (Some e, w1)
      | (None, w1) \<Rightarrow>
          (let w2 = snd (JobService_Ack s now jobID w1);
               w3 = snd (on_db (RedisQueue_PublishCancellation (svcQueue s) now jobID) w2)
           in (None, publishSSE s jobID StatusCancelled '''' '''' w3)))"

definition JobService_UpdateJobProgress :: "'s JobService \<Rightarrow> time \<Rightarrow> string \<Rightarrow> rat \<Rightarrow> 's world \<Rightarrow> go_error option \<times> 's world" where
  "JobService_UpdateJobProgress s now jobID progress w =
     (if progress < 0 \<or> 100 < progress then (Some (Errorf ''progress must be between 0 and 100''), w)
      else st_UpdateProgress (svcStore s) now jobID progress w)"

definition JobService_UpdateJobStatus :: "'s JobService \<Rightarrow> time \<Rightarrow> string \<Rightarrow> string \<Rightarrow> string \<Rightarrow> 's world \<Rightarrow> go_error option \<times> 's world" where
  "JobService_UpdateJobStatus s now jobID status workerID w = st_UpdateStatus (svcStore s) now jobID status workerID w"

fun enqueue_each :: "'s JobService \<Rightarrow> string \<Rightarrow> time \<Rightarrow> Job list \<Rightarrow> rdb \<Rightarrow> int \<times> rdb" where
  \<comment> \<open>enqueue every job, counting the successes\<close>
  "enqueue_each s tr now [] db = (0, db)"
| "enqueue_each s tr now (j # js) db =
     (let (e, j', db1) = RedisQueue_Enqueue (svcQueue s) tr now (Some j) db;
          (n, db2) = enqueue_each s tr now js db1
      in (if e = None then n + 1 else n, db2))"

definition JobService_UpdateJobResult ::
    "'s JobService \<Rightarrow> string \<Rightarrow> time \<Rightarrow> string \<Rightarrow> string \<Rightarrow> string \<Rightarrow> json \<Rightarrow> 's world \<Rightarrow> go_error option \<times> 's world" where
  "JobService_UpdateJobResult s tr now jobID status workerID result w =
     (case st_UpdateResult (svcStore s) now jobID status workerID result w of
        (Some e, w1) \<Rightarrow> (Some (Wrap ''service: failed to update job result: '' e ''''), w1)
      | (None, w1) \<Rightarrow>
          (case st_GetByID (svcStore s) now jobID w1 of
             (Inl e, w2) \<Rightarrow> (None, w2)
           | (Inr job, w2) \<Rightarrow>
               (let w3 = publishSSE s jobID status (jType job) (jTenantID job) w2;
                    w4 = publishWebhookEvent s now job status result w3
                in if status = StatusCompleted then
                     (case st_GetDependentJobs (svcStore s) now jobID w4 of
                        (Inl e, w5) \<Rightarrow> (None, w5)
                      | (Inr ds, w5) \<Rightarrow> (None, w5\<lparr>wDb := snd (enqueue_each s tr now ds (wDb w5))\<rparr>))
                   else (None, w4))))"

definition owned_by :: "string \<Rightarrow> Job \<Rightarrow> bool" where
  \<comment> \<open>the tenant test of \<open>ReplayJob\<close> and \<open>DeleteJob\<close>\<close>
  "owned_by tenantID job \<longleftrightarrow> \<not> (tenantID \<noteq> '''' \<and> tenantID \<noteq> ''operator'' \<and> jTenantID job \<noteq> tenantID)"

definition JobService_ReplayJob :: "'s JobService \<Rightarrow> string \<Rightarrow> time \<Rightarrow> string \<Rightarrow> string \<Rightarrow> 's world \<Rightarrow> (go_error + Job) \<times> 's world" where
  "JobService_ReplayJob s tr now jobID tenantID w =
     (case st_GetByID (svcStore s) now jobID w of
        (Inl e, w1) \<Rightarrow> (Inl e, w1)
      | (Inr job0, w1) \<Rightarrow>
          (if \<not> owned_by tenantID job0 then (Inl (NewForbidden ''you do not own this job''), w1)
           else (let job = job0\<lparr>jStatus := StatusPending, jRetries := 0, jUpdatedAt := now, jProcessedBy := '''', jResult := JNull\<rparr> in
             (case st_Save (svcStore s) now job w1 of
                (Some e, w2) \<Rightarrow> (Inl e, w2)
              | (None, w2) \<Rightarrow>
                  (case JobService_Enqueue s tr now (Some job) w2 of
                     (Some e, j', w3) \<Rightarrow> (Inl e, w3)
                   | (None, j', w3) \<Rightarrow> (Inr (case j' of Some k \<Rightarrow> k | None \<Rightarrow> job), w3))))))"

definition JobService_DeleteJob :: "'s JobService \<Rightarrow> time \<Rightarrow> string \<Rightarrow> string \<Rightarrow> 's world \<Rightarrow> go_error option \<times> 's world" where
  "JobService_DeleteJob s now jobID tenantID w =
     (case st_GetByID (svcStore s) now jobID w of
        (Inl e, w1) \<Rightarrow> (Some e, w1)
      | (Inr job, w1) \<Rightarrow>
          (if \<not> owned_by tenantID job then (Some (NewForbidden ''you do not own this job''), w1)
           else st_DeleteJob (svcStore s) now jobID w1))"

section \<open>Maintenance\<close>

fun reconcile_orphans :: "'s JobService \<Rightarrow> string \<Rightarrow> time \<Rightarrow> Job list \<Rightarrow> 's world \<Rightarrow> 's world" where
  "reconcile_orphans s tr now [] w = w"
| "reconcile_orphans s tr now (j # js) w =
     (let w1 = snd (JobService_UpdateJobStatus s now (jID j) StatusPending '''' w);
          (e, j', w2) = JobService_Enqueue s tr now (Some j) w1;
          w3 = (if e = None then snd (JobService_Ack s now (jID j) w2) else w2)
      in reconcile_orphans s tr now js w3)"

definition JobService_ReconcileOrphanedJobs :: "'s JobService \<Rightarrow> string \<Rightarrow> time \<Rightarrow> string \<Rightarrow> 's world \<Rightarrow> (go_error + int) \<times> 's world" where
  "JobService_ReconcileOrphanedJobs s tr now workerID w =
     (case st_GetByWorkerAndStatus (svcStore s) now workerID StatusProcessing w of
        (Inl e, w1) \<Rightarrow> (Inl e, w1)
      | (Inr stuck, w1) \<Rightarrow> (Inr (int (length stuck)), reconcile_orphans s tr now stuck w1))"

definition spawn_instance :: "string \<Rightarrow> time \<Rightarrow> Job \<Rightarrow> Job" where
  "spawn_instance uuid now t =
     t\<lparr>jID := uuid, jStatus := StatusPending, jCronExpr := '''', jCreatedAt := now, jUpdatedAt := now,
       jRunAt := now, jRetries := 0\<rparr>"

fun recurring_each :: "'s JobService \<Rightarrow> string \<Rightarrow> time \<Rightarrow> (string \<times> Job) list \<Rightarrow> int \<Rightarrow> 's world \<Rightarrow> int \<times> 's world" where
  \<comment> \<open>each template comes with the identifier its instance would get\<close>
  "recurring_each s tr now [] cnt w = (cnt, w)"
| "recurring_each s tr now ((uuid, t) # ts) cnt w =
     (if jPaused t \<or> jCronExpr t = '''' then recurring_each s tr now ts cnt w
      else if now < jRunAt t then recurring_each s tr now ts cnt w
      else (case svcCron s (jCronExpr t) of
              None \<Rightarrow> recurring_each s tr now ts cnt w
            | Some nxt \<Rightarrow>
                (case st_Save (svcStore s) now (spawn_instance uuid now t) w of
                   (Some e, w1) \<Rightarrow> recurring_each s tr now ts cnt w1
                 | (None, w1) \<Rightarrow>
                     (case JobService_Enqueue s tr now (Some (spawn_instance uuid now t)) w1 of
                        (Some e, j', w2) \<Rightarrow> recurring_each s tr now ts cnt w2
                      | (None, j', w2) \<Rightarrow>
                          recurring_each s tr now ts (cnt + 1)
                            (snd (st_Save (svcStore s) now (t\<lparr>jRunAt := nxt now, jUpdatedAt := now\<rparr>) w2))))))"

definition JobService_RecurringJobsDue ::
    "'s JobService \<Rightarrow> (nat \<Rightarrow> string) \<Rightarrow> string \<Rightarrow> time \<Rightarrow> 's world \<Rightarrow> (go_error + int) \<times> 's world" where
  "JobService_RecurringJobsDue s uuids tr now w =
     (case st_SearchJobs (svcStore s) now (empty_filter\<lparr>fStatus := StatusRecurring, fLimit := 10000\<rparr>) w of
        (Inl e, w1) \<Rightarrow> (Inl e, w1)
      | (Inr templates, w1) \<Rightarrow>
          (let (cnt, w2) = recurring_each s tr now (map (\<lambda>(i, t). (uuids i, t)) (enumerate 0 templates)) 0 w1
           in (Inr cnt, w2)))"

definition JobService_ListFailedJobs ::
    "'s JobService \<Rightarrow> time \<Rightarrow> string \<Rightarrow> string \<Rightarrow> int \<Rightarrow> int \<Rightarrow> 's world \<Rightarrow> (go_error + Job list) \<times> 's world" where
  "JobService_ListFailedJobs s now tenantID jobType limit offset =
     st_ListJobs (svcStore s) now tenantID StatusFailed jobType limit offset"

definition JobService_CountFailedJobs :: "'s JobService \<Rightarrow> time \<Rightarrow> string \<Rightarrow> string \<Rightarrow> 's world \<Rightarrow> (go_error + int) \<times> 's world" where
  "JobService_CountFailedJobs s now tenantID jobType =
     st_CountJobs (svcStore s) now (empty_filter\<lparr>fTenantID := tenantID, fType := jobType, fStatus := StatusFailed\<rparr>)"

fun count_statuses :: "'s JobService \<Rightarrow> time \<Rightarrow> string \<Rightarrow> string list \<Rightarrow> 's world \<Rightarrow> (go_error + (string \<times> int) list) \<times> 's world" where
  "count_statuses s now tenantID [] w = (Inr [], w)"
| "count_statuses s now tenantID (st # sts) w =
     (case st_CountJobs (svcStore s) now (empty_filter\<lparr>fTenantID := tenantID, fStatus := st\<rparr>) w of
        (Inl e, w1) \<Rightarrow> (Inl e, w1)
      | (Inr n, w1) \<Rightarrow>
          (case count_statuses s now tenantID sts w1 of
             (Inl e, w2) \<Rightarrow> (Inl e, w2) | (Inr m, w2) \<Rightarrow> (Inr ((st, n) # m), w2)))"

definition JobService_JobStatusCounts :: "'s JobService \<Rightarrow> time \<Rightarrow> string \<Rightarrow> 's world \<Rightarrow> (go_error + (string \<times> int) list) \<times> 's world" where
  "JobService_JobStatusCounts s now tenantID =
     count_statuses s now tenantID [StatusPending, StatusProcessing, StatusCompleted, StatusFailed, StatusCancelled]"

definition JobService_RotateClientKey ::
    "'s JobService \<Rightarrow> (string \<Rightarrow> string) \<Rightarrow> go_error + string \<Rightarrow> time \<Rightarrow> string \<Rightarrow> 's world \<Rightarrow> (go_error + string) \<times> 's world" where
  \<comment> \<open>\<open>sha\<close> is the hex digest, \<open>rnd\<close> the hex text of the 32 random bytes or the error of the source\<close>
  "JobService_RotateClientKey s sha rnd now tenantID w =
     (case st_RevokeClient (svcStore s) now tenantID w of
        (Some e, w1) \<Rightarrow> (Inl e, w1)
      | (None, w1) \<Rightarrow>
          (case rnd of
             Inl e \<Rightarrow> (Inl e, w1)
           | Inr hex \<Rightarrow>
               (let rawKey = ''tq_live_'' @ hex in
                (case st_RegisterClient (svcStore s) now tenantID (sha rawKey) w1 of
                   (Some e, w2) \<Rightarrow> (Inl e, w2) | (None, w2) \<Rightarrow> (Inr rawKey, w2)))))"

fun purge_statuses :: "'s JobService \<Rightarrow> time \<Rightarrow> time \<Rightarrow> string list \<Rightarrow> int \<Rightarrow> 's world \<Rightarrow> (int \<times> go_error option) \<times> 's world" where
  "purge_statuses s now olderThan [] tot w = ((tot, None), w)"
| "purge_statuses s now olderThan (st # sts) tot w =
     (case st_DeleteJobsBefore (svcStore s) now '''' st '''' olderThan w of
        (Inl e, w1) \<Rightarrow> ((tot, Some e), w1)
      | (Inr n, w1) \<Rightarrow> purge_statuses s now olderThan sts (tot + n) w1)"

definition JobService_PurgeJobsBefore :: "'s JobService \<Rightarrow> time \<Rightarrow> time \<Rightarrow> 's world \<Rightarrow> (int \<times> go_error option) \<times> 's world" where
  "JobService_PurgeJobsBefore s now olderThan =
     purge_statuses s now olderThan [StatusCompleted, StatusFailed, StatusCancelled] 0"

definition JobService_BulkPurgeDLQ ::
    "'s JobService \<Rightarrow> time \<Rightarrow> string \<Rightarrow> string \<Rightarrow> time \<Rightarrow> 's world \<Rightarrow> (go_error + int) \<times> 's world" where
  "JobService_BulkPurgeDLQ s now tenantID jobType olderThan =
     st_DeleteJobsBefore (svcStore s) now tenantID StatusFailed jobType olderThan"

definition JobService_ArchiveOldJobs :: "'s JobService \<Rightarrow> time \<Rightarrow> duration \<Rightarrow> 's world \<Rightarrow> (go_error + int) \<times> 's world" where
  "JobService_ArchiveOldJobs s now maxAge w =
     (if maxAge \<le> 0 then (Inr 0, w) else st_ArchiveOldJobs (svcStore s) now (now - maxAge) w)"

definition JobService_PromoteReadyDAGJobs :: "'s JobService \<Rightarrow> string \<Rightarrow> time \<Rightarrow> 's world \<Rightarrow> (go_error + int) \<times> 's world" where
  "JobService_PromoteReadyDAGJobs s tr now w =
     (case st_GetReadyDAGJobs (svcStore s) now 100 w of
        (Inl e, w1) \<Rightarrow> (Inl e, w1)
      | (Inr js, w1) \<Rightarrow> (let (n, db) = enqueue_each s tr now js (wDb w1) in (Inr n, w1\<lparr>wDb := db\<rparr>)))"

section \<open>The remaining proxies\<close>

definition JobService_RegisterHeartbeat :: "'s JobService \<Rightarrow> time \<Rightarrow> string \<Rightarrow> 's world \<Rightarrow> go_error option \<times> 's world" where
  "JobService_RegisterHeartbeat s now workerID = on_db (RedisQueue_RegisterHeartbeat (svcQueue s) now workerID)"

definition JobService_GetActiveWorkers :: "'s JobService \<Rightarrow> time \<Rightarrow> 's world \<Rightarrow> (go_error + WorkerInfo list) \<times> 's world" where
  "JobService_GetActiveWorkers s now = on_db (RedisQueue_GetActiveWorkers (svcQueue s) now)"

definition JobService_GetMetrics :: "'s JobService \<Rightarrow> time \<Rightarrow> 's world \<Rightarrow> (go_error + QueueMetrics) \<times> 's world" where
  "JobService_GetMetrics s now = on_db (RedisQueue_GetMetrics (svcQueue s) now)"

definition JobService_PromoteScheduledJobs :: "'s JobService \<Rightarrow> time \<Rightarrow> 's world \<Rightarrow> (go_error + int) \<times> 's world" where
  "JobService_PromoteScheduledJobs s now = on_db (RedisQueue_PromoteScheduledJobs (svcQueue s) now)"

definition JobService_ReclaimTimedOutJobs :: "'s JobService \<Rightarrow> time \<Rightarrow> 's world \<Rightarrow> (go_error + int) \<times> 's world" where
  "JobService_ReclaimTimedOutJobs s now = on_db (RedisQueue_ReclaimTimedOutJobs (svcQueue s) now)"

definition JobService_ReconcileDeferredJobs :: "'s JobService \<Rightarrow> time \<Rightarrow> 's world \<Rightarrow> (go_error + int) \<times> 's world" where
  "JobService_ReconcileDeferredJobs s now = on_db (RedisQueue_ReconcileDeferredJobs (svcQueue s) now)"

definition JobService_UpdateTenantConfig :: "'s JobService \<Rightarrow> time \<Rightarrow> string \<Rightarrow> int \<Rightarrow> 's world \<Rightarrow> go_error option \<times> 's world" where
  "JobService_UpdateTenantConfig s now tenantID n = on_db (RedisQueue_UpdateTenantConfig (svcQueue s) now tenantID n)"

definition JobService_RevokeClient :: "'s JobService \<Rightarrow> time \<Rightarrow> string \<Rightarrow> 's world \<Rightarrow> go_error option \<times> 's world" where
  "JobService_RevokeClient s now tenantID = st_RevokeClient (svcStore s) now tenantID"

definition JobService_GetJobByIDs :: "'s JobService \<Rightarrow> time \<Rightarrow> string list \<Rightarrow> 's world \<Rightarrow> (go_error + Job list) \<times> 's world" where
  "JobService_GetJobByIDs s now ids = st_GetByIDs (svcStore s) now ids"

definition JobService_SearchJobs :: "'s JobService \<Rightarrow> time \<Rightarrow> JobFilter \<Rightarrow> 's world \<Rightarrow> (go_error + Job list) \<times> 's world" where
  "JobService_SearchJobs s now f = st_SearchJobs (svcStore s) now f"

definition JobService_CountJobs :: "'s JobService \<Rightarrow> time \<Rightarrow> JobFilter \<Rightarrow> 's world \<Rightarrow> (go_error + int) \<times> 's world" where
  "JobService_CountJobs s now f = st_CountJobs (svcStore s) now f"

definition JobService_RateLimitStatus :: "'s JobService \<Rightarrow> time \<Rightarrow> 's world \<Rightarrow> (go_error + TenantRateStatus list) \<times> 's world" where
  "JobService_RateLimitStatus s now = on_db (RedisQueue_RateLimitStatus (svcQueue s) now)"

definition JobService_PauseJobType :: "'s JobService \<Rightarrow> time \<Rightarrow> string \<Rightarrow> 's world \<Rightarrow> go_error option \<times> 's world" where
  "JobService_PauseJobType s now jobType = on_db (RedisQueue_PauseJobType (svcQueue s) now jobType)"

definition JobService_ResumeJobType :: "'s JobService \<Rightarrow> time \<Rightarrow> string \<Rightarrow> 's world \<Rightarrow> go_error option \<times> 's world" where
  "JobService_ResumeJobType s now jobType = on_db (RedisQueue_ResumeJobType (svcQueue s) now jobType)"

definition JobService_GetPausedJobTypes :: "'s JobService \<Rightarrow> time \<Rightarrow> 's world \<Rightarrow> (go_error + string list) \<times> 's world" where
  "JobService_GetPausedJobTypes s now = on_db (RedisQueue_GetPausedJobTypes (svcQueue s) now)"

definition JobService_QueueLengths :: "'s JobService \<Rightarrow> time \<Rightarrow> 's world \<Rightarrow> (go_error + queue_lengths) \<times> 's world" where
  "JobService_QueueLengths s now = st_GetQueueLengths (svcStore s) now"

definition JobService_ListQueueLengths :: "'s JobService \<Rightarrow> time \<Rightarrow> 's world \<Rightarrow> (go_error + queue_lengths) \<times> 's world" where
  "JobService_ListQueueLengths s now = st_GetQueueLengths (svcStore s) now"

definition JobService_PriorityPartitionDepths ::
    "'s JobService \<Rightarrow> time \<Rightarrow> 's world \<Rightarrow> (PriorityDepthReport \<times> go_error option) \<times> 's world" where
  "JobService_PriorityPartitionDepths s now = on_db (RedisQueue_PriorityPartitionDepths (svcQueue s) now)"

end
