(* ===== verification/Executor.thy ===== *)
theory Executor
  imports Breaker JobService
begin

text \<open>
  Plugins, their registry, the middleware chain and \<^verbatim>\<open>JobExecutor\<close>
  (\<^verbatim>\<open>internal/worker/plugin\<close>, \<^verbatim>\<open>internal/worker/middleware\<close>, \<^verbatim>\<open>internal/worker/executor/job_executor.go\<close>).
  A plugin is any value of \<open>JobPlugin\<close>: its body may use the service through the world and either
  returns or panics with a value, given here by its text. A plugin reads its job and does not
  change it. The state is the breaker and the world.
\<close>

section \<open>Plugins and registry\<close>

datatype outcome = Returned json "go_error option" | Panicked string

record 's JobPlugin =
  plType :: string
  plExecute :: "Job \<Rightarrow> 's world \<Rightarrow> outcome \<times> 's world"

type_synonym 's Registry = "(string \<times> 's JobPlugin) list"

definition NewRegistry :: "'s Registry" where "NewRegistry = []"

definition Registry_Register :: "'s JobPlugin \<Rightarrow> 's Registry \<Rightarrow> go_error option \<times> 's Registry" where
  "Registry_Register p reg =
     (if map_of reg (plType p) \<noteq> None
      then (Some (Errorf (''plugin registry: type '' @ quoted (plType p) @ '' already registered'')), reg)
      else (None, AList.update (plType p) p reg))"

definition Registry_Get :: "string \<Rightarrow> 's Registry \<Rightarrow> go_error + 's JobPlugin" where
  "Registry_Get jobType reg =
     (case map_of reg jobType of
        None \<Rightarrow> Inl (Errorf (''plugin registry: no plugin found for type '' @ quoted jobType))
      | Some p \<Rightarrow> Inr p)"

section \<open>Middleware\<close>

type_synonym 's xstate = "CircuitBreaker \<times> 's world"
type_synonym 's NextFunc = "Job \<Rightarrow> 's xstate \<Rightarrow> (json \<times> go_error option) \<times> 's xstate"
type_synonym 's Middleware = "Job \<Rightarrow> 's NextFunc \<Rightarrow> 's xstate \<Rightarrow> (json \<times> go_error option) \<times> 's xstate"

definition BuildChain :: "'s Middleware list \<Rightarrow> 's NextFunc \<Rightarrow> 's NextFunc" where
  \<comment> \<open>the loop runs from the last middleware to the first\<close>
  "BuildChain middlewares final = foldr (\<lambda>m nxt job. m job nxt) middlewares final"

definition LoggingMiddleware :: "'s Middleware" where
  "LoggingMiddleware job nxt st = nxt job st"

definition payload_of :: "Job \<Rightarrow> fields" where
  \<comment> \<open>reading a nil map finds nothing\<close>
  "payload_of job = (case jPayload job of None \<Rightarrow> [] | Some m \<Rightarrow> m)"

definition ValidatorMiddleware :: "string list \<Rightarrow> 's Middleware" where
  "ValidatorMiddleware requiredFields job nxt st =
     (case find (\<lambda>f. map_of (payload_of job) f = None) requiredFields of
        Some f \<Rightarrow> ((JNull, Some (Errorf (''middleware validation failed: missing required payload field '' @ quoted f))), st)
      | None \<Rightarrow> nxt job st)"

section \<open>JobExecutor\<close>

record 's JobExecutor =
  jeRegistry :: "'s Registry"
  jeJobTypes :: "redis option"
  jeMiddlewares :: "'s Middleware list"

definition NewJobExecutor :: "'s Registry \<Rightarrow> redis option \<Rightarrow> 's JobExecutor" where
  "NewJobExecutor global jobTypeStore = \<lparr>jeRegistry = global, jeJobTypes = jobTypeStore, jeMiddlewares = []\<rparr>"

definition executor_breaker :: CircuitBreaker where
  "executor_breaker = NewCircuitBreaker 5 (30 * Second)"

definition JobExecutor_Use :: "'s Middleware \<Rightarrow> 's JobExecutor \<Rightarrow> 's JobExecutor" where
  "JobExecutor_Use m je = je\<lparr>jeMiddlewares := jeMiddlewares je @ [m]\<rparr>"

definition JobExecutor_RegisterPlugin :: "'s JobPlugin \<Rightarrow> 's JobExecutor \<Rightarrow> 's JobExecutor" where
  "JobExecutor_RegisterPlugin p je = je\<lparr>jeRegistry := snd (Registry_Register p (jeRegistry je))\<rparr>"

definition JobExecutor_ResetCircuitBreaker :: "string \<Rightarrow> 's xstate \<Rightarrow> 's xstate" where
  "JobExecutor_ResetCircuitBreaker jobType st = (CircuitBreaker_Reset jobType (fst st), snd st)"

definition JobExecutor_CircuitBreakerStatus :: "'s xstate \<Rightarrow> (string \<times> string) list" where
  "JobExecutor_CircuitBreakerStatus st = CircuitBreaker_Status (fst st)"

definition ErrCircuitOpen :: go_error where "ErrCircuitOpen = Sentinel ''circuit breaker is open''"

definition resolve_plugin :: "'s JobExecutor \<Rightarrow> time \<Rightarrow> string \<Rightarrow> 's world \<Rightarrow> (go_error + 's JobPlugin) \<times> 's world" where
  \<comment> \<open>by the type itself, else by the handler the job type registry names\<close>
  "resolve_plugin je now jobType w =
     (case Registry_Get jobType (jeRegistry je) of
        Inr p \<Rightarrow> (Inr p, w)
      | Inl e \<Rightarrow>
          (case jeJobTypes je of
             None \<Rightarrow> (Inl e, w)
           | Some r \<Rightarrow>
               (let (handler, w') = on_db (HandlerFor r now jobType) w
                in if handler \<noteq> '''' then (Registry_Get handler (jeRegistry je), w') else (Inl e, w'))))"

definition final_handler :: "'s JobPlugin \<Rightarrow> time \<Rightarrow> 's NextFunc" where
  \<comment> \<open>runs the plugin and turns a panic into an error, recording a failure\<close>
  "final_handler p now job st =
     (case plExecute p job (snd st) of
        (Returned res err, w) \<Rightarrow> ((res, err), (fst st, w))
      | (Panicked v, w) \<Rightarrow>
          ((JNull, Some (Errorf (''plugin panicked during execution: '' @ v))),
           (CircuitBreaker_RecordFailure now (jType job) (fst st), w)))"

definition JobExecutor_Execute ::
    "'s JobExecutor \<Rightarrow> time \<Rightarrow> time \<Rightarrow> Job option \<Rightarrow> 's xstate \<Rightarrow> (json \<times> go_error option) \<times> 's xstate" where
  \<comment> \<open>\<open>now\<close> is the time of the call, \<open>fin\<close> the time when the chain returns\<close>
  "JobExecutor_Execute je now fin job st =
     (case job of
        None \<Rightarrow> ((JNull, Some (Errorf ''job_executor: cannot execute a nil job'')), st)
      | Some j \<Rightarrow>
          (let (allowed, cb1) = CircuitBreaker_IsAllowed now (jType j) (fst st) in
           if \<not> allowed then ((JNull, Some (Wrap '''' ErrCircuitOpen ('' for plugin '' @ quoted (jType j)))), (cb1, snd st))
           else (case resolve_plugin je now (jType j) (snd st) of
                   (Inl e, w1) \<Rightarrow>
                     ((JNull, Some (Wrap (''job_executor: no plugin for '' @ quoted (jType j) @ '': '') e '''')), (cb1, w1))
                 | (Inr p, w1) \<Rightarrow>
                     (let ((res, err), (cb2, w2)) = BuildChain (jeMiddlewares je) (final_handler p fin) j (cb1, w1)
                      in ((res, err),
                          (if err \<noteq> None then CircuitBreaker_RecordFailure fin (jType j) cb2
                           else CircuitBreaker_RecordSuccess (jType j) cb2, w2))))))"

section \<open>Lemmas\<close>

lemma BuildChain_simps [simp]:
  "BuildChain [] f = f" "BuildChain (m # ms) f = (\<lambda>job. m job (BuildChain ms f))"
  by (simp_all add: BuildChain_def)

lemma BuildChain_append: "BuildChain (ms @ ns) f = BuildChain ms (BuildChain ns f)"
  by (induction ms) simp_all

lemma BuildChain_logging: "set ms \<subseteq> {LoggingMiddleware} \<Longrightarrow> BuildChain ms f = f"
  by (induction ms) (auto simp: LoggingMiddleware_def fun_eq_iff)

lemma Registry_law:
  "fst (Registry_Register p reg) = None \<Longrightarrow> Registry_Get (plType p) (snd (Registry_Register p reg)) = Inr p"
  "t \<noteq> plType p \<Longrightarrow> Registry_Get t (snd (Registry_Register p reg)) = Registry_Get t reg"
  by (auto simp: Registry_Register_def Registry_Get_def update_conv' split: if_splits)

lemma Execute_effect:
  assumes reg: "map_of (jeRegistry je) (jType j) = Some p" and ms: "set (jeMiddlewares je) \<subseteq> {LoggingMiddleware}"
  shows "let ((res, err), (cb', w')) = JobExecutor_Execute je now fin (Some j) (cb, w);
             t = jType j; n = failures_of t cb
         in if \<not> fst (CircuitBreaker_IsAllowed now t cb)
            then w' = w \<and> cb' = cb \<and> (\<exists>e. err = Some e \<and> errors_Is e ErrCircuitOpen)
            else w' = snd (plExecute p j w) \<and>
                 (case fst (plExecute p j w) of
                    Returned x None \<Rightarrow> err = None \<and> res = x \<and> failures_of t cb' = 0
                  | Returned x (Some e) \<Rightarrow> err = Some e \<and> failures_of t cb' = n + 1
                  | Panicked v \<Rightarrow> err = Some (Errorf (''plugin panicked during execution: '' @ v)) \<and>
                                failures_of t cb' = n + 2)"
proof -
  obtain a cb1 where a: "CircuitBreaker_IsAllowed now (jType j) cb = (a, cb1)" by force
  obtain x w1 where x: "plExecute p j w = (x, w1)" by force
  have n: "failures_of (jType j) cb1 = failures_of (jType j) cb" "\<not> a \<Longrightarrow> cb1 = cb"
    using a IsAllowed_failures [of "jType j" now "jType j" cb] IsAllowed_refused [of now "jType j" cb] by auto
  have r: "resolve_plugin je now (jType j) w = (Inr p, w)" by (simp add: resolve_plugin_def Registry_Get_def reg)
  note step = JobExecutor_Execute_def a r BuildChain_logging [OF ms] final_handler_def x ErrCircuitOpen_def
  show ?thesis
  proof (cases x)
    case (Returned v e)
    then show ?thesis using n by (cases e) (auto simp: step)
  next
    case (Panicked v)
    then show ?thesis using n by (auto simp: step)
  qed
qed

section \<open>Properties\<close>

text \<open>
  C34. The executor isolates a plugin: while the circuit of the type is open the plugin does not run and
  the world is unchanged, with an error that is \<^verbatim>\<open>ErrCircuitOpen\<close>; a panic of the plugin becomes an error of the
  call; and after a call (with the logging middleware only) the failure count of the type is 0 after a
  success, one more after an error, and two more after a panic (it is recorded twice).
\<close>

theorem Execute_isolates:
  assumes reg: "map_of (jeRegistry je) (jType j) = Some p" and ms: "set (jeMiddlewares je) \<subseteq> {LoggingMiddleware}"
  shows "let ((res, err), (cb', w')) = JobExecutor_Execute je now fin (Some j) (cb, w);
             t = jType j; n = failures_of t cb
         in if \<not> fst (CircuitBreaker_IsAllowed now t cb)
            then w' = w \<and> cb' = cb \<and> (\<exists>e. err = Some e \<and> errors_Is e ErrCircuitOpen)
            else w' = snd (plExecute p j w) \<and>
                 (case fst (plExecute p j w) of
                    Returned x None \<Rightarrow> err = None \<and> res = x \<and> failures_of t cb' = 0
                  | Returned x (Some e) \<Rightarrow> err = Some e \<and> failures_of t cb' = n + 1
                  | Panicked v \<Rightarrow> err = Some (Errorf (''plugin panicked during execution: '' @ v)) \<and>
                                failures_of t cb' = n + 2)"
  using Execute_effect [OF reg ms] .

definition panic_plugin :: "unit JobPlugin" where
  "panic_plugin = \<lparr>plType = ''bad'', plExecute = (\<lambda>j w. (Panicked ''boom'', w))\<rparr>"

theorem Execute_isolates_witness:
  "failures_of ''bad'' (fst (snd (JobExecutor_Execute (NewJobExecutor [(''bad'', panic_plugin)] None) 1 2
     (Some (zero_job\<lparr>jType := ''bad''\<rparr>)) (executor_breaker, \<lparr>wStore = (), wDb = empty_rdb, wSse = NewBroker\<rparr>)))) = 2"
  using Execute_isolates [of "NewJobExecutor [(''bad'', panic_plugin)] None" "zero_job\<lparr>jType := ''bad''\<rparr>" panic_plugin
      1 2 executor_breaker "\<lparr>wStore = (), wDb = empty_rdb, wSse = NewBroker\<rparr>"]
  by (simp add: NewJobExecutor_def panic_plugin_def executor_breaker_def NewCircuitBreaker_def failures_of_def
      CircuitBreaker_IsAllowed_def case_prod_beta Let_def)

end
