(* ===== verification/Worker.thy ===== *)
theory Worker
  imports Executor
begin

text \<open>
  The worker process: \<^verbatim>\<open>WorkerProcessor\<close> (\<^verbatim>\<open>internal/worker/executor/worker_processor.go\<close>), the rate limiter, the
  pool and the shutdown coordinator of \<^verbatim>\<open>cmd/worker\<close>. One call of \<^verbatim>\<open>ProcessOnce\<close> is a function of an
  \<open>env\<close>: the time of the dequeue, the time when the plugin returns, the random source of the jitter,
  the answer of the limiter, whether shutdown interrupts a delay, and the trace id of the worker's
  context. Metrics, logs and the busy hooks are left out; the cancellation of contexts is
  in \<open>Process\<close>.
\<close>

section \<open>Rate limiter\<close>

record TokenBucketLimiter =
  tbSize :: int
  tbTokens :: int

definition NewTokenBucketLimiter :: "rat \<Rightarrow> TokenBucketLimiter option" where
  "NewTokenBucketLimiter rate =
     (if rate \<le> 0 then None
      else (let size0 = \<lfloor>rate\<rfloor>; size1 = (if size0 < 1 then 1 else size0)
            in Some \<lparr>tbSize = size1, tbTokens = size1\<rparr>))"

definition limiter_tick :: "TokenBucketLimiter \<Rightarrow> TokenBucketLimiter" where
  \<comment> \<open>one tick of the replenishment loop\<close>
  "limiter_tick l = (if tbTokens l < tbSize l then l\<lparr>tbTokens := tbTokens l + 1\<rparr> else l)"

definition limiter_Wait :: "go_error option \<Rightarrow> TokenBucketLimiter \<Rightarrow> go_error option option \<times> TokenBucketLimiter" where
  \<comment> \<open>\<open>ctxErr\<close> is the error of the context if it is done; the outer \<open>None\<close> is blocking\<close>
  "limiter_Wait ctxErr l =
     (case ctxErr of
        Some e \<Rightarrow> (Some (Some e), l)
      | None \<Rightarrow> (if 0 < tbTokens l then (Some None, l\<lparr>tbTokens := tbTokens l - 1\<rparr>) else (None, l)))"

section \<open>WorkerProcessor\<close>

record 's WorkerProcessor =
  wpName :: string
  wpService :: "'s JobService"
  wpExec :: "'s JobExecutor"
  wpHasLimiter :: bool
  wpSlaTarget :: duration

definition NewWorkerProcessor ::
    "string \<Rightarrow> 's JobService \<Rightarrow> 's JobExecutor \<Rightarrow> bool \<Rightarrow> duration \<Rightarrow> 's WorkerProcessor" where
  "NewWorkerProcessor name svc je hasLimiter slaTarget =
     \<lparr>wpName = name, wpService = svc, wpExec = je, wpHasLimiter = hasLimiter,
      wpSlaTarget = (if slaTarget \<le> 0 then 5 * Second else slaTarget)\<rparr>"

record env =
  eNow :: time
  eFin :: time
  eRnd :: "int \<Rightarrow> int"
  eWait :: "go_error option"
  eShutdown :: bool
  eTrace :: string

datatype processed = Finished "go_error option" | NilJob | OutOfFuel

definition isEmptyQueueErr :: "go_error option \<Rightarrow> bool" where
  "isEmptyQueueErr err =
     (case err of
        None \<Rightarrow> False
      | Some e \<Rightarrow> err_msg e = ''queue: dequeue timed out, no jobs available'' \<or> err_msg e = ''redis: nil'' \<or>
                  err_msg e = ''queue: BRPOP failed: redis: connection pool timeout'')"

definition requeue_after :: "'s JobService \<Rightarrow> bool \<Rightarrow> duration \<Rightarrow> time \<Rightarrow> string \<Rightarrow> Job \<Rightarrow> 's world \<Rightarrow> 's world" where
  \<comment> \<open>the common tail of \<open>retry\<close> and \<open>deferJob\<close>: wait unless shutting down, enqueue, acknowledge\<close>
  "requeue_after s shutdown delay t tr job w =
     (if shutdown then
        (let (e, j', w1) = JobService_Enqueue s tr t (Some job) w in snd (JobService_Ack s t (jID job) w1))
      else (let t' = t + max 0 delay in
        (case JobService_Enqueue s tr t' (Some job) w of
           (Some e, j', w1) \<Rightarrow> w1
         | (None, j', w1) \<Rightarrow> snd (JobService_Ack s t' (jID job) w1))))"

definition retry_job :: "'s JobService \<Rightarrow> env \<Rightarrow> string \<Rightarrow> Job \<Rightarrow> 's world \<Rightarrow> 's world" where
  "retry_job s en tr job w =
     (let job' = job\<lparr>jRetries := jRetries job + 1, jStatus := StatusPending, jUpdatedAt := eFin en\<rparr>
      in requeue_after s (eShutdown en) (BackoffDelay (eRnd en) (Some job')) (eFin en) tr job' w)"

definition deferJob :: "'s JobService \<Rightarrow> env \<Rightarrow> time \<Rightarrow> string \<Rightarrow> Job \<Rightarrow> 's world \<Rightarrow> 's world" where
  "deferJob s en t tr job w =
     requeue_after s (eShutdown en) (5 * Second) t tr (job\<lparr>jStatus := StatusPending, jUpdatedAt := t\<rparr>) w"

definition permanentlyFail :: "'s JobService \<Rightarrow> time \<Rightarrow> Job \<Rightarrow> go_error \<Rightarrow> 's world \<Rightarrow> 's world" where
  "permanentlyFail s t job reason w = snd (JobService_Fail s t (jID job) (Some reason) w)"

definition handle_success :: "'s WorkerProcessor \<Rightarrow> env \<Rightarrow> string \<Rightarrow> Job \<Rightarrow> json \<Rightarrow> 's world \<Rightarrow> 's world" where
  "handle_success wp en tr job result w =
     (let s = wpService wp; t = eFin en; i = jID job;
          w1 = snd (JobService_MarkProcessed s t i w);
          w2 = snd (JobService_UpdateJobProgress s t i 100 w1);
          w3 = snd (JobService_UpdateJobResult s tr t i StatusCompleted (wpName wp) result w2)
      in snd (JobService_Ack s t i w3))"

definition handle_failure :: "'s WorkerProcessor \<Rightarrow> env \<Rightarrow> string \<Rightarrow> Job \<Rightarrow> go_error \<Rightarrow> 's world \<Rightarrow> 's world" where
  "handle_failure wp en tr job execErr w =
     (let s = wpService wp; t = eFin en; i = jID job in
      if errors_Is execErr ErrCircuitOpen then
        deferJob s en t tr job (snd (JobService_UpdateJobStatus s t i StatusPending (wpName wp) w))
      else if jRetries job < jMaxRetries job then
        retry_job s en tr job (snd (JobService_UpdateJobStatus s t i StatusPending (wpName wp) w))
      else permanentlyFail s t job execErr
             (snd (JobService_UpdateJobResult s tr t i StatusFailed (wpName wp) (JStr (err_msg execErr)) w)))"

definition finished_status :: "string \<Rightarrow> bool" where
  "finished_status st \<longleftrightarrow> st = StatusCompleted \<or> st = StatusFailed \<or> st = StatusCancelled"

definition execute_job :: "'s WorkerProcessor \<Rightarrow> env \<Rightarrow> string \<Rightarrow> Job \<Rightarrow> 's xstate \<Rightarrow> processed \<times> 's xstate" where
  \<comment> \<open>from the transition to processing on\<close>
  "execute_job wp en tr job st =
     (let s = wpService wp;
          w1 = snd (JobService_UpdateJobStatus s (eNow en) (jID job) StatusProcessing (wpName wp) (snd st))
      in if wpHasLimiter wp \<and> eWait en \<noteq> None then (Finished (eWait en), (fst st, w1))
         else (case JobExecutor_Execute (wpExec wp) (eNow en) (eFin en) (Some job) (fst st, w1) of
                 ((result, None), (cb, w2)) \<Rightarrow> (Finished None, (cb, handle_success wp en tr job result w2))
               | ((result, Some e), (cb, w2)) \<Rightarrow> (Finished None, (cb, handle_failure wp en tr job e w2))))"

definition process_job :: "'s WorkerProcessor \<Rightarrow> env \<Rightarrow> Job \<Rightarrow> 's xstate \<Rightarrow> processed \<times> 's xstate" where
  \<comment> \<open>what \<open>ProcessOnce\<close> does with the job it got\<close>
  "process_job wp en job0 st =
     (let s = wpService wp; now = eNow en; job = job0\<lparr>jProcessedBy := wpName wp\<rparr>; i = jID job;
          tr = (if jTraceID job \<noteq> '''' then jTraceID job else eTrace en);
          ((isDone, e1), w1) = JobService_IsProcessed s now i (snd st)
      in if isDone then (Finished None, (fst st, snd (JobService_Ack s now i w1)))
         else (let (paused, w2) = JobService_IsJobTypePaused s now (jType job) w1 in
           if paused = Inr True then (Finished None, (fst st, deferJob s en now '''' job w2))
           else if \<not> IsZero (jExpiresAt job) \<and> jExpiresAt job < now then
             (Finished None, (fst st, snd (JobService_Ack s now i
                (snd (JobService_Fail s now i (Some (Errorf ''job expired (TTL exceeded)'')) w2)))))
           else (let (stored, w3) = JobService_GetJobStatus s now i w2 in
             if (case stored of Inr sj \<Rightarrow> finished_status (jStatus sj) | Inl e \<Rightarrow> False)
             then (Finished None, (fst st, snd (JobService_Ack s now i w3)))
             else execute_job wp en tr job (fst st, w3))))"

definition ProcessOnce ::
    "nat \<Rightarrow> nat \<Rightarrow> 's WorkerProcessor \<Rightarrow> env \<Rightarrow> 's xstate \<Rightarrow> processed \<times> 's xstate" where
  \<comment> \<open>\<open>NilJob\<close>: the dereference of the nil job that \<open>Dequeue\<close> returns without an error\<close>
  "ProcessOnce fuel rnd wp en st =
     (case JobService_Dequeue fuel (wpService wp) rnd (eNow en) (snd st) of
        (None, w1) \<Rightarrow> (OutOfFuel, (fst st, w1))
      | (Some (Inl e), w1) \<Rightarrow> (Finished (Some e), (fst st, w1))
      | (Some (Inr None), w1) \<Rightarrow> (NilJob, (fst st, w1))
      | (Some (Inr (Some job)), w1) \<Rightarrow> process_job wp en job (fst st, w1))"

datatype run_action = RunStop | RunContinue | RunBackoff duration

definition run_action_of :: "bool \<Rightarrow> go_error option \<Rightarrow> run_action" where
  \<comment> \<open>what \<open>Run\<close> does after \<open>ProcessOnce\<close> returned \<open>err\<close>; \<open>done\<close> says the context is cancelled\<close>
  "run_action_of ctxDone err =
     (case err of
        None \<Rightarrow> (if ctxDone then RunStop else RunContinue)
      | Some e \<Rightarrow>
          (if ctxDone then RunStop
           else if errors_Is e DeadlineExceeded \<or> isEmptyQueueErr err then RunContinue
           else RunBackoff (2 * Second)))"

section \<open>Pool\<close>

record Pool =
  poNumWorkers :: int
  poInstanceID :: string
  poActive :: "string list"
  poCancelled :: "string list"
  poShuttingDown :: bool

definition Pool_New :: "int \<Rightarrow> string \<Rightarrow> go_error + Pool" where
  "Pool_New numWorkers instanceID =
     (if numWorkers < 1 then Inl (Errorf (''pool: NumWorkers must be at least 1, got '' @ itoa numWorkers))
      else Inr \<lparr>poNumWorkers = numWorkers, poInstanceID = instanceID, poActive = [], poCancelled = [],
                poShuttingDown = False\<rparr>)"

definition worker_name :: "Pool \<Rightarrow> int \<Rightarrow> string" where
  "worker_name p i = poInstanceID p @ '':worker-'' @ itoa (i + 1)"

definition worker_names :: "Pool \<Rightarrow> string list" where
  "worker_names p = map (worker_name p) [0..poNumWorkers p - 1]"

definition InitiateDrain :: "Pool \<Rightarrow> bool \<times> Pool" where
  "InitiateDrain p = (if poShuttingDown p then (False, p) else (True, p\<lparr>poShuttingDown := True\<rparr>))"

definition RegisterActiveJob :: "string \<Rightarrow> Pool \<Rightarrow> Pool" where
  "RegisterActiveJob i p = p\<lparr>poActive := List.insert i (poActive p)\<rparr>"

definition UnregisterActiveJob :: "string \<Rightarrow> Pool \<Rightarrow> Pool" where
  "UnregisterActiveJob i p = p\<lparr>poActive := removeAll i (poActive p)\<rparr>"

definition handle_cancellation :: "string \<Rightarrow> Pool \<Rightarrow> Pool" where
  \<comment> \<open>a message on the cancellation channel; \<open>poCancelled\<close> collects the cancel functions called\<close>
  "handle_cancellation i p =
     (if i \<in> set (poActive p) then p\<lparr>poCancelled := i # poCancelled p, poActive := removeAll i (poActive p)\<rparr> else p)"

section \<open>Shutdown\<close>

record shutdownCoordinator =
  scStarted :: bool
  scPool :: Pool

definition coordinator_Initiate :: "shutdownCoordinator \<Rightarrow> bool \<times> shutdownCoordinator" where
  "coordinator_Initiate c =
     (if scStarted c then (False, c) else (True, c\<lparr>scStarted := True, scPool := snd (InitiateDrain (scPool c))\<rparr>))"

definition coordinator_Handler :: "string \<Rightarrow> shutdownCoordinator \<Rightarrow> int \<times> shutdownCoordinator" where
  \<comment> \<open>the HTTP status\<close>
  "coordinator_Handler meth c =
     (if meth \<noteq> ''POST'' \<and> meth \<noteq> ''GET'' then (405, c)
      else (let (started, c') = coordinator_Initiate c in (if started then 202 else 200, c')))"

end
