(* ===== verification/MemStore.thy ===== *)
theory MemStore
  imports Store
begin

text \<open>
  \<^verbatim>\<open>InMemoryStore\<close> of \<^verbatim>\<open>internal/storage/models/models.go\<close>. The two Go maps are association lists
  with distinct keys; a range over a map follows the list, and since the lists are arbitrary the
  theorems cover every iteration order. Each method holds the mutex for its whole body, so it is one
  step. The pointers that \<^verbatim>\<open>SaveBatch\<close> stores and \<^verbatim>\<open>GetByIDs\<close> hands out are aliased in Go; here they
  are copies.
\<close>

record InMemoryStore =
  msData :: "(string \<times> Job) list"
  msClients :: "(string \<times> string) list"

definition NewInMemoryStore :: InMemoryStore where
  "NewInMemoryStore = \<lparr>msData = [], msClients = []\<rparr>"

section \<open>Operations\<close>

definition InMemoryStore_SaveBatch :: "Job list \<Rightarrow> InMemoryStore \<Rightarrow> go_error option \<times> InMemoryStore" where
  "InMemoryStore_SaveBatch batch s =
     (None, s\<lparr>msData := fold (\<lambda>j d. AList.update (jID j) j d) batch (msData s)\<rparr>)"

definition InMemoryStore_Save :: "Job option \<Rightarrow> InMemoryStore \<Rightarrow> go_error option \<times> InMemoryStore" where
  "InMemoryStore_Save job s =
     (case job of
        None \<Rightarrow> (Some (Errorf ''store: cannot save nil job''), s)
      | Some j \<Rightarrow> (None, s\<lparr>msData := AList.update (jID j) j (msData s)\<rparr>))"

definition InMemoryStore_GetByID :: "string \<Rightarrow> InMemoryStore \<Rightarrow> (go_error + Job) \<times> InMemoryStore" where
  "InMemoryStore_GetByID i s =
     ((case map_of (msData s) i of None \<Rightarrow> Inl (not_found i) | Some j \<Rightarrow> Inr j), s)"

definition mem_update :: "(Job \<Rightarrow> Job) \<Rightarrow> string \<Rightarrow> InMemoryStore \<Rightarrow> go_error option \<times> InMemoryStore" where
  \<comment> \<open>the lookup-and-mutate body the three update methods share\<close>
  "mem_update f i s =
     (case map_of (msData s) i of
        None \<Rightarrow> (Some (not_found i), s)
      | Some j \<Rightarrow> (None, s\<lparr>msData := AList.update i (f j) (msData s)\<rparr>))"

definition InMemoryStore_UpdateStatus :: "string \<Rightarrow> string \<Rightarrow> string \<Rightarrow> InMemoryStore \<Rightarrow> go_error option \<times> InMemoryStore" where
  "InMemoryStore_UpdateStatus i status workerID =
     mem_update (\<lambda>j. j\<lparr>jStatus := status, jProcessedBy := workerID\<rparr>) i"

definition InMemoryStore_UpdateProgress :: "time \<Rightarrow> string \<Rightarrow> rat \<Rightarrow> InMemoryStore \<Rightarrow> go_error option \<times> InMemoryStore" where
  "InMemoryStore_UpdateProgress now i progress =
     mem_update (\<lambda>j. j\<lparr>jProgress := progress, jUpdatedAt := now\<rparr>) i"

definition InMemoryStore_UpdateResult ::
    "time \<Rightarrow> string \<Rightarrow> string \<Rightarrow> string \<Rightarrow> json \<Rightarrow> InMemoryStore \<Rightarrow> go_error option \<times> InMemoryStore" where
  "InMemoryStore_UpdateResult now i status workerID result =
     mem_update (\<lambda>j. j\<lparr>jStatus := status, jProcessedBy := workerID, jResult := result, jUpdatedAt := now\<rparr>) i"

definition InMemoryStore_GetByWorkerAndStatus ::
    "string \<Rightarrow> string \<Rightarrow> InMemoryStore \<Rightarrow> (go_error + Job list) \<times> InMemoryStore" where
  "InMemoryStore_GetByWorkerAndStatus workerID status s =
     (Inr (filter (\<lambda>j. jProcessedBy j = workerID \<and> jStatus j = status) (map snd (msData s))), s)"

definition InMemoryStore_Enqueue :: "Job option \<Rightarrow> InMemoryStore \<Rightarrow> go_error option \<times> InMemoryStore" where
  "InMemoryStore_Enqueue job = InMemoryStore_Save job"

definition InMemoryStore_Dequeue :: "string \<Rightarrow> string \<Rightarrow> InMemoryStore \<Rightarrow> (go_error + Job option) \<times> InMemoryStore" where
  "InMemoryStore_Dequeue tenantID shardKey s =
     (Inl (Errorf ''InMemoryStore.Dequeue is not implemented; use RedisQueue which owns the dequeue/priority LUA script logic''), s)"

definition InMemoryStore_Heartbeat :: "string \<Rightarrow> InMemoryStore \<Rightarrow> go_error option \<times> InMemoryStore" where
  "InMemoryStore_Heartbeat i s = (None, s)"

definition InMemoryStore_Complete :: "time \<Rightarrow> string \<Rightarrow> json \<Rightarrow> InMemoryStore \<Rightarrow> go_error option \<times> InMemoryStore" where
  "InMemoryStore_Complete now i result = InMemoryStore_UpdateResult now i StatusCompleted '''' result"

definition InMemoryStore_Fail :: "time \<Rightarrow> string \<Rightarrow> go_error \<Rightarrow> bool \<Rightarrow> InMemoryStore \<Rightarrow> go_error option \<times> InMemoryStore" where
  "InMemoryStore_Fail now i e requeue =
     InMemoryStore_UpdateResult now i (if requeue then StatusPending else StatusFailed) '''' (JStr (err_msg e))"

definition InMemoryStore_ListJobs ::
    "string \<Rightarrow> string \<Rightarrow> string \<Rightarrow> int \<Rightarrow> int \<Rightarrow> InMemoryStore \<Rightarrow> (go_error + Job list) \<times> InMemoryStore" where
  "InMemoryStore_ListJobs tenantID status typeStr limit offset s =
     (let results = newest_first (filter (matches3 tenantID status typeStr) (map snd (msData s)));
          offset' = (if offset < 0 then 0 else offset);
          limit' = (if limit \<le> 0 then int (length results) else limit)
      in (Inr (page offset' limit' results), s))"

definition mem_matches :: "JobFilter \<Rightarrow> Job \<Rightarrow> bool" where
  \<comment> \<open>the chain of \<open>continue\<close> tests of \<open>SearchJobs\<close> and \<open>CountJobs\<close>\<close>
  "mem_matches f j \<longleftrightarrow>
     (if fTenantID f \<noteq> '''' \<and> jTenantID j \<noteq> fTenantID f then False
      else if fStatus f \<noteq> '''' \<and> jStatus j \<noteq> fStatus f then False
      else if fType f \<noteq> '''' \<and> jType j \<noteq> fType f then False
      else if fLabelKey f \<noteq> '''' \<and>
              (case map_of (jLabels j) (fLabelKey f) of
                 None \<Rightarrow> True | Some v \<Rightarrow> fLabelValue f \<noteq> '''' \<and> v \<noteq> fLabelValue f) then False
      else if \<not> IsZero (fCreatedAfter f) \<and> jCreatedAt j < fCreatedAfter f then False
      else if \<not> IsZero (fCreatedBefore f) \<and> fCreatedBefore f < jCreatedAt j then False
      else True)"

definition InMemoryStore_SearchJobs :: "JobFilter \<Rightarrow> InMemoryStore \<Rightarrow> (go_error + Job list) \<times> InMemoryStore" where
  "InMemoryStore_SearchJobs f s =
     (let results = newest_first (filter (mem_matches f) (map snd (msData s)));
          limit = (if fLimit f \<le> 0 then 20 else fLimit f);
          offset = (if fOffset f < 0 then 0 else fOffset f)
      in (Inr (page offset limit results), s))"

definition InMemoryStore_CountJobs :: "JobFilter \<Rightarrow> InMemoryStore \<Rightarrow> (go_error + int) \<times> InMemoryStore" where
  "InMemoryStore_CountJobs f s = (Inr (int (length (filter (mem_matches f) (map snd (msData s))))), s)"

definition orphaned :: "time \<Rightarrow> Job \<Rightarrow> bool" where
  "orphaned cutoff j \<longleftrightarrow> jStatus j = StatusProcessing \<and> jUpdatedAt j < cutoff"

definition InMemoryStore_RecoverOrphans :: "time \<Rightarrow> duration \<Rightarrow> InMemoryStore \<Rightarrow> (go_error + int) \<times> InMemoryStore" where
  "InMemoryStore_RecoverOrphans now timeout s =
     (let cutoff = now - timeout in
      (Inr (int (length (filter (orphaned cutoff) (map snd (msData s))))),
       s\<lparr>msData := map (\<lambda>(i, j). (i, if orphaned cutoff j then j\<lparr>jStatus := StatusPending, jProcessedBy := ''''\<rparr> else j)) (msData s)\<rparr>))"

definition InMemoryStore_DeleteJob :: "string \<Rightarrow> InMemoryStore \<Rightarrow> go_error option \<times> InMemoryStore" where
  "InMemoryStore_DeleteJob i s = (None, s\<lparr>msData := AList.delete i (msData s)\<rparr>)"

definition mem_purge :: "(Job \<Rightarrow> bool) \<Rightarrow> InMemoryStore \<Rightarrow> (go_error + int) \<times> InMemoryStore" where
  \<comment> \<open>\<open>for id, j := range s.data { if P { delete(s.data, id); count++ } }\<close>\<close>
  "mem_purge P s = (Inr (int (length (filter P (map snd (msData s))))), s\<lparr>msData := filter (\<lambda>(i, j). \<not> P j) (msData s)\<rparr>)"

definition InMemoryStore_DeleteJobsBefore ::
    "string \<Rightarrow> string \<Rightarrow> string \<Rightarrow> time \<Rightarrow> InMemoryStore \<Rightarrow> (go_error + int) \<times> InMemoryStore" where
  "InMemoryStore_DeleteJobsBefore tenantID status jobType before =
     mem_purge (\<lambda>j. matches3 tenantID status jobType j \<and> jCreatedAt j < before)"

definition InMemoryStore_ArchiveOldJobs :: "time \<Rightarrow> InMemoryStore \<Rightarrow> (go_error + int) \<times> InMemoryStore" where
  "InMemoryStore_ArchiveOldJobs cutoff = mem_purge (\<lambda>j. finalized (jStatus j) \<and> jUpdatedAt j < cutoff)"

definition InMemoryStore_IsDedupKeyTaken :: "string \<Rightarrow> string \<Rightarrow> InMemoryStore \<Rightarrow> (go_error + bool) \<times> InMemoryStore" where
  "InMemoryStore_IsDedupKeyTaken dedupKey tenantID s =
     (if dedupKey = '''' then (Inr False, s)
      else (Inr (list_ex (\<lambda>j. jDedupKey j = dedupKey \<and> jTenantID j = tenantID) (map snd (msData s))), s))"

definition InMemoryStore_GetReadyDAGJobs :: "int \<Rightarrow> InMemoryStore \<Rightarrow> (go_error + Job list) \<times> InMemoryStore" where
  "InMemoryStore_GetReadyDAGJobs limit s = (Inr [], s)"

definition InMemoryStore_GetDependentJobs :: "string \<Rightarrow> InMemoryStore \<Rightarrow> (go_error + Job list) \<times> InMemoryStore" where
  "InMemoryStore_GetDependentJobs parentID s = (Inr [], s)"

definition InMemoryStore_GetByIDs :: "string list \<Rightarrow> InMemoryStore \<Rightarrow> (go_error + Job list) \<times> InMemoryStore" where
  "InMemoryStore_GetByIDs is s = (Inr (List.map_filter (map_of (msData s)) is), s)"

definition InMemoryStore_GetQueueLengths :: "InMemoryStore \<Rightarrow> (go_error + queue_lengths) \<times> InMemoryStore" where
  "InMemoryStore_GetQueueLengths s = (Inr (queue_lengths_of (map snd (msData s))), s)"

definition InMemoryStore_RegisterClient :: "string \<Rightarrow> string \<Rightarrow> InMemoryStore \<Rightarrow> go_error option \<times> InMemoryStore" where
  "InMemoryStore_RegisterClient tenantID apiKeyHash s =
     (None, s\<lparr>msClients := AList.update apiKeyHash tenantID (msClients s)\<rparr>)"

definition InMemoryStore_VerifyClient :: "string \<Rightarrow> InMemoryStore \<Rightarrow> (go_error + string) \<times> InMemoryStore" where
  "InMemoryStore_VerifyClient apiKeyHash s =
     ((case map_of (msClients s) apiKeyHash of None \<Rightarrow> Inl ErrClientNotFound | Some t \<Rightarrow> Inr t), s)"

definition InMemoryStore_ListClients :: "time \<Rightarrow> InMemoryStore \<Rightarrow> (go_error + ClientRecord list) \<times> InMemoryStore" where
  "InMemoryStore_ListClients now s =
     (Inr (map (\<lambda>t. \<lparr>crTenantID = t, crCreatedAt = now\<rparr>) (distinct_tenants [] (map snd (msClients s)))), s)"

definition InMemoryStore_RevokeClient :: "string \<Rightarrow> InMemoryStore \<Rightarrow> go_error option \<times> InMemoryStore" where
  "InMemoryStore_RevokeClient tenantID s =
     (None, s\<lparr>msClients := filter (\<lambda>(h, t). t \<noteq> tenantID) (msClients s)\<rparr>)"

definition mem_store :: "InMemoryStore Store" where
  \<comment> \<open>the interface value\<close>
  "mem_store = \<lparr>st_Save = (\<lambda>now j. InMemoryStore_Save (Some j)), st_SaveBatch = (\<lambda>now. InMemoryStore_SaveBatch),
     st_GetByID = (\<lambda>now. InMemoryStore_GetByID), st_UpdateStatus = (\<lambda>now. InMemoryStore_UpdateStatus),
     st_UpdateProgress = InMemoryStore_UpdateProgress, st_UpdateResult = InMemoryStore_UpdateResult,
     st_GetByWorkerAndStatus = (\<lambda>now. InMemoryStore_GetByWorkerAndStatus),
     st_Enqueue = (\<lambda>now j. InMemoryStore_Enqueue (Some j)), st_Dequeue = (\<lambda>now. InMemoryStore_Dequeue),
     st_Heartbeat = (\<lambda>now. InMemoryStore_Heartbeat), st_Complete = InMemoryStore_Complete,
     st_Fail = InMemoryStore_Fail, st_ListJobs = (\<lambda>now. InMemoryStore_ListJobs),
     st_SearchJobs = (\<lambda>now. InMemoryStore_SearchJobs), st_CountJobs = (\<lambda>now. InMemoryStore_CountJobs),
     st_RecoverOrphans = InMemoryStore_RecoverOrphans, st_ArchiveOldJobs = (\<lambda>now. InMemoryStore_ArchiveOldJobs),
     st_DeleteJob = (\<lambda>now. InMemoryStore_DeleteJob), st_DeleteJobsBefore = (\<lambda>now. InMemoryStore_DeleteJobsBefore),
     st_IsDedupKeyTaken = (\<lambda>now. InMemoryStore_IsDedupKeyTaken), st_GetByIDs = (\<lambda>now. InMemoryStore_GetByIDs),
     st_GetReadyDAGJobs = (\<lambda>now. InMemoryStore_GetReadyDAGJobs),
     st_GetDependentJobs = (\<lambda>now. InMemoryStore_GetDependentJobs),
     st_GetQueueLengths = (\<lambda>now. InMemoryStore_GetQueueLengths),
     st_RegisterClient = (\<lambda>now. InMemoryStore_RegisterClient), st_VerifyClient = (\<lambda>now. InMemoryStore_VerifyClient),
     st_ListClients = InMemoryStore_ListClients, st_RevokeClient = (\<lambda>now. InMemoryStore_RevokeClient)\<rparr>"

section \<open>Invariant and contract\<close>

definition mem_ok :: "InMemoryStore \<Rightarrow> bool" where
  "mem_ok s \<longleftrightarrow> distinct (map fst (msData s)) \<and> distinct (map fst (msClients s)) \<and>
     list_all (\<lambda>(i, j). jID j = i) (msData s)"

definition mem_lookup :: "InMemoryStore \<Rightarrow> string \<Rightarrow> Job option" where
  "mem_lookup s = map_of (msData s)"

lemma list_all_update:
  "list_all (\<lambda>(i, j). P i j) d \<Longrightarrow> P i j \<Longrightarrow> list_all (\<lambda>(i, j). P i j) (AList.update i j d)"
  by (induction d) auto

lemma list_all_delete: "list_all P d \<Longrightarrow> list_all P (AList.delete i d)"
  by (auto simp: list_all_iff AList.delete_eq)

lemma mem_ok_data: "mem_ok s \<Longrightarrow> map_of (msData s) i = Some j \<Longrightarrow> jID j = i"
  by (auto simp: mem_ok_def list_all_iff dest: map_of_SomeD)

lemma mem_ok_update: "mem_ok s \<Longrightarrow> jID j = i \<Longrightarrow> mem_ok (s\<lparr>msData := AList.update i j (msData s)\<rparr>)"
  by (simp add: mem_ok_def distinct_update list_all_update)

lemma mem_ok_filter: "mem_ok s \<Longrightarrow> mem_ok (s\<lparr>msData := filter P (msData s)\<rparr>)"
  by (auto simp: mem_ok_def list_all_iff)

lemma mem_update_some:
  assumes "mem_ok s" and "map_of (msData s) i = Some j" and "\<And>j. jID (f j) = jID j"
  shows "\<exists>s'. mem_update f i s = (None, s') \<and> mem_ok s' \<and> mem_lookup s' = (mem_lookup s)(i \<mapsto> f j)"
  using assms mem_ok_data [OF assms(1,2)] by (simp add: mem_update_def mem_ok_update mem_lookup_def update_conv')

lemmas mem_ops = mem_store_def InMemoryStore_Save_def InMemoryStore_GetByID_def InMemoryStore_UpdateStatus_def
  InMemoryStore_UpdateResult_def InMemoryStore_UpdateProgress_def InMemoryStore_DeleteJob_def
  InMemoryStore_GetByIDs_def

lemma mem_status_law:
  assumes "mem_ok w" and "mem_lookup w i = Some j"
  shows "\<exists>w' u. st_UpdateStatus mem_store now i s p w = (None, w') \<and> mem_ok w' \<and>
           mem_lookup w' = (mem_lookup w)(i \<mapsto> j\<lparr>jStatus := s, jProcessedBy := p, jUpdatedAt := u\<rparr>)"
proof -
  have "j\<lparr>jStatus := s, jProcessedBy := p, jUpdatedAt := jUpdatedAt j\<rparr> = j\<lparr>jStatus := s, jProcessedBy := p\<rparr>"
    by simp
  moreover obtain w' where "mem_update (\<lambda>j. j\<lparr>jStatus := s, jProcessedBy := p\<rparr>) i w = (None, w')" "mem_ok w'"
    "mem_lookup w' = (mem_lookup w)(i \<mapsto> j\<lparr>jStatus := s, jProcessedBy := p\<rparr>)"
    using mem_update_some [of w i j "\<lambda>j. j\<lparr>jStatus := s, jProcessedBy := p\<rparr>"] assms
    by (auto simp: mem_lookup_def)
  ultimately show ?thesis
    by (intro exI [of _ w'] exI [of _ "jUpdatedAt j"]) (simp add: mem_ops)
qed

lemma mem_delete_law:
  assumes "mem_ok w"
  shows "\<exists>w'. st_DeleteJob mem_store now i w = (None, w') \<and> mem_ok w' \<and> mem_lookup w' = (mem_lookup w)(i := None)"
  using assms
  by (auto simp: mem_ops mem_lookup_def mem_ok_def distinct_delete list_all_delete delete_conv' fun_eq_iff)

interpretation mem: job_store mem_store mem_ok mem_lookup
proof (unfold_locales, goal_cases)
  case (1 w now j)
  then show ?case by (simp add: mem_ops mem_ok_update mem_lookup_def update_conv')
next
  case (5 w i j now s p)
  then show ?case by (rule mem_status_law)
next
  case (7 w i j now s p res)
  then show ?case
    using mem_update_some [of w i j "\<lambda>j. j\<lparr>jStatus := s, jProcessedBy := p, jResult := res, jUpdatedAt := now\<rparr>"]
    by (simp add: mem_ops mem_lookup_def)
next
  case (9 w i j now x)
  then show ?case
    using mem_update_some [of w i j "\<lambda>j. j\<lparr>jProgress := x, jUpdatedAt := now\<rparr>"]
    by (simp add: mem_ops mem_lookup_def)
next
  case (11 w now i)
  then show ?case by (rule mem_delete_law)
qed (simp_all add: mem_ops mem_lookup_def mem_ok_data mem_update_def)

end
