(* ===== verification/RedisStore.thy ===== *)
theory RedisStore
  imports Store RedisQueue
begin

text \<open>
  \<^verbatim>\<open>RedisStore\<close> of \<^verbatim>\<open>internal/storage/models/models.go\<close>: job records as JSON documents in one Redis
  hash. The struct only holds the client, so its methods take the service \<open>r\<close>. An \<^verbatim>\<open>HSCAN\<close> or
  \<^verbatim>\<open>SCAN\<close> loop runs over the pages the service delivers.
\<close>

definition jobStoreKey :: string where "jobStoreKey = ''task_queue:store:jobs''"

section \<open>Operations\<close>

fun exec_each :: "redis \<Rightarrow> time \<Rightarrow> rcmd list \<Rightarrow> rdb \<Rightarrow> go_error option \<times> rdb" where
  \<comment> \<open>a pipeline without \<open>MULTI\<close>: every command is sent; the first error is reported\<close>
  "exec_each r now [] db = (None, db)"
| "exec_each r now (c # cs) db =
     (let (e1, db1) = rcall_err r now c db; (e2, db2) = exec_each r now cs db1
      in (case e1 of None \<Rightarrow> e2 | Some e \<Rightarrow> Some e, db2))"

definition RedisStore_SaveBatch :: "redis \<Rightarrow> time \<Rightarrow> Job list \<Rightarrow> rdb \<Rightarrow> go_error option \<times> rdb" where
  "RedisStore_SaveBatch r now batch db =
     (if batch = [] then (None, db)
      else exec_each r now (map (\<lambda>j. SET (''job:'' @ jID j) (Doc (job_json j)) None) batch) db)"

definition RedisStore_Save :: "redis \<Rightarrow> time \<Rightarrow> Job \<Rightarrow> rdb \<Rightarrow> go_error option \<times> rdb" where
  "RedisStore_Save r now job db = rcall_err r now (HSET jobStoreKey (jID job) (Doc (job_json job))) db"

definition RedisStore_GetByID :: "redis \<Rightarrow> time \<Rightarrow> string \<Rightarrow> rdb \<Rightarrow> (go_error + Job) \<times> rdb" where
  "RedisStore_GetByID r now i db =
     (case rcall r now (HGET jobStoreKey i) db of
        (Inl e, db') \<Rightarrow>
          (Inl (if errors_Is e RedisNil then not_found i else Wrap ''redis_store: HGET failed: '' e ''''), db')
      | (Inr x, db') \<Rightarrow>
          ((case unmarshal_job (reply_blob x) of
              None \<Rightarrow> Inl (Wrap ''redis_store: failed to unmarshal job: '' json_error '''')
            | Some j \<Rightarrow> Inr j), db'))"

definition redis_update :: "redis \<Rightarrow> time \<Rightarrow> (Job \<Rightarrow> Job) \<Rightarrow> string \<Rightarrow> rdb \<Rightarrow> go_error option \<times> rdb" where
  \<comment> \<open>the fetch, mutate and save body the three update methods share\<close>
  "redis_update r now f i db =
     (case RedisStore_GetByID r now i db of
        (Inl e, db') \<Rightarrow> (Some e, db')
      | (Inr j, db') \<Rightarrow> rcall_err r now (HSET jobStoreKey i (Doc (job_json (f j)))) db')"

definition RedisStore_UpdateStatus :: "redis \<Rightarrow> time \<Rightarrow> string \<Rightarrow> string \<Rightarrow> string \<Rightarrow> rdb \<Rightarrow> go_error option \<times> rdb" where
  "RedisStore_UpdateStatus r now i status workerID =
     redis_update r now (\<lambda>j. j\<lparr>jStatus := status, jProcessedBy := workerID, jUpdatedAt := now\<rparr>) i"

definition RedisStore_UpdateProgress :: "redis \<Rightarrow> time \<Rightarrow> string \<Rightarrow> rat \<Rightarrow> rdb \<Rightarrow> go_error option \<times> rdb" where
  "RedisStore_UpdateProgress r now i progress =
     redis_update r now (\<lambda>j. j\<lparr>jProgress := progress, jUpdatedAt := now\<rparr>) i"

definition RedisStore_UpdateResult ::
    "redis \<Rightarrow> time \<Rightarrow> string \<Rightarrow> string \<Rightarrow> string \<Rightarrow> json \<Rightarrow> rdb \<Rightarrow> go_error option \<times> rdb" where
  "RedisStore_UpdateResult r now i status workerID result =
     redis_update r now
       (\<lambda>j. j\<lparr>jStatus := status, jProcessedBy := workerID, jResult := result, jUpdatedAt := now\<rparr>) i"

definition hash_values :: "redis \<Rightarrow> time \<Rightarrow> rdb \<Rightarrow> (go_error + blob list) \<times> rdb" where
  \<comment> \<open>\<open>HVALS\<close> of the job hash\<close>
  "hash_values r now db =
     (case rcall r now (HGETALL jobStoreKey) db of
        (Inl e, db') \<Rightarrow> (Inl (Wrap ''redis_store: HVALS failed: '' e ''''), db')
      | (Inr x, db') \<Rightarrow> (Inr (map snd (reply_pairs x)), db'))"

definition RedisStore_GetByWorkerAndStatus ::
    "redis \<Rightarrow> time \<Rightarrow> string \<Rightarrow> string \<Rightarrow> rdb \<Rightarrow> (go_error + Job list) \<times> rdb" where
  "RedisStore_GetByWorkerAndStatus r now workerID status db =
     (case hash_values r now db of
        (Inl e, db') \<Rightarrow> (Inl e, db')
      | (Inr vals, db') \<Rightarrow>
          (Inr (filter (\<lambda>j. jProcessedBy j = workerID \<and> jStatus j = status) (List.map_filter unmarshal_job vals)), db'))"

definition RedisStore_Enqueue :: "redis \<Rightarrow> time \<Rightarrow> Job \<Rightarrow> rdb \<Rightarrow> go_error option \<times> rdb" where
  "RedisStore_Enqueue r now job = RedisStore_Save r now job"

definition RedisStore_Dequeue :: "string \<Rightarrow> string \<Rightarrow> rdb \<Rightarrow> (go_error + Job option) \<times> rdb" where
  "RedisStore_Dequeue tenantID shardKey db = (Inl (Errorf ''redis store dequeue not implemented; use RedisQueue''), db)"

definition RedisStore_Heartbeat :: "string \<Rightarrow> rdb \<Rightarrow> go_error option \<times> rdb" where
  "RedisStore_Heartbeat i db = (None, db)"

definition RedisStore_Complete :: "redis \<Rightarrow> time \<Rightarrow> string \<Rightarrow> json \<Rightarrow> rdb \<Rightarrow> go_error option \<times> rdb" where
  "RedisStore_Complete r now i result = RedisStore_UpdateResult r now i StatusCompleted '''' result"

definition RedisStore_Fail :: "redis \<Rightarrow> time \<Rightarrow> string \<Rightarrow> go_error \<Rightarrow> bool \<Rightarrow> rdb \<Rightarrow> go_error option \<times> rdb" where
  "RedisStore_Fail r now i e requeue =
     RedisStore_UpdateResult r now i (if requeue then StatusPending else StatusFailed) '''' (JStr (err_msg e))"

fun list_page :: "string \<Rightarrow> string \<Rightarrow> string \<Rightarrow> int \<Rightarrow> (string \<times> blob) list \<Rightarrow> int \<Rightarrow> Job list \<Rightarrow> int \<times> Job list" where
  \<comment> \<open>the inner loop of \<open>ListJobs\<close> over one page; \<open>break\<close> when \<open>need\<close> is reached\<close>
  "list_page tenantID status typeStr need [] skip results = (skip, results)"
| "list_page tenantID status typeStr need ((i, v) # kvs) skip results =
     (case unmarshal_job v of
        None \<Rightarrow> list_page tenantID status typeStr need kvs skip results
      | Some j \<Rightarrow>
          if matches3 tenantID status typeStr j then
            (if 0 < skip then list_page tenantID status typeStr need kvs (skip - 1) results
             else (let results' = results @ [j] in
                   if 0 < need \<and> need \<le> int (length results') then (skip, results')
                   else list_page tenantID status typeStr need kvs skip results'))
          else list_page tenantID status typeStr need kvs skip results)"

fun list_pages :: "string \<Rightarrow> string \<Rightarrow> string \<Rightarrow> int \<Rightarrow> (string \<times> blob) list list \<Rightarrow> go_error option \<Rightarrow> int \<Rightarrow> Job list
    \<Rightarrow> go_error + Job list" where
  \<comment> \<open>the outer loop; it stops early once \<open>need\<close> results are there\<close>
  "list_pages tenantID status typeStr need [] err skip results =
     (case err of None \<Rightarrow> Inr results | Some e \<Rightarrow> Inl (Wrap ''redis_store: HSCAN failed: '' e ''''))"
| "list_pages tenantID status typeStr need (p # ps) err skip results =
     (let (skip', results') = list_page tenantID status typeStr need p skip results in
      if (ps = [] \<and> err = None) \<or> (0 < need \<and> need \<le> int (length results')) then Inr results'
      else list_pages tenantID status typeStr need ps err skip' results')"

definition RedisStore_ListJobs ::
    "redis \<Rightarrow> time \<Rightarrow> string \<Rightarrow> string \<Rightarrow> string \<Rightarrow> int \<Rightarrow> int \<Rightarrow> rdb \<Rightarrow> (go_error + Job list) \<times> rdb" where
  "RedisStore_ListJobs r now tenantID status typeStr limit offset db =
     (let need = (if limit \<le> 0 then - 1 else limit);
          (pages, err) = rhscan r jobStoreKey db
      in (map_sum id newest_first (list_pages tenantID status typeStr need pages err offset []), db))"

definition RedisStore_SearchJobs :: "redis \<Rightarrow> time \<Rightarrow> JobFilter \<Rightarrow> rdb \<Rightarrow> (go_error + Job list) \<times> rdb" where
  "RedisStore_SearchJobs r now f = RedisStore_ListJobs r now (fTenantID f) (fStatus f) (fType f) (fLimit f) (fOffset f)"

definition RedisStore_CountJobs :: "redis \<Rightarrow> time \<Rightarrow> JobFilter \<Rightarrow> rdb \<Rightarrow> (go_error + int) \<times> rdb" where
  "RedisStore_CountJobs r now f db =
     (let (pages, err) = rhscan r jobStoreKey db;
          js = List.map_filter (unmarshal_job \<circ> snd) (concat pages)
      in (case err of
            Some e \<Rightarrow> Inl (Wrap ''redis_store: HSCAN failed: '' e '''')
          | None \<Rightarrow> Inr (int (length (filter (matches3 (fTenantID f) (fStatus f) (fType f)) js))), db))"

definition redis_orphaned :: "time \<Rightarrow> Job \<Rightarrow> bool" where
  "redis_orphaned cutoff j \<longleftrightarrow> jStatus j = StatusProcessing \<and> jUpdatedAt j < cutoff"

fun recover_each :: "redis \<Rightarrow> time \<Rightarrow> time \<Rightarrow> blob list \<Rightarrow> int \<Rightarrow> rdb \<Rightarrow> int \<times> rdb" where
  "recover_each r now cutoff [] cnt db = (cnt, db)"
| "recover_each r now cutoff (v # vs) cnt db =
     (case unmarshal_job v of
        None \<Rightarrow> recover_each r now cutoff vs cnt db
      | Some j \<Rightarrow>
          if redis_orphaned cutoff j then
            (case rcall_err r now (HSET jobStoreKey (jID j) (Doc (job_json (j\<lparr>jStatus := StatusPending, jProcessedBy := ''''\<rparr>)))) db of
               (None, db') \<Rightarrow> recover_each r now cutoff vs (cnt + 1) db'
             | (Some e, db') \<Rightarrow> recover_each r now cutoff vs cnt db')
          else recover_each r now cutoff vs cnt db)"

definition RedisStore_RecoverOrphans :: "redis \<Rightarrow> time \<Rightarrow> duration \<Rightarrow> rdb \<Rightarrow> (go_error + int) \<times> rdb" where
  "RedisStore_RecoverOrphans r now timeout db =
     (case hash_values r now db of
        (Inl e, db1) \<Rightarrow> (Inl e, db1)
      | (Inr vals, db1) \<Rightarrow>
          (let (cnt, db2) = recover_each r now (now - timeout) vals 0 db1 in (Inr cnt, db2)))"

definition RedisStore_DeleteJob :: "redis \<Rightarrow> time \<Rightarrow> string \<Rightarrow> rdb \<Rightarrow> go_error option \<times> rdb" where
  "RedisStore_DeleteJob r now i db = rcall_err r now (HDEL jobStoreKey [i]) db"

fun purge_each :: "redis \<Rightarrow> time \<Rightarrow> (Job \<Rightarrow> bool) \<Rightarrow> (string \<times> blob) list \<Rightarrow> int \<Rightarrow> rdb \<Rightarrow> int \<times> rdb" where
  "purge_each r now P [] cnt db = (cnt, db)"
| "purge_each r now P ((i, v) # kvs) cnt db =
     (if i = '''' then purge_each r now P kvs cnt db
      else (case unmarshal_job v of
              None \<Rightarrow> purge_each r now P kvs cnt db
            | Some j \<Rightarrow>
                if P j then purge_each r now P kvs (cnt + 1) (snd (rcall r now (HDEL jobStoreKey [i]) db))
                else purge_each r now P kvs cnt db))"

definition RedisStore_DeleteJobsBefore ::
    "redis \<Rightarrow> time \<Rightarrow> string \<Rightarrow> string \<Rightarrow> string \<Rightarrow> time \<Rightarrow> rdb \<Rightarrow> (go_error + int) \<times> rdb" where
  \<comment> \<open>on a failed scan Go also returns the count so far, which no caller reads\<close>
  "RedisStore_DeleteJobsBefore r now tenantID status jobType before db =
     (let (pages, err) = rhscan r jobStoreKey db;
          (cnt, db') = purge_each r now (\<lambda>j. matches3 tenantID status jobType j \<and> jCreatedAt j < before) (concat pages) 0 db
      in (case err of Some e \<Rightarrow> Inl e | None \<Rightarrow> Inr cnt, db'))"

definition RedisStore_IsDedupKeyTaken :: "redis \<Rightarrow> time \<Rightarrow> string \<Rightarrow> string \<Rightarrow> rdb \<Rightarrow> (go_error + bool) \<times> rdb" where
  "RedisStore_IsDedupKeyTaken r now dedupKey tenantID db =
     (if dedupKey = '''' then (Inr False, db)
      else (case rcall_int r now (SETNX (''dedup:'' @ tenantID @ '':'' @ dedupKey) (Txt ''1'') (24 * Hour)) db of
              (Inl e, db') \<Rightarrow> (Inl e, db') | (Inr n, db') \<Rightarrow> (Inr (n = 1), db')))"

definition RedisStore_GetByIDs :: "redis \<Rightarrow> time \<Rightarrow> string list \<Rightarrow> rdb \<Rightarrow> (go_error + Job list) \<times> rdb" where
  "RedisStore_GetByIDs r now is db =
     (case rcall r now (HMGET jobStoreKey is) db of
        (Inl e, db') \<Rightarrow> (Inl (Wrap ''redis_store: HMGET failed: '' e ''''), db')
      | (Inr x, db') \<Rightarrow> (Inr (List.map_filter (\<lambda>v. Option.bind v unmarshal_job) (reply_opts x)), db'))"

definition RedisStore_GetReadyDAGJobs :: "int \<Rightarrow> rdb \<Rightarrow> (go_error + Job list) \<times> rdb" where
  "RedisStore_GetReadyDAGJobs limit db = (Inr [], db)"

definition RedisStore_GetDependentJobs :: "string \<Rightarrow> rdb \<Rightarrow> (go_error + Job list) \<times> rdb" where
  "RedisStore_GetDependentJobs parentID db = (Inr [], db)"

definition RedisStore_GetQueueLengths :: "redis \<Rightarrow> time \<Rightarrow> rdb \<Rightarrow> (go_error + queue_lengths) \<times> rdb" where
  "RedisStore_GetQueueLengths r now db =
     (case hash_values r now db of
        (Inl e, db') \<Rightarrow> (Inl e, db')
      | (Inr vals, db') \<Rightarrow> (Inr (queue_lengths_of (List.map_filter unmarshal_job vals)), db'))"

definition client_key :: "string \<Rightarrow> string" where
  "client_key apiKeyHash = ''task_queue:clients:'' @ apiKeyHash"

definition RedisStore_RegisterClient :: "redis \<Rightarrow> time \<Rightarrow> string \<Rightarrow> string \<Rightarrow> rdb \<Rightarrow> go_error option \<times> rdb" where
  "RedisStore_RegisterClient r now tenantID apiKeyHash db =
     (case rcall_err r now (SET (client_key apiKeyHash) (Txt tenantID) None) db of
        (Some e, db') \<Rightarrow> (Some (Wrap ''redis_store: failed to register client: '' e ''''), db')
      | (None, db') \<Rightarrow> (None, db'))"

definition RedisStore_VerifyClient :: "redis \<Rightarrow> time \<Rightarrow> string \<Rightarrow> rdb \<Rightarrow> (go_error + string) \<times> rdb" where
  "RedisStore_VerifyClient r now apiKeyHash db =
     (case rcall r now (GET (client_key apiKeyHash)) db of
        (Inl e, db') \<Rightarrow>
          (Inl (if e = RedisNil then ErrClientNotFound else Wrap ''redis_store: failed to verify client: '' e ''''), db')
      | (Inr x, db') \<Rightarrow> (Inr (blob_text (reply_blob x)), db'))"

definition RedisStore_ListClients :: "redis \<Rightarrow> time \<Rightarrow> rdb \<Rightarrow> (go_error + ClientRecord list) \<times> rdb" where
  "RedisStore_ListClients r now db =
     (let (pages, err) = rscan r now ''task_queue:clients:'' db in
      (case err of
         Some e \<Rightarrow> (Inl (Wrap ''redis_store: failed to scan clients: '' e ''''), db)
       | None \<Rightarrow>
           if concat pages = [] then (Inr [], db)
           else (case rcall r now (MGET (concat pages)) db of
                   (Inl e, db') \<Rightarrow> (Inl (Wrap ''redis_store: failed to mget clients: '' e ''''), db')
                 | (Inr x, db') \<Rightarrow>
                     (Inr (map (\<lambda>t. \<lparr>crTenantID = t, crCreatedAt = now\<rparr>)
                        (distinct_tenants [] (List.map_filter (map_option blob_text) (reply_opts x)))), db'))))"

fun revoke_each :: "redis \<Rightarrow> time \<Rightarrow> string \<Rightarrow> string list \<Rightarrow> rdb \<Rightarrow> rdb" where
  "revoke_each r now tenantID [] db = db"
| "revoke_each r now tenantID (k # ks) db =
     (case rcall r now (GET k) db of
        (Inl e, db') \<Rightarrow> revoke_each r now tenantID ks db'
      | (Inr x, db') \<Rightarrow>
          revoke_each r now tenantID ks
            (if blob_text (reply_blob x) = tenantID then snd (rcall r now (DEL k) db') else db'))"

definition RedisStore_RevokeClient :: "redis \<Rightarrow> time \<Rightarrow> string \<Rightarrow> rdb \<Rightarrow> go_error option \<times> rdb" where
  "RedisStore_RevokeClient r now tenantID db =
     (let (pages, err) = rscan r now ''task_queue:clients:'' db;
          db' = revoke_each r now tenantID (concat pages) db
      in (case err of Some e \<Rightarrow> Some (Wrap ''redis_store: scan clients: '' e '''') | None \<Rightarrow> None, db'))"

definition dec_final :: "time \<Rightarrow> blob \<Rightarrow> bool" where
  \<comment> \<open>the partial struct with \<open>status\<close> and \<open>updated_at\<close>, and the purge test on it\<close>
  "dec_final cutoff b =
     (case blob_json b of
        Some (JObj fs) \<Rightarrow>
          (case (dec_str fs ''status'', dec_time fs ''updated_at'') of
             (Some st, Some u) \<Rightarrow> finalized st \<and> u < cutoff | _ \<Rightarrow> False)
      | _ \<Rightarrow> False)"

definition RedisStore_ArchiveOldJobs :: "redis \<Rightarrow> time \<Rightarrow> time \<Rightarrow> rdb \<Rightarrow> (go_error + int) \<times> rdb" where
  "RedisStore_ArchiveOldJobs r now cutoff db =
     (case rcall r now (HGETALL jobStoreKey) db of
        (Inl e, db1) \<Rightarrow> (Inl e, db1)
      | (Inr x, db1) \<Rightarrow>
          (let toPurge = map fst (filter (\<lambda>(i, raw). dec_final cutoff raw) (reply_pairs x)) in
           if toPurge = [] then (Inr 0, db1)
           else (case exec_each r now [HDEL jobStoreKey toPurge] db1 of
                   (Some e, db2) \<Rightarrow> (Inl e, db2)
                 | (None, db2) \<Rightarrow> (Inr (int (length toPurge)), db2))))"

definition redis_store :: "redis \<Rightarrow> rdb Store" where
  \<comment> \<open>the interface value\<close>
  "redis_store r = \<lparr>st_Save = RedisStore_Save r, st_SaveBatch = RedisStore_SaveBatch r,
     st_GetByID = RedisStore_GetByID r, st_UpdateStatus = RedisStore_UpdateStatus r,
     st_UpdateProgress = RedisStore_UpdateProgress r, st_UpdateResult = RedisStore_UpdateResult r,
     st_GetByWorkerAndStatus = RedisStore_GetByWorkerAndStatus r,
     st_Enqueue = RedisStore_Enqueue r, st_Dequeue = (\<lambda>now. RedisStore_Dequeue),
     st_Heartbeat = (\<lambda>now. RedisStore_Heartbeat), st_Complete = RedisStore_Complete r,
     st_Fail = RedisStore_Fail r, st_ListJobs = RedisStore_ListJobs r,
     st_SearchJobs = RedisStore_SearchJobs r, st_CountJobs = RedisStore_CountJobs r,
     st_RecoverOrphans = RedisStore_RecoverOrphans r, st_ArchiveOldJobs = RedisStore_ArchiveOldJobs r,
     st_DeleteJob = RedisStore_DeleteJob r, st_DeleteJobsBefore = RedisStore_DeleteJobsBefore r,
     st_IsDedupKeyTaken = RedisStore_IsDedupKeyTaken r, st_GetByIDs = RedisStore_GetByIDs r,
     st_GetReadyDAGJobs = (\<lambda>now. RedisStore_GetReadyDAGJobs),
     st_GetDependentJobs = (\<lambda>now. RedisStore_GetDependentJobs),
     st_GetQueueLengths = RedisStore_GetQueueLengths r,
     st_RegisterClient = RedisStore_RegisterClient r, st_VerifyClient = RedisStore_VerifyClient r,
     st_ListClients = RedisStore_ListClients r, st_RevokeClient = RedisStore_RevokeClient r\<rparr>"

end
