(* ===== verification/DualStore.thy ===== *)
theory DualStore
  imports Store
begin

text \<open>
  \<^verbatim>\<open>DualStore\<close> of \<^verbatim>\<open>internal/storage/models/dual_store.go\<close>: reads go to the primary store, most
  writes to the secondary first (its errors ignored) and then to the primary. The state is the pair
  of the two states.
\<close>

definition on_primary :: "('a \<Rightarrow> 'x \<times> 'a) \<Rightarrow> 'a \<times> 'b \<Rightarrow> 'x \<times> ('a \<times> 'b)" where
  "on_primary f w = (let (x, a) = f (fst w) in (x, (a, snd w)))"

definition secondary_then_primary :: "('b \<Rightarrow> 'y \<times> 'b) \<Rightarrow> ('a \<Rightarrow> 'x \<times> 'a) \<Rightarrow> 'a \<times> 'b \<Rightarrow> 'x \<times> ('a \<times> 'b)" where
  "secondary_then_primary g f w = (let (y, b) = g (snd w); (x, a) = f (fst w) in (x, (a, b)))"

definition DualStore_SaveBatch :: "'a Store \<Rightarrow> 'b Store \<Rightarrow> time \<Rightarrow> Job list \<Rightarrow> 'a \<times> 'b \<Rightarrow> go_error option \<times> ('a \<times> 'b)" where
  "DualStore_SaveBatch p s now batch w =
     (case st_SaveBatch p now batch (fst w) of
        (Some e, a) \<Rightarrow> (Some e, (a, snd w))
      | (None, a) \<Rightarrow> (None, (a, snd (st_SaveBatch s now batch (snd w)))))"

definition DualStore_Save :: "'a Store \<Rightarrow> 'b Store \<Rightarrow> time \<Rightarrow> Job \<Rightarrow> 'a \<times> 'b \<Rightarrow> go_error option \<times> ('a \<times> 'b)" where
  "DualStore_Save p s now job = secondary_then_primary (st_Save s now job) (st_Save p now job)"

definition DualStore_GetByID :: "'a Store \<Rightarrow> time \<Rightarrow> string \<Rightarrow> 'a \<times> 'b \<Rightarrow> (go_error + Job) \<times> ('a \<times> 'b)" where
  "DualStore_GetByID p now i = on_primary (st_GetByID p now i)"

definition DualStore_UpdateStatus ::
    "'a Store \<Rightarrow> 'b Store \<Rightarrow> time \<Rightarrow> string \<Rightarrow> string \<Rightarrow> string \<Rightarrow> 'a \<times> 'b \<Rightarrow> go_error option \<times> ('a \<times> 'b)" where
  "DualStore_UpdateStatus p s now i status workerID =
     secondary_then_primary (st_UpdateStatus s now i status workerID) (st_UpdateStatus p now i status workerID)"

definition DualStore_UpdateProgress ::
    "'a Store \<Rightarrow> 'b Store \<Rightarrow> time \<Rightarrow> string \<Rightarrow> rat \<Rightarrow> 'a \<times> 'b \<Rightarrow> go_error option \<times> ('a \<times> 'b)" where
  "DualStore_UpdateProgress p s now i progress =
     secondary_then_primary (st_UpdateProgress s now i progress) (st_UpdateProgress p now i progress)"

definition DualStore_UpdateResult ::
    "'a Store \<Rightarrow> 'b Store \<Rightarrow> time \<Rightarrow> string \<Rightarrow> string \<Rightarrow> string \<Rightarrow> json \<Rightarrow> 'a \<times> 'b \<Rightarrow> go_error option \<times> ('a \<times> 'b)" where
  "DualStore_UpdateResult p s now i status workerID result =
     secondary_then_primary (st_UpdateResult s now i status workerID result)
       (st_UpdateResult p now i status workerID result)"

definition DualStore_Enqueue :: "'a Store \<Rightarrow> 'b Store \<Rightarrow> time \<Rightarrow> Job \<Rightarrow> 'a \<times> 'b \<Rightarrow> go_error option \<times> ('a \<times> 'b)" where
  "DualStore_Enqueue p s now job = secondary_then_primary (st_Enqueue s now job) (st_Enqueue p now job)"

definition DualStore_Dequeue ::
    "'a Store \<Rightarrow> 'b Store \<Rightarrow> time \<Rightarrow> string \<Rightarrow> string \<Rightarrow> 'a \<times> 'b \<Rightarrow> (go_error + Job option) \<times> ('a \<times> 'b)" where
  "DualStore_Dequeue p s now tenantID shardKey w =
     (case st_Dequeue p now tenantID shardKey (fst w) of
        (Inr (Some job), a) \<Rightarrow>
          (Inr (Some job), (a, snd (st_UpdateStatus s now (jID job) StatusProcessing (jProcessedBy job) (snd w))))
      | (x, a) \<Rightarrow> (x, (a, snd w)))"

definition DualStore_Heartbeat :: "'a Store \<Rightarrow> 'b Store \<Rightarrow> time \<Rightarrow> string \<Rightarrow> 'a \<times> 'b \<Rightarrow> go_error option \<times> ('a \<times> 'b)" where
  "DualStore_Heartbeat p s now i = secondary_then_primary (st_Heartbeat s now i) (st_Heartbeat p now i)"

definition DualStore_Complete :: "'a Store \<Rightarrow> 'b Store \<Rightarrow> time \<Rightarrow> string \<Rightarrow> json \<Rightarrow> 'a \<times> 'b \<Rightarrow> go_error option \<times> ('a \<times> 'b)" where
  "DualStore_Complete p s now i result = secondary_then_primary (st_Complete s now i result) (st_Complete p now i result)"

definition DualStore_Fail ::
    "'a Store \<Rightarrow> 'b Store \<Rightarrow> time \<Rightarrow> string \<Rightarrow> go_error \<Rightarrow> bool \<Rightarrow> 'a \<times> 'b \<Rightarrow> go_error option \<times> ('a \<times> 'b)" where
  "DualStore_Fail p s now i e requeue =
     secondary_then_primary (st_Fail s now i e requeue) (st_Fail p now i e requeue)"

definition DualStore_DeleteJob :: "'a Store \<Rightarrow> 'b Store \<Rightarrow> time \<Rightarrow> string \<Rightarrow> 'a \<times> 'b \<Rightarrow> go_error option \<times> ('a \<times> 'b)" where
  "DualStore_DeleteJob p s now i = secondary_then_primary (st_DeleteJob s now i) (st_DeleteJob p now i)"

definition DualStore_DeleteJobsBefore ::
    "'a Store \<Rightarrow> 'b Store \<Rightarrow> time \<Rightarrow> string \<Rightarrow> string \<Rightarrow> string \<Rightarrow> time \<Rightarrow> 'a \<times> 'b \<Rightarrow> (go_error + int) \<times> ('a \<times> 'b)" where
  "DualStore_DeleteJobsBefore p s now tenantID status jobType before =
     secondary_then_primary (st_DeleteJobsBefore s now tenantID status jobType before)
       (st_DeleteJobsBefore p now tenantID status jobType before)"

definition DualStore_RegisterClient ::
    "'a Store \<Rightarrow> 'b Store \<Rightarrow> time \<Rightarrow> string \<Rightarrow> string \<Rightarrow> 'a \<times> 'b \<Rightarrow> go_error option \<times> ('a \<times> 'b)" where
  "DualStore_RegisterClient p s now tenantID h =
     secondary_then_primary (st_RegisterClient s now tenantID h) (st_RegisterClient p now tenantID h)"

definition DualStore_RevokeClient :: "'a Store \<Rightarrow> 'b Store \<Rightarrow> time \<Rightarrow> string \<Rightarrow> 'a \<times> 'b \<Rightarrow> go_error option \<times> ('a \<times> 'b)" where
  "DualStore_RevokeClient p s now tenantID =
     secondary_then_primary (st_RevokeClient s now tenantID) (st_RevokeClient p now tenantID)"

definition DualStore_ArchiveOldJobs :: "'a Store \<Rightarrow> 'b Store \<Rightarrow> time \<Rightarrow> time \<Rightarrow> 'a \<times> 'b \<Rightarrow> (go_error + int) \<times> ('a \<times> 'b)" where
  "DualStore_ArchiveOldJobs p s now cutoff =
     secondary_then_primary (st_ArchiveOldJobs s now cutoff) (st_ArchiveOldJobs p now cutoff)"

definition NewDualStore :: "'a Store \<Rightarrow> 'b Store \<Rightarrow> ('a \<times> 'b) Store" where
  "NewDualStore p s = \<lparr>st_Save = DualStore_Save p s, st_SaveBatch = DualStore_SaveBatch p s,
     st_GetByID = DualStore_GetByID p, st_UpdateStatus = DualStore_UpdateStatus p s,
     st_UpdateProgress = DualStore_UpdateProgress p s, st_UpdateResult = DualStore_UpdateResult p s,
     st_GetByWorkerAndStatus = (\<lambda>now i st. on_primary (st_GetByWorkerAndStatus p now i st)),
     st_Enqueue = DualStore_Enqueue p s, st_Dequeue = DualStore_Dequeue p s,
     st_Heartbeat = DualStore_Heartbeat p s, st_Complete = DualStore_Complete p s,
     st_Fail = DualStore_Fail p s,
     st_ListJobs = (\<lambda>now t st ty l off. on_primary (st_ListJobs p now t st ty l off)),
     st_SearchJobs = (\<lambda>now f. on_primary (st_SearchJobs p now f)),
     st_CountJobs = (\<lambda>now f. on_primary (st_CountJobs p now f)),
     st_RecoverOrphans = (\<lambda>now timeout. on_primary (st_RecoverOrphans p now timeout)),
     st_ArchiveOldJobs = DualStore_ArchiveOldJobs p s,
     st_DeleteJob = DualStore_DeleteJob p s, st_DeleteJobsBefore = DualStore_DeleteJobsBefore p s,
     st_IsDedupKeyTaken = (\<lambda>now k t. on_primary (st_IsDedupKeyTaken p now k t)),
     st_GetByIDs = (\<lambda>now is. on_primary (st_GetByIDs p now is)),
     st_GetReadyDAGJobs = (\<lambda>now l. on_primary (st_GetReadyDAGJobs p now l)),
     st_GetDependentJobs = (\<lambda>now i. on_primary (st_GetDependentJobs p now i)),
     st_GetQueueLengths = (\<lambda>now. on_primary (st_GetQueueLengths p now)),
     st_RegisterClient = DualStore_RegisterClient p s,
     st_VerifyClient = (\<lambda>now h. on_primary (st_VerifyClient p now h)),
     st_ListClients = (\<lambda>now. on_primary (st_ListClients p now)),
     st_RevokeClient = DualStore_RevokeClient p s\<rparr>"

section \<open>Contract\<close>

definition same_but_updated :: "Job option \<Rightarrow> Job option \<Rightarrow> bool" where
  \<comment> \<open>equal records, up to the time of the last update\<close>
  "same_but_updated a b \<longleftrightarrow> map_option (\<lambda>j. j\<lparr>jUpdatedAt := 0\<rparr>) a = map_option (\<lambda>j. j\<lparr>jUpdatedAt := 0\<rparr>) b"

definition dual_ok :: "('a \<Rightarrow> bool) \<Rightarrow> ('b \<Rightarrow> bool) \<Rightarrow> 'a \<times> 'b \<Rightarrow> bool" where
  "dual_ok okp oks w \<longleftrightarrow> okp (fst w) \<and> oks (snd w)"

definition mirrored :: "('a \<Rightarrow> string \<Rightarrow> Job option) \<Rightarrow> ('b \<Rightarrow> string \<Rightarrow> Job option) \<Rightarrow> 'a \<times> 'b \<Rightarrow> bool" where
  "mirrored lookp looks w \<longleftrightarrow> (\<forall>i. same_but_updated (lookp (fst w) i) (looks (snd w) i))"

lemma same_but_updated_refl [simp]: "same_but_updated a a"
  by (simp add: same_but_updated_def)

lemma same_but_updated_None [simp]:
  "same_but_updated None b \<longleftrightarrow> b = None" "same_but_updated a None \<longleftrightarrow> a = None"
  by (auto simp: same_but_updated_def)

lemma same_but_updated_Some:
  "same_but_updated (Some j) b \<longleftrightarrow> (\<exists>k. b = Some k \<and> j\<lparr>jUpdatedAt := 0\<rparr> = k\<lparr>jUpdatedAt := 0\<rparr>)"
  by (cases b) (auto simp: same_but_updated_def)

lemma same_but_updated_fields:
  assumes "j\<lparr>jUpdatedAt := 0\<rparr> = k\<lparr>jUpdatedAt := 0\<rparr>"
  shows "j\<lparr>jStatus := s, jProcessedBy := p, jUpdatedAt := 0\<rparr> = k\<lparr>jStatus := s, jProcessedBy := p, jUpdatedAt := 0\<rparr>"
    "j\<lparr>jStatus := s, jProcessedBy := p, jResult := res, jUpdatedAt := 0\<rparr> =
     k\<lparr>jStatus := s, jProcessedBy := p, jResult := res, jUpdatedAt := 0\<rparr>"
    "j\<lparr>jProgress := x, jUpdatedAt := 0\<rparr> = k\<lparr>jProgress := x, jUpdatedAt := 0\<rparr>"
  using assms by (cases j; cases k; simp)+

locale two_stores =
  p: job_store p okp lookp + s: job_store s oks looks
  for p :: "'a Store" and okp lookp and s :: "'b Store" and oks looks
begin

lemma dual_save:
  assumes "dual_ok okp oks w"
  shows "\<exists>w'. st_Save (NewDualStore p s) now j w = (None, w') \<and> dual_ok okp oks w' \<and>
           lookp (fst w') = (lookp (fst w))(jID j \<mapsto> j) \<and> looks (snd w') = (looks (snd w))(jID j \<mapsto> j)"
proof -
  obtain a where "st_Save p now j (fst w) = (None, a)" "okp a" "lookp a = (lookp (fst w))(jID j \<mapsto> j)"
    using assms p.save_law [of "fst w" now j] by (auto simp: dual_ok_def)
  moreover obtain b where "st_Save s now j (snd w) = (None, b)" "oks b" "looks b = (looks (snd w))(jID j \<mapsto> j)"
    using assms s.save_law [of "snd w" now j] by (auto simp: dual_ok_def)
  ultimately show ?thesis
    by (intro exI [of _ "(a, b)"]) (simp add: NewDualStore_def DualStore_Save_def secondary_then_primary_def dual_ok_def)
qed

lemma dual_delete:
  assumes "dual_ok okp oks w"
  shows "\<exists>w'. st_DeleteJob (NewDualStore p s) now i w = (None, w') \<and> dual_ok okp oks w' \<and>
           lookp (fst w') = (lookp (fst w))(i := None) \<and> looks (snd w') = (looks (snd w))(i := None)"
proof -
  obtain a where "st_DeleteJob p now i (fst w) = (None, a)" "okp a" "lookp a = (lookp (fst w))(i := None)"
    using assms p.delete_law [of "fst w" now i] by (auto simp: dual_ok_def)
  moreover obtain b where "st_DeleteJob s now i (snd w) = (None, b)" "oks b" "looks b = (looks (snd w))(i := None)"
    using assms s.delete_law [of "snd w" now i] by (auto simp: dual_ok_def)
  ultimately show ?thesis
    by (intro exI [of _ "(a, b)"]) (simp add: NewDualStore_def DualStore_DeleteJob_def secondary_then_primary_def dual_ok_def)
qed

lemma dual_reads:
  assumes "dual_ok okp oks w"
  shows "st_GetByID (NewDualStore p s) now i w =
           ((case lookp (fst w) i of None \<Rightarrow> Inl (not_found i) | Some j \<Rightarrow> Inr j), w)"
    and "st_GetByIDs (NewDualStore p s) now is w = (Inr (List.map_filter (lookp (fst w)) is), w)"
  using assms p.get_lookup [of "fst w" now i] p.ids_law [of "fst w" now "is"]
  by (simp_all add: NewDualStore_def DualStore_GetByID_def on_primary_def dual_ok_def)

lemma dual_status:
  assumes "dual_ok okp oks w" and "mirrored lookp looks w"
  shows "\<exists>e w'. st_UpdateStatus (NewDualStore p s) now i st wk w = (e, w') \<and> dual_ok okp oks w' \<and>
           mirrored lookp looks w' \<and> (e = None \<longleftrightarrow> lookp (fst w) i \<noteq> None)"
proof (cases "lookp (fst w) i")
  case None
  then have "looks (snd w) i = None" using assms(2) by (metis mirrored_def same_but_updated_None(1))
  then show ?thesis
    using None assms p.status_none [of "fst w" i now st wk] s.status_none [of "snd w" i now st wk]
    by (simp add: NewDualStore_def DualStore_UpdateStatus_def secondary_then_primary_def dual_ok_def)
next
  case (Some j)
  then obtain k where k: "looks (snd w) i = Some k" "j\<lparr>jUpdatedAt := 0\<rparr> = k\<lparr>jUpdatedAt := 0\<rparr>"
    using assms(2) by (metis mirrored_def same_but_updated_Some)
  obtain a u where a: "st_UpdateStatus p now i st wk (fst w) = (None, a)" "okp a"
    "lookp a = (lookp (fst w))(i \<mapsto> j\<lparr>jStatus := st, jProcessedBy := wk, jUpdatedAt := u\<rparr>)"
    using assms(1) p.status_some [of "fst w" i j now st wk] Some by (auto simp: dual_ok_def)
  obtain b v where b: "st_UpdateStatus s now i st wk (snd w) = (None, b)" "oks b"
    "looks b = (looks (snd w))(i \<mapsto> k\<lparr>jStatus := st, jProcessedBy := wk, jUpdatedAt := v\<rparr>)"
    using assms(1) s.status_some [of "snd w" i k now st wk] k by (auto simp: dual_ok_def)
  have "mirrored lookp looks (a, b)"
    using assms(2) a(3) b(3) same_but_updated_fields(1) [OF k(2)]
    by (simp add: mirrored_def same_but_updated_Some)
  then show ?thesis using a b Some
    by (simp add: NewDualStore_def DualStore_UpdateStatus_def secondary_then_primary_def dual_ok_def)
qed

lemma dual_result:
  assumes "dual_ok okp oks w" and "mirrored lookp looks w"
  shows "\<exists>e w'. st_UpdateResult (NewDualStore p s) now i st wk res w = (e, w') \<and> dual_ok okp oks w' \<and>
           mirrored lookp looks w' \<and> (e = None \<longleftrightarrow> lookp (fst w) i \<noteq> None)"
proof (cases "lookp (fst w) i")
  case None
  then have "looks (snd w) i = None" using assms(2) by (metis mirrored_def same_but_updated_None(1))
  then show ?thesis
    using None assms p.result_none [of "fst w" i now st wk res] s.result_none [of "snd w" i now st wk res]
    by (simp add: NewDualStore_def DualStore_UpdateResult_def secondary_then_primary_def dual_ok_def)
next
  case (Some j)
  then obtain k where k: "looks (snd w) i = Some k" "j\<lparr>jUpdatedAt := 0\<rparr> = k\<lparr>jUpdatedAt := 0\<rparr>"
    using assms(2) by (metis mirrored_def same_but_updated_Some)
  obtain a where a: "st_UpdateResult p now i st wk res (fst w) = (None, a)" "okp a"
    "lookp a = (lookp (fst w))(i \<mapsto> j\<lparr>jStatus := st, jProcessedBy := wk, jResult := res, jUpdatedAt := now\<rparr>)"
    using assms(1) p.result_some [of "fst w" i j now st wk res] Some by (auto simp: dual_ok_def)
  obtain b where b: "st_UpdateResult s now i st wk res (snd w) = (None, b)" "oks b"
    "looks b = (looks (snd w))(i \<mapsto> k\<lparr>jStatus := st, jProcessedBy := wk, jResult := res, jUpdatedAt := now\<rparr>)"
    using assms(1) s.result_some [of "snd w" i k now st wk res] k by (auto simp: dual_ok_def)
  have "mirrored lookp looks (a, b)"
    using assms(2) a(3) b(3) same_but_updated_fields(2) [OF k(2)]
    by (simp add: mirrored_def same_but_updated_Some)
  then show ?thesis using a b Some
    by (simp add: NewDualStore_def DualStore_UpdateResult_def secondary_then_primary_def dual_ok_def)
qed

end

end
