(* ===== verification/Store_Props.thy ===== *)
theory Store_Props
  imports MemStore RedisStore DualStore
begin

text \<open>
  Both stores implement the contract \<open>job_store\<close> (the Redis one whenever Redis answers), so does any
  pair of them for reads; properties of searching, purging, recovery, deduplication and client keys.
\<close>

section \<open>The Redis store\<close>

definition rs_ok :: "rdb \<Rightarrow> bool" where
  "rs_ok db \<longleftrightarrow> distinct (map fst (rHashes db jobStoreKey)) \<and>
     list_all (\<lambda>(i, b). map_option jID (unmarshal_job b) = Some i) (rHashes db jobStoreKey)"

definition rs_lookup :: "rdb \<Rightarrow> string \<Rightarrow> Job option" where
  "rs_lookup db i = Option.bind (map_of (rHashes db jobStoreKey) i) unmarshal_job"

lemma rs_ok_entry: "rs_ok db \<Longrightarrow> map_of (rHashes db jobStoreKey) i = Some b \<Longrightarrow> \<exists>j. unmarshal_job b = Some j \<and> jID j = i"
  by (auto simp: rs_ok_def list_all_iff dest!: map_of_SomeD)

lemma unmarshal_doc [simp]: "unmarshal_job (Doc (job_json j)) = Some j"
  by (simp add: unmarshal_job_def blob_json_def)

lemma rs_put:
  assumes "rs_ok db" and "jID j = i"
  shows "rs_ok (put_hash jobStoreKey (AList.update i (Doc (job_json j)) (rHashes db jobStoreKey)) db)"
    and "rs_lookup (put_hash jobStoreKey (AList.update i (Doc (job_json j)) (rHashes db jobStoreKey)) db) =
         (rs_lookup db)(i \<mapsto> j)"
  using assms list_all_update [of "\<lambda>i b. map_option jID (unmarshal_job b) = Some i" "rHashes db jobStoreKey" i "Doc (job_json j)"]
  by (auto simp: rs_ok_def rs_lookup_def distinct_update update_conv' fun_eq_iff)

lemma rs_del:
  assumes "rs_ok db"
  shows "rs_ok (put_hash jobStoreKey (hdel [i] (rHashes db jobStoreKey)) db)"
    and "rs_lookup (put_hash jobStoreKey (hdel [i] (rHashes db jobStoreKey)) db) = (rs_lookup db)(i := None)"
proof -
  have "list_all P (hdel [i] h)" if "list_all P h" for P h
    using that by (auto simp: list_all_iff hdel_def)
  then show "rs_ok (put_hash jobStoreKey (hdel [i] (rHashes db jobStoreKey)) db)"
    using assms by (simp add: rs_ok_def)
  show "rs_lookup (put_hash jobStoreKey (hdel [i] (rHashes db jobStoreKey)) db) = (rs_lookup db)(i := None)"
    by (simp add: rs_lookup_def fun_eq_iff)
qed

context redis_up
begin

lemma rcall_err_up: "rcall_err r now c db = (if fst (redis_step now c db) = RNil then Some RedisNil else None, snd (redis_step now c db))"
  by (simp add: rcall_err_def rcall_eq split: prod.split)

lemma rs_get:
  assumes "rs_ok db"
  shows "RedisStore_GetByID r now i db = ((case rs_lookup db i of None \<Rightarrow> Inl (not_found i) | Some j \<Rightarrow> Inr j), db)"
  using assms rs_ok_entry [of db i]
  by (cases "map_of (rHashes db jobStoreKey) i") (auto simp: RedisStore_GetByID_def rcall_eq rs_lookup_def)

lemma rs_update_some:
  assumes "rs_ok db" and "rs_lookup db i = Some j" and "\<And>j. jID (f j) = jID j"
  shows "\<exists>db'. redis_update r now f i db = (None, db') \<and> rs_ok db' \<and> rs_lookup db' = (rs_lookup db)(i \<mapsto> f j)"
proof -
  have "jID j = i" using assms(1,2) rs_ok_entry [of db i] by (auto simp: rs_lookup_def bind_eq_Some_conv)
  then show ?thesis
    using assms rs_put [of db "f j" i] by (simp add: redis_update_def rs_get rcall_err_up)
qed

lemma rs_update_none:
  "rs_ok db \<Longrightarrow> rs_lookup db i = None \<Longrightarrow> redis_update r now f i db = (Some (not_found i), db)"
  by (simp add: redis_update_def rs_get)

lemmas rs_ops = redis_store_def RedisStore_Save_def RedisStore_UpdateStatus_def RedisStore_UpdateResult_def
  RedisStore_UpdateProgress_def RedisStore_DeleteJob_def RedisStore_GetByIDs_def

lemma rs_ids:
  "rs_ok db \<Longrightarrow> RedisStore_GetByIDs r now is db = (Inr (List.map_filter (rs_lookup db) is), db)"
  by (simp add: RedisStore_GetByIDs_def rcall_eq)
     (induction "is"; auto simp: List.map_filter_simps rs_lookup_def split: option.split)

end

sublocale redis_up \<subseteq> rs: job_store "redis_store r" rs_ok rs_lookup
proof (unfold_locales, goal_cases)
  case (1 w now j)
  then show ?case using rs_put [of w j "jID j"] by (simp add: rs_ops rcall_err_up)
next
  case (4 w i j)
  then show ?case using rs_ok_entry [of w i] by (auto simp: rs_lookup_def bind_eq_Some_conv)
next
  case (5 w i j now s p)
  then show ?case
    using rs_update_some [of w i j "\<lambda>j. j\<lparr>jStatus := s, jProcessedBy := p, jUpdatedAt := now\<rparr>"]
    by (simp add: rs_ops) blast
next
  case (7 w i j now s p res)
  then show ?case
    using rs_update_some [of w i j "\<lambda>j. j\<lparr>jStatus := s, jProcessedBy := p, jResult := res, jUpdatedAt := now\<rparr>"]
    by (simp add: rs_ops)
next
  case (9 w i j now x)
  then show ?case
    using rs_update_some [of w i j "\<lambda>j. j\<lparr>jProgress := x, jUpdatedAt := now\<rparr>"] by (simp add: rs_ops)
next
  case (11 w now i)
  then show ?case using rs_del [of w i] by (simp add: rs_ops rcall_err_up Let_def count_int_def)
next
  case (12 w now "is")
  then show ?case by (simp add: redis_store_def rs_ids)
qed (simp_all add: redis_store_def rs_get rs_update_none RedisStore_UpdateStatus_def
      RedisStore_UpdateResult_def RedisStore_UpdateProgress_def)

context redis_up
begin

lemma rs_contract: "job_store (redis_store r) rs_ok rs_lookup"
  by unfold_locales

end

interpretation dual_mem_redis: two_stores mem_store mem_ok mem_lookup "redis_store redis_ref" rs_ok rs_lookup
  by (intro two_stores.intro mem.job_store_axioms rr.rs.job_store_axioms)

section \<open>Supporting lemmas\<close>

lemma mem_purge_lookup:
  assumes "mem_ok s"
  shows "mem_lookup (snd (mem_purge P s)) i =
           (case mem_lookup s i of Some j \<Rightarrow> if P j then None else Some j | None \<Rightarrow> None)"
  using assms map_of_filter_distinct [of "msData s" "\<lambda>(i, j). \<not> P j" i]
  by (simp add: mem_purge_def mem_lookup_def mem_ok_def split: option.split)

lemma mem_purge_count:
  "fst (mem_purge P s) = Inr (int (length (msData s)) - int (length (msData (snd (mem_purge P s)))))"
proof -
  have "int (length (filter P (map snd d))) = int (length d) - int (length (filter (\<lambda>(i, j). \<not> P j) d))"
    for d :: "(string \<times> Job) list"
    by (induction d) auto
  then show ?thesis unfolding mem_purge_def by simp
qed

lemma list_page_spec:
  "\<exists>new. snd (list_page t st ty need kvs skip results) = results @ new \<and>
     (\<forall>j\<in>set new. matches3 t st ty j \<and> (\<exists>i v. (i, v) \<in> set kvs \<and> unmarshal_job v = Some j)) \<and>
     (0 < need \<and> int (length results) < need \<longrightarrow> int (length (results @ new)) \<le> need)"
proof (induction t st ty need kvs skip results rule: list_page.induct)
  case (2 t st ty need i v kvs skip results)
  show ?case
  proof (cases "unmarshal_job v")
    case None
    then show ?thesis using 2(1) by fastforce
  next
    case (Some j)
    show ?thesis
    proof (cases "matches3 t st ty j \<and> \<not> 0 < skip")
      case False
      define skip' where "skip' = (if matches3 t st ty j then skip - 1 else skip)"
      have eq: "list_page t st ty need ((i, v) # kvs) skip results = list_page t st ty need kvs skip' results"
        using False Some by (auto simp: skip'_def)
      have "\<exists>new. snd (list_page t st ty need kvs skip' results) = results @ new \<and>
         (\<forall>j\<in>set new. matches3 t st ty j \<and> (\<exists>i v. (i, v) \<in> set kvs \<and> unmarshal_job v = Some j)) \<and>
         (0 < need \<and> int (length results) < need \<longrightarrow> int (length (results @ new)) \<le> need)"
        using 2(2) [OF Some] 2(4) [OF Some] False by (simp add: skip'_def)
      then show ?thesis unfolding eq by (meson list.set_intros(2))
    next
      case True
      show ?thesis
      proof (cases "0 < need \<and> need \<le> int (length (results @ [j]))")
        case stop: True
        with True Some show ?thesis by (intro exI [of _ "[j]"]) auto
      next
        case go: False
        then obtain new where "snd (list_page t st ty need kvs skip (results @ [j])) = (results @ [j]) @ new"
          "\<forall>k\<in>set new. matches3 t st ty k \<and> (\<exists>i v. (i, v) \<in> set kvs \<and> unmarshal_job v = Some k)"
          "0 < need \<and> int (length (results @ [j])) < need \<longrightarrow> int (length ((results @ [j]) @ new)) \<le> need"
          using 2(3) [OF Some] True by (auto simp: Let_def)
        with True Some go show ?thesis by (intro exI [of _ "j # new"]) (auto simp: Let_def, blast+)
      qed
    qed
  qed
qed simp

lemma list_pages_spec:
  assumes "list_pages t st ty need ps err skip results = Inr js"
    and "\<forall>j\<in>set results. Q j" and "0 < need \<longrightarrow> int (length results) < need"
    and "\<And>j i v. (i, v) \<in> set (concat ps) \<Longrightarrow> unmarshal_job v = Some j \<Longrightarrow> matches3 t st ty j \<Longrightarrow> Q j"
  shows "(\<forall>j\<in>set js. Q j) \<and> (0 < need \<longrightarrow> int (length js) \<le> need)"
  using assms
proof (induction ps arbitrary: skip results)
  case Nil
  then show ?case by (auto split: option.splits)
next
  case (Cons p ps)
  obtain skip' res' where lp: "list_page t st ty need p skip results = (skip', res')"
    by (cases "list_page t st ty need p skip results")
  from list_page_spec [of t st ty need p skip results] obtain new where
    new: "res' = results @ new"
    "\<forall>j\<in>set new. matches3 t st ty j \<and> (\<exists>i v. (i, v) \<in> set p \<and> unmarshal_job v = Some j)"
    "0 < need \<and> int (length results) < need \<longrightarrow> int (length res') \<le> need" by (auto simp: lp)
  have Q: "\<forall>j\<in>set res'. Q j" using new(1,2) Cons.prems(2,4) by fastforce
  show ?case
  proof (cases "(ps = [] \<and> err = None) \<or> (0 < need \<and> need \<le> int (length res'))")
    case True
    then show ?thesis using Cons.prems(1,3) lp Q new(3) by auto
  next
    case False
    then have l: "list_pages t st ty need ps err skip' res' = Inr js" using Cons.prems(1) lp by auto
    have n: "0 < need \<longrightarrow> int (length res') < need" using False by auto
    show ?thesis by (rule Cons.IH [OF l Q n]) (rule Cons.prems(4), auto)
  qed
qed

context redis_up
begin

lemma revoke_each_gone:
  "k \<in> set ks \<or> map_option blob_text (str_get now db k) \<noteq> Some t \<Longrightarrow>
   map_option blob_text (str_get now (revoke_each r now t ks db) k) \<noteq> Some t"
proof (induction ks arbitrary: db)
  case (Cons k0 ks)
  define db1 where "db1 = (if map_option blob_text (str_get now db k0) = Some t then str_del k0 db else db)"
  have "revoke_each r now t (k0 # ks) db = revoke_each r now t ks db1"
    by (cases "str_get now db k0") (simp_all add: rcall_eq db1_def)
  moreover have "k \<in> set ks \<or> map_option blob_text (str_get now db1 k) \<noteq> Some t"
    using Cons.prems by (auto simp: db1_def)
  ultimately show ?case using Cons.IH [of db1] by simp
qed simp

lemma revoke_each_strs_only:
  "rHashes (revoke_each r now t ks db) = rHashes db"
proof (induction ks arbitrary: db)
  case (Cons k0 ks)
  then show ?case by (cases "str_get now db k0") (auto simp: rcall_eq)
qed simp

lemma Verify_up:
  "RedisStore_VerifyClient r now h db =
     ((case str_get now db (client_key h) of None \<Rightarrow> Inl ErrClientNotFound | Some b \<Rightarrow> Inr (blob_text b)), db)"
  by (simp add: RedisStore_VerifyClient_def rcall_eq split: option.split)

lemma live_keys_mem: "str_get now db k \<noteq> None \<Longrightarrow> HasPrefix k p \<Longrightarrow> k \<in> set (live_keys now p db)"
  by (force simp: live_keys_def str_get_def split: option.splits if_splits dest: map_of_SomeD)

lemma Revoke_up: "fst (RedisStore_VerifyClient r now h (snd (RedisStore_RevokeClient r now t db))) \<noteq> Inr t"
proof -
  let ?ks = "concat (fst (rscan r now ''task_queue:clients:'' db))"
  have p: "HasPrefix (client_key h) ''task_queue:clients:''" by (simp add: client_key_def HasPrefix_def)
  then have "client_key h \<in> set ?ks \<or> map_option blob_text (str_get now db (client_key h)) \<noteq> Some t"
    using live_keys_mem [of now db "client_key h"] scan_pages [of now "''task_queue:clients:''" db] by force
  from revoke_each_gone [OF this] show ?thesis
    by (auto simp: RedisStore_RevokeClient_def Verify_up Let_def case_prod_beta split: option.splits)
qed

lemma exec_each_sets:
  "exec_each r now (map (\<lambda>j. SET (f j) (g j) None) js) db =
     (None, fold (\<lambda>j. str_put (f j) (g j) None) js db)"
  by (induction js arbitrary: db) (simp_all add: rcall_err_up)

end

lemma fold_str_put_hashes [simp]: "rHashes (fold (\<lambda>j. str_put (f j) (g j) ex) js db) = rHashes db"
  by (induction js arbitrary: db) auto

section \<open>Properties\<close>



definition sample_store :: InMemoryStore where
  "sample_store = \<lparr>msData = [(''a'', zero_job\<lparr>jID := ''a'', jStatus := StatusCompleted, jUpdatedAt := 3\<rparr>),
     (''b'', zero_job\<lparr>jID := ''b'', jStatus := StatusPending, jUpdatedAt := 3\<rparr>)], msClients = [(''h'', ''t'')]\<rparr>"

text \<open>
  \<^verbatim>\<open>ListJobs\<close> of the in-memory store returns matching jobs only, newest first, and a page of
  exactly the requested size while there are that many left; without limit and offset it returns
  every matching job once.
\<close>

theorem mem_ListJobs_page:
  "\<exists>js. fst (InMemoryStore_ListJobs tenantID status typeStr limit offset s) = Inr js \<and>
     (\<forall>j\<in>set js. matches3 tenantID status typeStr j \<and> j \<in> snd ` set (msData s)) \<and>
     sorted_wrt (\<lambda>a b. jCreatedAt b \<le> jCreatedAt a) js \<and>
     (0 < limit \<and> 0 \<le> offset \<longrightarrow>
        int (length js) = max 0 (min limit (int (length (filter (matches3 tenantID status typeStr) (map snd (msData s)))) - offset))) \<and>
     (limit \<le> 0 \<and> offset \<le> 0 \<longrightarrow> mset js = mset (filter (matches3 tenantID status typeStr) (map snd (msData s))))"
proof -
  let ?m = "filter (matches3 tenantID status typeStr) (map snd (msData s))"
  let ?off = "if offset < 0 then 0 else offset" and ?lim = "if limit \<le> 0 then int (length ?m) else limit"
  have pg: "page ?off ?lim (newest_first ?m) = take (nat ?lim) (drop (nat ?off) (newest_first ?m))"
    by (intro page_eq) auto
  have "sorted_wrt (\<lambda>a b. jCreatedAt b \<le> jCreatedAt a) (take (nat ?lim) (drop (nat ?off) (newest_first ?m)))"
    by (intro sorted_wrt_take sorted_wrt_drop newest_first_sorted)
  moreover have "set (take (nat ?lim) (drop (nat ?off) (newest_first ?m))) \<subseteq> set ?m"
    by (metis newest_first_set(1) set_drop_subset set_take_subset subset_trans)
  moreover have "0 < limit \<Longrightarrow> 0 \<le> offset \<Longrightarrow> int (length (page offset limit (newest_first ?m))) =
      max 0 (min limit (int (length ?m) - offset))"
    by (subst page_length) auto
  ultimately show ?thesis
    by (simp add: InMemoryStore_ListJobs_def Let_def pg [symmetric]) (auto simp: pg page_eq)
qed

theorem mem_ListJobs_page_witness:
  "\<exists>js. fst (InMemoryStore_ListJobs '''' '''' '''' 1 0 sample_store) = Inr js \<and> length js = 1"
proof -
  obtain js where "fst (InMemoryStore_ListJobs '''' '''' '''' 1 0 sample_store) = Inr js"
    and "int (length js) = max 0 (min 1 (int (length (filter (matches3 '''' '''' '''') (map snd (msData sample_store)))) - 0))"
    using mem_ListJobs_page [of "''''" "''''" "''''" 1 0 sample_store] by auto
  then show ?thesis by (simp add: sample_store_def matches3_def)
qed

text \<open>
  Purging is exact: \<^verbatim>\<open>DeleteJobsBefore\<close> and \<^verbatim>\<open>ArchiveOldJobs\<close> of the in-memory store remove precisely
  the jobs that match (for the archive: finalized and older than the cutoff) and return how many.
\<close>

theorem mem_purge_exact:
  assumes "mem_ok s"
  shows "mem_lookup (snd (InMemoryStore_ArchiveOldJobs cutoff s)) i =
           (case mem_lookup s i of
              Some j \<Rightarrow> if finalized (jStatus j) \<and> jUpdatedAt j < cutoff then None else Some j | None \<Rightarrow> None) \<and>
         mem_lookup (snd (InMemoryStore_DeleteJobsBefore t st ty before s)) i =
           (case mem_lookup s i of
              Some j \<Rightarrow> if matches3 t st ty j \<and> jCreatedAt j < before then None else Some j | None \<Rightarrow> None) \<and>
         fst (InMemoryStore_ArchiveOldJobs cutoff s) =
           Inr (int (length (msData s)) - int (length (msData (snd (InMemoryStore_ArchiveOldJobs cutoff s)))))"
  using mem_purge_lookup [OF assms] mem_purge_count
  by (simp add: InMemoryStore_ArchiveOldJobs_def InMemoryStore_DeleteJobsBefore_def)

theorem mem_purge_exact_witness:
  "mem_lookup (snd (InMemoryStore_ArchiveOldJobs 5 sample_store)) ''a'' = None \<and>
   mem_lookup (snd (InMemoryStore_ArchiveOldJobs 5 sample_store)) ''b'' \<noteq> None"
proof -
  have "mem_ok sample_store" by (simp add: mem_ok_def sample_store_def)
  from mem_purge_exact [OF this, of 5 "''a''"] mem_purge_exact [OF this, of 5 "''b''"] show ?thesis
    by (auto simp: mem_lookup_def sample_store_def finalized_def)
qed

text \<open>
  The two implementations of \<^verbatim>\<open>IsDedupKeyTaken\<close> answer opposite things: the Redis store, asked about
  a key nobody has used, answers that it is taken and reserves it, and answers that it is free when
  asked again within a day; the in-memory store answers by the jobs it holds.
\<close>

theorem redis_dedup_inverted:
  assumes "redis_up r" and "key \<noteq> ''''"
    and "str_get now db (''dedup:'' @ tenant @ '':'' @ key) = None"
  shows "\<exists>db'. RedisStore_IsDedupKeyTaken r now key tenant db = (Inr True, db') \<and>
           (now \<le> later \<and> later < now + 24 * Hour \<longrightarrow>
              RedisStore_IsDedupKeyTaken r later key tenant db' = (Inr False, db')) \<and>
         fst (InMemoryStore_IsDedupKeyTaken key tenant NewInMemoryStore) = Inr False"
  using assms redis_up.rcall_eq [OF assms(1)]
  by (simp add: RedisStore_IsDedupKeyTaken_def rcall_int_def InMemoryStore_IsDedupKeyTaken_def NewInMemoryStore_def)

theorem redis_dedup_inverted_witness:
  "fst (RedisStore_IsDedupKeyTaken redis_ref 0 ''k'' ''t'' empty_rdb) = Inr True"
  using redis_dedup_inverted [OF rr.redis_up_axioms, of "''k''" 0 empty_rdb "''t''" 0]
  by (auto simp: str_get_def empty_rdb_def)

text \<open>
  Jobs saved through \<^verbatim>\<open>SaveBatch\<close> of the Redis store are invisible to it: the call succeeds and
  no lookup changes, because it writes string keys while every read uses the job hash.
\<close>

theorem redis_SaveBatch_invisible:
  assumes "redis_up r"
  shows "fst (RedisStore_SaveBatch r now batch db) = None \<and>
         rs_lookup (snd (RedisStore_SaveBatch r now batch db)) = rs_lookup db"
  unfolding RedisStore_SaveBatch_def redis_up.exec_each_sets [OF assms]
  by (simp add: rs_lookup_def fun_eq_iff)

theorem redis_SaveBatch_invisible_witness:
  "rs_lookup (snd (RedisStore_SaveBatch redis_ref 0 [zero_job\<lparr>jID := ''a''\<rparr>] empty_rdb)) ''a'' = None"
  using redis_SaveBatch_invisible [OF rr.redis_up_axioms, of 0 "[zero_job\<lparr>jID := ''a''\<rparr>]" empty_rdb]
  by (simp add: rs_lookup_def empty_rdb_def)

text \<open>
  \<^verbatim>\<open>ListJobs\<close> of the Redis store returns jobs of the store that match, newest first, and at most
  \<open>limit\<close> of them when a limit is given.
\<close>

theorem redis_ListJobs_sound:
  assumes "redis_service r" and "fst (RedisStore_ListJobs r now tenantID status typeStr limit offset db) = Inr js"
  shows "(\<forall>j\<in>set js. matches3 tenantID status typeStr j \<and>
            (\<exists>i v. (i, v) \<in> set (rHashes db jobStoreKey) \<and> unmarshal_job v = Some j)) \<and>
         sorted_wrt (\<lambda>a b. jCreatedAt b \<le> jCreatedAt a) js \<and> (0 < limit \<longrightarrow> int (length js) \<le> limit)"
proof -
  let ?need = "if limit \<le> 0 then - 1 else limit"
  let ?Q = "\<lambda>j. matches3 tenantID status typeStr j \<and>
            (\<exists>i v. (i, v) \<in> set (rHashes db jobStoreKey) \<and> unmarshal_job v = Some j)"
  obtain pages err where sc: "rhscan r jobStoreKey db = (pages, err)" by (cases "rhscan r jobStoreKey db")
  obtain ks where ks: "list_pages tenantID status typeStr ?need pages err offset [] = Inr ks" "js = newest_first ks"
    using assms(2) sc
    by (cases "list_pages tenantID status typeStr ?need pages err offset []")
       (auto simp: RedisStore_ListJobs_def Let_def)
  have sub: "set (concat pages) \<subseteq> set (rHashes db jobStoreKey)"
    using redis_service.hscan_some [OF assms(1), of jobStoreKey db] sc by simp
  have "(\<forall>j\<in>set ks. ?Q j) \<and> (0 < ?need \<longrightarrow> int (length ks) \<le> ?need)"
    by (rule list_pages_spec [OF ks(1)]) (use sub in auto)
  then show ?thesis using ks(2) newest_first_sorted by (auto split: if_splits)
qed

theorem redis_ListJobs_sound_witness:
  "fst (RedisStore_ListJobs redis_ref 0 '''' '''' '''' 5 0
          (put_hash jobStoreKey [(''a'', Doc (job_json zero_job))] empty_rdb)) = Inr [zero_job] \<and>
   matches3 '''' '''' '''' zero_job"
proof -
  let ?db = "put_hash jobStoreKey [(''a'', Doc (job_json zero_job))] empty_rdb"
  have l: "fst (RedisStore_ListJobs redis_ref 0 '''' '''' '''' 5 0 ?db) = Inr [zero_job]"
    by (simp add: RedisStore_ListJobs_def redis_ref_def matches3_def newest_first_def Let_def)
  then show ?thesis
    using redis_ListJobs_sound [OF rr.redis_service_axioms l] by simp
qed

text \<open>
  Revoking a tenant revokes every key of the tenant: afterwards no API key hash verifies as that
  tenant, in either store, and keys of other tenants of the in-memory store still do.
\<close>

theorem revoke_revokes:
  assumes "redis_up r"
  shows "fst (RedisStore_VerifyClient r now h (snd (RedisStore_RevokeClient r now tenant db))) \<noteq> Inr tenant \<and>
         fst (InMemoryStore_VerifyClient h (snd (InMemoryStore_RevokeClient tenant s))) \<noteq> Inr tenant \<and>
         (distinct (map fst (msClients s)) \<and> other \<noteq> tenant \<and> fst (InMemoryStore_VerifyClient h s) = Inr other \<longrightarrow>
            fst (InMemoryStore_VerifyClient h (snd (InMemoryStore_RevokeClient tenant s))) = Inr other)"
proof -
  have "map_of (filter (\<lambda>(h, t). t \<noteq> tenant) m) h \<noteq> Some tenant" for m :: "(string \<times> string) list"
    by (auto dest!: map_of_SomeD)
  then show ?thesis
    using redis_up.Revoke_up [OF assms] map_of_filter_distinct [of "msClients s" "\<lambda>(h, t). t \<noteq> tenant" h]
    by (auto simp: InMemoryStore_VerifyClient_def InMemoryStore_RevokeClient_def split: option.splits)
qed

theorem revoke_revokes_witness:
  "fst (InMemoryStore_VerifyClient ''h'' (snd (InMemoryStore_RevokeClient ''t'' sample_store))) \<noteq> Inr ''t''"
  using revoke_revokes [OF rr.redis_up_axioms] by blast



end
