(* ===== verification/Queue_Proofs.thy ===== *)
theory Queue_Proofs
  imports RedisQueue
begin

text \<open>
  Correctness of the broker. The first part is about keys and partitions; the second gives the
  abstract reading of \<^verbatim>\<open>Dequeue\<close> (a queue of payloads, a verdict on each that depends on the
  registry and the active sets only) and shows that the loop implements it; the rest are the exact effects
  of the other operations. Lemmas that need an answering Redis are proved in the locale \<open>redis_up\<close>.
\<close>

section \<open>Keys and partitions\<close>

lemma itoa_digit [simp]:
  "itoa 1 = ''1''" "itoa 2 = ''2''" "itoa 3 = ''3''"
  by code_simp+

lemma sum_list_int_nonneg [simp]: "0 \<le> sum_list (map int xs)"
  by (induction xs) auto

lemma rune_sum_nonneg [simp]: "0 \<le> rune_sum s"
  by (simp add: rune_sum_def)

lemma rune_sum_ascii: "is_ascii s \<Longrightarrow> rune_sum s = byte_sum s"
  by (simp add: rune_sum_def byte_sum_def runes_ascii)

lemma partition_index:
  assumes "0 < numPartitions q"
  shows "rune_sum i mod numPartitions q + 1 \<in> {1..numPartitions q}"
  using assms pos_mod_bound [of "numPartitions q" "rune_sum i"] by (simp add: add1_zle_eq)

lemma set_partition_keys [key_simps]:
  "set (partition_keys q base) = partition_key base ` {1..numPartitions q}"
  by (simp add: partition_keys_def)

lemma set_fair_keys [key_simps]:
  "set (getFairPartitionKeys q rnd) =
     (\<Union>base\<in>{qHigh q, qMedium q, qLow q}. set (partition_keys q base))"
  by (auto simp: getFairPartitionKeys_def)

lemma partitioned_key_fair:
  "0 < numPartitions q \<Longrightarrow> getPartitionedKey q i p \<in> set (getFairPartitionKeys q rnd)"
  using partition_index [of q i]
  by (auto simp: getPartitionedKey_def priority_base_def key_simps)

definition base_name :: "string \<Rightarrow> string" where
  \<comment> \<open>the part of every queue key that depends on the queue's name\<close>
  "base_name queueName = (if queueName \<noteq> '''' then ''task_queue:'' @ queueName else defaultQueueKey)"

lemma New_simps [simp]:
  "client (NewWithRateLimit r n l) = r"
  "qHigh (NewWithRateLimit r n l) = base_name n @ '':high''"
  "qMedium (NewWithRateLimit r n l) = base_name n @ '':medium''"
  "qLow (NewWithRateLimit r n l) = base_name n @ '':low''"
  "qDelayed (NewWithRateLimit r n l) = ''delayed_jobs''"
  "dlqKey (NewWithRateLimit r n l) = base_name n @ '':dead_letter''"
  "numPartitions (NewWithRateLimit r n l) = 3"
  "metricsTotal (NewWithRateLimit r n l) = base_name n @ '':metrics:total''"
  "metricsCompleted (NewWithRateLimit r n l) = base_name n @ '':metrics:completed''"
  "metricsFailed (NewWithRateLimit r n l) = base_name n @ '':metrics:failed''"
  "processedKey (NewWithRateLimit r n l) = base_name n @ '':processed''"
  "rateLimit (NewWithRateLimit r n l) = l"
  by (simp_all add: NewWithRateLimit_def base_name_def Let_def)

lemma upto_1_3 [simp]: "[1..3::int] = [1, 2, 3]"
  by (simp add: upto.simps)

lemma distinct_fair_keys:
  "distinct (getFairPartitionKeys (NewWithRateLimit r n l) rnd)"
  by (simp add: getFairPartitionKeys_def partition_keys_def partition_key_def)

definition plain_name :: "string \<Rightarrow> bool" where
  \<comment> \<open>names whose keys cannot collide with the deferred lists; the program uses none but \<open>''''\<close>\<close>
  "plain_name n \<longleftrightarrow> take 1 n \<noteq> ''d''"

lemma base_name_neq_deferred:
  assumes "plain_name n"
  shows "base_name n @ s \<noteq> ''task_queue:d'' @ t"
proof
  assume "base_name n @ s = ''task_queue:d'' @ t"
  with assms show False
    by (cases n) (auto simp: base_name_def defaultQueueKey_def plain_name_def)
qed

lemma fair_key_base:
  "k \<in> set (getFairPartitionKeys (NewWithRateLimit r n l) rnd) \<Longrightarrow> \<exists>s. k = base_name n @ s"
  by (auto simp: key_simps partition_key_def)

lemma deferred_keys_apart:
  assumes "plain_name n"
  shows "deferred_key t \<notin> set (getFairPartitionKeys (NewWithRateLimit r n l) rnd)"
    "deferred_tenant_key t \<notin> set (getFairPartitionKeys (NewWithRateLimit r n l) rnd)"
proof -
  have "deferred_key t = ''task_queue:d'' @ ''eferred:'' @ t"
    "deferred_tenant_key t = ''task_queue:d'' @ ''eferred_tenant:'' @ t"
    by (simp_all add: deferred_key_def deferred_tenant_key_def)
  then show "deferred_key t \<notin> set (getFairPartitionKeys (NewWithRateLimit r n l) rnd)"
    "deferred_tenant_key t \<notin> set (getFairPartitionKeys (NewWithRateLimit r n l) rnd)"
    using fair_key_base base_name_neq_deferred [OF assms] by metis+
qed

section \<open>The abstract dequeue\<close>

text \<open>
  \<open>pend\<close> lists the pending payloads in the order in which they will be popped. \<open>verdict\<close> is what
  the queue decides on a payload; it reads the two registries and, for the limits, the active sets
  without their expired members.
\<close>

definition pend :: "string list \<Rightarrow> rdb \<Rightarrow> blob list" where
  "pend keys db = concat (map (\<lambda>k. rev (rLists db k)) keys)"

datatype verdict = Bad | Defer string | Start Job

definition type_state :: "rdb \<Rightarrow> string \<Rightarrow> (int \<times> bool) option" where
  "type_state db t = (case map_of (rHashes db jobTypesKey) t of
     None \<Rightarrow> Some (0, False) | Some b \<Rightarrow> Option.bind (blob_json b) dec_limit_state)"

definition tenant_limit :: "rdb \<Rightarrow> string \<Rightarrow> int" where
  "tenant_limit db t = (case map_of (rHashes db tenantsKey) t of
     None \<Rightarrow> 0 | Some b \<Rightarrow> (case Option.bind (blob_json b) dec_limit of Some n \<Rightarrow> n | None \<Rightarrow> 0))"

definition active_now :: "time \<Rightarrow> rdb \<Rightarrow> string \<Rightarrow> int" where
  "active_now now db key = int (length (zsweep (Unix now) (rZsets db key)))"

definition verdict_of :: "time \<Rightarrow> rdb \<Rightarrow> blob \<Rightarrow> verdict" where
  "verdict_of now db raw =
     (case unmarshal_job raw of
        None \<Rightarrow> Bad
      | Some job \<Rightarrow>
          (case type_state db (jType job) of
             None \<Rightarrow> Bad
           | Some (limit, paused) \<Rightarrow>
               if paused then Defer (deferred_key (jType job))
               else if 0 < tenant_limit db (jTenantID job) \<and>
                       tenant_limit db (jTenantID job) \<le> active_now now db (active_tenant_key (jTenantID job))
               then Defer (deferred_tenant_key (jTenantID job))
               else if 0 < limit \<and> limit \<le> active_now now db (active_type_key (jType job))
               then Defer (deferred_key (jType job))
               else Start job))"

definition same_view :: "time \<Rightarrow> rdb \<Rightarrow> rdb \<Rightarrow> bool" where
  "same_view now db db' \<longleftrightarrow> rHashes db' = rHashes db \<and>
     (\<forall>k. zsweep (Unix now) (rZsets db' k) = zsweep (Unix now) (rZsets db k))"

lemma zsweep_idem [simp]: "zsweep h (zsweep h z) = zsweep h z"
  by (simp add: zsweep_def)

lemma same_view_refl [simp]: "same_view now db db"
  by (simp add: same_view_def)

lemma same_view_trans: "same_view now a b \<Longrightarrow> same_view now b c \<Longrightarrow> same_view now a c"
  by (simp add: same_view_def)

lemma same_view_put_list [simp]: "same_view now db (put_list k xs db') \<longleftrightarrow> same_view now db db'"
  by (simp add: same_view_def)

lemma same_view_sweep [simp]:
  "same_view now db (put_zset k (zsweep (Unix now) (rZsets db k)) db)"
  by (simp add: same_view_def)

lemma verdict_same_view: "same_view now db db' \<Longrightarrow> verdict_of now db' = verdict_of now db"
proof -
  assume "same_view now db db'"
  then have "type_state db' = type_state db" "tenant_limit db' = tenant_limit db"
    "active_now now db' = active_now now db"
    by (simp_all add: same_view_def type_state_def tenant_limit_def active_now_def fun_eq_iff)
  then show ?thesis unfolding verdict_of_def by (simp only:)
qed

lemma pend_Cons [simp]: "pend (k # ks) db = rev (rLists db k) @ pend ks db"
  by (simp add: pend_def)

lemma pend_Nil [simp]: "pend [] db = []"
  by (simp add: pend_def)

lemma pend_cong: "(\<And>k. k \<in> set keys \<Longrightarrow> rLists db k = rLists db' k) \<Longrightarrow> pend keys db = pend keys db'"
  by (induction keys) auto

lemma pend_put_other [simp]: "k \<notin> set keys \<Longrightarrow> pend keys (put_list k xs db) = pend keys db"
  by (rule pend_cong) auto

lemma pop_first_None: "pop_first keys db = None \<longleftrightarrow> pend keys db = []"
  by (induction keys) auto

lemma rev_last: "xs \<noteq> [] \<Longrightarrow> rev xs = last xs # rev (butlast xs)"
  by (induction xs rule: rev_induct) auto

lemma pop_first_Some:
  assumes "pop_first keys db = Some (k, raw, db')" and "distinct keys"
  shows "pend keys db = raw # pend keys db' \<and> k \<in> set keys \<and> rLists db k \<noteq> [] \<and>
         raw = last (rLists db k) \<and> db' = put_list k (butlast (rLists db k)) db"
  using assms
proof (induction keys)
  case (Cons k0 ks)
  show ?case
  proof (cases "rLists db k0 = []")
    case True
    with Cons have IH: "pend ks db = raw # pend ks db'" "k \<in> set ks" "rLists db k \<noteq> []"
      "raw = last (rLists db k)" "db' = put_list k (butlast (rLists db k)) db" by auto
    with Cons.prems(2) have "k \<noteq> k0" by auto
    with IH True show ?thesis by simp
  next
    case False
    with Cons.prems show ?thesis by (auto simp: rev_last)
  qed
qed simp

definition started :: "time \<Rightarrow> Job \<Rightarrow> Job" where
  "started now job = job\<lparr>jStatus := StatusProcessing, jUpdatedAt := now\<rparr>"

definition tracked :: "time \<Rightarrow> Job \<Rightarrow> rdb \<Rightarrow> rdb" where
  \<comment> \<open>the database after the tracking transaction\<close>
  "tracked now job db = snd (redis_multi now (track_cmds now job) db)"

definition deferred_to :: "rdb \<Rightarrow> string \<Rightarrow> blob \<Rightarrow> rdb \<Rightarrow> time \<Rightarrow> bool" where
  \<comment> \<open>\<open>db'\<close> is \<open>db\<close> with \<open>raw\<close> pushed on the list \<open>dk\<close> and at most expired active entries dropped\<close>
  "deferred_to db dk raw db' now \<longleftrightarrow>
     rLists db' = (rLists db)(dk := raw # rLists db dk) \<and> same_view now db db'"

context redis_up
begin

lemma active_count_up:
  assumes "client q = r"
  shows "active_count q now key db =
           (Inr (active_now now db key), put_zset key (zsweep (Unix now) (rZsets db key)) db)"
  using assms by (simp add: active_count_def rcall_int_def rcall_eq Let_def count_int_def active_now_def)

lemma getTenantLimit_up:
  "client q = r \<Longrightarrow> getTenantLimit q now t db = (tenant_limit db t, db)"
  by (simp add: getTenantLimit_def tenant_limit_def rcall_eq Let_def split: option.split)

lemma getJobTypeState_up:
  "client q = r \<Longrightarrow> getJobTypeState q now t db =
     ((case type_state db t of Some st \<Rightarrow> Inr st | None \<Rightarrow> Inl json_error), db)"
  by (simp add: getJobTypeState_def type_state_def rcall_eq Let_def split: option.split)

lemma defer_job_up:
  assumes "client q = r"
  shows "fst (defer_job q now key raw what db) = None \<and>
         snd (defer_job q now key raw what db) = put_list key (raw # rLists db key) db"
  using assms by (simp add: defer_job_def rcall_eq)

lemma start_job_up:
  "client q = r \<Longrightarrow> start_job q now job db = (Some (Inr (started now job)), tracked now (started now job) db)"
  by (simp add: start_job_def exec_eq started_def tracked_def Let_def)

lemmas gates_up = active_count_up getTenantLimit_up getJobTypeState_up start_job_up

lemma dequeue_body_empty:
  assumes "client q = r" and "pend keys db = []"
  shows "dequeue_body q now keys db = (Some (Inl (Errorf ''queue: dequeue timed out, no jobs available'')), db)"
  using assms pop_first_None [of keys db] by (simp add: dequeue_body_def rcall_eq)

lemma dequeue_body_pop:
  assumes "client q = r" and "pop_first keys db = Some (k, raw, db1)"
  shows "dequeue_body q now keys db =
     (case unmarshal_job raw of
        None \<Rightarrow> (Some (Inl (Wrap ''queue: failed to deserialise job payload: '' json_error '''')), db1)
      | Some job \<Rightarrow>
          (case type_state db1 (jType job) of
             None \<Rightarrow> (Some (Inl (Wrap (''queue: failed to get state for job type '' @ jType job @ '': '') json_error '''')), db1)
           | Some (limit, paused) \<Rightarrow>
               (if paused then defer_job q now (deferred_key (jType job)) raw (jID job) db1
                else tenant_gate q now job limit raw db1)))"
  using assms by (simp add: dequeue_body_def rcall_eq getJobTypeState_up split: option.split)

lemma body_defer:
  assumes c: "client q = r" and p: "pop_first keys db = Some (k, raw, db1)"
    and v: "verdict_of now db1 raw = Defer dk"
  shows "fst (dequeue_body q now keys db) = None \<and>
         deferred_to db1 dk raw (snd (dequeue_body q now keys db)) now"
  using v c unfolding dequeue_body_pop [OF c p] verdict_of_def
  by (auto simp: tenant_gate_def type_gate_def gates_up defer_job_up deferred_to_def fun_eq_iff
      same_view_def active_now_def Let_def split: option.splits if_splits)

lemma body_start:
  assumes c: "client q = r" and p: "pop_first keys db = Some (k, raw, db1)"
    and v: "verdict_of now db1 raw = Start job"
  shows "fst (dequeue_body q now keys db) = Some (Inr (started now job)) \<and>
         (\<exists>db2. snd (dequeue_body q now keys db) = tracked now (started now job) db2 \<and>
                rLists db2 = rLists db1 \<and> rStrs db2 = rStrs db1 \<and> same_view now db1 db2)"
  using v c unfolding dequeue_body_pop [OF c p] verdict_of_def
  by (auto simp: tenant_gate_def type_gate_def gates_up same_view_def active_now_def Let_def
      split: option.splits if_splits intro!: exI)

lemma body_bad:
  assumes c: "client q = r" and p: "pop_first keys db = Some (k, raw, db1)"
    and v: "verdict_of now db1 raw = Bad"
  shows "\<exists>e. dequeue_body q now keys db = (Some (Inl e), db1)"
  using v c unfolding dequeue_body_pop [OF c p] verdict_of_def
  by (auto split: option.splits if_splits)

end

lemma key_apart [key_simps, simp]:
  "active_type_key t \<noteq> processingSetKey" "active_tenant_key t \<noteq> processingSetKey"
  "active_type_key t \<noteq> active_tenant_key t'" "active_tenant_key t' \<noteq> active_type_key t"
  "job_active_key i \<noteq> job_active_tenant_key i'" "job_active_tenant_key i' \<noteq> job_active_key i"
  "payloadsKey \<noteq> jobTypesKey" "payloadsKey \<noteq> tenantsKey"
  "active_type_key t = active_type_key t2 \<longleftrightarrow> t = t2" "active_tenant_key t = active_tenant_key t2 \<longleftrightarrow> t = t2"
  by (simp_all add: active_type_key_def active_tenant_key_def processingSetKey_def job_active_key_def
      job_active_tenant_key_def payloadsKey_def jobTypesKey_def tenantsKey_def)

lemma active_keys_nonempty [simp]: "active_type_key t \<noteq> ''''" "active_tenant_key t \<noteq> ''''"
  by (simp_all add: active_type_key_def active_tenant_key_def)

lemma tracked_lists [simp]: "rLists (tracked now job db) = rLists db"
  by (simp add: tracked_def track_cmds_def Let_def)

lemma tracked_payloads:
  "rHashes (tracked now job db) payloadsKey =
     AList.update (jID job) (Doc (job_json job)) (rHashes db payloadsKey)"
  "k \<noteq> payloadsKey \<Longrightarrow> rHashes (tracked now job db) k = rHashes db k"
  by (simp_all add: tracked_def track_cmds_def Let_def)

lemma tracked_zsets:
  "rZsets (tracked now job db) k =
     (if k \<in> {processingSetKey, active_type_key (jType job), active_tenant_key (jTenantID job)}
      then AList.update (Txt (jID job)) (Unix (now + visibilityTimeout)) (rZsets db k) else rZsets db k)"
  by (simp add: tracked_def track_cmds_def Let_def)

lemma tracked_strs:
  "str_get t (tracked now job db) (job_active_key (jID job)) =
     (if t < now + (visibilityTimeout + Hour) then Some (Txt (active_type_key (jType job))) else None)"
  "str_get t (tracked now job db) (job_active_tenant_key (jID job)) =
     (if t < now + (visibilityTimeout + Hour) then Some (Txt (active_tenant_key (jTenantID job))) else None)"
  by (simp_all add: tracked_def track_cmds_def Let_def)

fun deferral :: "verdict \<Rightarrow> bool" where
  "deferral (Defer k) = True"
| "deferral _ = False"

definition dequeue_spec :: "time \<Rightarrow> string list \<Rightarrow> rdb \<Rightarrow> go_error + Job \<Rightarrow> rdb \<Rightarrow> bool" where
  \<comment> \<open>what one call owes: pass over the payloads that must wait, decide on the first other one\<close>
  "dequeue_spec now keys db res db' \<longleftrightarrow>
     (let waiting = takeWhile (\<lambda>x. deferral (verdict_of now db x)) (pend keys db);
          rest = dropWhile (\<lambda>x. deferral (verdict_of now db x)) (pend keys db)
      in pend keys db' = tl rest \<and>
         (\<forall>k. k \<notin> set keys \<longrightarrow>
            rLists db' k = rev (filter (\<lambda>x. verdict_of now db x = Defer k) waiting) @ rLists db k) \<and>
         (case rest of
            [] \<Rightarrow> res = Inl (Errorf ''queue: dequeue timed out, no jobs available'')
          | x # _ \<Rightarrow>
              (case verdict_of now db x of
                 Start job \<Rightarrow> res = Inr (started now job) \<and>
                   (\<exists>db2. db' = tracked now (started now job) db2 \<and> same_view now db db2)
               | _ \<Rightarrow> (\<exists>e. res = Inl e))))"

lemma verdict_Defer_key:
  "verdict_of now db raw = Defer dk \<Longrightarrow> dk \<in> range deferred_key \<union> range deferred_tenant_key"
  by (auto simp: verdict_of_def split: option.splits if_splits)

lemma dequeue_spec_defer:
  assumes pop: "pend keys db = raw # pend keys db1" and other: "\<And>k'. k' \<notin> set keys \<Longrightarrow> rLists db1 k' = rLists db k'"
    and view: "same_view now db db1" and v: "verdict_of now db raw = Defer dk" and dk: "dk \<notin> set keys"
    and step: "deferred_to db1 dk raw db2 now" and IH: "dequeue_spec now keys db2 res db'"
  shows "dequeue_spec now keys db res db'"
proof -
  have sv: "same_view now db db2" using view step by (auto simp: deferred_to_def intro: same_view_trans)
  have vd: "verdict_of now db2 = verdict_of now db" using sv by (rule verdict_same_view)
  have pd: "pend keys db2 = pend keys db1"
    using dk step by (intro pend_cong) (auto simp: deferred_to_def)
  have ls: "rLists db2 k = (if k = dk then raw # rLists db k else rLists db k)" if "k \<notin> set keys" for k
    using step other [OF that] by (auto simp: deferred_to_def)
  show ?thesis
    using IH unfolding dequeue_spec_def Let_def vd pd pop
    using v ls sv by (auto simp del: dropWhile_eq_Nil_conv split: list.splits verdict.splits
        intro: same_view_trans)
qed

context redis_up
begin

lemma dequeue_loop_spec:
  assumes c: "client q = r" and d: "distinct keys"
    and apart: "\<And>t. deferred_key t \<notin> set keys" "\<And>t. deferred_tenant_key t \<notin> set keys"
    and fuel: "length (pend keys db) < fuel"
  shows "\<exists>res. fst (dequeue_loop fuel q now keys db) = Some res \<and>
               dequeue_spec now keys db res (snd (dequeue_loop fuel q now keys db))"
  using fuel
proof (induction fuel arbitrary: db)
  case (Suc n)
  show ?case
  proof (cases "pop_first keys db")
    case None
    then have "pend keys db = []" by (simp add: pop_first_None)
    then show ?thesis using dequeue_body_empty [OF c] by (simp add: dequeue_spec_def)
  next
    case (Some p)
    then obtain k raw db1 where p: "pop_first keys db = Some (k, raw, db1)" by (cases p) auto
    note pop = pop_first_Some [OF p d]
    have view: "same_view now db db1" using pop by simp
    have vd: "verdict_of now db1 = verdict_of now db" using view by (rule verdict_same_view)
    have other: "\<And>k'. k' \<notin> set keys \<Longrightarrow> rLists db1 k' = rLists db k'" using pop by auto
    show ?thesis
    proof (cases "verdict_of now db raw")
      case Bad
      then obtain e where "dequeue_body q now keys db = (Some (Inl e), db1)"
        using body_bad [OF c p] vd by metis
      with Bad pop other show ?thesis by (simp add: dequeue_spec_def)
    next
      case (Start job)
      then obtain db2 where b: "dequeue_body q now keys db = (Some (Inr (started now job)), tracked now (started now job) db2)"
        and db2: "rLists db2 = rLists db1" "same_view now db1 db2"
        using body_start [OF c p] vd by (metis prod.collapse)
      have "pend keys db2 = pend keys db1" using db2 by (intro pend_cong) simp
      moreover have "pend keys (tracked now (started now job) db2) = pend keys db2"
        by (rule pend_cong) simp
      moreover have "same_view now db db2" using view db2(2) by (rule same_view_trans)
      ultimately show ?thesis
        using b Start pop other db2(1) by (auto simp: dequeue_spec_def)
    next
      case (Defer dk)
      then have dk: "dk \<notin> set keys" using apart verdict_Defer_key by fast
      obtain db2 where b: "dequeue_body q now keys db = (None, db2)" and st: "deferred_to db1 dk raw db2 now"
        using body_defer [OF c p] Defer vd by (metis prod.collapse)
      have "pend keys db2 = pend keys db1"
        using dk st by (intro pend_cong) (auto simp: deferred_to_def)
      then have "length (pend keys db2) < n" using Suc.prems pop by simp
      from Suc.IH [OF this] b show ?thesis
        using dequeue_spec_defer [OF _ other view Defer dk st] pop by fastforce
    qed
  qed
qed simp

end

section \<open>Ack and Fail\<close>

definition text_of :: "time \<Rightarrow> rdb \<Rightarrow> string \<Rightarrow> string" where
  "text_of now db k = (case str_get now db k of None \<Rightarrow> '''' | Some b \<Rightarrow> blob_text b)"

definition untrack_keys :: "time \<Rightarrow> rdb \<Rightarrow> string \<Rightarrow> string set" where
  \<comment> \<open>the sorted sets an acknowledgement clears\<close>
  "untrack_keys now db i =
     {processingSetKey} \<union> ({text_of now db (job_active_key i), text_of now db (job_active_tenant_key i)} - {''''})"

definition clears :: "time \<Rightarrow> string \<Rightarrow> rdb \<Rightarrow> rdb \<Rightarrow> bool" where
  \<comment> \<open>\<open>db'\<close> is \<open>db\<close> without the in-flight job \<open>i\<close>\<close>
  "clears now i db db' \<longleftrightarrow>
     rLists db' = rLists db \<and> rHashes db' = (rHashes db)(payloadsKey := hdel [i] (rHashes db payloadsKey)) \<and>
     (\<forall>k. rZsets db' k = (if k \<in> untrack_keys now db i then zrem (Txt i) (rZsets db k) else rZsets db k))"

lemma clears_gone:
  assumes "clears now i db db'"
  shows "map_of (rHashes db' payloadsKey) i = None"
    and "k \<in> untrack_keys now db i \<Longrightarrow> map_of (rZsets db' k) (Txt i) = None"
  using assms by (simp_all add: clears_def)

context redis_up
begin

lemma get_text_up: "get_text r now k db = (text_of now db k, db)"
  by (simp add: get_text_def text_of_def rcall_eq split: option.split)

lemma untrack_up:
  assumes "client q = r"
  shows "\<exists>rs db'. untrack q now i db = (Inr rs, db') \<and> clears now i db db' \<and>
           reply_int (hd rs) = int (length (rHashes db payloadsKey)) - int (length (hdel [i] (rHashes db payloadsKey)))"
  using assms
  by (simp add: untrack_def get_text_up exec_eq Let_def clears_def untrack_keys_def count_int_def fun_eq_iff)

lemma Ack_up:
  assumes c: "client q = r" and wf: "wf_rdb db" and i: "i \<noteq> ''''"
  shows "if map_of (rHashes db payloadsKey) i = None
         then fst (RedisQueue_Ack q now i db) = Some (Errorf (''queue: job '' @ i @ '' not found in active set''))
         else fst (RedisQueue_Ack q now i db) = None"
    and "clears now i db (snd (RedisQueue_Ack q now i db))"
proof -
  obtain rs db' where u: "untrack q now i db = (Inr rs, db')" and cl: "clears now i db db'"
    and n: "reply_int (hd rs) = int (length (rHashes db payloadsKey)) - int (length (hdel [i] (rHashes db payloadsKey)))"
    using untrack_up [OF c] by blast
  have "distinct (map fst (rHashes db payloadsKey))" using wf by (simp add: wf_rdb_def)
  then have "reply_int (hd rs) = (if map_of (rHashes db payloadsKey) i = None then 0 else 1)"
    using n by (cases "rHashes db payloadsKey") (auto simp: hdel_length_single)
  then show "if map_of (rHashes db payloadsKey) i = None
         then fst (RedisQueue_Ack q now i db) = Some (Errorf (''queue: job '' @ i @ '' not found in active set''))
         else fst (RedisQueue_Ack q now i db) = None"
    using u i by (simp add: RedisQueue_Ack_def)
  have "clears now i db (snd (rcall (client q) now (INCR (metricsCompleted q)) db'))"
    using cl c by (simp add: rcall_eq clears_def Let_def)
  then show "clears now i db (snd (RedisQueue_Ack q now i db))"
    using u i cl by (simp add: RedisQueue_Ack_def)
qed

lemma Fail_up:
  assumes c: "client q = r" and i: "i \<noteq> ''''" and raw: "map_of (rHashes db payloadsKey) i = Some raw"
    and job: "unmarshal_job raw = Some job"
  shows "fst (RedisQueue_Fail q now i reason db) = None"
    and "clears now i db (snd (RedisQueue_Fail q now i reason db)
           \<lparr>rLists := (rLists (snd (RedisQueue_Fail q now i reason db)))(dlqKey q := rLists db (dlqKey q))\<rparr>)"
    and "rLists (snd (RedisQueue_Fail q now i reason db)) (dlqKey q) =
           take 10000 (Doc (job_json (fail_update now reason job)) # rLists db (dlqKey q))"
proof -
  obtain rs db' where u: "untrack q now i db = (Inr rs, db')" and cl: "clears now i db db'"
    using untrack_up [OF c] by blast
  define db3 where "db3 = snd (redis_multi now (dlq_cmds q (fail_update now reason job)) db')"
  have F: "RedisQueue_Fail q now i reason db = (None, snd (redis_step now (INCR (metricsFailed q)) db3))"
    using c i raw job u by (simp add: RedisQueue_Fail_def rcall_eq exec_eq db3_def Let_def)
  have L: "rLists db' = rLists db" using cl by (simp add: clears_def)
  have D: "db3 = put_list (dlqKey q) (take 10000 (Doc (job_json (fail_update now reason job)) # rLists db (dlqKey q)))
              (put_list (dlqKey q) (Doc (job_json (fail_update now reason job)) # rLists db (dlqKey q)) db')"
    by (simp add: db3_def dlq_cmds_def range_slice_prefix L)
  show "fst (RedisQueue_Fail q now i reason db) = None" by (simp add: F)
  show "rLists (snd (RedisQueue_Fail q now i reason db)) (dlqKey q) =
           take 10000 (Doc (job_json (fail_update now reason job)) # rLists db (dlqKey q))"
    by (simp add: F D Let_def)
  show "clears now i db (snd (RedisQueue_Fail q now i reason db)
           \<lparr>rLists := (rLists (snd (RedisQueue_Fail q now i reason db)))(dlqKey q := rLists db (dlqKey q))\<rparr>)"
    using cl by (simp add: F D Let_def clears_def fun_eq_iff)
qed

end

section \<open>Promotion and reclaim\<close>

definition promotable :: "blob \<Rightarrow> bool" where
  \<comment> \<open>a member the script can decode\<close>
  "promotable b \<longleftrightarrow> (case lua_field b ''id'' of Some (JStr i) \<Rightarrow> True | _ \<Rightarrow> False)"

definition lua_id :: "blob \<Rightarrow> string" where
  "lua_id b = as_string (lua_field b ''id'')"

definition lua_dest :: "RedisQueue \<Rightarrow> blob \<Rightarrow> string" where
  "lua_dest q b = lua_target q b (lua_id b)"

lemma lua_field_job [simp]:
  "lua_field (Doc (job_json j)) ''id'' = Some (JStr (jID j))"
  "lua_field (Doc (job_json j)) ''priority'' = Some (JStr (jPriority j))"
  by (simp_all add: lua_field_def job_json_def job_fields_def)

lemma promotable_job [simp]: "promotable (Doc (job_json j))"
  by (simp add: promotable_def)

lemma lua_dest_job:
  assumes "is_ascii (jID j)"
  shows "lua_dest q (Doc (job_json j)) = getPartitionedKey q (jID j) (jPriority j)"
  using assms by (simp add: lua_dest_def lua_id_def as_string_def lua_target_def getPartitionedKey_def
      priority_base_def rune_sum_ascii)

lemma promotable_iff: "promotable b \<longleftrightarrow> (\<exists>i. lua_field b ''id'' = Some (JStr i))"
  by (simp add: promotable_def split: option.split json.split)

lemma promote_each_Cons:
  assumes "promotable b"
  shows "promote_each q now (b # bs) db = promote_each q now bs
           (put_zset (qDelayed q) (zrem b (rZsets db (qDelayed q)))
             (put_list (lua_dest q b) (b # rLists db (lua_dest q b)) db))"
  using assms by (auto simp: promotable_iff Let_def lua_dest_def lua_id_def as_string_def)

declare promote_each.simps(2) [simp del]

lemma promote_each_ok: "list_all promotable jobs \<Longrightarrow> fst (promote_each q now jobs db) = None"
  by (induction jobs arbitrary: db) (simp_all add: promote_each_Cons)

lemma promote_each_lists:
  "list_all promotable jobs \<Longrightarrow>
   rLists (snd (promote_each q now jobs db)) k = rev (filter (\<lambda>b. lua_dest q b = k) jobs) @ rLists db k"
  by (induction jobs arbitrary: db) (auto simp: promote_each_Cons)

lemma filter_zrem:
  "filter (\<lambda>(m, s). m \<notin> M) (zrem b z) = filter (\<lambda>(m, s). m \<notin> insert b M) z"
  unfolding zrem_def filter_filter by (rule filter_cong) auto

lemma promote_each_zsets:
  "list_all promotable jobs \<Longrightarrow>
   rZsets (snd (promote_each q now jobs db)) k =
     (if k = qDelayed q then filter (\<lambda>(m, s). m \<notin> set jobs) (rZsets db k) else rZsets db k)"
  by (induction jobs arbitrary: db) (auto simp: promote_each_Cons filter_zrem)

lemma promote_each_rest:
  "list_all promotable jobs \<Longrightarrow> rHashes (snd (promote_each q now jobs db)) = rHashes db"
  "list_all promotable jobs \<Longrightarrow> rStrs (snd (promote_each q now jobs db)) = rStrs db"
  by (induction jobs arbitrary: db) (simp_all add: promote_each_Cons)

definition due :: "redis \<Rightarrow> rdb \<Rightarrow> string \<Rightarrow> time \<Rightarrow> blob list" where
  "due r db key now = zrange (rorder r) db key (Unix now)"

lemma zrange_mem:
  "m \<in> set (zrange (rorder r) db key hi) \<longleftrightarrow>
     (\<exists>s. (m, s) \<in> set (rorder r (rZsets db key)) \<and> 0 \<le> s \<and> s \<le> hi)"
  by (force simp: zrange_def)

context redis_up
begin

lemma order_set [simp]: "set (rorder r z) = set z"
  using order_mset [of z] by (metis set_mset_mset)

lemma due_mem: "m \<in> set (due r db key now) \<longleftrightarrow> (\<exists>s. (m, s) \<in> set (rZsets db key) \<and> 0 \<le> s \<and> s \<le> Unix now)"
  by (simp add: due_def zrange_mem)

lemma due_length:
  "length (due r db key now) = length (filter (\<lambda>(m, s). 0 \<le> s \<and> s \<le> Unix now) (rZsets db key))"
proof -
  have "size (mset (filter P (rorder r z))) = size (mset (filter P z))" for P z
    by (simp only: mset_filter order_mset)
  then have "length (filter P (rorder r z)) = length (filter P z)" for P z
    by (simp only: size_mset)
  then show ?thesis by (simp add: due_def zrange_def)
qed

lemma due_not_due:
  assumes "wf_rdb db"
  shows "filter (\<lambda>(m, s). m \<notin> set (due r db key now)) (rZsets db key) =
         filter (\<lambda>(m, s). \<not> (0 \<le> s \<and> s \<le> Unix now)) (rZsets db key)"
proof (rule filter_cong [OF refl])
  fix x assume x: "x \<in> set (rZsets db key)"
  obtain m s where ms: "x = (m, s)" by (cases x)
  have "distinct (map fst (rZsets db key))" using assms by (simp add: wf_rdb_def)
  then have "\<And>s'. (m, s') \<in> set (rZsets db key) \<Longrightarrow> s' = s"
    using x ms eq_key_imp_eq_value by fast
  then have "m \<in> set (due r db key now) \<longleftrightarrow> 0 \<le> s \<and> s \<le> Unix now"
    using x unfolding due_mem ms by blast
  then show "(case x of (m, s) \<Rightarrow> m \<notin> set (due r db key now)) =
             (case x of (m, s) \<Rightarrow> \<not> (0 \<le> s \<and> s \<le> Unix now))"
    by (simp only: ms prod.case)
qed

lemma Promote_up:
  assumes c: "client q = r" and p: "list_all promotable (due r db (qDelayed q) now)"
  shows "RedisQueue_PromoteScheduledJobs q now db =
           (Inr (int (length (due r db (qDelayed q) now))), snd (promote_each q now (due r db (qDelayed q) now) db))"
proof -
  have "promote_each q now (due r db (qDelayed q) now) db =
          (None, snd (promote_each q now (due r db (qDelayed q) now) db))"
    using promote_each_ok [OF p] by (metis prod.collapse)
  then have "promoteScheduledJobsScript (rorder r) q now db =
          (Inr (int (length (due r db (qDelayed q) now))), snd (promote_each q now (due r db (qDelayed q) now) db))"
    unfolding promoteScheduledJobsScript_def due_def [symmetric] Let_def by (metis (lifting) option.case(1) prod.case)
  then show ?thesis
    using c by (simp add: RedisQueue_PromoteScheduledJobs_def eval_up)
qed

end

definition reclaimable :: "rdb \<Rightarrow> blob \<Rightarrow> bool" where
  \<comment> \<open>an in-flight member whose payload, if there is one, is a document\<close>
  "reclaimable db m \<longleftrightarrow> (case map_of (rHashes db payloadsKey) (blob_text m) of None \<Rightarrow> True | Some p \<Rightarrow> lua_object p)"

definition payload_of :: "rdb \<Rightarrow> blob \<Rightarrow> (string \<times> blob) option" where
  \<comment> \<open>where the script puts the payload of an in-flight member\<close>
  "payload_of db m = map_option (Pair (blob_text m)) (map_of (rHashes db payloadsKey) (blob_text m))"

definition reclaim_step :: "RedisQueue \<Rightarrow> blob \<Rightarrow> rdb \<Rightarrow> rdb" where
  "reclaim_step q m db =
     (let i = blob_text m;
          db1 = (case map_of (rHashes db payloadsKey) i of
                   None \<Rightarrow> db | Some p \<Rightarrow> put_list (lua_target q p i) (p # rLists db (lua_target q p i)) db)
      in put_hash payloadsKey (hdel [i] (rHashes db payloadsKey))
           (put_zset processingSetKey (zrem m (rZsets db processingSetKey)) db1))"

lemma reclaim_each_Cons:
  assumes "reclaimable db m"
  shows "reclaim_each q now (m # ms) db = reclaim_each q now ms (reclaim_step q m db)"
  using assms by (simp add: reclaimable_def reclaim_step_def Let_def split: option.splits)

declare reclaim_each.simps(2) [simp del]

lemma reclaim_step_get [simp]:
  "rHashes (reclaim_step q m db) k =
     (if k = payloadsKey then hdel [blob_text m] (rHashes db payloadsKey) else rHashes db k)"
  "rZsets (reclaim_step q m db) k =
     (if k = processingSetKey then zrem m (rZsets db processingSetKey) else rZsets db k)"
  "rStrs (reclaim_step q m db) = rStrs db"
  by (simp_all add: reclaim_step_def Let_def split: option.split)

lemma reclaim_step_lists:
  "rLists (reclaim_step q m db) k =
     (case payload_of db m of
        None \<Rightarrow> [] | Some (i, p) \<Rightarrow> if lua_target q p i = k then [p] else []) @ rLists db k"
  by (simp add: reclaim_step_def Let_def payload_of_def split: option.split)

definition reclaimed :: "RedisQueue \<Rightarrow> rdb \<Rightarrow> blob list \<Rightarrow> string \<Rightarrow> blob list" where
  \<comment> \<open>the payloads of \<open>ms\<close> whose target list is \<open>k\<close>, in order\<close>
  "reclaimed q db ms k =
     map snd (filter (\<lambda>(i, p). lua_target q p i = k) (List.map_filter (payload_of db) ms))"

lemma payload_of_step:
  "blob_text m' \<noteq> blob_text m \<Longrightarrow> payload_of (reclaim_step q m db) m' = payload_of db m'"
  "blob_text m' \<noteq> blob_text m \<Longrightarrow> reclaimable (reclaim_step q m db) m' = reclaimable db m'"
  by (simp_all add: payload_of_def reclaimable_def)

lemma map_filter_cong: "(\<And>x. x \<in> set xs \<Longrightarrow> f x = g x) \<Longrightarrow> List.map_filter f xs = List.map_filter g xs"
  by (induction xs) (auto simp: List.map_filter_simps split: option.split)

lemma reclaim_each_effect:
  assumes "\<forall>m\<in>set ms. reclaimable db m" and "distinct (map blob_text ms)"
  shows "fst (reclaim_each q now ms db) = None \<and>
         rLists (snd (reclaim_each q now ms db)) k = rev (reclaimed q db ms k) @ rLists db k \<and>
         rZsets (snd (reclaim_each q now ms db)) k =
           (if k = processingSetKey then filter (\<lambda>(m, s). m \<notin> set ms) (rZsets db k) else rZsets db k) \<and>
         rHashes (snd (reclaim_each q now ms db)) payloadsKey = hdel (map blob_text ms) (rHashes db payloadsKey)"
  using assms
proof (induction ms arbitrary: db)
  case Nil
  then show ?case by (simp add: reclaimed_def List.map_filter_simps hdel_absent)
next
  case (Cons m ms)
  let ?db = "reclaim_step q m db"
  have ne: "\<And>m'. m' \<in> set ms \<Longrightarrow> blob_text m' \<noteq> blob_text m"
    using Cons.prems(2) by (simp add: image_iff) metis
  have rc: "\<forall>m'\<in>set ms. reclaimable ?db m'" using Cons.prems ne payload_of_step(2) by auto
  have "List.map_filter (payload_of ?db) ms = List.map_filter (payload_of db) ms"
    using ne payload_of_step(1) by (intro map_filter_cong) auto
  then have rd: "reclaimed q ?db ms k = reclaimed q db ms k" by (simp add: reclaimed_def)
  have hd: "hdel (map blob_text ms) (hdel [blob_text m] h) = hdel (map blob_text (m # ms)) h" for h
    unfolding hdel_def filter_filter by (rule filter_cong) auto
  have E: "reclaim_each q now (m # ms) db = reclaim_each q now ms ?db"
    using Cons.prems by (intro reclaim_each_Cons) simp
  show ?case
    using Cons.IH [OF rc] Cons.prems(2) rd hd
    by (auto simp: E reclaim_step_lists filter_zrem reclaimed_def List.map_filter_simps
        split: option.split prod.split)
qed

context redis_up
begin

lemma Reclaim_up:
  assumes c: "client q = r" and ok: "\<forall>m\<in>set (due r db processingSetKey now). reclaimable db m"
    and d: "distinct (map blob_text (due r db processingSetKey now))"
  shows "RedisQueue_ReclaimTimedOutJobs q now db =
           (Inr (int (length (due r db processingSetKey now))),
            snd (reclaim_each q now (due r db processingSetKey now) db))"
proof -
  have "reclaim_each q now (due r db processingSetKey now) db =
          (None, snd (reclaim_each q now (due r db processingSetKey now) db))"
    using reclaim_each_effect [OF ok d] by (metis prod.collapse)
  then have "reclaimTimedOutJobsScript (rorder r) q now db =
          (Inr (int (length (due r db processingSetKey now))), snd (reclaim_each q now (due r db processingSetKey now) db))"
    unfolding reclaimTimedOutJobsScript_def due_def [symmetric] Let_def by (metis (lifting) option.case(1) prod.case)
  then show ?thesis
    using c by (simp add: RedisQueue_ReclaimTimedOutJobs_def eval_up)
qed

end

end
