(* ===== verification/Queue_Inv.thy ===== *)
theory Queue_Inv
  imports Queue_Proofs
begin

text \<open>
  The representation invariant of the database (every hash, sorted set and set has distinct
  members) is kept by every operation of the broker, also when Redis fails in the middle of it:
  the lemmas are in the locale \<open>redis_service\<close>, which allows any command to fail.
\<close>

context redis_service
begin

lemma exec_wf: "rexec r now cs db = (x, db') \<Longrightarrow> wf_rdb db \<Longrightarrow> wf_rdb db'"
  using exec_ok exec_err redis_multi_wf by (cases x) (metis snd_conv)+

lemma rcall_wf: "rcall r now c db = (x, db') \<Longrightarrow> wf_rdb db \<Longrightarrow> wf_rdb db'"
  using rcall_db redis_step_wf by (metis snd_conv)

lemma rcall_wf_snd [simp]: "wf_rdb db \<Longrightarrow> wf_rdb (snd (rcall r now c db))"
  using rcall_wf by (metis prod.collapse)

lemma rcall_int_wf: "rcall_int r now c db = (x, db') \<Longrightarrow> wf_rdb db \<Longrightarrow> wf_rdb db'"
  by (auto simp: rcall_int_def split: prod.splits sum.splits dest: rcall_wf)

lemma rcall_err_wf: "RedisQueue.rcall_err r now c db = (x, db') \<Longrightarrow> wf_rdb db \<Longrightarrow> wf_rdb db'"
  by (auto simp: RedisQueue.rcall_err_def split: prod.splits sum.splits dest: rcall_wf)

lemma get_text_wf: "get_text r now k db = (x, db') \<Longrightarrow> wf_rdb db \<Longrightarrow> wf_rdb db'"
  by (auto simp: get_text_def split: prod.splits sum.splits dest: rcall_wf)

end

text \<open>A broker over a Redis that may fail.\<close>

locale queue_service = redis_service "client q" for q :: RedisQueue
begin

lemmas calls_wf = exec_wf rcall_wf rcall_int_wf rcall_err_wf get_text_wf

lemma Enqueue_wf: "wf_rdb db \<Longrightarrow> wf_rdb (snd (snd (RedisQueue_Enqueue q tr now j db)))"
  by (cases j) (auto simp: RedisQueue_Enqueue_def Let_def split: prod.split sum.split dest: rcall_wf)

lemma active_count_wf: "active_count q now key db = (x, db') \<Longrightarrow> wf_rdb db \<Longrightarrow> wf_rdb db'"
  by (auto simp: active_count_def Let_def dest: rcall_int_wf)

lemma defer_job_wf: "wf_rdb db \<Longrightarrow> wf_rdb (snd (defer_job q now key raw what db))"
  by (auto simp: defer_job_def split: prod.split sum.split dest: rcall_wf)

lemma start_job_wf: "wf_rdb db \<Longrightarrow> wf_rdb (snd (start_job q now job db))"
  by (auto simp: start_job_def Let_def split: prod.split sum.split dest: exec_wf)

lemma type_gate_wf: "wf_rdb db \<Longrightarrow> wf_rdb (snd (type_gate q now job limit raw db))"
  by (auto simp: type_gate_def defer_job_wf start_job_wf split: prod.split sum.split dest: active_count_wf)

lemma getTenantLimit_wf: "getTenantLimit q now t db = (x, db') \<Longrightarrow> wf_rdb db \<Longrightarrow> wf_rdb db'"
  by (auto simp: getTenantLimit_def split: prod.splits sum.splits dest: rcall_wf)

lemma getJobTypeState_wf: "getJobTypeState q now t db = (x, db') \<Longrightarrow> wf_rdb db \<Longrightarrow> wf_rdb db'"
  by (auto simp: getJobTypeState_def split: prod.splits sum.splits dest: rcall_wf)

lemma tenant_gate_wf: "wf_rdb db \<Longrightarrow> wf_rdb (snd (tenant_gate q now job limit raw db))"
  by (auto simp: tenant_gate_def defer_job_wf type_gate_wf split: prod.split sum.split
      dest: active_count_wf getTenantLimit_wf)

lemma dequeue_body_wf: "wf_rdb db \<Longrightarrow> wf_rdb (snd (dequeue_body q now keys db))"
  by (auto simp: dequeue_body_def defer_job_wf tenant_gate_wf split: prod.split sum.split reply.split option.split
      dest: rcall_wf getJobTypeState_wf)

lemma dequeue_loop_wf: "wf_rdb db \<Longrightarrow> wf_rdb (snd (dequeue_loop n q now keys db))"
proof (induction n arbitrary: db)
  case (Suc n)
  then show ?case
    using dequeue_body_wf [of db now keys] by (auto split: prod.split option.split)
qed simp

lemma Dequeue_wf: "wf_rdb db \<Longrightarrow> wf_rdb (snd (RedisQueue_Dequeue n q rnd now db))"
  by (simp add: RedisQueue_Dequeue_def dequeue_loop_wf)

lemma untrack_wf: "untrack q now i db = (x, db') \<Longrightarrow> wf_rdb db \<Longrightarrow> wf_rdb db'"
  by (auto simp: untrack_def Let_def split: prod.splits dest!: exec_wf get_text_wf)

lemma Ack_wf: "wf_rdb db \<Longrightarrow> wf_rdb (snd (RedisQueue_Ack q now i db))"
  by (auto simp: RedisQueue_Ack_def split: prod.split sum.split dest: untrack_wf)

lemma Fail_wf: "wf_rdb db \<Longrightarrow> wf_rdb (snd (RedisQueue_Fail q now i reason db))"
  by (auto simp: RedisQueue_Fail_def split: prod.split sum.split option.split
      dest!: untrack_wf exec_wf rcall_wf)

lemma promote_each_wf: "wf_rdb db \<Longrightarrow> wf_rdb (snd (promote_each q now jobs db))"
proof (induction jobs arbitrary: db)
  case (Cons b bs)
  then show ?case
    by (auto simp: promote_each.simps(2) Let_def redis_step_wf simp del: redis_step.simps
        split: option.split json.split)
qed simp

lemma reclaim_each_wf: "wf_rdb db \<Longrightarrow> wf_rdb (snd (reclaim_each q now ms db))"
proof (induction ms arbitrary: db)
  case (Cons m ms)
  then show ?case
    by (auto simp: reclaim_each.simps(2) Let_def redis_step_wf simp del: redis_step.simps split: option.split)
qed simp

lemma eval_wf:
  assumes "reval (client q) now script db = (x, db')" and "wf_rdb db" and "wf_rdb (snd (script db))"
  shows "wf_rdb db'"
  using eval_run [of now script db] assms by (metis snd_conv)

lemma Promote_wf: "wf_rdb db \<Longrightarrow> wf_rdb (snd (RedisQueue_PromoteScheduledJobs q now db))"
proof -
  assume wf: "wf_rdb db"
  then have "wf_rdb (snd (promoteScheduledJobsScript (rorder (client q)) q now db))"
    using promote_each_wf [OF wf, of now "zrange (rorder (client q)) db (qDelayed q) (Unix now)"]
    by (auto simp: promoteScheduledJobsScript_def Let_def split: prod.split option.split)
  with wf show ?thesis
    by (auto simp: RedisQueue_PromoteScheduledJobs_def split: prod.split sum.split dest: eval_wf)
qed

lemma Reclaim_wf: "wf_rdb db \<Longrightarrow> wf_rdb (snd (RedisQueue_ReclaimTimedOutJobs q now db))"
proof -
  assume wf: "wf_rdb db"
  then have "wf_rdb (snd (reclaimTimedOutJobsScript (rorder (client q)) q now db))"
    using reclaim_each_wf [OF wf, of now "zrange (rorder (client q)) db processingSetKey (Unix now)"]
    by (auto simp: reclaimTimedOutJobsScript_def Let_def split: prod.split option.split)
  with wf show ?thesis
    by (auto simp: RedisQueue_ReclaimTimedOutJobs_def split: prod.split sum.split dest: eval_wf)
qed

lemma IsAllowed_wf: "wf_rdb db \<Longrightarrow> wf_rdb (snd (RedisQueue_IsAllowed q now t db))"
  by (auto simp: RedisQueue_IsAllowed_def Let_def split: prod.split sum.split dest: rcall_int_wf)

lemma reconcile_move_wf: "wf_rdb db \<Longrightarrow> wf_rdb (snd (reconcile_move n q now key moved db))"
proof (induction n arbitrary: moved db)
  case (Suc n)
  then show ?case by (auto split: prod.split sum.split option.split dest: rcall_wf)
qed simp

lemma reconcile_one_wf: "reconcile_one q now dk ak limit moved db = (x, db') \<Longrightarrow> wf_rdb db \<Longrightarrow> wf_rdb db'"
  using reconcile_move_wf
  by (auto simp: reconcile_one_def split: prod.splits sum.splits if_splits dest!: rcall_int_wf active_count_wf)
     (metis snd_conv)+

lemma reconcile_types_wf: "reconcile_types q now ts moved db = (x, db') \<Longrightarrow> wf_rdb db \<Longrightarrow> wf_rdb db'"
proof (induction ts arbitrary: moved db)
  case (Cons t ts)
  then show ?case
    by (cases t) (auto simp: Let_def split: option.splits prod.splits if_splits dest: reconcile_one_wf)
qed simp

lemma reconcile_tenants_wf: "reconcile_tenants q now ts moved db = (x, db') \<Longrightarrow> wf_rdb db \<Longrightarrow> wf_rdb db'"
proof (induction ts arbitrary: moved db)
  case (Cons t ts)
  then show ?case
    by (cases t) (auto simp: Let_def split: option.splits prod.splits dest: reconcile_one_wf)
qed simp

lemma Reconcile_wf: "wf_rdb db \<Longrightarrow> wf_rdb (snd (RedisQueue_ReconcileDeferredJobs q now db))"
  by (auto simp: RedisQueue_ReconcileDeferredJobs_def Let_def split: prod.split sum.split
      dest!: rcall_wf reconcile_types_wf reconcile_tenants_wf)

end

interpretation qs: queue_service "NewWithRateLimit redis_ref name limit"
  by (simp add: queue_service_def rr.redis_service_axioms)

end
