(* ===== verification/Queue_Props.thy ===== *)
theory Queue_Props
  imports Queue_Inv
begin

text \<open>
  The properties of the broker, stated for the queue \<^verbatim>\<open>New\<close> builds over any Redis that answers
  (\<open>redis_up\<close>). Witnesses instantiate the service with \<open>redis_ref\<close>.
\<close>

section \<open>Supporting lemmas\<close>

lemma zsweep_update_length:
  "length (zsweep h (AList.update m s z)) \<le> Suc (length (zsweep h z))"
  by (induction z) (auto simp: zsweep_def)

lemma started_fields [simp]:
  "jType (started now job) = jType job" "jTenantID (started now job) = jTenantID job"
  "jID (started now job) = jID job" "jStatus (started now job) = StatusProcessing"
  by (simp_all add: started_def)

lemma dequeue_spec_start:
  assumes "dequeue_spec now keys db (Inr job) db'"
  obtains raw job0 db2 where "raw \<in> set (pend keys db)" and "verdict_of now db raw = Start job0"
    and "job = started now job0" and "db' = tracked now job db2" and "same_view now db db2"
proof -
  let ?w = "\<lambda>x. deferral (verdict_of now db x)"
  obtain raw rest where rest: "dropWhile ?w (pend keys db) = raw # rest"
    using assms by (cases "dropWhile ?w (pend keys db)") (auto simp: dequeue_spec_def Let_def)
  then have m: "raw \<in> set (pend keys db)" by (metis list.set_intros(1) set_dropWhileD)
  from assms rest obtain job0 db2 where "verdict_of now db raw = Start job0" "job = started now job0"
    "db' = tracked now job db2" "same_view now db db2"
    by (auto simp: dequeue_spec_def Let_def split: verdict.splits)
  with m show thesis by (rule that)
qed

lemma pend_push_length:
  assumes "k \<in> set keys" and "distinct keys"
  shows "length (pend keys (put_list k (x # rLists db k) db)) = Suc (length (pend keys db))"
  using assms by (induction keys) auto

lemma partitioned_key_neq_base:
  "getPartitionedKey (NewWithRateLimit r n l) i p \<noteq> base_name n @ '':high''"
  "getPartitionedKey (NewWithRateLimit r n l) i p \<noteq> base_name n @ '':medium''"
  "getPartitionedKey (NewWithRateLimit r n l) i p \<noteq> base_name n @ '':low''"
  by (simp_all add: getPartitionedKey_def priority_base_def partition_key_def)

lemma Enqueue_up:
  assumes "redis_up r" and "client q = r"
  shows "RedisQueue_Enqueue q tr now (Some j) db =
     (let j' = j\<lparr>jTraceID := tr\<rparr>; payload = Doc (job_json j'); k = getPartitionedKey q (jID j) (jPriority j);
          db1 = (if now < jRunAt j
                 then put_zset (qDelayed q) (AList.update payload (Unix (jRunAt j)) (rZsets db (qDelayed q))) db
                 else put_list k (payload # rLists db k) db)
      in (None, Some j', if jRetries j = 0 then snd (redis_step now (INCR (metricsTotal q)) db1) else db1))"
  using assms(2) redis_up.rcall_eq [OF assms(1)] by (simp add: RedisQueue_Enqueue_def Let_def)

fun enqueue_all :: "RedisQueue \<Rightarrow> string \<Rightarrow> time \<Rightarrow> Job list \<Rightarrow> rdb \<Rightarrow> rdb" where
  \<comment> \<open>a run of \<open>Enqueue\<close> calls\<close>
  "enqueue_all q tr now [] db = db"
| "enqueue_all q tr now (j # js) db = enqueue_all q tr now js (snd (snd (RedisQueue_Enqueue q tr now (Some j) db)))"

fun allowed_run :: "RedisQueue \<Rightarrow> string \<Rightarrow> time list \<Rightarrow> rdb \<Rightarrow> (go_error + bool) list" where
  \<comment> \<open>the answers of \<open>IsAllowed\<close> at the given times\<close>
  "allowed_run q tenant [] db = []"
| "allowed_run q tenant (t # ts) db =
     (let (res, db') = RedisQueue_IsAllowed q t tenant db in res # allowed_run q tenant ts db')"

lemma Size_up:
  assumes "redis_up r" and "client q = r"
  shows "fst (RedisQueue_Size q now db) =
     Inr (int (length (rLists db (qHigh q))) + int (length (rLists db (qMedium q))) + int (length (rLists db (qLow q))))"
  using assms(2) redis_up.rcall_eq [OF assms(1)]
  by (simp add: RedisQueue_Size_def rcall_int_def int_or_0_def Let_def)

lemma pend_lists: "rLists db' = rLists db \<Longrightarrow> pend keys db' = pend keys db"
  by (rule pend_cong) simp

lemma enqueue_all_blind:
  fixes r n l
  defines "q \<equiv> NewWithRateLimit r n l"
  assumes up: "redis_up r" and due: "\<forall>j\<in>set js. jRunAt j \<le> now"
  shows "length (pend (getFairPartitionKeys q rnd) (enqueue_all q tr now js db)) =
           length (pend (getFairPartitionKeys q rnd) db) + length js \<and>
         fst (RedisQueue_Size q now (enqueue_all q tr now js db)) = fst (RedisQueue_Size q now db)"
  using due
proof (induction js arbitrary: db)
  case (Cons j js)
  let ?k = "getPartitionedKey q (jID j) (jPriority j)" and ?p = "Doc (job_json (j\<lparr>jTraceID := tr\<rparr>))"
  let ?db = "snd (snd (RedisQueue_Enqueue q tr now (Some j) db))"
  have L: "rLists ?db = rLists (put_list ?k (?p # rLists db ?k) db)"
    using Cons.prems Enqueue_up [OF up, of q tr now j db] by (simp add: q_def Let_def)
  have "?k \<in> set (getFairPartitionKeys q rnd)" by (rule partitioned_key_fair) (simp add: q_def)
  then have "length (pend (getFairPartitionKeys q rnd) ?db) = Suc (length (pend (getFairPartitionKeys q rnd) db))"
    using pend_push_length pend_lists [OF L] distinct_fair_keys by (metis q_def)
  moreover have "fst (RedisQueue_Size q now ?db) = fst (RedisQueue_Size q now db)"
    using partitioned_key_neq_base [of r n l "jID j" "jPriority j"] Size_up [OF up, of q] L
    by (simp add: q_def)
  ultimately show ?case using Cons by simp
qed simp

lemma IsAllowed_first:
  assumes up: "redis_up r" and q: "client q = r" "0 < rateLimit q" and t: "tenant \<noteq> ''''"
    and fresh: "str_get now db (rate_key tenant) = None"
  shows "fst (RedisQueue_IsAllowed q now tenant db) = Inr (1 \<le> rateLimit q) \<and>
         map_of (rStrs (snd (RedisQueue_IsAllowed q now tenant db))) (rate_key tenant) = Some (Num 1, Some (now + Second))"
  using q t fresh redis_up.rcall_eq [OF up]
  by (simp add: RedisQueue_IsAllowed_def rcall_int_def Let_def str_put_def update_conv' str_get_def
      str_expiry_def split: option.splits if_splits)

lemma IsAllowed_next:
  assumes up: "redis_up r" and q: "client q = r" "0 < rateLimit q" and t: "tenant \<noteq> ''''"
    and st: "map_of (rStrs db) (rate_key tenant) = Some (Num c, Some ex)" and live: "now < ex" and c: "0 < c"
  shows "fst (RedisQueue_IsAllowed q now tenant db) = Inr (c + 1 \<le> rateLimit q) \<and>
         map_of (rStrs (snd (RedisQueue_IsAllowed q now tenant db))) (rate_key tenant) = Some (Num (c + 1), Some ex)"
  using q t st live c redis_up.rcall_eq [OF up]
  by (simp add: RedisQueue_IsAllowed_def rcall_int_def Let_def str_put_def update_conv' str_get_def
      str_expiry_def blob_int_def)

lemma allowed_run_window:
  assumes up: "redis_up r" and q: "client q = r" "0 < rateLimit q" and t: "tenant \<noteq> ''''"
    and st: "map_of (rStrs db) (rate_key tenant) = Some (Num (int c), Some ex)" and c: "0 < c"
    and live: "\<forall>t\<in>set ts. t < ex"
  shows "allowed_run q tenant ts db = map (\<lambda>i. Inr (int i < rateLimit q)) [c..<c + length ts]"
  using st c live
proof (induction ts arbitrary: db c)
  case (Cons t ts)
  note nxt = IsAllowed_next [OF up q t Cons.prems(1), of t]
  have "allowed_run q tenant ts (snd (RedisQueue_IsAllowed q t tenant db)) =
        map (\<lambda>i. Inr (int i < rateLimit q)) [Suc c..<Suc c + length ts]"
    using nxt Cons.prems by (intro Cons.IH) (auto simp: add.commute)
  moreover have "fst (RedisQueue_IsAllowed q t tenant db) = Inr (int c < rateLimit q)"
    using nxt Cons.prems by auto
  moreover have "[c..<c + length (t # ts)] = c # [Suc c..<Suc c + length ts]"
    by (simp add: upt_conv_Cons del: upt_Suc)
  ultimately show ?case by (simp add: case_prod_beta)
qed simp

definition reconcile_dest :: "RedisQueue \<Rightarrow> blob \<Rightarrow> string" where
  "reconcile_dest q b = (case dec_id_priority b of Some (i, p) \<Rightarrow> getPartitionedKey q i p | None \<Rightarrow> '''')"

lemma reconcile_move_spec:
  assumes up: "redis_up r" and q: "client q = r"
    and apart: "\<And>i p. getPartitionedKey q i p \<noteq> key"
    and ok: "\<forall>b\<in>set (rLists db key). dec_id_priority b \<noteq> None"
  shows "fst (reconcile_move m q now key moved db) = moved + int (min m (length (rLists db key))) \<and>
         rLists (snd (reconcile_move m q now key moved db)) key = take (length (rLists db key) - m) (rLists db key) \<and>
         (k \<noteq> key \<longrightarrow> rLists (snd (reconcile_move m q now key moved db)) k =
            rev (filter (\<lambda>b. reconcile_dest q b = k) (take m (rev (rLists db key)))) @ rLists db k)"
  using ok
proof (induction m arbitrary: moved db)
  case (Suc m)
  show ?case
  proof (cases "rLists db key = []")
    case True
    then show ?thesis using q redis_up.rcall_eq [OF up] by simp
  next
    case False
    then obtain xs b where xs: "rLists db key = xs @ [b]" by (metis rev_exhaust)
    obtain i p where ip: "dec_id_priority b = Some (i, p)" using Suc.prems xs by fastforce
    let ?k = "getPartitionedKey q i p"
    define db1 where "db1 = put_list ?k (b # rLists db ?k) (put_list key xs db)"
    have step: "reconcile_move (Suc m) q now key moved db = reconcile_move m q now key (moved + 1) db1"
      using q redis_up.rcall_eq [OF up] xs ip apart [of i p] by (simp add: db1_def)
    have L: "rLists db1 key = xs" using apart [of i p] by (simp add: db1_def)
    have "\<forall>b\<in>set (rLists db1 key). dec_id_priority b \<noteq> None" using Suc.prems xs by (simp add: L)
    note IH = Suc.IH [OF this, of "moved + 1"]
    have D: "reconcile_dest q b = ?k" by (simp add: reconcile_dest_def ip)
    have K: "k \<noteq> key \<Longrightarrow> rLists db1 k = (if ?k = k then [b] else []) @ rLists db k"
      by (simp add: db1_def)
    show ?thesis unfolding step xs using IH D K by (auto simp: L min_def)
  qed
qed simp

section \<open>A concrete queue for the witnesses\<close>

definition sample_queue :: RedisQueue where
  "sample_queue = NewWithRateLimit redis_ref '''' 10"

definition sample_job :: Job where
  "sample_job = zero_job\<lparr>jID := ''a'', jType := ''email'', jPriority := PriorityHigh, jTenantID := ''t''\<rparr>"

definition sample_key :: string where
  "sample_key = getPartitionedKey sample_queue ''a'' PriorityHigh"

definition sample_db :: rdb where
  "sample_db = put_list sample_key (Doc (job_json sample_job) # rLists empty_rdb sample_key) empty_rdb"

lemma empty_rdb_get [simp]:
  "rLists empty_rdb k = []" "rHashes empty_rdb k = []" "rZsets empty_rdb k = []" "rStrs empty_rdb = []"
  "rSets empty_rdb k = []"
  by (simp_all add: empty_rdb_def)

lemma pend_empty [simp]: "pend keys empty_rdb = []"
  by (induction keys) auto

lemma plain_empty [simp]: "plain_name ''''" "plain_name ''jobs''"
  by (simp_all add: plain_name_def)

lemma sample_job_fields:
  "jID sample_job = ''a''" "jType sample_job = ''email''" "jPriority sample_job = PriorityHigh"
  "jTenantID sample_job = ''t''" "jRunAt sample_job = zero_time"
  by (simp_all add: sample_job_def zero_job_def)

lemma pend_single:
  assumes "k \<in> set keys" and "distinct keys"
  shows "pend keys (put_list k [x] empty_rdb) = [x]"
  using assms
proof (induction keys)
  case (Cons k0 ks)
  then show ?case by (cases "k = k0") auto
qed simp

lemma sample_pend [simp]: "pend (getFairPartitionKeys sample_queue rnd) sample_db = [Doc (job_json sample_job)]"
proof -
  have "sample_key \<in> set (getFairPartitionKeys sample_queue rnd)"
    unfolding sample_key_def by (rule partitioned_key_fair) (simp add: sample_queue_def)
  moreover have "distinct (getFairPartitionKeys sample_queue rnd)"
    unfolding sample_queue_def by (rule distinct_fair_keys)
  ultimately show ?thesis by (simp add: sample_db_def pend_single)
qed

lemma unmarshal_job_json [simp]: "unmarshal_job (Doc (job_json j)) = Some j"
  by (simp add: unmarshal_job_def blob_json_def)

lemma dequeue_loop_up:
  assumes "redis_up r" and "plain_name name"
    and "length (pend (getFairPartitionKeys (NewWithRateLimit r name limit) rnd) db) < fuel"
  shows "\<exists>res. fst (RedisQueue_Dequeue fuel (NewWithRateLimit r name limit) rnd now db) = Some res \<and>
           dequeue_spec now (getFairPartitionKeys (NewWithRateLimit r name limit) rnd) db res
             (snd (RedisQueue_Dequeue fuel (NewWithRateLimit r name limit) rnd now db))"
  unfolding RedisQueue_Dequeue_def
  using assms deferred_keys_apart [OF assms(2)]
  by (intro redis_up.dequeue_loop_spec distinct_fair_keys) simp_all

lemma dequeue_spec_up:
  assumes "redis_up r" and "plain_name name"
    and "length (pend (getFairPartitionKeys (NewWithRateLimit r name limit) rnd) db) < fuel"
    and "RedisQueue_Dequeue fuel (NewWithRateLimit r name limit) rnd now db = (Some res, db')"
  shows "dequeue_spec now (getFairPartitionKeys (NewWithRateLimit r name limit) rnd) db res db'"
  using dequeue_loop_up [OF assms(1,2,3), where now = now] assms(4) by simp

lemma sample_dequeue:
  "\<exists>db'. RedisQueue_Dequeue 2 sample_queue 0 5 sample_db = (Some (Inr (started 5 sample_job)), db')"
proof -
  have "length (pend (getFairPartitionKeys sample_queue 0) sample_db) < 2" by simp
  then obtain res where 1: "fst (RedisQueue_Dequeue 2 sample_queue 0 5 sample_db) = Some res"
    and 2: "dequeue_spec 5 (getFairPartitionKeys sample_queue 0) sample_db res
              (snd (RedisQueue_Dequeue 2 sample_queue 0 5 sample_db))"
    using dequeue_loop_up [OF rr.redis_up_axioms, of "''''" 10 0 sample_db 2 5]
    unfolding sample_queue_def plain_name_def by auto
  have "verdict_of 5 sample_db (Doc (job_json sample_job)) = Start sample_job"
    by (simp add: verdict_of_def type_state_def tenant_limit_def sample_db_def)
  with 2 have "res = Inr (started 5 sample_job)" by (simp add: dequeue_spec_def)
  with 1 show ?thesis by (metis prod.collapse)
qed

lemma sample_wf [simp]: "wf_rdb sample_db"
  by (simp add: sample_db_def)

section \<open>Properties: dequeue\<close>

text \<open>
  C1. \<^verbatim>\<open>Dequeue\<close> meets its abstract specification and always ends: with as many rounds as there
  are pending payloads plus one it returns, having moved exactly the payloads that must wait (job
  type paused, tenant or type at its limit) from the front of the pending queue to their deferred
  lists, in order, and taken the first other one; it answers that job, or an error if that payload
  does not decode, or the time-out error if none is left.
\<close>

theorem Dequeue_meets_spec:
  assumes "redis_up r" and "plain_name name"
    and "length (pend (getFairPartitionKeys (NewWithRateLimit r name limit) rnd) db) < fuel"
  shows "\<exists>res. fst (RedisQueue_Dequeue fuel (NewWithRateLimit r name limit) rnd now db) = Some res \<and>
           dequeue_spec now (getFairPartitionKeys (NewWithRateLimit r name limit) rnd) db res
             (snd (RedisQueue_Dequeue fuel (NewWithRateLimit r name limit) rnd now db))"
  using assms by (rule dequeue_loop_up)

theorem Dequeue_meets_spec_witness:
  "\<exists>res. fst (RedisQueue_Dequeue 2 sample_queue 0 5 sample_db) = Some res \<and>
         dequeue_spec 5 (getFairPartitionKeys sample_queue 0) sample_db res
           (snd (RedisQueue_Dequeue 2 sample_queue 0 5 sample_db))"
  using Dequeue_meets_spec [OF rr.redis_up_axioms plain_empty(1), of 10 0 sample_db 2 5] sample_pend [of 0]
  unfolding sample_queue_def by simp



text \<open>
  C3. Every job handed out is tracked: its payload is in the in-flight hash under its id with
  status \<open>processing\<close>, its visibility deadline is thirty seconds away, and it counts as active
  for its type and for its tenant.
\<close>

theorem Dequeue_tracks:
  assumes "redis_up r" and "plain_name name"
    and "length (pend (getFairPartitionKeys (NewWithRateLimit r name limit) rnd) db) < fuel"
    and "RedisQueue_Dequeue fuel (NewWithRateLimit r name limit) rnd now db = (Some (Inr job), db')"
  shows "jStatus job = StatusProcessing \<and>
         map_of (rHashes db' payloadsKey) (jID job) = Some (Doc (job_json job)) \<and>
         (\<forall>k\<in>{processingSetKey, active_type_key (jType job), active_tenant_key (jTenantID job)}.
            map_of (rZsets db' k) (Txt (jID job)) = Some (Unix now + 30))"
proof -
  from dequeue_spec_up [OF assms] obtain raw job0 db2 where "job = started now job0" "db' = tracked now job db2"
    by (rule dequeue_spec_start)
  then show ?thesis
    by (auto simp: tracked_payloads tracked_zsets update_conv' visibilityTimeout_def)
qed

theorem Dequeue_tracks_witness:
  "\<exists>db'. RedisQueue_Dequeue 2 sample_queue 0 5 sample_db = (Some (Inr (started 5 sample_job)), db') \<and>
     map_of (rHashes db' payloadsKey) ''a'' = Some (Doc (job_json (started 5 sample_job)))"
proof -
  obtain db' where d: "RedisQueue_Dequeue 2 sample_queue 0 5 sample_db = (Some (Inr (started 5 sample_job)), db')"
    using sample_dequeue by blast
  then have "map_of (rHashes db' payloadsKey) (jID (started 5 sample_job)) = Some (Doc (job_json (started 5 sample_job)))"
    using Dequeue_tracks [OF rr.redis_up_axioms plain_empty(1), of 10 0 sample_db 2 5 "started 5 sample_job" db']
      sample_pend [of 0] unfolding sample_queue_def by simp
  with d show ?thesis by (simp add: sample_job_fields)
qed

section \<open>Properties: enqueue and partitions\<close>

text \<open>
  C4. \<^verbatim>\<open>Enqueue\<close> puts a due job at the end of the queue of one of the nine partition lists that
  \<^verbatim>\<open>Dequeue\<close> pops from, whatever weights it draws, and touches no other list; a job scheduled for
  later goes to the delayed set with its due second as score and to no list.
\<close>

theorem Enqueue_places_job:
  assumes "redis_up r"
  shows "\<exists>db'. RedisQueue_Enqueue (NewWithRateLimit r name limit) tr now (Some j) db =
           (None, Some (j\<lparr>jTraceID := tr\<rparr>), db') \<and>
         (if now < jRunAt j
          then rLists db' = rLists db \<and>
               map_of (rZsets db' ''delayed_jobs'') (Doc (job_json (j\<lparr>jTraceID := tr\<rparr>))) = Some (Unix (jRunAt j))
          else (\<exists>k\<in>set (getFairPartitionKeys (NewWithRateLimit r name limit) rnd).
                  pend [k] db' = pend [k] db @ [Doc (job_json (j\<lparr>jTraceID := tr\<rparr>))] \<and>
                  (\<forall>k'. k' \<noteq> k \<longrightarrow> rLists db' k' = rLists db k')))"
proof -
  have "getPartitionedKey (NewWithRateLimit r name limit) (jID j) (jPriority j)
          \<in> set (getFairPartitionKeys (NewWithRateLimit r name limit) rnd)"
    by (rule partitioned_key_fair) simp
  then show ?thesis
    using Enqueue_up [OF assms New_simps(1)] by (auto simp: Let_def update_conv')
qed

theorem Enqueue_places_job_witness:
  "\<exists>k\<in>set (getFairPartitionKeys sample_queue 95).
     pend [k] (snd (snd (RedisQueue_Enqueue sample_queue ''tr'' 5 (Some sample_job) empty_rdb))) =
       [Doc (job_json (sample_job\<lparr>jTraceID := ''tr''\<rparr>))]"
  using Enqueue_places_job [OF rr.redis_up_axioms, of "''''" 10 "''tr''" 5 sample_job empty_rdb 95]
  unfolding sample_queue_def by (auto simp: sample_job_fields zero_time_def)

text \<open>
  For ids in ASCII (such as UUIDs) the partition the Lua scripts compute from the stored
  document is the one the Go code computes.
\<close>

theorem partition_hash_agrees:
  assumes "is_ascii (jID j)"
  shows "lua_target q (Doc (job_json j)) (jID j) = getPartitionedKey q (jID j) (jPriority j)"
  using lua_dest_job [OF assms, of q] by (simp add: lua_dest_def lua_id_def as_string_def)

theorem partition_hash_agrees_witness:
  "lua_target sample_queue (Doc (job_json sample_job)) ''a'' = getPartitionedKey sample_queue ''a'' PriorityHigh"
  using partition_hash_agrees [of sample_job sample_queue]
  by (simp add: sample_job_fields is_ascii_def bytes_def)

text \<open>
  They differ on other ids: Go sums the code points, Lua the bytes, so the job whose id is
  the letter e with acute accent is enqueued in partition 3 and reclaimed into partition 2.
\<close>

theorem partition_hash_diverges:
  "rune_sum [CHR 0xC3, CHR 0xA9] mod 3 + 1 = 3 \<and> byte_sum [CHR 0xC3, CHR 0xA9] mod 3 + 1 = 2"
  by (simp add: rune_sum_def byte_sum_def runes_def bytes_def utf8_tail_def cont_def)

text \<open>
  \<^verbatim>\<open>Size\<close> does not see the queue: however many due jobs are enqueued on a fresh database, all
  of them pending, it reports zero, because it measures lists that nothing writes. The bound
  \<open>maxQueueSize\<close> of the job service is compared with this number.
\<close>

theorem Size_blind:
  assumes "redis_up r" and "\<forall>j\<in>set js. jRunAt j \<le> now"
  shows "fst (RedisQueue_Size (NewWithRateLimit r name limit) now
              (enqueue_all (NewWithRateLimit r name limit) tr now js empty_rdb)) = Inr 0 \<and>
         length (pend (getFairPartitionKeys (NewWithRateLimit r name limit) rnd)
              (enqueue_all (NewWithRateLimit r name limit) tr now js empty_rdb)) = length js"
  using enqueue_all_blind [OF assms, of name limit rnd tr empty_rdb]
    Size_up [OF assms(1) New_simps(1), of name limit now empty_rdb] by simp

theorem Size_blind_witness:
  "fst (RedisQueue_Size sample_queue 5 (enqueue_all sample_queue '''' 5 [sample_job, sample_job] empty_rdb)) = Inr 0 \<and>
   length (pend (getFairPartitionKeys sample_queue 0) (enqueue_all sample_queue '''' 5 [sample_job, sample_job] empty_rdb)) = 2"
  using Size_blind [OF rr.redis_up_axioms, of "[sample_job, sample_job]" 5 "''''" 10 "''''" 0]
  unfolding sample_queue_def by (simp add: sample_job_fields zero_time_def)

section \<open>Properties: scripts\<close>

text \<open>
  C5. \<^verbatim>\<open>PromoteScheduledJobs\<close> moves exactly the due jobs: it returns their number, each is pushed
  once on the list of its priority and partition, earlier due times popped first, none that is not
  due leaves the delayed set, and none that is due stays.
\<close>

theorem Promote_exact:
  assumes "redis_up r" and "wf_rdb db"
    and "list_all promotable (due r db ''delayed_jobs'' now)"
  shows "\<exists>db'. RedisQueue_PromoteScheduledJobs (NewWithRateLimit r name limit) now db =
           (Inr (int (length (filter (\<lambda>(m, s). 0 \<le> s \<and> s \<le> Unix now) (rZsets db ''delayed_jobs'')))), db') \<and>
         (\<forall>k. rLists db' k =
            rev (filter (\<lambda>b. lua_dest (NewWithRateLimit r name limit) b = k) (due r db ''delayed_jobs'' now)) @ rLists db k) \<and>
         rZsets db' ''delayed_jobs'' = filter (\<lambda>(m, s). \<not> (0 \<le> s \<and> s \<le> Unix now)) (rZsets db ''delayed_jobs'') \<and>
         (\<forall>k. k \<noteq> ''delayed_jobs'' \<longrightarrow> rZsets db' k = rZsets db k) \<and> rHashes db' = rHashes db"
proof -
  let ?q = "NewWithRateLimit r name limit" and ?due = "due r db ''delayed_jobs'' now"
  have "RedisQueue_PromoteScheduledJobs ?q now db = (Inr (int (length ?due)), snd (promote_each ?q now ?due db))"
    using redis_up.Promote_up [OF assms(1) New_simps(1), where now = now and db = db] assms(3) by simp
  then show ?thesis
    using promote_each_lists [OF assms(3), of ?q now db] promote_each_zsets [OF assms(3), of ?q now db]
      promote_each_rest [OF assms(3), of ?q now db] redis_up.due_not_due [OF assms(1,2)]
      redis_up.due_length [OF assms(1)] by simp
qed

definition sample_delayed :: rdb where
  "sample_delayed = put_zset ''delayed_jobs'' [(Doc (job_json sample_job), 3)] empty_rdb"

theorem Promote_exact_witness:
  "fst (RedisQueue_PromoteScheduledJobs sample_queue (5 * Second) sample_delayed) = Inr 1"
proof -
  have "wf_rdb sample_delayed" by (simp add: sample_delayed_def wf_rdb_def)
  moreover have "list_all promotable (due redis_ref sample_delayed ''delayed_jobs'' (5 * Second))"
    by (simp add: due_def zrange_def redis_ref_def sample_delayed_def)
  ultimately show ?thesis
    using Promote_exact [OF rr.redis_up_axioms, of sample_delayed "5 * Second" "''''" 10]
    unfolding sample_queue_def by (auto simp: sample_delayed_def Unix_def)
qed

text \<open>
  C6. \<^verbatim>\<open>ReclaimTimedOutJobs\<close> returns to the pending lists exactly the payloads of the in-flight jobs
  whose deadline has passed, each once, and forgets those jobs as in-flight; it neither touches jobs
  whose deadline is ahead nor, unlike an acknowledgement, the active sets behind the limits.
\<close>

theorem Reclaim_exact:
  assumes "redis_up r" and "wf_rdb db"
    and "\<forall>m\<in>set (due r db processingSetKey now). reclaimable db m"
    and "distinct (map blob_text (due r db processingSetKey now))"
  shows "\<exists>db'. RedisQueue_ReclaimTimedOutJobs (NewWithRateLimit r name limit) now db =
           (Inr (int (length (filter (\<lambda>(m, s). 0 \<le> s \<and> s \<le> Unix now) (rZsets db processingSetKey)))), db') \<and>
         (\<forall>k. rLists db' k =
            rev (reclaimed (NewWithRateLimit r name limit) db (due r db processingSetKey now) k) @ rLists db k) \<and>
         rZsets db' processingSetKey = filter (\<lambda>(m, s). \<not> (0 \<le> s \<and> s \<le> Unix now)) (rZsets db processingSetKey) \<and>
         (\<forall>k. k \<noteq> processingSetKey \<longrightarrow> rZsets db' k = rZsets db k) \<and>
         rHashes db' payloadsKey = hdel (map blob_text (due r db processingSetKey now)) (rHashes db payloadsKey)"
proof -
  let ?q = "NewWithRateLimit r name limit" and ?due = "due r db processingSetKey now"
  have "RedisQueue_ReclaimTimedOutJobs ?q now db = (Inr (int (length ?due)), snd (reclaim_each ?q now ?due db))"
    using redis_up.Reclaim_up [OF assms(1) New_simps(1) assms(3,4)] by simp
  then show ?thesis
    using reclaim_each_effect [OF assms(3,4), of ?q now] redis_up.due_not_due [OF assms(1,2)]
      redis_up.due_length [OF assms(1)] by simp
qed

definition sample_inflight :: rdb where
  "sample_inflight = put_hash payloadsKey [(''a'', Doc (job_json sample_job))]
     (put_zset processingSetKey [(Txt ''a'', 3)] empty_rdb)"

lemma sample_inflight_wf [simp]: "wf_rdb sample_inflight"
  by (simp add: sample_inflight_def wf_rdb_def)

theorem Reclaim_exact_witness:
  "fst (RedisQueue_ReclaimTimedOutJobs sample_queue (5 * Second) sample_inflight) = Inr 1"
proof -
  have d: "due redis_ref sample_inflight processingSetKey (5 * Second) = [Txt ''a'']"
    by (simp add: due_def zrange_def redis_ref_def sample_inflight_def Unix_def)
  show ?thesis
    using Reclaim_exact [OF rr.redis_up_axioms sample_inflight_wf, of "5 * Second" "''''" 10]
    unfolding sample_queue_def d
    by (auto simp: sample_inflight_def Unix_def reclaimable_def lua_object_def job_json_def blob_text_def)
qed

section \<open>Properties: acknowledgement and failure\<close>

text \<open>
  C7. \<^verbatim>\<open>Ack\<close> succeeds exactly for a job that is in flight, and afterwards the job is neither in
  flight nor in the active sets recorded for it; every other job's tracking and all lists are
  untouched. A second \<^verbatim>\<open>Ack\<close> of the same job therefore fails.
\<close>

theorem Ack_exact:
  assumes "redis_up r" and "wf_rdb db" and "i \<noteq> ''''"
  shows "(fst (RedisQueue_Ack (NewWithRateLimit r name limit) now i db) = None \<longleftrightarrow>
            map_of (rHashes db payloadsKey) i \<noteq> None) \<and>
         clears now i db (snd (RedisQueue_Ack (NewWithRateLimit r name limit) now i db)) \<and>
         fst (RedisQueue_Ack (NewWithRateLimit r name limit) later i
                (snd (RedisQueue_Ack (NewWithRateLimit r name limit) now i db))) =
           Some (Errorf (''queue: job '' @ i @ '' not found in active set''))"
proof -
  let ?q = "NewWithRateLimit r name limit"
  let ?db = "snd (RedisQueue_Ack ?q now i db)"
  have c: "client ?q = r" by simp
  note ack = redis_up.Ack_up [OF assms(1) c assms(2,3), of now]
  have gone: "map_of (rHashes ?db payloadsKey) i = None" using clears_gone(1) [OF ack(2)] .
  obtain rs db' where u: "untrack ?q later i ?db = (Inr rs, db')"
    and n: "reply_int (hd rs) = int (length (rHashes ?db payloadsKey)) - int (length (hdel [i] (rHashes ?db payloadsKey)))"
    using redis_up.untrack_up [OF assms(1) c, of later i ?db] by blast
  have "hdel [i] (rHashes ?db payloadsKey) = rHashes ?db payloadsKey"
    using gone by (intro hdel_absent) (simp add: map_of_eq_None_iff)
  then have "fst (RedisQueue_Ack ?q later i ?db) = Some (Errorf (''queue: job '' @ i @ '' not found in active set''))"
    using u n assms(3) by (simp add: RedisQueue_Ack_def)
  then show ?thesis using ack by (auto split: if_splits)
qed

theorem Ack_exact_witness:
  "fst (RedisQueue_Ack sample_queue 1 ''a'' sample_inflight) = None \<and>
   fst (RedisQueue_Ack sample_queue 2 ''a'' (snd (RedisQueue_Ack sample_queue 1 ''a'' sample_inflight))) \<noteq> None"
  using Ack_exact [OF rr.redis_up_axioms sample_inflight_wf, of "''a''" "''''" 10 1 2]
  unfolding sample_queue_def by (simp add: sample_inflight_def)

text \<open>
  A dequeued job that is acknowledged within the hour leaves no trace in the broker's
  tracking: not in flight, and not counted as active for its type or tenant.
\<close>

theorem Dequeue_then_Ack:
  assumes "redis_up r" and "plain_name name"
    and "length (pend (getFairPartitionKeys (NewWithRateLimit r name limit) rnd) db) < fuel"
    and "RedisQueue_Dequeue fuel (NewWithRateLimit r name limit) rnd now db = (Some (Inr job), db1)"
    and "jID job \<noteq> ''''" and "wf_rdb db" and "later < now + Hour"
  shows "\<exists>db2. RedisQueue_Ack (NewWithRateLimit r name limit) later (jID job) db1 = (None, db2) \<and>
           map_of (rHashes db2 payloadsKey) (jID job) = None \<and>
           (\<forall>k\<in>{processingSetKey, active_type_key (jType job), active_tenant_key (jTenantID job)}.
              map_of (rZsets db2 k) (Txt (jID job)) = None)"
proof -
  let ?ack = "RedisQueue_Ack (NewWithRateLimit r name limit) later (jID job) db1"
  from dequeue_spec_up [OF assms(1-4)] obtain raw job0 db0 where db1: "db1 = tracked now job db0"
    by (rule dequeue_spec_start)
  have "queue_service (NewWithRateLimit r name limit)"
    using assms(1) by (simp add: queue_service_def redis_up_def)
  from queue_service.Dequeue_wf [OF this assms(6), of fuel rnd now] have wf1: "wf_rdb db1"
    using assms(4) by simp
  have c: "client (NewWithRateLimit r name limit) = r" by simp
  note ack = redis_up.Ack_up [OF assms(1) c wf1 assms(5), of later]
  have "map_of (rHashes db1 payloadsKey) (jID job) \<noteq> None"
    by (simp add: db1 tracked_payloads update_conv')
  then have "fst ?ack = None" using ack(1) by simp
  moreover have "untrack_keys later db1 (jID job) =
      {processingSetKey, active_type_key (jType job), active_tenant_key (jTenantID job)}"
    using assms(7) by (auto simp: untrack_keys_def text_of_def db1 tracked_strs visibilityTimeout_def blob_text_def)
  ultimately show ?thesis
    using clears_gone [OF ack(2)] by (metis prod.collapse)
qed

theorem Dequeue_then_Ack_witness:
  "\<exists>db1 db2. RedisQueue_Dequeue 2 sample_queue 0 5 sample_db = (Some (Inr (started 5 sample_job)), db1) \<and>
     RedisQueue_Ack sample_queue 7 ''a'' db1 = (None, db2)"
proof -
  obtain db1 where d: "RedisQueue_Dequeue 2 sample_queue 0 5 sample_db = (Some (Inr (started 5 sample_job)), db1)"
    using sample_dequeue by blast
  have l: "length (pend (getFairPartitionKeys sample_queue 0) sample_db) < 2" by simp
  show ?thesis
    using Dequeue_then_Ack [OF rr.redis_up_axioms plain_empty(1) l [unfolded sample_queue_def] d [unfolded sample_queue_def], of 7] d
    unfolding sample_queue_def by (auto simp: sample_job_fields)
qed

text \<open>
  \<^verbatim>\<open>Fail\<close> moves an in-flight job to the dead-letter list: it becomes its newest entry, marked
  failed and carrying the reason, the list keeps the 10000 newest entries, and the job's tracking
  is cleared.
\<close>

theorem Fail_to_dead_letter:
  assumes "redis_up r" and "i \<noteq> ''''" and "map_of (rHashes db payloadsKey) i = Some (Doc (job_json job))"
  shows "\<exists>db'. RedisQueue_Fail (NewWithRateLimit r name limit) now i reason db = (None, db') \<and>
           rLists db' (base_name name @ '':dead_letter'') =
             take 10000 (Doc (job_json (fail_update now reason job)) # rLists db (base_name name @ '':dead_letter'')) \<and>
           (\<forall>k. k \<noteq> base_name name @ '':dead_letter'' \<longrightarrow> rLists db' k = rLists db k) \<and>
           map_of (rHashes db' payloadsKey) i = None \<and>
           (\<forall>k\<in>untrack_keys now db i. map_of (rZsets db' k) (Txt i) = None)"
proof -
  let ?q = "NewWithRateLimit r name limit"
  have c: "client ?q = r" by simp
  note fail = redis_up.Fail_up [OF assms(1) c assms(2,3) unmarshal_job_json, of now reason]
  show ?thesis
    using fail by (intro exI [of _ "snd (RedisQueue_Fail ?q now i reason db)"])
      (auto simp: clears_def fun_eq_iff prod_eq_iff, metis)
qed

theorem Fail_to_dead_letter_witness:
  "rLists (snd (RedisQueue_Fail sample_queue 9 ''a'' (Some (Errorf ''boom'')) sample_inflight)) ''task_queue:jobs:dead_letter'' =
     [Doc (job_json (fail_update 9 (Some (Errorf ''boom'')) sample_job))]"
  using Fail_to_dead_letter [OF rr.redis_up_axioms, of "''a''" sample_inflight sample_job "''''" 10 9 "Some (Errorf ''boom'')"]
  unfolding sample_queue_def by (auto simp: sample_inflight_def base_name_def defaultQueueKey_def)

section \<open>Properties: limits, idempotency, deferred jobs\<close>

text \<open>
  The tenant rate limit is a fixed window of one second: of the calls in the second that starts
  with the first one, exactly the first \<open>limit\<close> are allowed.
\<close>

theorem IsAllowed_window:
  assumes "redis_up r" and "0 < limit" and "tenant \<noteq> ''''" and "str_get t0 db (rate_key tenant) = None"
    and "\<forall>t\<in>set ts. t < t0 + Second"
  shows "allowed_run (NewWithRateLimit r name limit) tenant (t0 # ts) db =
           map (\<lambda>i. Inr (int i < limit)) [0..<Suc (length ts)]"
proof -
  let ?q = "NewWithRateLimit r name limit"
  have l: "0 < rateLimit ?q" using assms(2) by simp
  note first = IsAllowed_first [OF assms(1) New_simps(1) l assms(3,4)]
  have "allowed_run ?q tenant ts (snd (RedisQueue_IsAllowed ?q t0 tenant db)) =
          map (\<lambda>i. Inr (int i < rateLimit ?q)) [1..<1 + length ts]"
    using first assms(5) by (intro allowed_run_window [OF assms(1) New_simps(1) l assms(3)]) auto
  moreover have "fst (RedisQueue_IsAllowed ?q t0 tenant db) = Inr (0 < limit)"
    using first assms(2) by simp
  moreover have "[0..<Suc (length ts)] = 0 # [1..<1 + length ts]" by (simp add: upt_conv_Cons del: upt_Suc)
  ultimately show ?thesis by (simp add: case_prod_beta)
qed

theorem IsAllowed_window_witness:
  "allowed_run (NewWithRateLimit redis_ref '''' 2) ''t'' [0, 1, 2] empty_rdb = [Inr True, Inr True, Inr False]"
  using IsAllowed_window [OF rr.redis_up_axioms, of 2 "''t''" 0 empty_rdb "[1, 2]" "''''"]
  by (simp add: str_get_def)

text \<open>
  The idempotency mark lasts exactly a day: after \<^verbatim>\<open>MarkProcessed\<close> a job counts as processed
  until 24 hours have passed, and no other job does because of it.
\<close>

theorem processed_mark_lasts_a_day:
  assumes "redis_up r"
  shows "RedisQueue_IsProcessed (NewWithRateLimit r name limit) later i
           (snd (RedisQueue_MarkProcessed (NewWithRateLimit r name limit) now i db)) =
         ((later < now + 24 * Hour, None), snd (RedisQueue_MarkProcessed (NewWithRateLimit r name limit) now i db)) \<and>
         (i' \<noteq> i \<longrightarrow>
            fst (RedisQueue_IsProcessed (NewWithRateLimit r name limit) later i'
                   (snd (RedisQueue_MarkProcessed (NewWithRateLimit r name limit) now i db))) =
            fst (RedisQueue_IsProcessed (NewWithRateLimit r name limit) later i' db))"
  using redis_up.rcall_eq [OF assms]
  by (simp add: RedisQueue_IsProcessed_def RedisQueue_MarkProcessed_def rcall_err_def processed_key_def
      processedTTL_def split: option.split)

theorem processed_mark_lasts_a_day_witness:
  "fst (RedisQueue_IsProcessed sample_queue (23 * Hour) ''a'' (snd (RedisQueue_MarkProcessed sample_queue 0 ''a'' empty_rdb))) = (True, None) \<and>
   fst (RedisQueue_IsProcessed sample_queue (25 * Hour) ''a'' (snd (RedisQueue_MarkProcessed sample_queue 0 ''a'' empty_rdb))) = (False, None)"
  using processed_mark_lasts_a_day [OF rr.redis_up_axioms, of "''''" 10 "23 * Hour" "''a''" 0 empty_rdb]
    processed_mark_lasts_a_day [OF rr.redis_up_axioms, of "''''" 10 "25 * Hour" "''a''" 0 empty_rdb]
  unfolding sample_queue_def by simp

text \<open>
  C35. Reconciliation releases no more deferred jobs of a type or tenant than its limit leaves room
  for, the oldest first, and loses none: what leaves the deferred list is pushed on the pending
  lists.
\<close>

theorem reconcile_within_limit:
  assumes "redis_up r" and "\<And>i p. getPartitionedKey (NewWithRateLimit r name l) i p \<noteq> dk" and "0 < limit"
    and "\<forall>b\<in>set (rLists db dk). dec_id_priority b \<noteq> None"
  shows "let (moved', db') = reconcile_one (NewWithRateLimit r name l) now dk ak limit moved db;
             n = min (nat (limit - active_now now db ak)) (length (rLists db dk))
         in moved' = moved + int n \<and>
            rLists db' dk = take (length (rLists db dk) - n) (rLists db dk) \<and>
            (\<forall>k. k \<noteq> dk \<longrightarrow> rLists db' k =
               rev (filter (\<lambda>b. reconcile_dest (NewWithRateLimit r name l) b = k) (take n (rev (rLists db dk)))) @ rLists db k)"
proof -
  let ?q = "NewWithRateLimit r name l" and ?n = "nat (limit - active_now now db ak)"
  let ?db = "put_zset ak (zsweep (Unix now) (rZsets db ak)) db"
  have c: "client ?q = r" by simp
  note mv = reconcile_move_spec [OF assms(1) c assms(2), where db = ?db and m = ?n]
  have "reconcile_one ?q now dk ak limit moved db =
     (if rLists db dk = [] then (moved, db) else reconcile_move ?n ?q now dk moved ?db)"
    using assms(3) redis_up.active_count_up [OF assms(1) c, of now ak db]
    by (simp add: reconcile_one_def rcall_int_def redis_up.rcall_eq [OF assms(1)])
  moreover have "take ?n (rev xs) = take (min ?n (length xs)) (rev xs)" for xs :: "blob list"
    by (simp add: min_def)
  moreover have "take (length xs - ?n) xs = take (length xs - min ?n (length xs)) xs" for xs :: "blob list"
    by (simp add: min_def)
  ultimately show ?thesis using mv assms(4) by (simp add: case_prod_beta Let_def)
qed

definition sample_deferred :: rdb where
  "sample_deferred = put_list (deferred_key ''email'') [Doc (job_json sample_job), Doc (job_json sample_job)] empty_rdb"

lemma partitioned_key_not_deferred:
  assumes "plain_name name"
  shows "getPartitionedKey (NewWithRateLimit r name l) i p \<noteq> deferred_key t"
    "getPartitionedKey (NewWithRateLimit r name l) i p \<noteq> deferred_tenant_key t"
  using partitioned_key_fair [of "NewWithRateLimit r name l" i p 0] deferred_keys_apart [OF assms, of t r l 0]
  by auto

lemma dec_id_priority_job [simp]: "dec_id_priority (Doc (job_json j)) = Some (jID j, jPriority j)"
  by (simp add: dec_id_priority_def blob_json_def job_json_def)

theorem reconcile_within_limit_witness:
  "fst (reconcile_one sample_queue 5 (deferred_key ''email'') (active_type_key ''email'') 1 0 sample_deferred) = 1"
  using reconcile_within_limit [OF rr.redis_up_axioms partitioned_key_not_deferred(1) [OF plain_empty(1)],
      of 1 sample_deferred "''email''" 10 5 "active_type_key ''email''" 0]
  unfolding sample_queue_def
  by (simp add: sample_deferred_def active_now_def zsweep_def case_prod_beta Let_def)

section \<open>Properties: invariant\<close>



end
