(* ===== verification/Service_Proofs.thy ===== *)
theory Service_Proofs
  imports JobService Store_Props Queue_Props
begin

text \<open>
  The library of the service proofs. A store over one component of the world is a store over worlds
  (\<open>lifted_store\<close>); \<open>world_store\<close> adds to the store contract what the service relies on: the store
  does not see the queue's keys and does not touch the queue's lists. \<open>job_service\<close> is the
  environment of the service: such a store and a Redis that answers. Its lemmas say of each
  operation what it keeps and what it changes.
\<close>

section \<open>Stores over a component of the world\<close>

definition lift_op :: "('w \<Rightarrow> 'a) \<Rightarrow> ('a \<Rightarrow> 'w \<Rightarrow> 'w) \<Rightarrow> ('a \<Rightarrow> 'x \<times> 'a) \<Rightarrow> 'w \<Rightarrow> 'x \<times> 'w" where
  "lift_op get put f w = (let (x, a) = f (get w) in (x, put a w))"

definition lift_store :: "('w \<Rightarrow> 'a) \<Rightarrow> ('a \<Rightarrow> 'w \<Rightarrow> 'w) \<Rightarrow> 'a Store \<Rightarrow> 'w Store" where
  "lift_store get put st = \<lparr>
     st_Save = (\<lambda>now j. lift_op get put (st_Save st now j)),
     st_SaveBatch = (\<lambda>now js. lift_op get put (st_SaveBatch st now js)),
     st_GetByID = (\<lambda>now i. lift_op get put (st_GetByID st now i)),
     st_UpdateStatus = (\<lambda>now i s p. lift_op get put (st_UpdateStatus st now i s p)),
     st_UpdateProgress = (\<lambda>now i x. lift_op get put (st_UpdateProgress st now i x)),
     st_UpdateResult = (\<lambda>now i s p x. lift_op get put (st_UpdateResult st now i s p x)),
     st_GetByWorkerAndStatus = (\<lambda>now p s. lift_op get put (st_GetByWorkerAndStatus st now p s)),
     st_Enqueue = (\<lambda>now j. lift_op get put (st_Enqueue st now j)),
     st_Dequeue = (\<lambda>now t k. lift_op get put (st_Dequeue st now t k)),
     st_Heartbeat = (\<lambda>now i. lift_op get put (st_Heartbeat st now i)),
     st_Complete = (\<lambda>now i x. lift_op get put (st_Complete st now i x)),
     st_Fail = (\<lambda>now i e b. lift_op get put (st_Fail st now i e b)),
     st_ListJobs = (\<lambda>now t s ty l k. lift_op get put (st_ListJobs st now t s ty l k)),
     st_SearchJobs = (\<lambda>now f. lift_op get put (st_SearchJobs st now f)),
     st_CountJobs = (\<lambda>now f. lift_op get put (st_CountJobs st now f)),
     st_RecoverOrphans = (\<lambda>now d. lift_op get put (st_RecoverOrphans st now d)),
     st_ArchiveOldJobs = (\<lambda>now c. lift_op get put (st_ArchiveOldJobs st now c)),
     st_DeleteJob = (\<lambda>now i. lift_op get put (st_DeleteJob st now i)),
     st_DeleteJobsBefore = (\<lambda>now t s ty b. lift_op get put (st_DeleteJobsBefore st now t s ty b)),
     st_IsDedupKeyTaken = (\<lambda>now k t. lift_op get put (st_IsDedupKeyTaken st now k t)),
     st_GetByIDs = (\<lambda>now is. lift_op get put (st_GetByIDs st now is)),
     st_GetReadyDAGJobs = (\<lambda>now l. lift_op get put (st_GetReadyDAGJobs st now l)),
     st_GetDependentJobs = (\<lambda>now i. lift_op get put (st_GetDependentJobs st now i)),
     st_GetQueueLengths = (\<lambda>now. lift_op get put (st_GetQueueLengths st now)),
     st_RegisterClient = (\<lambda>now t h. lift_op get put (st_RegisterClient st now t h)),
     st_VerifyClient = (\<lambda>now h. lift_op get put (st_VerifyClient st now h)),
     st_ListClients = (\<lambda>now. lift_op get put (st_ListClients st now)),
     st_RevokeClient = (\<lambda>now t. lift_op get put (st_RevokeClient st now t))\<rparr>"

locale lifted_store = base: job_store st ok0 lookup0 for st :: "'a Store" and ok0 and lookup0 +
  fixes get :: "'w \<Rightarrow> 'a" and put :: "'a \<Rightarrow> 'w \<Rightarrow> 'w"
  assumes get_put [simp]: "get (put a w) = a"
    and put_get [simp]: "put (get w) w = w"
begin

lemmas lift_simps = lift_store_def lift_op_def

end

sublocale lifted_store \<subseteq> lifted: job_store "lift_store get put st" "\<lambda>w. ok0 (get w)" "\<lambda>w. lookup0 (get w)"
proof (unfold_locales, goal_cases)
  case (1 w now j)
  then show ?case using base.save_law [of "get w" now j] by (auto simp: lift_simps)
next
  case (4 w i j)
  then show ?case by (rule base.lookup_id)
next
  case (5 w i j now s p)
  then show ?case using base.status_some [of "get w" i j now s p] by (auto simp: lift_simps)
next
  case (7 w i j now s p res)
  then show ?case using base.result_some [of "get w" i j now s p res] by (auto simp: lift_simps)
next
  case (9 w i j now x)
  then show ?case using base.progress_some [of "get w" i j now x] by (auto simp: lift_simps)
next
  case (11 w now i)
  then show ?case using base.delete_law [of "get w" now i] by (auto simp: lift_simps)
qed (simp_all add: lift_simps base.get_some base.get_none base.status_none base.result_none
    base.progress_none base.ids_law)

section \<open>What the service relies on\<close>

lemma jobStoreKey_payloads [simp]: "jobStoreKey \<noteq> payloadsKey" "payloadsKey \<noteq> jobStoreKey"
  by (simp_all add: jobStoreKey_def payloadsKey_def)

definition store_frame :: "'s world \<Rightarrow> 's world \<Rightarrow> bool" where
  \<comment> \<open>nothing a job store reads has changed\<close>
  "store_frame w w' \<longleftrightarrow> wStore w' = wStore w \<and> rHashes (wDb w') jobStoreKey = rHashes (wDb w) jobStoreKey"

definition queue_frame :: "rdb \<Rightarrow> rdb \<Rightarrow> bool" where
  \<comment> \<open>no list, no sorted set and no payload has changed: the pending, delayed, deferred and in-flight jobs\<close>
  "queue_frame db db' \<longleftrightarrow> rLists db' = rLists db \<and> rZsets db' = rZsets db \<and>
     rHashes db' payloadsKey = rHashes db payloadsKey"

definition quiet :: "'s world \<Rightarrow> 's world \<Rightarrow> bool" where
  "quiet w w' \<longleftrightarrow> store_frame w w' \<and> queue_frame (wDb w) (wDb w')"

lemma quiet_refl [simp]: "quiet w w"
  by (simp add: quiet_def store_frame_def queue_frame_def)

lemma quiet_trans: "quiet a b \<Longrightarrow> quiet b c \<Longrightarrow> quiet a c"
  by (simp add: quiet_def store_frame_def queue_frame_def)

lemma quiet_sse [simp]: "quiet w (w'\<lparr>wSse := b\<rparr>) = quiet w w'"
  by (simp add: quiet_def store_frame_def queue_frame_def)

definition silent :: "rdb \<Rightarrow> rdb \<Rightarrow> bool" where
  "silent db db' \<longleftrightarrow> rHashes db' = rHashes db \<and> queue_frame db db'"

lemma silent_refl [simp]: "silent db db"
  by (simp add: silent_def queue_frame_def)

lemma silent_trans: "silent a b \<Longrightarrow> silent b c \<Longrightarrow> silent a c"
  by (simp add: silent_def queue_frame_def)

lemma silent_quiet: "silent (wDb w) db \<Longrightarrow> quiet w (w\<lparr>wDb := db\<rparr>)"
  by (simp add: silent_def quiet_def store_frame_def)

locale world_store = job_store store ok lookup
  for store :: "'s world Store" and ok and lookup +
  assumes frame: "ok w \<Longrightarrow> store_frame w w' \<Longrightarrow> ok w' \<and> lookup w' = lookup w"
    and save_queue: "queue_frame (wDb w) (wDb (snd (st_Save store now j w)))"
    and status_queue: "ok w \<Longrightarrow> queue_frame (wDb w) (wDb (snd (st_UpdateStatus store now i s p w)))"
    and result_queue: "ok w \<Longrightarrow> queue_frame (wDb w) (wDb (snd (st_UpdateResult store now i s p x w)))"
    and progress_queue: "ok w \<Longrightarrow> queue_frame (wDb w) (wDb (snd (st_UpdateProgress store now i y w)))"
    and dependents_same: "snd (st_GetDependentJobs store now i w) = w"
    and dedup_quiet: "quiet w (snd (st_IsDedupKeyTaken store now k t w))"

locale job_service = world_store "svcStore s" ok lookup + redis_up "svcRedis s"
  for s :: "'s JobService" and ok and lookup

definition mem_world :: "InMemoryStore world Store" where
  "mem_world = lift_store wStore (\<lambda>a. wStore_update (\<lambda>_. a)) mem_store"

definition redis_world :: "redis \<Rightarrow> unit world Store" where
  "redis_world r = lift_store wDb (\<lambda>a. wDb_update (\<lambda>_. a)) (redis_store r)"

interpretation lmem: lifted_store mem_store mem_ok mem_lookup wStore "\<lambda>a. wStore_update (\<lambda>_. a)"
  by unfold_locales simp_all

lemma lift_queue_frame:
  "queue_frame (wDb w) (wDb (snd (lift_op wStore (\<lambda>a. wStore_update (\<lambda>_. a)) f w)))"
  by (simp add: lift_op_def queue_frame_def split: prod.split)

context redis_up
begin



lemma redis_update_frame: "queue_frame db (snd (redis_update r now f i db))"
  by (auto simp: redis_update_def RedisStore_GetByID_def rcall_err_up rcall_eq queue_frame_def
      split: sum.splits prod.splits option.splits if_splits)

lemma redis_lift_frame:
  "queue_frame (wDb w) (wDb (snd (lift_op wDb (\<lambda>a. wDb_update (\<lambda>_. a)) (redis_update r now f i) w)))"
  using redis_update_frame [of "wDb w" now f i] by (simp add: lift_op_def case_prod_beta)

lemma silent_call:
  "c = HGET k f \<or> c = HGETALL k \<or> c = LLEN k \<or> c = INCR k \<or> c = EXPIRE k d \<or> c = SADD k f \<or> c = XADD k j \<or>
   c = PUBLISH k f \<or> c = SETNX k b d \<or> c = GET k \<Longrightarrow> silent db (snd (rcall r now c db))"
  by (auto simp: rcall_eq silent_def queue_frame_def Let_def split: option.splits)

end

sublocale redis_up \<subseteq> lr: lifted_store "redis_store r" rs_ok rs_lookup wDb "\<lambda>a. wDb_update (\<lambda>_. a)"
  by unfold_locales simp_all

interpretation mem_w: world_store mem_world "\<lambda>w. mem_ok (wStore w)" "\<lambda>w. mem_lookup (wStore w)"
proof (intro world_store.intro world_store_axioms.intro, goal_cases)
  case 1
  show ?case unfolding mem_world_def by (rule lmem.lifted.job_store_axioms)
next
  case (8 w now k t)
  show ?case
    by (simp add: mem_world_def lift_store_def lift_op_def mem_store_def InMemoryStore_IsDedupKeyTaken_def quiet_def
        store_frame_def queue_frame_def)
next
  case (7 now i w)
  show ?case by (simp add: mem_world_def lift_store_def lift_op_def mem_store_def InMemoryStore_GetDependentJobs_def)
qed (simp_all add: mem_world_def lift_store_def lift_queue_frame store_frame_def)

sublocale redis_up \<subseteq> redis_w: world_store "redis_world r" "\<lambda>w. rs_ok (wDb w)" "\<lambda>w. rs_lookup (wDb w)"
proof (intro world_store.intro world_store_axioms.intro, goal_cases)
  case 1
  show ?case unfolding redis_world_def by (rule lr.lifted.job_store_axioms)
next
  case (4 w now i s p)
  show ?case by (simp add: redis_world_def lift_store_def redis_store_def RedisStore_UpdateStatus_def redis_lift_frame)
next
  case (5 w now i s p x)
  show ?case by (simp add: redis_world_def lift_store_def redis_store_def RedisStore_UpdateResult_def redis_lift_frame)
next
  case (6 w now i y)
  show ?case by (simp add: redis_world_def lift_store_def redis_store_def RedisStore_UpdateProgress_def redis_lift_frame)
next
  case (7 now i w)
  show ?case by (simp add: redis_world_def lift_store_def lift_op_def redis_store_def RedisStore_GetDependentJobs_def)
next
  case (8 w now k t)
  show ?case
    using silent_quiet [OF silent_call]
    by (auto simp: redis_world_def lift_store_def lift_op_def redis_store_def RedisStore_IsDedupKeyTaken_def rcall_int_def
        rcall_eq Let_def quiet_def store_frame_def queue_frame_def)
qed (simp_all add: redis_world_def lift_store_def lift_op_def rs_ok_def rs_lookup_def store_frame_def redis_store_def
    RedisStore_Save_def RedisStore_UpdateStatus_def rcall_err_up queue_frame_def fun_eq_iff)

section \<open>Operations that leave jobs and queue alone\<close>

lemma quiet_on_db: "silent (wDb w) (snd (f (wDb w))) \<Longrightarrow> quiet w (snd (on_db f w))"
  using silent_quiet [of w "snd (f (wDb w))"] by (simp add: on_db_def case_prod_beta)

lemma quiet_store_frame: "quiet w w' \<Longrightarrow> store_frame w w'"
  by (simp add: quiet_def)

lemma quiet_queue: "quiet w w' \<Longrightarrow> rLists (wDb w') = rLists (wDb w) \<and> rZsets (wDb w') = rZsets (wDb w)"
  by (simp add: quiet_def queue_frame_def)

context redis_up
begin

lemma silent_hget [simp]: "silent db (snd (rcall r now (HGET k f) db))"
  and silent_hgetall [simp]: "silent db (snd (rcall r now (HGETALL k) db))"
  and silent_llen [simp]: "silent db (snd (rcall r now (LLEN k) db))"
  and silent_incr [simp]: "silent db (snd (rcall r now (INCR k) db))"
  and silent_xadd [simp]: "silent db (snd (rcall r now (XADD k j) db))"
  and silent_publish [simp]: "silent db (snd (rcall r now (PUBLISH k f) db))"
  by (rule silent_call, simp)+

lemma IsAllowed_silent: "client q = r \<Longrightarrow> silent db (snd (RedisQueue_IsAllowed q now t db))"
  by (auto simp: RedisQueue_IsAllowed_def rcall_int_def rcall_eq Let_def silent_def queue_frame_def split: option.splits)

lemma Size_silent: "client q = r \<Longrightarrow> silent db (snd (RedisQueue_Size q now db))"
  by (simp add: RedisQueue_Size_def rcall_int_def rcall_eq Let_def)

lemma JobTypes_IsAllowed_silent: "silent db (snd (JobTypes_IsAllowed r now t db))"
  by (auto simp: JobTypes_IsAllowed_def JobTypes_GetByName_def rcall_eq split: option.splits)

lemma Match_silent: "silent db (snd (WebhookStore_Match r now t e db))"
  by (simp add: WebhookStore_Match_def WebhookStore_List_def rcall_eq)

lemma PublishWebhookEvent_silent: "client q = r \<Longrightarrow> silent db (snd (RedisQueue_PublishWebhookEvent q now e db))"
  by (simp add: RedisQueue_PublishWebhookEvent_def rcall_err_up silent_def queue_frame_def)

end

context job_service
begin

lemma isJobTypeAllowed_quiet: "quiet w (snd (isJobTypeAllowed s now t w))"
  by (simp add: isJobTypeAllowed_def quiet_on_db JobTypes_IsAllowed_silent)

lemma publishSSE_quiet [simp]: "quiet w (publishSSE s i st ty t w') = quiet w w'"
  by (simp add: publishSSE_def)

lemma publish_each_silent: "silent db (publish_each s now job e x ts db)"
proof (induction ts arbitrary: db)
  case (Cons t ts)
  obtain u c where t: "t = (u, c)" by (cases t)
  show ?case unfolding t publish_each.simps
    by (rule silent_trans [OF PublishWebhookEvent_silent Cons.IH]) simp
qed simp

lemma publishWebhookEvent_quiet: "quiet w (publishWebhookEvent s now job e x w)"
proof -
  obtain ts db where c: "collectWebhookTargetsForEvent s now job e (wDb w) = (ts, db)" by force
  have "silent (wDb w) db"
    using c Match_silent [of "wDb w" now "jTenantID job" e]
    by (auto simp: collectWebhookTargetsForEvent_def split: prod.splits sum.splits if_splits)
  then have "silent (wDb w) (publish_each s now job e x ts db)" by (rule silent_trans [OF _ publish_each_silent])
  then show ?thesis by (simp add: publishWebhookEvent_def c silent_quiet)
qed

lemma dedup_check_quiet: "quiet w (snd (dedup_check s now rq w))"
  using dedup_quiet [of w now "rqDedupKey rq" "rqTenantID rq"]
  by (auto simp: dedup_check_def split: prod.splits sum.splits)

lemma rate_check_quiet: "quiet w (snd (rate_check s now t w))"
proof -
  have "quiet w (snd (on_db (RedisQueue_IsAllowed (svcQueue s) now t) w))"
    by (rule quiet_on_db) (simp add: IsAllowed_silent)
  then show ?thesis
    by (auto simp: rate_check_def publishRateLimitSSE_def split: prod.splits sum.splits)
qed

lemma size_check_quiet: "quiet w (snd (size_check s now w))"
proof -
  have "quiet w (snd (on_db (RedisQueue_Size (svcQueue s) now) w))"
    by (rule quiet_on_db) (simp add: Size_silent)
  then show ?thesis by (auto simp: size_check_def split: prod.splits sum.splits)
qed

lemma dependency_check_same: "ok w \<Longrightarrow> snd (dependency_check s now ds w) = w"
  by (simp add: dependency_check_def ids_law)

lemma map_filter_complete: "length (List.map_filter f xs) = length xs \<longleftrightarrow> (\<forall>x\<in>set xs. f x \<noteq> None)"
proof (induction xs)
  case (Cons x xs)
  have "length (List.map_filter f xs) \<le> length xs" by (simp add: List.map_filter_def)
  then show ?case using Cons by (auto simp: List.map_filter_simps split: option.split)
qed (simp add: List.map_filter_simps)

lemma dependency_check_ok:
  assumes "ok w" and "fst (dependency_check s now ds w) = Inr allMet"
  shows "(\<forall>d\<in>set ds. lookup w d \<noteq> None) \<and>
         allMet = (\<forall>d\<in>set ds. \<exists>j. lookup w d = Some j \<and> jStatus j = StatusCompleted)"
proof -
  have all: "\<forall>d\<in>set ds. lookup w d \<noteq> None"
    using assms map_filter_complete [of "lookup w" ds] by (auto simp: dependency_check_def ids_law split: if_splits)
  moreover have "allMet = list_all (\<lambda>d. jStatus d = StatusCompleted) (List.map_filter (lookup w) ds)"
    using assms by (cases ds) (auto simp: dependency_check_def ids_law List.map_filter_simps split: if_splits)
  moreover have "set (List.map_filter (lookup w) ds) = {j. \<exists>d\<in>set ds. lookup w d = Some j}"
    by (force simp: List.map_filter_def)
  ultimately show ?thesis by (fastforce simp: list_all_iff)
qed

lemma frame_quiet: "ok w \<Longrightarrow> quiet w w' \<Longrightarrow> ok w' \<and> lookup w' = lookup w"
  using frame quiet_store_frame by blast

end

section \<open>Submission\<close>

lemma IsCode_New [simp]: "IsCode (NewInvalidArgument m) CodeInvalidArgument" "IsCode (NewConflict m) CodeConflict"
  "IsCode (NewTooManyRequests m) CodeTooManyRequests" "IsCode NewQueueFull CodeQueueFull"
  "IsCode (NewForbidden m) CodePermissionDenied"
  by (simp_all add: IsCode_def app_error_defs)

lemma dedup_code: "fst (dedup_check s now rq w) = Some e \<Longrightarrow> IsCode e CodeConflict"
  by (auto simp: dedup_check_def split: prod.splits sum.splits if_splits)

lemma dependency_code: "fst (dependency_check s now ds w) = Inl e \<Longrightarrow> IsCode e CodeInvalidArgument"
  by (auto simp: dependency_check_def split: prod.splits sum.splits if_splits)

lemma rate_code: "fst (rate_check s now t w) = Some e \<Longrightarrow> IsCode e CodeTooManyRequests"
  by (auto simp: rate_check_def split: prod.splits sum.splits if_splits)

lemma size_code: "fst (size_check s now w) = Some e \<Longrightarrow> IsCode e CodeQueueFull"
  by (auto simp: size_check_def split: prod.splits sum.splits if_splits)

lemma run_at_code: "run_at_check now t = Inl e \<Longrightarrow> IsCode e CodeInvalidArgument"
  by (cases t) (auto simp: run_at_check_def split: if_splits)

lemmas check_codes = dedup_code dependency_code rate_code size_code run_at_code IsCode_New

definition enqueued :: "RedisQueue \<Rightarrow> time \<Rightarrow> Job \<Rightarrow> rdb \<Rightarrow> rdb \<Rightarrow> bool" where
  \<comment> \<open>\<open>db'\<close> has \<open>j\<close> in the delayed set or in its pending partition, everything else in lists and sorted sets as in \<open>db\<close>\<close>
  "enqueued q now j db db' \<longleftrightarrow>
     (let payload = Doc (job_json j); k = getPartitionedKey q (jID j) (jPriority j) in
      if now < jRunAt j
      then rLists db' = rLists db \<and>
           rZsets db' = (rZsets db)(qDelayed q := AList.update payload (Unix (jRunAt j)) (rZsets db (qDelayed q)))
      else rZsets db' = rZsets db \<and> rLists db' = (rLists db)(k := payload # rLists db k))"

lemma enqueued_frame: "queue_frame a a' \<Longrightarrow> enqueued q now j a' db = enqueued q now j a db"
  by (simp add: enqueued_def queue_frame_def)

lemma queue_frame_trans: "queue_frame a a' \<Longrightarrow> queue_frame a' db = queue_frame a db"
  by (simp add: queue_frame_def)

context redis_up
begin

lemma Enqueue_enqueued:
  assumes "client q = r"
  obtains db' where "RedisQueue_Enqueue q tr now (Some j) db = (None, Some (j\<lparr>jTraceID := tr\<rparr>), db')"
    and "enqueued q now (j\<lparr>jTraceID := tr\<rparr>) db db'" and "rHashes db' = rHashes db"
  using assms Enqueue_up [OF redis_up_axioms, of q tr now j db]
  by (intro that [of "snd (snd (RedisQueue_Enqueue q tr now (Some j) db))"])
     (simp_all add: enqueued_def Let_def put_list_def put_zset_def)

end

context job_service
begin

lemma submit_job_spec:
  assumes w: "ok w" and r: "submit_job s tr now allMet job w = (x, w')"
  shows "\<exists>job'. x = Inr job' \<and> ok w' \<and> lookup w' = (lookup w)(jID job \<mapsto> job) \<and>
           (if jStatus job \<noteq> StatusRecurring \<and> allMet
            then job' = job\<lparr>jTraceID := tr\<rparr> \<and> enqueued (svcQueue s) now job' (wDb w) (wDb w')
            else job' = job \<and> queue_frame (wDb w) (wDb w'))"
proof -
  obtain w1 where sv: "st_Save (svcStore s) now job w = (None, w1)" and k1: "ok w1"
    and l1: "lookup w1 = (lookup w)(jID job \<mapsto> job)"
    using save_law [OF w] by blast
  have q1: "queue_frame (wDb w) (wDb w1)" using save_queue [of w now job] sv by simp
  obtain db' where en: "RedisQueue_Enqueue (svcQueue s) tr now (Some job) (wDb w1) = (None, Some (job\<lparr>jTraceID := tr\<rparr>), db')"
    and eq: "enqueued (svcQueue s) now (job\<lparr>jTraceID := tr\<rparr>) (wDb w1) db'" and h: "rHashes db' = rHashes (wDb w1)"
    by (rule Enqueue_enqueued [OF refl])
  define go where "go \<longleftrightarrow> jStatus job \<noteq> StatusRecurring \<and> allMet"
  define job' where "job' = (if go then job\<lparr>jTraceID := tr\<rparr> else job)"
  define w2 where "w2 = (if go then w1\<lparr>wDb := db'\<rparr> else w1)"
  have res: "x = Inr job'" "quiet w2 w'"
    using r publishWebhookEvent_quiet
    by (auto simp: submit_job_def sv en job'_def w2_def go_def split: if_splits)
  have "store_frame w1 w2" by (simp add: w2_def store_frame_def h)
  then have k2: "ok w2 \<and> lookup w2 = lookup w1" using frame [OF k1] by blast
  then have k3: "ok w' \<and> lookup w' = lookup w1" using frame_quiet res(2) by metis
  have "queue_frame (wDb w2) (wDb w')" using res(2) by (simp add: quiet_def)
  then have "if go then enqueued (svcQueue s) now job' (wDb w) (wDb w') else queue_frame (wDb w) (wDb w')"
    using eq q1 by (simp add: job'_def w2_def enqueued_def queue_frame_def Let_def)
  then show ?thesis using res(1) k3 l1 by (auto simp: job'_def go_def)
qed

lemma CreateJob_stages:
  assumes w: "ok w" and r: "JobService_CreateJob s u1 u2 tr now rq w = (x, w')"
  shows "(\<exists>e. x = Inl e \<and> quiet w w' \<and>
             (\<exists>c \<in> {CodeInvalidArgument, CodeConflict, CodeTooManyRequests, CodeQueueFull}. IsCode e c)) \<or>
         (\<exists>runAt allMet w5. run_at_check now (rqRunAt rq) = Inr runAt \<and> quiet w w5 \<and>
            fst (isJobTypeAllowed s now (rqType rq) w) \<and>
            (\<forall>d\<in>set (rqDependencies rq). lookup w d \<noteq> None) \<and>
            allMet = (\<forall>d\<in>set (rqDependencies rq). \<exists>j. lookup w d = Some j \<and> jStatus j = StatusCompleted) \<and>
            submit_job s tr now allMet (build_job s u1 u2 now rq runAt) w5 = (x, w'))"
proof -
  obtain a w1 where 1: "isJobTypeAllowed s now (rqType rq) w = (a, w1)" by force
  obtain d w2 where 2: "dedup_check s now rq w1 = (d, w2)" by force
  obtain p w3 where 3: "dependency_check s now (rqDependencies rq) w2 = (p, w3)" by force
  obtain t w4 where 4: "rate_check s now (rqTenantID rq) w3 = (t, w4)" by force
  obtain z w5 where 5: "size_check s now w4 = (z, w5)" by force
  have q1: "quiet w w1" using isJobTypeAllowed_quiet [of w now "rqType rq"] 1 by simp
  have q2: "quiet w w2" using quiet_trans [OF q1] dedup_check_quiet [of w1 now rq] 2 by simp
  have k2: "ok w2" "lookup w2 = lookup w" using frame_quiet [OF w q2] by auto
  have q3: "quiet w w3" using dependency_check_same [OF k2(1), of now "rqDependencies rq"] 3 q2 by simp
  have q4: "quiet w w4" using quiet_trans [OF q3] rate_check_quiet [of w3 now "rqTenantID rq"] 4 by simp
  have q5: "quiet w w5" using quiet_trans [OF q4] size_check_quiet [of w4 now] 5 by simp
  have codes: "\<And>e. d = Some e \<Longrightarrow> IsCode e CodeConflict" "\<And>e. p = Inl e \<Longrightarrow> IsCode e CodeInvalidArgument"
    "\<And>e. t = Some e \<Longrightarrow> IsCode e CodeTooManyRequests" "\<And>e. z = Some e \<Longrightarrow> IsCode e CodeQueueFull"
    "\<And>e. run_at_check now (rqRunAt rq) = Inl e \<Longrightarrow> IsCode e CodeInvalidArgument"
    "\<And>m. IsCode (NewInvalidArgument m) CodeInvalidArgument"
    using check_codes 2 3 4 5 by (metis fst_conv)+
  note dep = dependency_check_ok [OF k2(1), of now "rqDependencies rq", unfolded k2(2)]
  note step = r [unfolded JobService_CreateJob_def 1 prod.case 2 3 4 5]
  show ?thesis
  proof (cases "a \<and> d = None \<and> (\<exists>m. p = Inr m) \<and> t = None \<and> (\<exists>u. run_at_check now (rqRunAt rq) = Inr u) \<and> z = None")
    case True
    then obtain m u where ok: "a" "d = None" "p = Inr m" "t = None" "run_at_check now (rqRunAt rq) = Inr u" "z = None"
      by blast
    with step 2 3 4 5 have "submit_job s tr now m (build_job s u1 u2 now rq u) w5 = (x, w')" by simp
    moreover have "fst (dependency_check s now (rqDependencies rq) w2) = Inr m" using 3 ok(3) by simp
    ultimately show ?thesis using dep [of m] q5 ok 1 by (intro disjI2 exI [of _ u] exI [of _ m] exI [of _ w5]) simp
  next
    case False
    then consider "\<not> a" | e where "a" "d = Some e" | e where "a" "d = None" "p = Inl e"
      | e m where "a" "d = None" "p = Inr m" "t = Some e"
      | e m where "a" "d = None" "p = Inr m" "t = None" "run_at_check now (rqRunAt rq) = Inl e"
      | e m u where "a" "d = None" "p = Inr m" "t = None" "run_at_check now (rqRunAt rq) = Inr u" "z = Some e"
      by (cases p; cases "run_at_check now (rqRunAt rq)"; cases d; cases t; cases a; auto)
    then show ?thesis using step 2 3 4 5 q1 q2 q3 q4 q5 codes by cases (intro disjI1, force)+
  qed
qed

end

section \<open>The dequeue and the job hash\<close>

context redis_up
begin

lemma start_job_hash:
  "client q = r \<Longrightarrow> k \<noteq> payloadsKey \<Longrightarrow> rHashes (snd (start_job q now job db)) k = rHashes db k"
  by (simp add: start_job_def exec_eq track_cmds_def Let_def)

lemma defer_job_hash: "client q = r \<Longrightarrow> rHashes (snd (defer_job q now dk raw x db)) = rHashes db"
  by (simp add: defer_job_def rcall_eq)

lemma active_count_hash: "client q = r \<Longrightarrow> active_count q now ak db = (x, db') \<Longrightarrow> rHashes db' = rHashes db"
  by (auto simp: active_count_def rcall_int_def rcall_eq Let_def)

lemma type_gate_hash:
  "client q = r \<Longrightarrow> k \<noteq> payloadsKey \<Longrightarrow> rHashes (snd (type_gate q now job limit raw db)) k = rHashes db k"
  using active_count_hash by (auto simp: type_gate_def start_job_hash defer_job_hash split: prod.split sum.split)

lemma tenant_gate_hash:
  "client q = r \<Longrightarrow> k \<noteq> payloadsKey \<Longrightarrow> rHashes (snd (tenant_gate q now job limit raw db)) k = rHashes db k"
  using active_count_hash
  by (auto simp: tenant_gate_def getTenantLimit_up type_gate_hash defer_job_hash split: prod.split sum.split)

lemma pop_first_hash: "pop_first ks db = Some (k, v, db') \<Longrightarrow> rHashes db' = rHashes db"
  by (induction ks) (auto split: if_splits)

lemma dequeue_body_hash:
  assumes "client q = r" and "k \<noteq> payloadsKey"
  shows "rHashes (snd (dequeue_body q now keys db)) k = rHashes db k"
proof (cases "pop_first keys db")
  case None
  with assms show ?thesis by (simp add: dequeue_body_def rcall_eq)
next
  case (Some p)
  then obtain k' raw db1 where p: "pop_first keys db = Some (k', raw, db1)" by (cases p) auto
  with assms pop_first_hash [OF p] show ?thesis
    by (simp add: dequeue_body_def rcall_eq getJobTypeState_up defer_job_hash tenant_gate_hash
        split: option.split sum.split prod.split)
qed

lemma Dequeue_hash:
  assumes "client q = r" and "k \<noteq> payloadsKey"
  shows "rHashes (snd (RedisQueue_Dequeue fuel q rnd now db)) k = rHashes db k"
proof -
  have "rHashes (snd (dequeue_loop n q now keys db)) k = rHashes db k" for n keys
  proof (induction n arbitrary: db)
    case (Suc n)
    then show ?case using dequeue_body_hash [OF assms, of now keys db]
      by (auto split: prod.split option.split)
  qed simp
  then show ?thesis by (simp add: RedisQueue_Dequeue_def)
qed

end

section \<open>Replay and deletion by the owner\<close>

context job_service
begin

lemma owner_delete:
  assumes "ok w" and "lookup w i = Some j" and "owned_by t j"
  shows "\<exists>w'. JobService_DeleteJob s now i t w = (None, w') \<and> ok w' \<and> lookup w' = (lookup w)(i := None)"
  using assms delete_law [OF assms(1), of now i] by (simp add: JobService_DeleteJob_def get_some)

lemma owner_replay:
  fixes j now
  defines "j0 \<equiv> j\<lparr>jStatus := StatusPending, jRetries := 0, jUpdatedAt := now, jProcessedBy := '''', jResult := JNull\<rparr>"
  assumes w: "ok w" and j: "lookup w i = Some j" and t: "owned_by t j"
  shows "\<exists>w'. JobService_ReplayJob s tr now i t w = (Inr (j0\<lparr>jTraceID := tr\<rparr>), w') \<and> ok w' \<and>
           lookup w' = (lookup w)(i \<mapsto> j0) \<and> enqueued (svcQueue s) now (j0\<lparr>jTraceID := tr\<rparr>) (wDb w) (wDb w')"
proof -
  have "jID j0 = i" using lookup_id [OF w j] by (simp add: j0_def)
  then obtain w1 where sv: "st_Save (svcStore s) now j0 w = (None, w1)" and k: "ok w1" "lookup w1 = (lookup w)(i \<mapsto> j0)"
    using save_law [OF w, of now j0] by auto
  obtain db where en: "RedisQueue_Enqueue (svcQueue s) tr now (Some j0) (wDb w1) = (None, Some (j0\<lparr>jTraceID := tr\<rparr>), db)"
    and e: "enqueued (svcQueue s) now (j0\<lparr>jTraceID := tr\<rparr>) (wDb w1) db" and h: "rHashes db = rHashes (wDb w1)"
    by (rule Enqueue_enqueued [OF refl])
  have "store_frame w1 (w1\<lparr>wDb := db\<rparr>)" by (simp add: store_frame_def h)
  moreover have "JobService_ReplayJob s tr now i t w = (Inr (j0\<lparr>jTraceID := tr\<rparr>), w1\<lparr>wDb := db\<rparr>)"
    using t sv en by (simp add: JobService_ReplayJob_def get_some [OF w j] Let_def JobService_Enqueue_def j0_def)
  moreover have "enqueued (svcQueue s) now (j0\<lparr>jTraceID := tr\<rparr>) (wDb w) db"
    using e enqueued_frame [OF save_queue [of w now j0]] sv by simp
  ultimately show ?thesis using frame [OF k(1)] k(2) by auto
qed

end

context redis_up
begin

lemma Ack_clears:
  assumes c: "client q = r" and i: "i \<noteq> ''''"
  shows "clears now i db (snd (RedisQueue_Ack q now i db))"
proof -
  obtain rs db' where u: "untrack q now i db = (Inr rs, db')" and cl: "clears now i db db'"
    using untrack_up [OF c] by blast
  have "clears now i db (snd (rcall (client q) now (INCR (metricsCompleted q)) db'))"
    using cl c by (simp add: rcall_eq clears_def Let_def)
  then show ?thesis using u i cl by (simp add: RedisQueue_Ack_def)
qed

end

section \<open>Webhook targets and deliveries\<close>

definition registered :: "rdb \<Rightarrow> RegisteredWebhook set" where
  "registered db = {h. \<exists>kv\<in>set (rHashes db webhookStoreKey). json_regwebhook (snd kv) = Some h}"

definition targets_for :: "Job \<Rightarrow> string \<Rightarrow> rdb \<Rightarrow> (string \<times> string) set" where
  \<comment> \<open>the registered webhooks a job's event goes to; a job without tenant reaches those of every tenant\<close>
  "targets_for job event db = (\<lambda>h. (rwURL h, rwSecret h)) `
     {h \<in> registered db. (jTenantID job = '''' \<or> rwTenantID h = jTenantID job) \<and> event_matches event h}"

lemma map_filter_set: "set (List.map_filter f xs) = {y. \<exists>x\<in>set xs. f x = Some y}"
  by (force simp: List.map_filter_def)

context redis_up
begin

lemma Match_up:
  "\<exists>ws. WebhookStore_Match r now t e db = (Inr ws, db) \<and>
        set ws = {h \<in> registered db. (t = '''' \<or> rwTenantID h = t) \<and> event_matches e h}"
  by (auto simp: WebhookStore_Match_def WebhookStore_List_def rcall_eq registered_def map_filter_set)

lemma RecordDelivery_up:
  "RecordDelivery r now d db =
     (None, put_list (deliveries_key (drURL d)) (take 50 (Doc (delivery_json d) # rLists db (deliveries_key (drURL d))))
              (put_list (deliveries_key (drURL d)) (Doc (delivery_json d) # rLists db (deliveries_key (drURL d))) db))"
  by (simp add: RecordDelivery_def exec_eq range_slice_prefix MaxDeliveriesPerURL_def)

end

lemma json_delivery_json [simp]: "json_delivery (Doc (delivery_json d)) = Some d"
  by (simp add: json_delivery_def delivery_json_def blob_json_def dec_defs jint_def)

end
