(* ===== verification/Service_Props.thy ===== *)
theory Service_Props
  imports Service_Proofs
begin

text \<open>
  Properties of the job service, of the webhook registry and of the delivery history. A service
  property holds for every store that meets the contract \<open>world_store\<close> and every Redis that answers
  (\<open>job_service\<close>); \<open>mem_js\<close> and \<open>redis_js\<close> are the service over the in-memory and over the Redis store.
\<close>

section \<open>Instances\<close>

definition mem_service :: "string \<Rightarrow> int \<Rightarrow> int \<Rightarrow> InMemoryStore JobService" where
  "mem_service name limit maxq =
     SetSSEBroker (SetWebhookStore (SetJobTypeStore
       (JobService_New (NewWithRateLimit redis_ref name limit) mem_world maxq (\<lambda>_. None) (\<lambda>_. ''''))))"

definition redis_only_service :: "string \<Rightarrow> int \<Rightarrow> int \<Rightarrow> unit JobService" where
  "redis_only_service name limit maxq =
     SetSSEBroker (SetWebhookStore (SetJobTypeStore
       (JobService_New (NewWithRateLimit redis_ref name limit) (redis_world redis_ref) maxq (\<lambda>_. None) (\<lambda>_. ''''))))"

lemma service_parts [simp]:
  "svcStore (mem_service name limit maxq) = mem_world"
  "svcQueue (mem_service name limit maxq) = NewWithRateLimit redis_ref name limit"
  "svcMaxQueueSize (mem_service name limit maxq) = maxq"
  "svcStore (redis_only_service name limit maxq) = redis_world redis_ref"
  "svcQueue (redis_only_service name limit maxq) = NewWithRateLimit redis_ref name limit"
  by (simp_all add: mem_service_def redis_only_service_def JobService_New_def SetSSEBroker_def SetWebhookStore_def
      SetJobTypeStore_def)

interpretation mem_js: job_service "mem_service name limit maxq" "\<lambda>w. mem_ok (wStore w)" "\<lambda>w. mem_lookup (wStore w)"
  unfolding job_service_def using mem_w.world_store_axioms rr.redis_up_axioms by simp

interpretation redis_js: job_service "redis_only_service name limit maxq" "\<lambda>w. rs_ok (wDb w)" "\<lambda>w. rs_lookup (wDb w)"
  unfolding job_service_def using rr.redis_w.world_store_axioms rr.redis_up_axioms by simp

definition empty_world :: "InMemoryStore world" where
  "empty_world = \<lparr>wStore = NewInMemoryStore, wDb = empty_rdb, wSse = NewBroker\<rparr>"

definition sample_request :: JobRequest where
  "sample_request = \<lparr>rqType = ''email'', rqPayload = Some [], rqLabels = [], rqPriority = ''high'', rqMaxRetries = 0,
     rqBackoffAlgorithm = '''', rqBackoffJitter = '''', rqCronExpr = '''', rqRunAt = JStr '''', rqCorrelationID = '''',
     rqTimeout = 0, rqVersion = 1, rqTenantID = ''acme'', rqWebhook = None, rqDedupKey = '''', rqDependencies = [],
     rqShardKey = '''', rqTTLSeconds = 0\<rparr>"

lemma empty_world_ok [simp]: "mem_ok (wStore empty_world)" "mem_lookup (wStore empty_world) = Map.empty"
  by (simp_all add: empty_world_def NewInMemoryStore_def mem_ok_def mem_lookup_def)

lemma build_job_id: "jID (build_job s u1 u2 now rq t) = u2"
  by (simp add: build_job_def NewJob_def Let_def split: option.split)

section \<open>Properties: submission\<close>

text \<open>
  C8. A successful \<^verbatim>\<open>CreateJob\<close> stores exactly one new record, under the fresh identifier, changes no
  other record, has found all dependencies of the request in the store, and puts the job into its
  pending partition, or into the delayed set when it runs in the future, if and only if it is no
  recurring template and all its dependencies are completed; otherwise no list and no sorted set
  of the queue changes.
\<close>

theorem CreateJob_accepts:
  assumes js: "job_service s ok lookup" and w: "ok w"
    and res: "JobService_CreateJob s u1 u2 tr now rq w = (Inr job, w')"
  shows "\<exists>runAt. run_at_check now (rqRunAt rq) = Inr runAt \<and>
    (let saved = build_job s u1 u2 now rq runAt;
         allMet = (\<forall>d\<in>set (rqDependencies rq). \<exists>j. lookup w d = Some j \<and> jStatus j = StatusCompleted)
     in ok w' \<and> lookup w' = (lookup w)(u2 \<mapsto> saved) \<and>
        (\<forall>d\<in>set (rqDependencies rq). lookup w d \<noteq> None) \<and>
        (if jStatus saved \<noteq> StatusRecurring \<and> allMet
         then job = saved\<lparr>jTraceID := tr\<rparr> \<and> enqueued (svcQueue s) now job (wDb w) (wDb w')
         else job = saved \<and> queue_frame (wDb w) (wDb w')))"
proof -
  from job_service.CreateJob_stages [OF js w res] obtain runAt allMet w5 where
    r: "run_at_check now (rqRunAt rq) = Inr runAt" and q: "quiet w w5" and
    d: "\<forall>d\<in>set (rqDependencies rq). lookup w d \<noteq> None" and
    m: "allMet = (\<forall>d\<in>set (rqDependencies rq). \<exists>j. lookup w d = Some j \<and> jStatus j = StatusCompleted)" and
    sub: "submit_job s tr now allMet (build_job s u1 u2 now rq runAt) w5 = (Inr job, w')"
    by blast
  have k: "ok w5" "lookup w5 = lookup w" using job_service.frame_quiet [OF js w q] by auto
  have "queue_frame (wDb w) (wDb w5)" using q by (simp add: quiet_def)
  then have fr: "enqueued (svcQueue s) now j (wDb w5) db = enqueued (svcQueue s) now j (wDb w) db"
    "queue_frame (wDb w5) db = queue_frame (wDb w) db" for j db
    using enqueued_frame queue_frame_trans by blast+
  show ?thesis
    using job_service.submit_job_spec [OF js k(1) sub] r d unfolding m [symmetric] Let_def k(2) fr build_job_id
    by (intro exI [of _ runAt]) (auto split: if_splits)
qed

lemma sample_create:
  "\<exists>job w'. JobService_CreateJob (mem_service '''' 0 0) ''u-1'' ''id-1'' ''tr'' 5 sample_request empty_world = (Inr job, w')"
proof -
  let ?s = "mem_service '''' 0 0"
  have "run_at_check 5 (rqRunAt sample_request) = Inr zero_time" by (simp add: run_at_check_def sample_request_def)
  moreover have "isJobTypeAllowed ?s 5 (rqType sample_request) w = (True, w)" for w
    by (simp add: isJobTypeAllowed_def sample_request_def allowedJobTypes_def)
  moreover have "dedup_check ?s 5 sample_request w = (None, w)"
    "dependency_check ?s 5 (rqDependencies sample_request) w = (Inr True, w)" for w
    by (simp_all add: dedup_check_def dependency_check_def sample_request_def)
  moreover have "rate_check ?s 5 t w = (None, w)" "size_check ?s 5 w = (None, w)" for t w
    by (simp_all add: rate_check_def size_check_def on_db_def RedisQueue_IsAllowed_def)
  ultimately have "JobService_CreateJob ?s ''u-1'' ''id-1'' ''tr'' 5 sample_request empty_world =
        submit_job ?s ''tr'' 5 True (build_job ?s ''u-1'' ''id-1'' 5 sample_request zero_time) empty_world"
    by (simp add: JobService_CreateJob_def)
  moreover obtain x w' where
    r: "submit_job ?s ''tr'' 5 True (build_job ?s ''u-1'' ''id-1'' 5 sample_request zero_time) empty_world = (x, w')"
    by force
  moreover have "\<exists>job. x = Inr job" using mem_js.submit_job_spec [OF empty_world_ok(1) r] by blast
  ultimately show ?thesis by auto
qed

theorem CreateJob_accepts_witness:
  "\<exists>job w'. JobService_CreateJob (mem_service '''' 0 0) ''u-1'' ''id-1'' ''tr'' 5 sample_request empty_world = (Inr job, w') \<and>
     mem_lookup (wStore w') ''id-1'' \<noteq> None \<and> rLists (wDb w') \<noteq> (\<lambda>_. [])"
proof -
  obtain job w' where c: "JobService_CreateJob (mem_service '''' 0 0) ''u-1'' ''id-1'' ''tr'' 5 sample_request empty_world = (Inr job, w')"
    using sample_create by blast
  define saved where "saved = build_job (mem_service '''' 0 0) ''u-1'' ''id-1'' 5 sample_request zero_time"
  have b: "jStatus saved \<noteq> StatusRecurring" "jRunAt saved \<le> 5" "rqDependencies sample_request = []"
    by (simp_all add: saved_def build_job_def sample_request_def NewJob_def Let_def IsZero_def)
  have "run_at_check 5 (rqRunAt sample_request) = Inr zero_time" by (simp add: run_at_check_def sample_request_def)
  with CreateJob_accepts [OF mem_js.job_service_axioms empty_world_ok(1) c] b
  have "mem_lookup (wStore w') ''id-1'' = Some saved" and
    e: "enqueued (NewWithRateLimit redis_ref '''' 0) 5 (saved\<lparr>jTraceID := ''tr''\<rparr>) (wDb empty_world) (wDb w')"
    by (auto simp: Let_def saved_def)
  moreover have "rLists (wDb w') (getPartitionedKey (NewWithRateLimit redis_ref '''' 0) (jID saved) (jPriority saved)) \<noteq> []"
    using e b(2) by (simp add: enqueued_def Let_def)
  ultimately show ?thesis using c by auto
qed


lemma sample_reject:
  "JobService_CreateJob (mem_service '''' 0 0) u1 u2 tr 5 (sample_request\<lparr>rqDependencies := [''ghost'']\<rparr>) empty_world =
     (Inl (NewInvalidArgument ''one or more dependency job IDs not found''), empty_world)"
proof -
  let ?s = "mem_service '''' 0 0" and ?rq = "sample_request\<lparr>rqDependencies := [''ghost'']\<rparr>"
  have "isJobTypeAllowed ?s 5 (rqType ?rq) w = (True, w)" "dedup_check ?s 5 ?rq w = (None, w)" for w
    by (simp_all add: isJobTypeAllowed_def sample_request_def allowedJobTypes_def dedup_check_def)
  moreover have "dependency_check ?s 5 [''ghost''] empty_world =
      (Inl (NewInvalidArgument ''one or more dependency job IDs not found''), empty_world)"
    by (simp add: dependency_check_def mem_js.ids_law [of empty_world, simplified] List.map_filter_simps)
  ultimately show ?thesis by (simp add: JobService_CreateJob_def)
qed


section \<open>Properties: ownership\<close>

text \<open>
  C10. Replay and deletion respect ownership: a named tenant that is neither the operator nor the owner
  gets \<^verbatim>\<open>PERMISSION_DENIED\<close> and nothing at all changes; the owner's deletion removes exactly that
  record; the owner's replay resets exactly that record (pending, no retries, no worker, no result)
  and enqueues it.
\<close>

theorem Replay_Delete_ownership:
  assumes js: "job_service s ok lookup" and w: "ok w" and j: "lookup w i = Some j"
  shows "if t \<noteq> '''' \<and> t \<noteq> ''operator'' \<and> jTenantID j \<noteq> t
    then JobService_ReplayJob s tr now i t w = (Inl (NewForbidden ''you do not own this job''), w) \<and>
         JobService_DeleteJob s now i t w = (Some (NewForbidden ''you do not own this job''), w)
    else (\<exists>w'. JobService_DeleteJob s now i t w = (None, w') \<and> ok w' \<and> lookup w' = (lookup w)(i := None)) \<and>
         (let j0 = j\<lparr>jStatus := StatusPending, jRetries := 0, jUpdatedAt := now, jProcessedBy := '''', jResult := JNull\<rparr>
          in \<exists>w'. JobService_ReplayJob s tr now i t w = (Inr (j0\<lparr>jTraceID := tr\<rparr>), w') \<and> ok w' \<and>
               lookup w' = (lookup w)(i \<mapsto> j0) \<and> enqueued (svcQueue s) now (j0\<lparr>jTraceID := tr\<rparr>) (wDb w) (wDb w'))"
proof (cases "owned_by t j")
  case False
  then show ?thesis
    using job_store.get_some [OF job_service.axioms(1) [OF js, THEN world_store.axioms(1)] w j]
    by (auto simp: JobService_ReplayJob_def JobService_DeleteJob_def owned_by_def)
next
  case True
  then have t: "\<not> (t \<noteq> '''' \<and> t \<noteq> ''operator'' \<and> jTenantID j \<noteq> t)" by (simp add: owned_by_def)
  show ?thesis
    unfolding if_not_P [OF t] using job_service.owner_delete [OF js w j True, of now]
      job_service.owner_replay [OF js w j True, of tr now] by (simp add: Let_def)
qed

theorem Replay_Delete_ownership_witness:
  "JobService_DeleteJob (mem_service '''' 0 0) 9 ''a'' ''mallory''
     (empty_world\<lparr>wStore := \<lparr>msData = [(''a'', zero_job\<lparr>jID := ''a'', jTenantID := ''acme''\<rparr>)], msClients = []\<rparr>\<rparr>) =
   (Some (NewForbidden ''you do not own this job''),
    empty_world\<lparr>wStore := \<lparr>msData = [(''a'', zero_job\<lparr>jID := ''a'', jTenantID := ''acme''\<rparr>)], msClients = []\<rparr>\<rparr>)"
  using Replay_Delete_ownership [OF mem_js.job_service_axioms,
      of "empty_world\<lparr>wStore := \<lparr>msData = [(''a'', zero_job\<lparr>jID := ''a'', jTenantID := ''acme''\<rparr>)], msClients = []\<rparr>\<rparr>"
        "''a''" "zero_job\<lparr>jID := ''a'', jTenantID := ''acme''\<rparr>" "''mallory''"]
  by (simp add: mem_ok_def mem_lookup_def)

section \<open>Properties: dependencies\<close>

text \<open>
  C11. The dependency check of \<^verbatim>\<open>JobService.Dequeue\<close>: when the queue hands out a job one of whose
  dependencies is known and not completed, the call returns no job and no error, and the job is in
  none of the places it could be taken from again: the pending, delayed and deferred lists are as
  the pop left them, its payload and its in-flight entry are gone.
\<close>

theorem Dequeue_drops_waiting_job:
  assumes js: "job_service s ok lookup" and w: "ok w"
    and pop: "RedisQueue_Dequeue fuel (svcQueue s) rnd now (wDb w) = (Some (Inr job), db)"
    and dep: "d \<in> set (jDependencies job)" "lookup w d = Some dj" "jStatus dj \<noteq> StatusCompleted"
    and i: "jID job \<noteq> ''''"
  shows "\<exists>w'. JobService_Dequeue fuel s rnd now w = (Some (Inr None), w') \<and> rLists (wDb w') = rLists db \<and>
           (\<forall>k. k \<noteq> processingSetKey \<longrightarrow> set (rZsets (wDb w') k) \<subseteq> set (rZsets db k)) \<and>
           map_of (rHashes (wDb w') payloadsKey) (jID job) = None \<and>
           map_of (rZsets (wDb w') processingSetKey) (Txt (jID job)) = None"
proof -
  define w1 where "w1 = w\<lparr>wDb := db\<rparr>"
  define w3 where "w3 = snd (st_UpdateStatus (svcStore s) now (jID job) StatusPending '''' w1)"
  define db4 where "db4 = snd (RedisQueue_Ack (svcQueue s) now (jID job) (wDb w3))"
  note ws = job_service.axioms(1) [OF js] and up = job_service.axioms(2) [OF js]
  have "store_frame w w1"
    using redis_up.Dequeue_hash [OF up refl, of jobStoreKey fuel rnd now "wDb w"] pop
    by (simp add: w1_def store_frame_def)
  then have k: "ok w1" "lookup w1 = lookup w" using world_store.frame [OF ws w] by auto
  have ids: "st_GetByIDs (svcStore s) now ds w1 = (Inr (List.map_filter (lookup w) ds), w1)" for ds
    using job_store.ids_law [OF world_store.axioms(1) [OF ws] k(1)] k(2) by simp
  have un: "\<not> list_all (\<lambda>d. jStatus d = StatusCompleted) (List.map_filter (lookup w) (jDependencies job))"
    using dep by (auto simp: list_all_iff map_filter_set)
  have q: "queue_frame db (wDb w3)"
    using world_store.status_queue [OF ws k(1), of now "jID job" StatusPending "''''"] by (simp add: w3_def w1_def)
  have cl: "clears now (jID job) (wDb w3) db4"
    unfolding db4_def using up i by (intro redis_up.Ack_clears) simp_all
  have "JobService_Dequeue fuel s rnd now w = (Some (Inr None), w3\<lparr>wDb := db4\<rparr>)"
    using dep(1) ids un pop
    by (auto simp: JobService_Dequeue_def on_db_def JobService_Ack_def w1_def [symmetric] w3_def [symmetric]
        db4_def Let_def split: prod.split)
  moreover have "rLists db4 = rLists db" using cl q by (simp add: clears_def queue_frame_def)
  moreover have "set (rZsets db4 k) \<subseteq> set (rZsets db k)" for k
    using cl q by (auto simp: clears_def queue_frame_def zrem_def)
  moreover have "processingSetKey \<in> untrack_keys now (wDb w3) (jID job)" by (simp add: untrack_keys_def)
  ultimately show ?thesis using clears_gone [OF cl] by auto
qed

definition waiting_job :: Job where
  "waiting_job = sample_job\<lparr>jDependencies := [''dep'']\<rparr>"

definition waiting_world :: "InMemoryStore world" where
  "waiting_world = \<lparr>wStore = \<lparr>msData = [(''dep'', zero_job\<lparr>jID := ''dep'', jStatus := StatusPending\<rparr>)], msClients = []\<rparr>,
     wDb = put_list sample_key [Doc (job_json waiting_job)] empty_rdb, wSse = NewBroker\<rparr>"

lemma single_dequeue:
  "\<exists>db'. RedisQueue_Dequeue 2 sample_queue 0 5 (put_list sample_key [Doc (job_json j)] empty_rdb) = (Some (Inr (started 5 j)), db')"
proof -
  let ?db = "put_list sample_key [Doc (job_json j)] empty_rdb" and ?ks = "getFairPartitionKeys sample_queue 0"
  have p: "pend ?ks ?db = [Doc (job_json j)]"
    unfolding sample_key_def by (intro pend_single partitioned_key_fair) (simp_all add: sample_queue_def distinct_fair_keys)
  then obtain res where 1: "fst (RedisQueue_Dequeue 2 sample_queue 0 5 ?db) = Some res"
    and 2: "dequeue_spec 5 ?ks ?db res (snd (RedisQueue_Dequeue 2 sample_queue 0 5 ?db))"
    using dequeue_loop_up [OF rr.redis_up_axioms, of "''''" 10 0 ?db 2 5]
    unfolding sample_queue_def by (auto simp: plain_name_def)
  have "verdict_of 5 ?db (Doc (job_json j)) = Start j"
    by (simp add: verdict_of_def type_state_def tenant_limit_def)
  with 2 p have "res = Inr (started 5 j)" by (simp add: dequeue_spec_def Let_def)
  with 1 show ?thesis by (metis prod.collapse)
qed

theorem Dequeue_drops_waiting_job_witness:
  "fst (JobService_Dequeue 2 (mem_service '''' 10 0) 0 5 waiting_world) = Some (Inr None)"
proof -
  obtain db where "RedisQueue_Dequeue 2 (svcQueue (mem_service '''' 10 0)) 0 5 (wDb waiting_world) = (Some (Inr (started 5 waiting_job)), db)"
    using single_dequeue [of waiting_job] by (auto simp: waiting_world_def sample_queue_def)
  from Dequeue_drops_waiting_job [OF mem_js.job_service_axioms _ this, of "''dep''" "zero_job\<lparr>jID := ''dep'', jStatus := StatusPending\<rparr>"]
  show ?thesis
    by (auto simp: waiting_world_def mem_ok_def mem_lookup_def waiting_job_def started_def sample_job_def)
qed

section \<open>Properties: webhooks\<close>

text \<open>
  An event of a job goes to the webhook of the job itself, if it asks for the event, and to exactly
  the registered webhooks of the job's tenant that ask for it. A job without tenant is the exception:
  its events go to the matching webhooks of every tenant.
\<close>

theorem webhook_targets_exact:
  assumes up: "redis_up (svcRedis s)" and h: "svcHasWebhooks s"
  shows "set (fst (collectWebhookTargetsForEvent s now job event db)) =
           set (job_webhook_targets job event) \<union> targets_for job event db"
  using redis_up.Match_up [OF up, of now "jTenantID job" event db] h
  by (auto simp: collectWebhookTargetsForEvent_def targets_for_def)

definition hook_db :: rdb where
  "hook_db = snd (WebhookStore_Create redis_ref ''h1'' 1 ''acme'' ''http://a'' ''k'' [''job.failed''] empty_rdb)"

theorem webhook_targets_exact_witness:
  "set (fst (collectWebhookTargetsForEvent (mem_service '''' 0 0) 2 (zero_job\<lparr>jTenantID := ''acme''\<rparr>) ''failed'' hook_db)) =
     targets_for (zero_job\<lparr>jTenantID := ''acme''\<rparr>) ''failed'' hook_db"
  using webhook_targets_exact [of "mem_service '''' 0 0" 2 "zero_job\<lparr>jTenantID := ''acme''\<rparr>" "''failed''" hook_db]
    rr.redis_up_axioms
  by (simp add: mem_service_def SetSSEBroker_def SetWebhookStore_def SetJobTypeStore_def JobService_New_def
      job_webhook_targets_def zero_job_def)

text \<open>
  The delivery history of a URL is bounded and newest first: after any number of recorded
  deliveries to it, listing at most \<open>limit\<close> of them (up to 50) gives the last \<open>limit\<close> recorded, latest first, decoded
  to the very records that were written.
\<close>

theorem deliveries_bounded:
  assumes up: "redis_up r" and u: "\<forall>d\<in>set ds. drURL d = url" and e: "rLists db (deliveries_key url) = []"
    and l: "0 < limit" "limit \<le> 50"
  shows "fst (ListDeliveries r now url limit (fold (\<lambda>d db. snd (RecordDelivery r now d db)) ds db)) =
           Inr (take (nat limit) (rev ds))"
proof -
  have "rLists (fold (\<lambda>d db. snd (RecordDelivery r now d db)) ds db) (deliveries_key url) =
        map (\<lambda>d. Doc (delivery_json d)) (take 50 (rev ds))"
    using u
  proof (induction ds rule: rev_induct)
    case (snoc d ds)
    then show ?case by (simp add: redis_up.RecordDelivery_up [OF up] take_map take_Cons')
  qed (simp add: e)
  moreover have "List.map_filter json_delivery (map (\<lambda>d. Doc (delivery_json d)) xs) = xs" for xs
    by (induction xs) (simp_all add: List.map_filter_simps)
  ultimately show ?thesis
    using l by (simp add: ListDeliveries_def redis_up.rcall_eq [OF up] range_slice_prefix MaxDeliveriesPerURL_def
        take_map Let_def nat_diff_distrib min_absorb1 nat_le_iff)
qed

definition sample_delivery :: "int \<Rightarrow> DeliveryRecord" where
  "sample_delivery n = \<lparr>drTimestamp = 1, drJobID = ''j'', drTenantID = ''t'', drURL = ''u'', drStatusCode = 200,
     drAttempt = n, drSuccess = True, drError = '''', drBackoffMs = 0\<rparr>"

theorem deliveries_bounded_witness:
  "fst (ListDeliveries redis_ref 3 ''u'' 2
     (fold (\<lambda>d db. snd (RecordDelivery redis_ref 3 d db)) [sample_delivery 1, sample_delivery 2, sample_delivery 3] empty_rdb)) =
   Inr [sample_delivery 3, sample_delivery 2]"
  using deliveries_bounded [OF rr.redis_up_axioms, of "[sample_delivery 1, sample_delivery 2, sample_delivery 3]" "''u''" empty_rdb 2 3]
  by (simp add: sample_delivery_def numeral_2_eq_2)

section \<open>Properties: API keys\<close>

text \<open>
  Rotating a tenant's key succeeds and leaves exactly one valid key: the hash of the returned key
  verifies as the tenant and no other hash does.
\<close>

theorem RotateClientKey_sole_key:
  assumes "svcStore s = mem_world"
  shows "\<exists>w'. JobService_RotateClientKey s sha (Inr hex) now tenant w = (Inr (''tq_live_'' @ hex), w') \<and>
           (fst (st_VerifyClient (svcStore s) now h w') = Inr tenant \<longleftrightarrow> h = sha (''tq_live_'' @ hex))"
proof -
  have "map_of (filter (\<lambda>(h, t). t \<noteq> tenant) m) h \<noteq> Some tenant" for m :: "(string \<times> string) list"
    by (auto dest!: map_of_SomeD)
  moreover have
    "st_RevokeClient mem_world now t w = lift_op wStore (\<lambda>a. wStore_update (\<lambda>_. a)) (InMemoryStore_RevokeClient t) w"
    "st_RegisterClient mem_world now t x w = lift_op wStore (\<lambda>a. wStore_update (\<lambda>_. a)) (InMemoryStore_RegisterClient t x) w"
    "st_VerifyClient mem_world now x w = lift_op wStore (\<lambda>a. wStore_update (\<lambda>_. a)) (InMemoryStore_VerifyClient x) w"
    for t x w by (simp_all add: mem_world_def lift_store_def mem_store_def)
  ultimately show ?thesis
    by (auto simp: JobService_RotateClientKey_def assms lift_op_def InMemoryStore_RevokeClient_def Let_def
        InMemoryStore_RegisterClient_def InMemoryStore_VerifyClient_def update_conv' split: option.split)
qed

theorem RotateClientKey_sole_key_witness:
  "\<exists>w'. JobService_RotateClientKey (mem_service '''' 0 0) (\<lambda>k. ''#'' @ k) (Inr ''ab'') 1 ''acme'' empty_world = (Inr ''tq_live_ab'', w')"
  using RotateClientKey_sole_key [of "mem_service '''' 0 0" "\<lambda>k. ''#'' @ k" "''ab''" 1 "''acme''" empty_world "''x''"]
  by simp blast

end
