(* ===== verification/Worker_Props.thy ===== *)
theory Worker_Props
  imports Worker Service_Props
begin

text \<open>
  The life of a job in a worker: what \<^verbatim>\<open>ProcessOnce\<close> leaves in the store and in the broker when the plugin
  succeeds, fails with retries left and fails for good, for every store and Redis of \<open>job_service\<close>
  and every plugin that keeps the contract of the store.
\<close>

section \<open>Library\<close>

context redis_up
begin

lemma IsProcessed_up: "client q = r \<Longrightarrow> RedisQueue_IsProcessed q now i db = ((str_get now db (processed_key q i) \<noteq> None, None), db)"
  by (simp add: RedisQueue_IsProcessed_def rcall_eq split: option.split)

lemma IsJobTypePaused_up: "client q = r \<Longrightarrow> RedisQueue_IsJobTypePaused q now t db = (Inr (t \<in> set (rSets db pausedTypesKey)), db)"
  by (simp add: RedisQueue_IsJobTypePaused_def rcall_int_def rcall_eq)

lemma MarkProcessed_silent: "client q = r \<Longrightarrow> silent db (snd (RedisQueue_MarkProcessed q now i db))"
  by (simp add: RedisQueue_MarkProcessed_def rcall_err_up silent_def queue_frame_def)

end

context job_service
begin

lemma Ack_world:
  assumes "ok w" and "i \<noteq> ''''"
  shows "\<exists>w'. snd (JobService_Ack s now i w) = w' \<and> ok w' \<and> lookup w' = lookup w \<and> clears now i (wDb w) (wDb w')"
proof -
  have cl: "clears now i (wDb w) (snd (RedisQueue_Ack (svcQueue s) now i (wDb w)))"
    using assms(2) by (intro Ack_clears) simp_all
  then have "store_frame w (w\<lparr>wDb := snd (RedisQueue_Ack (svcQueue s) now i (wDb w))\<rparr>)"
    by (simp add: store_frame_def clears_def)
  with cl frame [OF assms(1)] show ?thesis by (simp add: JobService_Ack_def on_db_def case_prod_beta)
qed

lemma enqueue_each_hashes: "rHashes (snd (enqueue_each s tr now js db)) = rHashes db"
proof (induction js arbitrary: db)
  case (Cons j js)
  obtain db' where "RedisQueue_Enqueue (svcQueue s) tr now (Some j) db = (None, Some (j\<lparr>jTraceID := tr\<rparr>), db')"
    and "rHashes db' = rHashes db"
    by (rule Enqueue_enqueued [OF refl])
  with Cons.IH [of db'] show ?case by (simp add: case_prod_beta)
qed simp

lemma UpdateJobResult_world:
  assumes w: "ok w" and j: "lookup w i = Some j"
  shows "\<exists>w'. JobService_UpdateJobResult s tr now i st p x w = (None, w') \<and> ok w' \<and>
           lookup w' = (lookup w)(i \<mapsto> j\<lparr>jStatus := st, jProcessedBy := p, jResult := x, jUpdatedAt := now\<rparr>) \<and>
           (st \<noteq> StatusCompleted \<longrightarrow> queue_frame (wDb w) (wDb w'))"
proof -
  let ?j = "j\<lparr>jStatus := st, jProcessedBy := p, jResult := x, jUpdatedAt := now\<rparr>"
  obtain w1 where r: "st_UpdateResult (svcStore s) now i st p x w = (None, w1)" and k: "ok w1"
    and l: "lookup w1 = (lookup w)(i \<mapsto> ?j)"
    using result_some [OF w j] by blast
  have q1: "queue_frame (wDb w) (wDb w1)" using result_queue [OF w, of now i st p x] r by simp
  have g: "st_GetByID (svcStore s) now i w1 = (Inr ?j, w1)" by (rule get_some [OF k]) (simp add: l)
  define w4 where "w4 = publishWebhookEvent s now ?j st x (publishSSE s i st (jType j) (jTenantID j) w1)"
  have "quiet w1 w4" unfolding w4_def using quiet_trans [OF _ publishWebhookEvent_quiet] by simp
  then have k4: "ok w4" "lookup w4 = lookup w1" and q4: "queue_frame (wDb w) (wDb w4)"
    using frame_quiet [OF k] q1 by (auto simp: quiet_def queue_frame_def)
  show ?thesis
  proof (cases "st = StatusCompleted")
    case False
    then show ?thesis using r g k4 q4 l by (simp add: JobService_UpdateJobResult_def w4_def Let_def)
  next
    case True
    obtain y where d: "st_GetDependentJobs (svcStore s) now i w4 = (y, w4)"
      using dependents_same [of now i w4] by (metis prod.collapse)
    have "store_frame w4 (w4\<lparr>wDb := snd (enqueue_each s tr now ds (wDb w4))\<rparr>)" for ds
      by (simp add: store_frame_def enqueue_each_hashes)
    then have "ok (w4\<lparr>wDb := snd (enqueue_each s tr now ds (wDb w4))\<rparr>) \<and>
               lookup (w4\<lparr>wDb := snd (enqueue_each s tr now ds (wDb w4))\<rparr>) = lookup w4" for ds
      using frame [OF k4(1)] by blast
    then show ?thesis
      using True r g d k4 l by (cases y) (simp_all add: JobService_UpdateJobResult_def w4_def [symmetric, simplified True] True Let_def)
  qed
qed

end

section \<open>Reaching the plugin\<close>

definition runnable :: "'s WorkerProcessor \<Rightarrow> env \<Rightarrow> Job \<Rightarrow> CircuitBreaker \<Rightarrow> 's world \<Rightarrow> bool" where
  \<comment> \<open>none of the early returns of \<open>ProcessOnce\<close> applies: not processed before, type not paused, not expired,
     token granted, circuit not open; and the middleware only logs\<close>
  "runnable wp en job cb w \<longleftrightarrow>
     jID job \<noteq> '''' \<and>
     str_get (eNow en) (wDb w) (processed_key (svcQueue (wpService wp)) (jID job)) = None \<and>
     jType job \<notin> set (rSets (wDb w) pausedTypesKey) \<and>
     \<not> (\<not> IsZero (jExpiresAt job) \<and> jExpiresAt job < eNow en) \<and>
     (wpHasLimiter wp \<longrightarrow> eWait en = None) \<and>
     fst (CircuitBreaker_IsAllowed (eNow en) (jType job) cb) \<and>
     set (jeMiddlewares (wpExec wp)) \<subseteq> {LoggingMiddleware}"

definition job_trace :: "env \<Rightarrow> Job \<Rightarrow> string" where
  "job_trace en job = (if jTraceID job \<noteq> '''' then jTraceID job else eTrace en)"

lemma process_reaches_execute:
  assumes js: "job_service (wpService wp) ok lookup" and w: "ok w" and run: "runnable wp en job cb w"
    and sj: "lookup w (jID job) = Some sj" "\<not> finished_status (jStatus sj)"
  shows "process_job wp en job (cb, w) =
           execute_job wp en (job_trace en job) (job\<lparr>jProcessedBy := wpName wp\<rparr>) (cb, w)"
proof -
  note up = job_service.axioms(2) [OF js]
  have "st_GetByID (svcStore (wpService wp)) (eNow en) (jID job) w = (Inr sj, w)"
    using job_store.get_some [OF world_store.axioms(1) [OF job_service.axioms(1) [OF js]] w sj(1)] .
  moreover have "\<not> (\<not> IsZero (jExpiresAt job) \<and> jExpiresAt job < eNow en)" using run unfolding runnable_def by blast
  ultimately show ?thesis
    using run sj(2) redis_up.IsProcessed_up [OF up] redis_up.IsJobTypePaused_up [OF up]
    by (auto simp: process_job_def runnable_def JobService_IsProcessed_def JobService_IsJobTypePaused_def on_db_def
        JobService_GetJobStatus_def job_trace_def Let_def)
qed

lemma Execute_plugin:
  assumes "map_of (jeRegistry je) (jType j) = Some p" and "set (jeMiddlewares je) \<subseteq> {LoggingMiddleware}"
    and "fst (CircuitBreaker_IsAllowed now (jType j) cb)" and "plExecute p j w = (out, w')"
  shows "\<exists>cb' res. JobExecutor_Execute je now fin (Some j) (cb, w) =
     ((res, case out of Returned x e \<Rightarrow> e | Panicked v \<Rightarrow> Some (Errorf (''plugin panicked during execution: '' @ v))), (cb', w')) \<and>
     (\<forall>x. out = Returned x None \<longrightarrow> res = x)"
  using Execute_effect [OF assms(1,2), of now fin cb w] assms(3,4)
  by (cases out) (auto simp: Let_def case_prod_beta prod_eq_iff split: option.splits)

section \<open>Success and failure in the service\<close>

context job_service
begin

lemma handle_success_world:
  assumes wp: "wpService wp = s" and w: "ok w" and sj: "lookup w (jID job) = Some sj" and i: "jID job \<noteq> ''''"
  shows "\<exists>w'. handle_success wp en tr job res w = w' \<and> ok w' \<and>
    lookup w' = (lookup w)(jID job \<mapsto> sj\<lparr>jStatus := StatusCompleted, jProcessedBy := wpName wp, jResult := res,
                  jProgress := 100, jUpdatedAt := eFin en\<rparr>) \<and>
    map_of (rHashes (wDb w') payloadsKey) (jID job) = None \<and>
    map_of (rZsets (wDb w') processingSetKey) (Txt (jID job)) = None"
proof -
  let ?t = "eFin en" and ?i = "jID job"
  define w1 where "w1 = snd (JobService_MarkProcessed s ?t ?i w)"
  have "quiet w w1" unfolding w1_def JobService_MarkProcessed_def by (rule quiet_on_db) (simp add: MarkProcessed_silent)
  then have k1: "ok w1" "lookup w1 = lookup w" using frame_quiet [OF w] by blast+
  then have "lookup w1 ?i = Some sj" using sj by simp
  from progress_some [OF k1(1) this, of ?t 100] obtain w2 where
    p: "st_UpdateProgress (svcStore s) ?t ?i 100 w1 = (None, w2)" and k2: "ok w2"
    and l2: "lookup w2 = (lookup w)(?i \<mapsto> sj\<lparr>jProgress := 100, jUpdatedAt := ?t\<rparr>)"
    unfolding k1(2) by blast
  then have "lookup w2 ?i = Some (sj\<lparr>jProgress := 100, jUpdatedAt := ?t\<rparr>)" by simp
  then obtain w3 where u: "JobService_UpdateJobResult s tr ?t ?i StatusCompleted (wpName wp) res w2 = (None, w3)"
    and k3: "ok w3" and l3: "lookup w3 = (lookup w2)(?i \<mapsto> sj\<lparr>jProgress := 100, jUpdatedAt := ?t\<rparr>
        \<lparr>jStatus := StatusCompleted, jProcessedBy := wpName wp, jResult := res, jUpdatedAt := ?t\<rparr>)"
    using UpdateJobResult_world [OF k2] by blast
  obtain w' where a: "snd (JobService_Ack s ?t ?i w3) = w'" "ok w'" "lookup w' = lookup w3" "clears ?t ?i (wDb w3) (wDb w')"
    using Ack_world [OF k3 i] by blast
  have "handle_success wp en tr job res w = w'"
    using a(1) u p by (simp add: handle_success_def wp Let_def w1_def [symmetric] JobService_UpdateJobProgress_def)
  moreover have "processingSetKey \<in> untrack_keys ?t (wDb w3) ?i" by (simp add: untrack_keys_def)
  ultimately show ?thesis using a clears_gone [OF a(4)] l2 l3 by auto
qed

lemma requeue_after_world:
  assumes w: "ok w" and i: "jID job \<noteq> ''''"
  shows "\<exists>w' dbm t'. requeue_after s sd delay t tr job w = w' \<and> ok w' \<and> lookup w' = lookup w \<and>
    t' = (if sd then t else t + max 0 delay) \<and>
    enqueued (svcQueue s) t' (job\<lparr>jTraceID := tr\<rparr>) (wDb w) dbm \<and> clears t' (jID job) dbm (wDb w')"
proof -
  define t' where "t' = (if sd then t else t + max 0 delay)"
  obtain dbm where en: "RedisQueue_Enqueue (svcQueue s) tr t' (Some job) (wDb w) = (None, Some (job\<lparr>jTraceID := tr\<rparr>), dbm)"
    and e: "enqueued (svcQueue s) t' (job\<lparr>jTraceID := tr\<rparr>) (wDb w) dbm" and h: "rHashes dbm = rHashes (wDb w)"
    by (rule Enqueue_enqueued [OF refl])
  have "store_frame w (w\<lparr>wDb := dbm\<rparr>)" by (simp add: store_frame_def h)
  then have k: "ok (w\<lparr>wDb := dbm\<rparr>)" "lookup (w\<lparr>wDb := dbm\<rparr>) = lookup w" using frame [OF w] by auto
  obtain w' where a: "snd (JobService_Ack s t' (jID job) (w\<lparr>wDb := dbm\<rparr>)) = w'" "ok w'" "lookup w' = lookup w"
    "clears t' (jID job) dbm (wDb w')"
    using Ack_world [OF k(1) i, of t'] k(2) by auto
  have "requeue_after s sd delay t tr job w = w'"
    using a(1) en unfolding t'_def by (auto simp: requeue_after_def JobService_Enqueue_def Let_def split: if_splits)
  with a e t'_def show ?thesis by blast
qed

end

context job_service
begin

lemma status_world:
  assumes w: "ok w" and sj: "lookup w i = Some sj"
  shows "\<exists>w' u. snd (JobService_UpdateJobStatus s now i st p w) = w' \<and> ok w' \<and>
           lookup w' = (lookup w)(i \<mapsto> sj\<lparr>jStatus := st, jProcessedBy := p, jUpdatedAt := u\<rparr>) \<and> queue_frame (wDb w) (wDb w')"
proof -
  obtain w' u where r: "st_UpdateStatus (svcStore s) now i st p w = (None, w')" and k: "ok w'"
    and l: "lookup w' = (lookup w)(i \<mapsto> sj\<lparr>jStatus := st, jProcessedBy := p, jUpdatedAt := u\<rparr>)"
    using status_some [OF w sj] by blast
  have "queue_frame (wDb w) (wDb w')" using status_queue [OF w, of now i st p] r by simp
  with r k l show ?thesis unfolding JobService_UpdateJobStatus_def by auto
qed

lemma permanentlyFail_world:
  assumes w: "ok w" and i: "jID job \<noteq> ''''" and raw: "map_of (rHashes (wDb w) payloadsKey) (jID job) = Some raw"
    and rj: "unmarshal_job raw = Some rj"
  shows "\<exists>w'. permanentlyFail s t job e w = w' \<and> ok w' \<and> lookup w' = lookup w \<and>
    rLists (wDb w') (dlqKey (svcQueue s)) =
      take 10000 (Doc (job_json (fail_update t (Some e) rj)) # rLists (wDb w) (dlqKey (svcQueue s))) \<and>
    map_of (rHashes (wDb w') payloadsKey) (jID job) = None"
proof -
  define db where "db = snd (RedisQueue_Fail (svcQueue s) t (jID job) (Some e) (wDb w))"
  note F = Fail_up [OF refl i raw rj, of t "Some e", folded db_def]
  from F(2) have h: "rHashes db = (rHashes (wDb w))(payloadsKey := hdel [jID job] (rHashes (wDb w) payloadsKey))"
    by (simp add: clears_def)
  then have "store_frame w (w\<lparr>wDb := db\<rparr>)" by (simp add: store_frame_def)
  then have "ok (w\<lparr>wDb := db\<rparr>) \<and> lookup (w\<lparr>wDb := db\<rparr>) = lookup w" using frame [OF w] by blast
  moreover have "permanentlyFail s t job e w = w\<lparr>wDb := db\<rparr>"
    by (simp add: permanentlyFail_def JobService_Fail_def on_db_def db_def case_prod_beta)
  ultimately show ?thesis using F(3) h by simp
qed

lemma retry_world:
  assumes w: "ok w" and sj: "lookup w (jID job) = Some sj" and i: "jID job \<noteq> ''''"
    and wp: "wpService wp = s" and e: "\<not> errors_Is e ErrCircuitOpen" and r: "jRetries job < jMaxRetries job"
  shows "\<exists>w' dbm t u. handle_failure wp en tr job e w = w' \<and> ok w' \<and>
    lookup w' = (lookup w)(jID job \<mapsto> sj\<lparr>jStatus := StatusPending, jProcessedBy := wpName wp, jUpdatedAt := u\<rparr>) \<and>
    enqueued (svcQueue s) t
      (job\<lparr>jRetries := jRetries job + 1, jStatus := StatusPending, jUpdatedAt := eFin en, jTraceID := tr\<rparr>) (wDb w) dbm \<and>
    clears t (jID job) dbm (wDb w')"
proof -
  let ?job = "job\<lparr>jRetries := jRetries job + 1, jStatus := StatusPending, jUpdatedAt := eFin en\<rparr>"
  obtain w1 u where s1: "snd (JobService_UpdateJobStatus s (eFin en) (jID job) StatusPending (wpName wp) w) = w1" "ok w1"
    "lookup w1 = (lookup w)(jID job \<mapsto> sj\<lparr>jStatus := StatusPending, jProcessedBy := wpName wp, jUpdatedAt := u\<rparr>)"
    "queue_frame (wDb w) (wDb w1)"
    using status_world [OF w sj] by blast
  obtain w' dbm t where q: "requeue_after s (eShutdown en) (BackoffDelay (eRnd en) (Some ?job)) (eFin en) tr ?job w1 = w'"
    "ok w'" "lookup w' = lookup w1" "enqueued (svcQueue s) t (?job\<lparr>jTraceID := tr\<rparr>) (wDb w1) dbm"
    "clears t (jID job) dbm (wDb w')"
    using requeue_after_world [OF s1(2), of ?job "eShutdown en" "BackoffDelay (eRnd en) (Some ?job)" "eFin en" tr] i by auto
  have "handle_failure wp en tr job e w = w'"
    using e r s1(1) q(1) by (simp add: handle_failure_def wp retry_job_def Let_def)
  with q s1(3) enqueued_frame [OF s1(4)] show ?thesis by (intro exI [of _ w'] exI [of _ dbm] exI [of _ t] exI [of _ u]) simp
qed

lemma give_up_world:
  assumes w: "ok w" and sj: "lookup w (jID job) = Some sj" and i: "jID job \<noteq> ''''"
    and wp: "wpService wp = s" and e: "\<not> errors_Is e ErrCircuitOpen" and r: "jMaxRetries job \<le> jRetries job"
    and raw: "map_of (rHashes (wDb w) payloadsKey) (jID job) = Some raw" and rj: "unmarshal_job raw = Some rj"
  shows "\<exists>w'. handle_failure wp en tr job e w = w' \<and> ok w' \<and>
    lookup w' = (lookup w)(jID job \<mapsto> sj\<lparr>jStatus := StatusFailed, jProcessedBy := wpName wp,
                  jResult := JStr (err_msg e), jUpdatedAt := eFin en\<rparr>) \<and>
    rLists (wDb w') (dlqKey (svcQueue s)) =
      take 10000 (Doc (job_json (fail_update (eFin en) (Some e) rj)) # rLists (wDb w) (dlqKey (svcQueue s))) \<and>
    map_of (rHashes (wDb w') payloadsKey) (jID job) = None"
proof -
  obtain w1 where u: "JobService_UpdateJobResult s tr (eFin en) (jID job) StatusFailed (wpName wp) (JStr (err_msg e)) w = (None, w1)"
    "ok w1" "lookup w1 = (lookup w)(jID job \<mapsto> sj\<lparr>jStatus := StatusFailed, jProcessedBy := wpName wp,
       jResult := JStr (err_msg e), jUpdatedAt := eFin en\<rparr>)" and q: "queue_frame (wDb w) (wDb w1)"
    using UpdateJobResult_world [OF w sj, of tr "eFin en" StatusFailed "wpName wp" "JStr (err_msg e)"] by auto
  have "map_of (rHashes (wDb w1) payloadsKey) (jID job) = Some raw" using raw q by (simp add: queue_frame_def)
  from permanentlyFail_world [OF u(2) i this rj, of "eFin en" e] u q r e show ?thesis
    by (simp add: handle_failure_def wp Let_def queue_frame_def)
qed

end

section \<open>Properties\<close>

text \<open>
  C12. A job that reaches its plugin and succeeds is finished everywhere: the call reports no error, the
  record has status completed, the worker's name, the result and progress 100, and the broker
  has neither a payload nor an in-flight entry for it.
\<close>

theorem worker_completes:
  assumes js: "job_service (wpService wp) ok lookup" and w: "ok w" and run: "runnable wp en job cb w"
    and sj: "lookup w (jID job) = Some sj" "\<not> finished_status (jStatus sj)"
    and reg: "map_of (jeRegistry (wpExec wp)) (jType job) = Some p"
    and plug: "\<And>v. ok v \<Longrightarrow> \<exists>v'. plExecute p (job\<lparr>jProcessedBy := wpName wp\<rparr>) v = (Returned res None, v') \<and>
                       ok v' \<and> lookup v' (jID job) = lookup v (jID job)"
  shows "\<exists>cb' w'. process_job wp en job (cb, w) = (Finished None, (cb', w')) \<and> ok w' \<and>
    lookup w' (jID job) = Some (sj\<lparr>jStatus := StatusCompleted, jProcessedBy := wpName wp, jResult := res,
                                   jProgress := 100, jUpdatedAt := eFin en\<rparr>) \<and>
    map_of (rHashes (wDb w') payloadsKey) (jID job) = None \<and>
    map_of (rZsets (wDb w') processingSetKey) (Txt (jID job)) = None"
proof -
  let ?job = "job\<lparr>jProcessedBy := wpName wp\<rparr>" and ?i = "jID job"
  obtain w1 u where s1: "snd (JobService_UpdateJobStatus (wpService wp) (eNow en) ?i StatusProcessing (wpName wp) w) = w1" "ok w1"
    "lookup w1 = (lookup w)(?i \<mapsto> sj\<lparr>jStatus := StatusProcessing, jProcessedBy := wpName wp, jUpdatedAt := u\<rparr>)"
    using job_service.status_world [OF js w sj(1)] by blast
  obtain w2 where x: "plExecute p ?job w1 = (Returned res None, w2)" "ok w2" "lookup w2 ?i = lookup w1 ?i"
    using plug [OF s1(2)] by blast
  obtain cb' where ex: "JobExecutor_Execute (wpExec wp) (eNow en) (eFin en) (Some ?job) (cb, w1) = ((res, None), (cb', w2))"
    using Execute_plugin [of "wpExec wp" ?job p "eNow en" cb w1 "Returned res None" w2 "eFin en"] reg run x(1)
    by (auto simp: runnable_def)
  have l2: "lookup w2 (jID ?job) = Some (sj\<lparr>jStatus := StatusProcessing, jProcessedBy := wpName wp, jUpdatedAt := u\<rparr>)"
    using x(3) s1(3) by simp
  have i: "jID ?job \<noteq> ''''" using run by (simp add: runnable_def)
  have "execute_job wp en (job_trace en job) ?job (cb, w) =
        (Finished None, (cb', handle_success wp en (job_trace en job) ?job res w2))"
    using run s1(1) ex by (auto simp: execute_job_def runnable_def)
  with job_service.handle_success_world [OF js refl x(2) l2 i, of en "job_trace en job" res]
  show ?thesis unfolding process_reaches_execute [OF js w run sj] by auto
qed


section \<open>A concrete worker for the witnesses\<close>

definition const_plugin :: "outcome \<Rightarrow> InMemoryStore JobPlugin" where
  "const_plugin out = \<lparr>plType = ''email'', plExecute = (\<lambda>j w. (out, w))\<rparr>"

definition sample_worker :: "outcome \<Rightarrow> InMemoryStore WorkerProcessor" where
  "sample_worker out = NewWorkerProcessor ''n1:worker-1'' (mem_service '''' 0 0)
     (NewJobExecutor [(''email'', const_plugin out)] None) False 0"

definition sample_env :: env where
  "sample_env = \<lparr>eNow = 5, eFin = 6, eRnd = (\<lambda>n. 0), eWait = None, eShutdown = False, eTrace = ''''\<rparr>"

definition sample_world :: "InMemoryStore world" where
  "sample_world = \<lparr>wStore = \<lparr>msData = [(''a'', sample_job)], msClients = []\<rparr>,
     wDb = put_hash payloadsKey [(''a'', Doc (job_json sample_job))] empty_rdb, wSse = NewBroker\<rparr>"

lemma sample_worker_run:
  "job_service (wpService (sample_worker out)) (\<lambda>w. mem_ok (wStore w)) (\<lambda>w. mem_lookup (wStore w))"
  "mem_ok (wStore sample_world)" "runnable (sample_worker out) sample_env sample_job executor_breaker sample_world"
  "mem_lookup (wStore sample_world) (jID sample_job) = Some sample_job" "\<not> finished_status (jStatus sample_job)"
  "map_of (jeRegistry (wpExec (sample_worker out))) (jType sample_job) = Some (const_plugin out)"
  using mem_js.job_service_axioms
  by (simp_all add: sample_worker_def NewWorkerProcessor_def NewJobExecutor_def sample_world_def sample_env_def
      mem_ok_def mem_lookup_def runnable_def sample_job_def zero_job_def finished_status_def executor_breaker_def
      NewCircuitBreaker_def CircuitBreaker_IsAllowed_def str_get_def IsZero_def)

theorem worker_completes_witness:
  "\<exists>cb' w'. process_job (sample_worker (Returned (JStr ''sent'') None)) sample_env sample_job (executor_breaker, sample_world) =
     (Finished None, (cb', w')) \<and> map_option jStatus (mem_lookup (wStore w') ''a'') = Some StatusCompleted"
proof -
  note W = worker_completes [OF sample_worker_run, of "Returned (JStr ''sent'') None" "JStr ''sent''"]
  have "\<exists>v'. plExecute (const_plugin (Returned (JStr ''sent'') None)) j v = (Returned (JStr ''sent'') None, v') \<and>
      mem_ok (wStore v') \<and> mem_lookup (wStore v') k = mem_lookup (wStore v) k" if "mem_ok (wStore v)" for v j k
    using that by (simp add: const_plugin_def)
  from W [OF this] show ?thesis by (auto simp: sample_job_fields)
qed


end
