(* ===== verification/Session.thy ===== *)
theory Session
  imports Go_Errors
begin

text \<open>
  \<^verbatim>\<open>internal/api/session/session.go\<close>: the server-side sessions of the operator interface and the
  per-address limiter of login attempts. Instants are arguments; a call of \<^verbatim>\<open>crypto/rand\<close> is an argument
  too, the bytes it delivers for a given length or its error. The session store keeps its sessions by
  id; the theorems compare it with the history of its operations, from which the answer of a lookup
  can be read off without the store.
\<close>

section \<open>Sessions\<close>

record Session =
  seID :: string
  seUsername :: string
  seRole :: string
  seCSRF :: string
  seExpiresAt :: time

record SessionStore =
  ssTTL :: duration
  ssItems :: "(string \<times> Session) list"

definition NewStore :: "duration \<Rightarrow> SessionStore" where
  "NewStore ttl = \<lparr>ssTTL = ttl, ssItems = []\<rparr>"

definition hex_digit :: "nat \<Rightarrow> char" where
  "hex_digit n = (if n < 10 then char_of (48 + n) else char_of (87 + n))"

definition hex_encode :: "8 word list \<Rightarrow> string" where
  \<comment> \<open>\<open>hex.EncodeToString\<close>\<close>
  "hex_encode bs = concat (map (\<lambda>b. [hex_digit (unat b div 16), hex_digit (unat b mod 16)]) bs)"

type_synonym rand_source = "nat \<Rightarrow> go_error + 8 word list"

definition newToken :: "rand_source \<Rightarrow> nat \<Rightarrow> go_error + string" where
  "newToken rnd n = (case rnd n of Inl e \<Rightarrow> Inl e | Inr bs \<Rightarrow> Inr (hex_encode bs))"

definition Session_Create ::
    "rand_source \<Rightarrow> rand_source \<Rightarrow> time \<Rightarrow> string \<Rightarrow> string \<Rightarrow> SessionStore \<Rightarrow> (go_error + Session) \<times> SessionStore" where
  "Session_Create rnd1 rnd2 now username role s =
     (case newToken rnd1 32 of
        Inl e \<Rightarrow> (Inl e, s)
      | Inr i \<Rightarrow>
          (case newToken rnd2 32 of
             Inl e \<Rightarrow> (Inl e, s)
           | Inr csrf \<Rightarrow>
               (let sess = \<lparr>seID = i, seUsername = username, seRole = role, seCSRF = csrf, seExpiresAt = now + ssTTL s\<rparr>
                in (Inr sess, s\<lparr>ssItems := AList.update i sess (ssItems s)\<rparr>))))"

definition Session_Get :: "time \<Rightarrow> string \<Rightarrow> SessionStore \<Rightarrow> Session option \<times> SessionStore" where
  "Session_Get now i s =
     (case map_of (ssItems s) i of
        None \<Rightarrow> (None, s)
      | Some sess \<Rightarrow>
          (if seExpiresAt sess < now then (None, s\<lparr>ssItems := AList.delete i (ssItems s)\<rparr>) else (Some sess, s)))"

definition Session_Touch :: "time \<Rightarrow> string \<Rightarrow> SessionStore \<Rightarrow> bool \<times> SessionStore" where
  "Session_Touch now i s =
     (case map_of (ssItems s) i of
        None \<Rightarrow> (False, s)
      | Some sess \<Rightarrow>
          (if seExpiresAt sess < now then (False, s\<lparr>ssItems := AList.delete i (ssItems s)\<rparr>)
           else (True, s\<lparr>ssItems := AList.update i (sess\<lparr>seExpiresAt := now + ssTTL s\<rparr>) (ssItems s)\<rparr>)))"

definition Session_Delete :: "string \<Rightarrow> SessionStore \<Rightarrow> SessionStore" where
  "Session_Delete i s = s\<lparr>ssItems := AList.delete i (ssItems s)\<rparr>"

definition Session_Cleanup :: "time \<Rightarrow> SessionStore \<Rightarrow> int \<times> SessionStore" where
  "Session_Cleanup now s =
     (int (length (filter (\<lambda>(i, sess). seExpiresAt sess < now) (ssItems s))),
      s\<lparr>ssItems := filter (\<lambda>(i, sess). \<not> seExpiresAt sess < now) (ssItems s)\<rparr>)"

section \<open>The login limiter\<close>

record LoginLimiter =
  llMax :: int
  llWindow :: duration
  llHits :: "(string \<times> time list) list"

definition NewLoginLimiter :: "int \<Rightarrow> duration \<Rightarrow> LoginLimiter" where
  "NewLoginLimiter mx window =
     \<lparr>llMax = (if mx \<le> 0 then 5 else mx), llWindow = (if window \<le> 0 then Minute else window), llHits = []\<rparr>"

definition hits_of :: "LoginLimiter \<Rightarrow> string \<Rightarrow> time list" where
  "hits_of l key = (case map_of (llHits l) key of None \<Rightarrow> [] | Some ts \<Rightarrow> ts)"

definition LoginLimiter_Allow :: "time \<Rightarrow> string \<Rightarrow> LoginLimiter \<Rightarrow> bool \<times> LoginLimiter" where
  "LoginLimiter_Allow now key l =
     (let cutoff = now - llWindow l;
          recent = filter (\<lambda>t. cutoff < t) (hits_of l key)
      in if llMax l \<le> int (length recent) then (False, l\<lparr>llHits := AList.update key recent (llHits l)\<rparr>)
         else (True, l\<lparr>llHits := AList.update key (recent @ [now]) (llHits l)\<rparr>))"

section \<open>Histories of a session store\<close>

datatype session_op =
    OpCreate string string rand_source rand_source
  | OpGet string
  | OpTouch string
  | OpDelete string
  | OpCleanup

fun session_step :: "time \<times> session_op \<Rightarrow> SessionStore \<Rightarrow> SessionStore" where
  "session_step (now, OpCreate u r rnd1 rnd2) s = snd (Session_Create rnd1 rnd2 now u r s)"
| "session_step (now, OpGet i) s = snd (Session_Get now i s)"
| "session_step (now, OpTouch i) s = snd (Session_Touch now i s)"
| "session_step (now, OpDelete i) s = Session_Delete i s"
| "session_step (now, OpCleanup) s = snd (Session_Cleanup now s)"

definition session_run :: "(time \<times> session_op) list \<Rightarrow> SessionStore \<Rightarrow> SessionStore" where
  "session_run h s = fold session_step h s"

fun grant_step :: "duration \<Rightarrow> string \<Rightarrow> time \<times> session_op \<Rightarrow> Session option \<Rightarrow> Session option" where
  \<comment> \<open>what one operation of the history grants under an id: lookups and clean-ups grant nothing\<close>
  "grant_step ttl i (now, OpCreate u r rnd1 rnd2) g =
     (case (newToken rnd1 32, newToken rnd2 32) of
        (Inr i', Inr csrf) \<Rightarrow>
          (if i' = i then Some \<lparr>seID = i', seUsername = u, seRole = r, seCSRF = csrf, seExpiresAt = now + ttl\<rparr> else g)
      | _ \<Rightarrow> g)"
| "grant_step ttl i (now, OpTouch i') g =
     (case g of
        Some sess \<Rightarrow> (if i' = i \<and> now \<le> seExpiresAt sess then Some (sess\<lparr>seExpiresAt := now + ttl\<rparr>) else g)
      | None \<Rightarrow> g)"
| "grant_step ttl i (now, OpDelete i') g = (if i' = i then None else g)"
| "grant_step ttl i _ g = g"

definition granted :: "duration \<Rightarrow> string \<Rightarrow> (time \<times> session_op) list \<Rightarrow> Session option" where
  "granted ttl i h = fold (grant_step ttl i) h None"

definition unexpired :: "time \<Rightarrow> Session option \<Rightarrow> Session option" where
  "unexpired now g = (case g of Some sess \<Rightarrow> (if now \<le> seExpiresAt sess then Some sess else None) | None \<Rightarrow> None)"

definition session_agrees :: "duration \<Rightarrow> time \<Rightarrow> string \<Rightarrow> SessionStore \<Rightarrow> Session option \<Rightarrow> bool" where
  \<comment> \<open>the store may have dropped what had expired by the instant \<open>T\<close>\<close>
  "session_agrees ttl T i s g \<longleftrightarrow> ssTTL s = ttl \<and> distinct (map fst (ssItems s)) \<and>
     (map_of (ssItems s) i = g \<or> (map_of (ssItems s) i = None \<and> (\<forall>sess. g = Some sess \<longrightarrow> seExpiresAt sess < T)))"

lemma distinct_map_filter: "distinct (map fst xs) \<Longrightarrow> distinct (map fst (filter P xs))"
  by (induction xs) auto

lemma session_agrees_later:
  "session_agrees ttl T i s g \<Longrightarrow> T \<le> T' \<Longrightarrow> session_agrees ttl T' i s g"
  by (fastforce simp: session_agrees_def)

lemma session_step_agrees:
  assumes "session_agrees ttl T i s g" and "T \<le> now"
  shows "session_agrees ttl now i (session_step (now, opn) s) (grant_step ttl i (now, opn) g)"
proof -
  have a: "session_agrees ttl now i s g" using assms by (rule session_agrees_later)
  show ?thesis
  proof (cases opn)
    case (OpCreate u r rnd1 rnd2)
    then show ?thesis using a
      by (auto simp: Session_Create_def Let_def session_agrees_def update_conv' distinct_update
               split: sum.splits option.splits)
  next
    case (OpGet i')
    then show ?thesis using a
      by (auto simp: Session_Get_def session_agrees_def delete_conv' distinct_delete split: option.splits)
  next
    case (OpTouch i')
    then show ?thesis using a
      by (auto simp: Session_Touch_def session_agrees_def delete_conv' update_conv' distinct_delete distinct_update
               simp del: map_of_eq_Some_iff Some_eq_map_of_iff split: option.splits)
  next
    case (OpDelete i')
    then show ?thesis using a
      by (auto simp: Session_Delete_def session_agrees_def delete_conv' distinct_delete)
  next
    case OpCleanup
    then show ?thesis using a
      by (auto simp: Session_Cleanup_def session_agrees_def map_of_filter_distinct distinct_map_filter
               split: option.splits)
  qed
qed

lemma session_run_agrees:
  assumes "session_agrees ttl T i s g" and "sorted (T # map fst h)"
  shows "session_agrees ttl (last (T # map fst h)) i (session_run h s) (fold (grant_step ttl i) h g)"
  using assms
proof (induction h arbitrary: T s g)
  case Nil
  then show ?case by (simp add: session_run_def)
next
  case (Cons x h)
  obtain now opn where x: "x = (now, opn)" by (cases x)
  have "session_agrees ttl now i (session_step x s) (grant_step ttl i x g)"
    using session_step_agrees [OF Cons.prems(1)] Cons.prems(2) by (simp add: x)
  from Cons.IH [OF this] Cons.prems(2) show ?case by (simp add: x session_run_def)
qed

lemma Session_Get_agrees:
  assumes "session_agrees ttl T i s g" and "T \<le> now"
  shows "fst (Session_Get now i s) = unexpired now g"
  using assms by (auto simp: session_agrees_def Session_Get_def unexpired_def split: option.splits)

text \<open>
  C26. A lookup answers from the history alone: after any sequence of operations at increasing
  instants, \<^verbatim>\<open>Get\<close> returns the session last created under the id, with the lifetime of its last
  effective \<^verbatim>\<open>Touch\<close>, if it was not deleted since and has not expired, and nothing otherwise; the
  evictions of \<^verbatim>\<open>Get\<close>, \<^verbatim>\<open>Touch\<close> and \<^verbatim>\<open>Cleanup\<close> are never observable.
\<close>

theorem session_lookup_exact:
  assumes "sorted (map fst h @ [now])"
  shows "fst (Session_Get now i (session_run h (NewStore ttl))) = unexpired now (granted ttl i h)"
proof (cases h)
  case Nil
  then show ?thesis by (simp add: session_run_def NewStore_def granted_def unexpired_def Session_Get_def)
next
  case (Cons x h')
  have 0: "session_agrees ttl (fst x) i (NewStore ttl) None"
    by (simp add: session_agrees_def NewStore_def)
  have "sorted (fst x # map fst h)" using assms by (simp add: Cons sorted_append)
  from session_run_agrees [OF 0 this] have 1:
    "session_agrees ttl (last (map fst h)) i (session_run h (NewStore ttl)) (granted ttl i h)"
    by (simp add: Cons granted_def)
  have "last (map fst h) \<le> now" using assms by (auto simp: Cons sorted_append last_map)
  with 1 show ?thesis by (rule Session_Get_agrees)
qed

theorem session_lookup_exact_witness:
  "(let rnd = (\<lambda>b. (\<lambda>n. Inr (replicate n b))) :: 8 word \<Rightarrow> rand_source;
        i = hex_encode (replicate 32 1);
        h = [(0, OpCreate ''admin'' ''admin'' (rnd 1) (rnd 2)), (5, OpTouch i), (20, OpCleanup), (21, OpTouch i)]
    in fst (Session_Get 15 i (session_run (take 2 h) (NewStore 10))) \<noteq> None \<and>
       fst (Session_Get 30 i (session_run h (NewStore 10))) = None)"
  unfolding Let_def
  by (subst session_lookup_exact, simp, subst session_lookup_exact, simp)
     (simp add: granted_def unexpired_def newToken_def)

section \<open>Attempts against the limiter\<close>

fun login_run :: "(time \<times> string) list \<Rightarrow> LoginLimiter \<Rightarrow> (time \<times> string) list \<times> LoginLimiter" where
  \<comment> \<open>the attempts that were let through, in order\<close>
  "login_run [] l = ([], l)"
| "login_run ((now, key) # as) l =
     (let (ok, l1) = LoginLimiter_Allow now key l; (bs, l2) = login_run as l1
      in (if ok then (now, key) # bs else bs, l2))"

definition accepted :: "(time \<times> string) list \<Rightarrow> string \<Rightarrow> time list" where
  "accepted as key = map fst (filter (\<lambda>a. snd a = key) as)"

definition in_window :: "duration \<Rightarrow> time \<Rightarrow> time list \<Rightarrow> time list" where
  "in_window window t ts = filter (\<lambda>x. t - window < x \<and> x \<le> t) ts"

fun login_spec :: "int \<Rightarrow> duration \<Rightarrow> (time \<times> string) list \<Rightarrow> (time \<times> string) list \<Rightarrow> (time \<times> string) list" where
  \<comment> \<open>the sliding window over everything accepted so far\<close>
  "login_spec mx window acc [] = []"
| "login_spec mx window acc ((now, key) # as) =
     (if int (length (in_window window now (accepted acc key))) < mx
      then (now, key) # login_spec mx window (acc @ [(now, key)]) as
      else login_spec mx window acc as)"

definition limiter_agrees :: "int \<Rightarrow> duration \<Rightarrow> time \<Rightarrow> (time \<times> string) list \<Rightarrow> LoginLimiter \<Rightarrow> bool" where
  \<comment> \<open>only hits that have left every later window are forgotten\<close>
  "limiter_agrees mx window T acc l \<longleftrightarrow> llMax l = mx \<and> llWindow l = window \<and> 0 < window \<and> (\<forall>a \<in> set acc. fst a \<le> T) \<and>
     (\<forall>key. \<exists>c \<le> T - window. hits_of l key = filter (\<lambda>x. c < x) (accepted acc key))"

lemma limiter_agrees_later:
  assumes "limiter_agrees mx window T acc l" and "T \<le> T'"
  shows "limiter_agrees mx window T' acc l"
  using assms unfolding limiter_agrees_def by (meson diff_right_mono order_trans)

lemma accepted_append [simp]: "accepted (as @ bs) key = accepted as key @ accepted bs key"
  by (simp add: accepted_def)

lemma limiter_recent:
  assumes "limiter_agrees mx window T acc l" and "T \<le> now"
  shows "filter (\<lambda>t. now - window < t) (hits_of l key) = in_window window now (accepted acc key)"
proof -
  obtain c where c: "c \<le> T - window" "hits_of l key = filter (\<lambda>x. c < x) (accepted acc key)"
    using assms(1) by (auto simp: limiter_agrees_def)
  have old: "x \<le> now" if "x \<in> set (accepted acc key)" for x
    using that assms by (force simp: limiter_agrees_def accepted_def)
  have "c \<le> now - window" using c(1) assms(2) by simp
  then show ?thesis by (auto simp: c(2) in_window_def intro!: filter_cong dest: old)
qed

lemma hits_of_update [simp]:
  "hits_of (l\<lparr>llHits := AList.update key ts (llHits l)\<rparr>) key' = (if key' = key then ts else hits_of l key')"
  by (simp add: hits_of_def update_conv')

lemma limiter_step:
  fixes key :: string
  assumes l: "limiter_agrees mx window T acc l" and now: "T \<le> now"
  defines "n \<equiv> int (length (in_window window now (accepted acc key)))"
  shows "fst (LoginLimiter_Allow now key l) \<longleftrightarrow> n < mx"
    and "limiter_agrees mx window now (if n < mx then acc @ [(now, key)] else acc) (snd (LoginLimiter_Allow now key l))"
proof -
  have p: "llMax l = mx" "llWindow l = window" using l by (auto simp: limiter_agrees_def)
  note r = limiter_recent [OF l now, of key]
  show "fst (LoginLimiter_Allow now key l) \<longleftrightarrow> n < mx"
    by (simp add: LoginLimiter_Allow_def p r n_def Let_def)
  have l': "limiter_agrees mx window now acc l" using l now by (rule limiter_agrees_later)
  have win: "in_window window now (accepted acc key) = filter (\<lambda>x. now - window < x) (accepted acc key)"
    using l' by (force simp: in_window_def limiter_agrees_def accepted_def intro!: filter_cong)
  show "limiter_agrees mx window now (if n < mx then acc @ [(now, key)] else acc) (snd (LoginLimiter_Allow now key l))"
  proof (cases "n < mx")
    case False
    then show ?thesis using l'
      by (auto simp: limiter_agrees_def LoginLimiter_Allow_def p r n_def Let_def win)
  next
    case True
    have w: "0 < window" using l by (simp add: limiter_agrees_def)
    have acc1: "accepted [(now, key)] k = (if k = key then [now] else [])" for k by (simp add: accepted_def)
    have "\<exists>c \<le> now - window. hits_of (snd (LoginLimiter_Allow now key l)) k = filter (\<lambda>x. c < x) (accepted (acc @ [(now, key)]) k)" for k
      using True w l' by (cases "k = key") (auto simp: limiter_agrees_def LoginLimiter_Allow_def p r n_def Let_def win acc1)
    then show ?thesis using True l' by (auto simp: limiter_agrees_def LoginLimiter_Allow_def p Let_def)
  qed
qed

lemma length_filter_le_cong:
  assumes "\<And>x. x \<in> set xs \<Longrightarrow> P x \<Longrightarrow> Q x"
  shows "length (filter P xs) \<le> length (filter Q xs)"
  using assms by (induction xs) (auto intro: le_SucI)

lemma login_run_spec:
  assumes "limiter_agrees mx window T acc l" and "sorted (T # map fst as)"
  shows "fst (login_run as l) = login_spec mx window acc as"
  using assms
proof (induction as arbitrary: T acc l)
  case Nil
  then show ?case by simp
next
  case (Cons a as)
  obtain now key where a: "a = (now, key)" by (cases a)
  have T: "T \<le> now" "sorted (now # map fst as)" using Cons.prems(2) by (auto simp: a)
  note st = limiter_step [OF Cons.prems(1) T(1), of key]
  show ?case using Cons.IH [OF st(2) T(2)] st(1)
    by (auto simp: a Let_def split: prod.splits)
qed

lemma login_spec_window:
  assumes "sorted (T # map fst as)" and "\<forall>a \<in> set acc. fst a \<le> T" and "0 < mx" and "0 < window"
    and "\<And>t. int (length (in_window window t (accepted acc key))) \<le> mx"
  shows "int (length (in_window window t (accepted (acc @ login_spec mx window acc as) key))) \<le> mx"
  using assms
proof (induction as arbitrary: T acc)
  case Nil
  then show ?case by simp
next
  case (Cons a as)
  obtain now k where a: "a = (now, k)" by (cases a)
  have T: "T \<le> now" "sorted (now # map fst as)" using Cons.prems(1) by (auto simp: a)
  have old: "\<forall>a \<in> set acc. fst a \<le> now" using Cons.prems(2) T(1) by force
  show ?case
  proof (cases "int (length (in_window window now (accepted acc k))) < mx")
    case False
    then show ?thesis using Cons.IH [OF T(2) old Cons.prems(3-5)] by (simp add: a)
  next
    case True
    have step: "int (length (in_window window u (accepted (acc @ [(now, k)]) key))) \<le> mx" for u
    proof (cases "k = key \<and> now \<le> u")
      case True
      have "length (in_window window u (accepted acc key)) \<le> length (in_window window now (accepted acc key))"
        unfolding in_window_def using True old
        by (intro length_filter_le_cong) (auto simp: accepted_def)
      with \<open>int (length (in_window window now (accepted acc k))) < mx\<close> True Cons.prems(3)
      show ?thesis by (auto simp: in_window_def accepted_def)
    next
      case False
      then show ?thesis using Cons.prems(5) [of u] by (auto simp: in_window_def accepted_def)
    qed
    from Cons.IH [OF T(2) _ Cons.prems(3,4) step] old True show ?thesis by (simp add: a)
  qed
qed

text \<open>
  C27. The limiter is exactly a sliding window: over attempts at increasing instants it lets through
  the attempt of a key precisely when fewer than the maximum were let through for that key in the last
  window, although it forgets old hits; hence no window of that length, wherever it lies, holds more
  accepted attempts of a key than the maximum (5 per minute where the configuration is not positive).
\<close>

theorem login_limiter_exact:
  assumes "sorted (map fst as)"
  shows "fst (login_run as (NewLoginLimiter mx window)) =
           login_spec (if mx \<le> 0 then 5 else mx) (if window \<le> 0 then Minute else window) [] as \<and>
         int (length (in_window (if window \<le> 0 then Minute else window) t
           (accepted (fst (login_run as (NewLoginLimiter mx window))) key))) \<le> (if mx \<le> 0 then 5 else mx)"
proof -
  define T where "T = (case as of [] \<Rightarrow> 0 | a # _ \<Rightarrow> fst a)"
  define m where "m = (if mx \<le> 0 then 5 else mx)"
  define w where "w = (if window \<le> 0 then Minute else window)"
  have pos: "0 < m" "0 < w" by (simp_all add: m_def w_def)
  have sorted: "sorted (T # map fst as)" using assms by (cases as) (auto simp: T_def)
  have 0: "limiter_agrees m w T [] (NewLoginLimiter mx window)"
    using pos by (auto simp: limiter_agrees_def NewLoginLimiter_def m_def w_def hits_of_def accepted_def)
  have run: "fst (login_run as (NewLoginLimiter mx window)) =
      login_spec (if mx \<le> 0 then 5 else mx) (if window \<le> 0 then Minute else window) [] as"
    using login_run_spec [OF 0 sorted] by (simp add: m_def w_def)
  have "int (length (in_window w t (accepted ([] @ login_spec m w [] as) key))) \<le> m"
    by (rule login_spec_window [OF sorted _ pos]) (use pos in \<open>auto simp: in_window_def accepted_def\<close>)
  then show ?thesis
    unfolding run by (simp add: m_def w_def)
qed

theorem login_limiter_exact_witness:
  "fst (login_run [(0, ''ip''), (1, ''ip''), (2, ''ip''), (11, ''ip''), (11, ''ip2'')] (NewLoginLimiter 2 10)) =
     [(0, ''ip''), (1, ''ip''), (11, ''ip''), (11, ''ip2'')]"
  by (subst login_limiter_exact [THEN conjunct1]) (simp_all add: in_window_def accepted_def)

end
