(* ===== verification/Auth.thy ===== *)
theory Auth
  imports Session JobService
begin

text \<open>
  Requests, responses and the middleware of \<^verbatim>\<open>internal/api/middleware\<close>. A handler maps an instant, the
  authentication values of the request's context, the request and the state of the API process to the
  response and the new state; a middleware maps handlers to handlers, as in the source. The state holds the
  cache of verified API keys, the sessions, the two attempt limiters and the world of the job service.
  The digest of an API key (\<^verbatim>\<open>crypto/sha256\<close>, as hex text) is the parameter \<open>sha\<close>.
\<close>

section \<open>Requests, responses and handlers\<close>

record Request =
  rMethod :: string
  rPath :: string
  rHeader :: "string \<Rightarrow> string"
  rQuery :: "string \<Rightarrow> json"
  rPathValue :: "string \<Rightarrow> string"
  rCookie :: "string option"
  rRemoteHost :: string
  rBody :: "go_error + json"

record Cookie =
  ckValue :: string
  ckMaxAge :: int
  ckExpires :: time

record Response =
  rsStatus :: int
  rsBody :: "json option"
  rsCookie :: "Cookie option"

definition plain :: "int \<Rightarrow> json option \<Rightarrow> Response" where
  "plain status body = \<lparr>rsStatus = status, rsBody = body, rsCookie = None\<rparr>"

definition sendJSONError :: "int \<Rightarrow> string \<Rightarrow> string \<Rightarrow> Response" where
  "sendJSONError status code err = plain status (Some (JObj [(''code'', JStr code), (''error'', JStr err)]))"

definition query_text :: "Request \<Rightarrow> string \<Rightarrow> string" where
  \<comment> \<open>\<open>r.URL.Query().Get(k)\<close>; a value that is a timestamp is held as \<open>JTime\<close>\<close>
  "query_text r k = (case rQuery r k of JStr s \<Rightarrow> s | JTime t \<Rightarrow> time_text t | _ \<Rightarrow> '''')"

section \<open>Context values\<close>

abbreviation AuthTypeAPIKey :: string where "AuthTypeAPIKey \<equiv> ''api_key''"
abbreviation AuthTypeSession :: string where "AuthTypeSession \<equiv> ''session''"
abbreviation RoleAdmin :: string where "RoleAdmin \<equiv> ''admin''"
abbreviation RoleViewer :: string where "RoleViewer \<equiv> ''viewer''"

record AuthCtx =
  AuthTypeFromContext :: string
  RoleFromContext :: string
  TenantIDFromContext :: string
  SessionFromContext :: "Session option"

definition no_auth :: AuthCtx where
  \<comment> \<open>a context without values: the accessors give zero values\<close>
  "no_auth = \<lparr>AuthTypeFromContext = '''', RoleFromContext = '''', TenantIDFromContext = '''', SessionFromContext = None\<rparr>"

definition IsClientTenant :: "string \<Rightarrow> bool" where
  "IsClientTenant tenantID \<longleftrightarrow> tenantID \<noteq> '''' \<and> tenantID \<noteq> ''operator''"

section \<open>The cache of verified keys\<close>

record apiKeyCacheEntry =
  ceTenantID :: string
  ceExpiresAt :: time

type_synonym apiKeyCache = "(string \<times> apiKeyCacheEntry) list"

definition newAPIKeyCache :: apiKeyCache where "newAPIKeyCache = []"

definition cache_get :: "time \<Rightarrow> string \<Rightarrow> apiKeyCache \<Rightarrow> string option" where
  "cache_get now hash c =
     (case map_of c hash of
        None \<Rightarrow> None
      | Some e \<Rightarrow> (if ceExpiresAt e < now then None else Some (ceTenantID e)))"

definition cache_set :: "time \<Rightarrow> string \<Rightarrow> string \<Rightarrow> apiKeyCache \<Rightarrow> apiKeyCache" where
  "cache_set now hash tenantID c =
     AList.update hash \<lparr>ceTenantID = tenantID, ceExpiresAt = now + 60 * Second\<rparr> c"

section \<open>State of the API process\<close>

record 's api =
  apCache :: apiKeyCache
  apSessions :: SessionStore
  apLogin :: LoginLimiter
  apRegister :: LoginLimiter
  apWorld :: "'s world"

type_synonym 's handler = "time \<Rightarrow> AuthCtx \<Rightarrow> Request \<Rightarrow> 's api \<Rightarrow> Response \<times> 's api"

definition on_world :: "('s world \<Rightarrow> 'x \<times> 's world) \<Rightarrow> 's api \<Rightarrow> 'x \<times> 's api" where
  "on_world f a = (let (x, w) = f (apWorld a) in (x, a\<lparr>apWorld := w\<rparr>))"

section \<open>Middleware\<close>

definition stateChanging :: "string \<Rightarrow> bool" where
  "stateChanging m \<longleftrightarrow> m \<in> {''POST'', ''PUT'', ''PATCH'', ''DELETE''}"

definition isSSEEndpoint :: "string \<Rightarrow> bool" where
  "isSSEEndpoint path \<longleftrightarrow> path \<in> {''/events'', ''/api/v1/events''}"

definition raw_key :: "Request \<Rightarrow> string" where
  "raw_key r =
     (let k = rHeader r ''X-API-Key''
      in if k = '''' \<and> isSSEEndpoint (rPath r) then query_text r ''api_key'' else k)"

definition key_tenant ::
    "'s world Store \<Rightarrow> time \<Rightarrow> string \<Rightarrow> 's api \<Rightarrow> string option \<times> 's api" where
  \<comment> \<open>the tenant of a key digest: from the cache, else from the store, whose answer is cached\<close>
  "key_tenant store now hashHex a =
     (case cache_get now hashHex (apCache a) of
        Some tenantID \<Rightarrow> (Some tenantID, a)
      | None \<Rightarrow>
          (case on_world (st_VerifyClient store now hashHex) a of
             (Inl e, a1) \<Rightarrow> (None, a1)
           | (Inr tenantID, a1) \<Rightarrow> (Some tenantID, a1\<lparr>apCache := cache_set now hashHex tenantID (apCache a1)\<rparr>)))"

definition key_ctx :: "string \<Rightarrow> AuthCtx" where
  "key_ctx tenantID = \<lparr>AuthTypeFromContext = AuthTypeAPIKey, RoleFromContext = RoleAdmin,
     TenantIDFromContext = tenantID, SessionFromContext = None\<rparr>"

definition session_ctx :: "Session \<Rightarrow> AuthCtx" where
  "session_ctx sess = \<lparr>AuthTypeFromContext = AuthTypeSession, RoleFromContext = seRole sess,
     TenantIDFromContext = '''', SessionFromContext = Some sess\<rparr>"

definition authenticate ::
    "string \<Rightarrow> (string \<Rightarrow> string) \<Rightarrow> 's world Store \<Rightarrow> time \<Rightarrow> Request \<Rightarrow> 's api \<Rightarrow> (Response + AuthCtx) \<times> 's api" where
  \<comment> \<open>the body of \<open>RequireAuth\<close> up to the call of the next handler\<close>
  "authenticate apiKey sha store now r a =
     (if raw_key r \<noteq> '''' then
        (if apiKey \<noteq> '''' \<and> raw_key r = apiKey then (Inr (key_ctx ''operator''), a)
         else (case key_tenant store now (sha (raw_key r)) a of
                 (None, a1) \<Rightarrow> (Inl (sendJSONError 401 ''UNAUTHORIZED'' ''invalid API key''), a1)
               | (Some tenantID, a1) \<Rightarrow> (Inr (key_ctx tenantID), a1)))
      else (let reject = Inl (sendJSONError 401 ''UNAUTHORIZED'' ''missing or invalid credentials'') in
        (case rCookie r of
           None \<Rightarrow> (reject, a)
         | Some c \<Rightarrow>
             (if c = '''' then (reject, a)
              else (case Session_Get now c (apSessions a) of
                      (None, ss) \<Rightarrow> (reject, a\<lparr>apSessions := ss\<rparr>)
                    | (Some sess, ss) \<Rightarrow> (Inr (session_ctx sess), a\<lparr>apSessions := ss\<rparr>))))))"

definition RequireAuth :: "string \<Rightarrow> (string \<Rightarrow> string) \<Rightarrow> 's world Store \<Rightarrow> 's handler \<Rightarrow> 's handler" where
  "RequireAuth apiKey sha store nxt now cx r a =
     (case authenticate apiKey sha store now r a of
        (Inl resp, a1) \<Rightarrow> (resp, a1) | (Inr cx1, a1) \<Rightarrow> nxt now cx1 r a1)"

definition RequireRole :: "string \<Rightarrow> 's handler \<Rightarrow> 's handler" where
  "RequireRole role nxt now cx r a =
     (if RoleFromContext cx \<noteq> role then (sendJSONError 403 ''FORBIDDEN'' ''insufficient permissions'', a)
      else nxt now cx r a)"

definition CSRFProtect :: "'s handler \<Rightarrow> 's handler" where
  "CSRFProtect nxt now cx r a =
     (if AuthTypeFromContext cx = AuthTypeSession \<and> stateChanging (rMethod r) \<and>
         (case SessionFromContext cx of None \<Rightarrow> True | Some sess \<Rightarrow> rHeader r ''X-CSRF-Token'' \<noteq> seCSRF sess)
      then (sendJSONError 403 ''CSRF_FAILED'' ''missing or invalid CSRF token'', a)
      else nxt now cx r a)"

definition AuthRequired :: "string \<Rightarrow> 's handler \<Rightarrow> 's handler" where
  "AuthRequired apiKey nxt now cx r a =
     (if rHeader r ''X-API-Key'' = '''' \<or> rHeader r ''X-API-Key'' \<noteq> apiKey
      then (sendJSONError 401 ''UNAUTHORIZED'' ''missing or invalid API key'', a)
      else nxt now cx r a)"

section \<open>The guards of the router\<close>

definition read_route :: "string \<Rightarrow> (string \<Rightarrow> string) \<Rightarrow> 's world Store \<Rightarrow> 's handler \<Rightarrow> 's handler" where
  \<comment> \<open>the closure \<open>read\<close> of \<open>NewRouter\<close>\<close>
  "read_route apiKey sha store fn = RequireAuth apiKey sha store fn"

definition write_route :: "string \<Rightarrow> (string \<Rightarrow> string) \<Rightarrow> 's world Store \<Rightarrow> 's handler \<Rightarrow> 's handler" where
  \<comment> \<open>the closure \<open>write\<close> of \<open>NewRouter\<close>\<close>
  "write_route apiKey sha store fn = RequireAuth apiKey sha store (CSRFProtect (RequireRole RoleAdmin fn))"

section \<open>What the guards let through\<close>

lemma Session_Get_SomeD:
  "Session_Get now c ss = (Some sess, ss') \<Longrightarrow> map_of (ssItems ss) c = Some sess \<and> now \<le> seExpiresAt sess \<and> ss' = ss"
  by (auto simp: Session_Get_def split: option.splits if_splits)

definition presents_session :: "time \<Rightarrow> Request \<Rightarrow> 's api \<Rightarrow> Session \<Rightarrow> bool" where
  \<comment> \<open>the cookie of the request names a live session\<close>
  "presents_session now r a sess \<longleftrightarrow>
     (\<exists>c. rCookie r = Some c \<and> map_of (ssItems (apSessions a)) c = Some sess \<and> now \<le> seExpiresAt sess)"

definition key_verified :: "'s world Store \<Rightarrow> time \<Rightarrow> string \<Rightarrow> 's api \<Rightarrow> string \<Rightarrow> bool" where
  \<comment> \<open>a live cache entry or the store vouches for the digest\<close>
  "key_verified store now h a tenantID \<longleftrightarrow> cache_get now h (apCache a) = Some tenantID \<or>
     fst (st_VerifyClient store now h (apWorld a)) = Inr tenantID"

definition credential :: "string \<Rightarrow> (string \<Rightarrow> string) \<Rightarrow> 's world Store \<Rightarrow> time \<Rightarrow> Request \<Rightarrow> 's api \<Rightarrow> AuthCtx \<Rightarrow> bool" where
  \<comment> \<open>what a request must present to act as a principal\<close>
  "credential apiKey sha store now r a cx \<longleftrightarrow>
     raw_key r \<noteq> '''' \<and> raw_key r = apiKey \<and> cx = key_ctx ''operator'' \<or>
     raw_key r \<noteq> '''' \<and> (\<exists>t. key_verified store now (sha (raw_key r)) a t \<and> cx = key_ctx t) \<or>
     raw_key r = '''' \<and> (\<exists>sess. presents_session now r a sess \<and> cx = session_ctx sess)"

lemma key_tenant_SomeD:
  "key_tenant store now h a = (Some t, a1) \<Longrightarrow> key_verified store now h a t"
  by (auto simp: key_tenant_def key_verified_def on_world_def split: option.splits sum.splits prod.splits)

lemma key_tenant_frame:
  "key_tenant store now h a = (t, a1) \<Longrightarrow>
   apSessions a1 = apSessions a \<and> apLogin a1 = apLogin a \<and> apRegister a1 = apRegister a \<and>
   apWorld a1 \<in> {apWorld a, snd (st_VerifyClient store now h (apWorld a))}"
  by (auto simp: key_tenant_def on_world_def split: option.splits sum.splits prod.splits)

lemma authenticate_accepts:
  "authenticate apiKey sha store now r a = (Inr cx, a1) \<Longrightarrow> credential apiKey sha store now r a cx"
  by (auto simp: authenticate_def credential_def presents_session_def Let_def
           dest!: key_tenant_SomeD Session_Get_SomeD split: if_splits prod.splits option.splits)

lemma authenticate_rejects:
  "authenticate apiKey sha store now r a = (Inl resp, a1) \<Longrightarrow> rsStatus resp = 401"
  by (auto simp: authenticate_def Let_def sendJSONError_def plain_def split: if_splits prod.splits option.splits)

lemma authenticate_frame:
  "authenticate apiKey sha store now r a = (x, a1) \<Longrightarrow> apLogin a1 = apLogin a \<and> apRegister a1 = apRegister a \<and>
     apWorld a1 \<in> {apWorld a, snd (st_VerifyClient store now (sha (raw_key r)) (apWorld a))}"
  by (auto simp: authenticate_def Let_def dest!: key_tenant_frame
           split: if_splits prod.splits option.splits)

section \<open>How long a verification is trusted\<close>

type_synonym 's key_check = "time \<times> string \<times> ('s world \<Rightarrow> 's world)"

fun key_run :: "'s world Store \<Rightarrow> 's key_check list \<Rightarrow> 's api \<Rightarrow> (time \<times> string \<times> string) list \<times> 's api" where
  \<comment> \<open>checks of key digests at given instants, each after some change of the world; the log holds what the store itself confirmed\<close>
  "key_run store [] a = ([], a)"
| "key_run store ((now, h, chg) # ks) a =
     (let a0 = a\<lparr>apWorld := chg (apWorld a)\<rparr>;
          (lg, a') = key_run store ks (snd (key_tenant store now h a0))
      in ((case (cache_get now h (apCache a0), fst (st_VerifyClient store now h (apWorld a0))) of
             (None, Inr t) \<Rightarrow> [(now, h, t)] | _ \<Rightarrow> []) @ lg, a'))"

definition cache_logged :: "(time \<times> string \<times> string) list \<Rightarrow> apiKeyCache \<Rightarrow> bool" where
  "cache_logged lg c \<longleftrightarrow>
     (\<forall>h e. map_of c h = Some e \<longrightarrow> (ceExpiresAt e - 60 * Second, h, ceTenantID e) \<in> set lg)"

lemma key_tenant_cache:
  "apCache (snd (key_tenant store now h a)) =
     (case (cache_get now h (apCache a), fst (st_VerifyClient store now h (apWorld a))) of
        (None, Inr t) \<Rightarrow> cache_set now h t (apCache a) | _ \<Rightarrow> apCache a)"
  by (auto simp: key_tenant_def on_world_def split: option.splits sum.splits prod.splits)

lemma key_run_logged:
  assumes "cache_logged lg (apCache a)"
  shows "cache_logged (lg @ fst (key_run store ks a)) (apCache (snd (key_run store ks a)))"
  using assms
proof (induction ks arbitrary: lg a)
  case Nil
  then show ?case by simp
next
  case (Cons k ks)
  obtain now h chg where k: "k = (now, h, chg)" by (cases k)
  define a0 where "a0 = a\<lparr>apWorld := chg (apWorld a)\<rparr>"
  define new where "new = (case (cache_get now h (apCache a0), fst (st_VerifyClient store now h (apWorld a0))) of
             (None, Inr t) \<Rightarrow> [(now, h, t)] | _ \<Rightarrow> [])"
  have "cache_logged (lg @ new) (apCache (snd (key_tenant store now h a0)))"
    using Cons.prems
    by (auto simp: new_def key_tenant_cache cache_logged_def cache_set_def update_conv' a0_def
             split: option.splits sum.splits)
  from Cons.IH [OF this] show ?case
    by (simp add: k a0_def [symmetric] new_def split_beta Let_def)
qed

lemma key_tenant_confirmed:
  assumes "cache_logged lg (apCache a)" and "fst (key_tenant store now h a) = Some t"
  shows "fst (st_VerifyClient store now h (apWorld a)) = Inr t \<or> (\<exists>t0. now - 60 * Second \<le> t0 \<and> (t0, h, t) \<in> set lg)"
proof (cases "cache_get now h (apCache a)")
  case None
  then show ?thesis using assms(2)
    by (auto simp: key_tenant_def on_world_def split: option.splits sum.splits prod.splits)
next
  case (Some t')
  then obtain e where e: "map_of (apCache a) h = Some e" "now \<le> ceExpiresAt e" "ceTenantID e = t"
    using assms(2) by (auto simp: cache_get_def key_tenant_def split: option.splits if_splits)
  then have "(ceExpiresAt e - 60 * Second, h, t) \<in> set lg"
    using assms(1) by (auto simp: cache_logged_def)
  with e(2) show ?thesis by (intro disjI2 exI [of _ "ceExpiresAt e - 60 * Second"]) simp
qed

lemma key_tenant_lingers:
  assumes "fst (key_tenant store now h a) = Some t" and "cache_get now h (apCache a) = None"
    and "apCache a' = apCache (snd (key_tenant store now h a))" and "now' \<le> now + 60 * Second"
  shows "key_tenant store now' h a' = (Some t, a')"
  using assms
  by (auto simp: key_tenant_def cache_get_def cache_set_def update_conv' on_world_def
           split: option.splits sum.splits prod.splits if_splits)

lemma write_route_cases:
  assumes "stateChanging (rMethod r)"
  shows "(\<exists>cx1 a1. write_route apiKey sha store fn now cx r a = fn now cx1 r a1 \<and>
            credential apiKey sha store now r a cx1 \<and> RoleFromContext cx1 = RoleAdmin \<and>
            (\<forall>sess. SessionFromContext cx1 = Some sess \<longrightarrow> rHeader r ''X-CSRF-Token'' = seCSRF sess)) \<or>
         (rsStatus (fst (write_route apiKey sha store fn now cx r a)) \<in> {401, 403} \<and>
          apWorld (snd (write_route apiKey sha store fn now cx r a)) \<in>
            {apWorld a, snd (st_VerifyClient store now (sha (raw_key r)) (apWorld a))})"
proof (cases "authenticate apiKey sha store now r a")
  case (Pair x a1)
  show ?thesis
  proof (cases x)
    case (Inl resp)
    then show ?thesis
      using authenticate_rejects [of apiKey sha store now r a resp a1] authenticate_frame [OF Pair] Pair
      by (simp add: write_route_def RequireAuth_def)
  next
    case (Inr cx1)
    have cred: "credential apiKey sha store now r a cx1"
      using authenticate_accepts Pair Inr by blast
    then have "SessionFromContext cx1 \<noteq> None \<Longrightarrow> AuthTypeFromContext cx1 = AuthTypeSession"
      by (auto simp: credential_def key_ctx_def session_ctx_def)
    then show ?thesis
      using authenticate_frame [OF Pair] Pair Inr cred assms
      by (auto simp: write_route_def RequireAuth_def CSRFProtect_def RequireRole_def sendJSONError_def plain_def
               split: option.splits)
  qed
qed

end
