(* ===== verification/Dto.thy ===== *)
theory Dto
  imports Auth
begin

text \<open>
  \<^verbatim>\<open>internal/api/dto/dto.go\<close>: the request and response shapes of the API and their validation. The cron
  parser is a parameter as in the job service, \<open>None\<close> being an expression it refuses. A job
  response is a JSON document; its timestamps keep whole seconds.
\<close>

section \<open>Requests\<close>

record WebhookRequest =
  whURL :: string
  whSecret :: string
  whEvents :: "string list"

record CreateJobRequest =
  cqType :: string
  cqPayload :: "fields option"
  cqLabels :: "(string \<times> string) list"
  cqPriority :: string
  cqMaxRetries :: int
  cqBackoffAlgorithm :: string
  cqBackoffJitter :: string
  cqCronExpr :: string
  cqRunAt :: json
  cqCorrelationID :: string
  cqTimeout :: int
  cqVersion :: int
  cqTenantID :: string
  cqDedupKey :: string
  cqDependencies :: "string list"
  cqShardKey :: string
  cqWebhook :: "WebhookRequest option"
  cqTTLSeconds :: int

definition zero_request :: CreateJobRequest where
  "zero_request = \<lparr>cqType = '''', cqPayload = None, cqLabels = [], cqPriority = '''', cqMaxRetries = 0,
     cqBackoffAlgorithm = '''', cqBackoffJitter = '''', cqCronExpr = '''', cqRunAt = JStr '''', cqCorrelationID = '''',
     cqTimeout = 0, cqVersion = 0, cqTenantID = '''', cqDedupKey = '''', cqDependencies = [], cqShardKey = '''',
     cqWebhook = None, cqTTLSeconds = 0\<rparr>"

definition dec_text :: "fields \<Rightarrow> string \<Rightarrow> json option" where
  \<comment> \<open>a string field that may hold a timestamp\<close>
  "dec_text fs k = (case jget fs k of None \<Rightarrow> Some (JStr '''') | Some JNull \<Rightarrow> Some (JStr '''')
     | Some (JStr s) \<Rightarrow> Some (JStr s) | Some (JTime t) \<Rightarrow> Some (JTime t) | _ \<Rightarrow> None)"

definition dec_webhook_request :: "fields \<Rightarrow> string \<Rightarrow> WebhookRequest option option" where
  "dec_webhook_request fs k = (case jget fs k of None \<Rightarrow> Some None | Some JNull \<Rightarrow> Some None
     | Some (JObj gs) \<Rightarrow>
         do { u \<leftarrow> dec_str gs ''url''; s \<leftarrow> dec_str gs ''secret''; es \<leftarrow> dec_strs gs ''events'';
              Some (Some \<lparr>whURL = u, whSecret = s, whEvents = es\<rparr>) }
     | _ \<Rightarrow> None)"

definition json_request :: "json \<Rightarrow> CreateJobRequest option" where
  \<comment> \<open>decoding into a zero request; a JSON null leaves it as it is\<close>
  "json_request v = (case v of JObj fs \<Rightarrow>
     do { type \<leftarrow> dec_str fs ''type''; payload \<leftarrow> dec_map fs ''payload''; labels \<leftarrow> dec_strmap fs ''labels'';
          priority \<leftarrow> dec_str fs ''priority''; maxr \<leftarrow> dec_int fs ''max_retries'';
          algo \<leftarrow> dec_str fs ''backoff_algorithm''; jitter \<leftarrow> dec_str fs ''backoff_jitter'';
          cron \<leftarrow> dec_str fs ''cron_expr''; runat \<leftarrow> dec_text fs ''run_at'';
          corr \<leftarrow> dec_str fs ''correlation_id''; timeout \<leftarrow> dec_int fs ''timeout'';
          version \<leftarrow> dec_int fs ''version''; tenant \<leftarrow> dec_str fs ''tenant_id'';
          dedup \<leftarrow> dec_str fs ''dedup_key''; deps \<leftarrow> dec_strs fs ''dependencies'';
          shard \<leftarrow> dec_str fs ''shard_key''; hook \<leftarrow> dec_webhook_request fs ''webhook'';
          ttl \<leftarrow> dec_int fs ''ttl_seconds'';
          Some \<lparr>cqType = type, cqPayload = payload, cqLabels = labels, cqPriority = priority, cqMaxRetries = maxr,
            cqBackoffAlgorithm = algo, cqBackoffJitter = jitter, cqCronExpr = cron, cqRunAt = runat,
            cqCorrelationID = corr, cqTimeout = timeout, cqVersion = version, cqTenantID = tenant,
            cqDedupKey = dedup, cqDependencies = deps, cqShardKey = shard, cqWebhook = hook, cqTTLSeconds = ttl\<rparr> }
     | JNull \<Rightarrow> Some zero_request
     | _ \<Rightarrow> None)"

fun json_requests :: "json list \<Rightarrow> CreateJobRequest list option" where
  "json_requests [] = Some []"
| "json_requests (v # vs) =
     (case json_request v of None \<Rightarrow> None | Some q \<Rightarrow> map_option ((#) q) (json_requests vs))"

definition json_batch :: "json \<Rightarrow> CreateJobRequest list option" where
  \<comment> \<open>the only field of \<open>BatchJobRequest\<close>\<close>
  "json_batch v = (case v of
     JObj fs \<Rightarrow> (case jget fs ''jobs'' of None \<Rightarrow> Some [] | Some JNull \<Rightarrow> Some []
                 | Some (JArr vs) \<Rightarrow> json_requests vs | _ \<Rightarrow> None)
   | JNull \<Rightarrow> Some [] | _ \<Rightarrow> None)"

section \<open>Validation\<close>

definition parse_error :: go_error where
  \<comment> \<open>the error of a failed parse; its text is not modelled\<close>
  "parse_error = Errorf ''cannot parse''"

definition payload_string :: "CreateJobRequest \<Rightarrow> string \<Rightarrow> string" where
  "payload_string q k = (case cqPayload q of None \<Rightarrow> '''' | Some m \<Rightarrow> as_string (jget m k))"

definition validate_payload :: "CreateJobRequest \<Rightarrow> go_error option" where
  \<comment> \<open>the switch on the job type\<close>
  "validate_payload q =
     (if cqType q = ''email'' \<and> payload_string q ''to'' = ''''
      then Some (Errorf ''email jobs require a 'to' field in the payload'')
      else if cqType q = ''image'' \<and> payload_string q ''source_url'' = ''''
      then Some (Errorf ''image jobs require a 'source_url' field in the payload'')
      else if cqType q = ''http'' \<and> payload_string q ''url'' = ''''
      then Some (Errorf ''http jobs require a 'url' field in the payload'')
      else None)"

definition validate_run_at :: "time \<Rightarrow> CreateJobRequest \<Rightarrow> go_error option" where
  "validate_run_at now q =
     (if cqRunAt q \<noteq> JStr '''' then
        (case cqRunAt q of
           JTime t \<Rightarrow> (if t < now - Minute then Some (Errorf ''run_at cannot be in the past'') else None)
         | _ \<Rightarrow> Some (Wrap ''invalid run_at format (wait for RFC3339): '' parse_error ''''))
      else None)"

definition CreateJobRequest_Validate ::
    "(string \<Rightarrow> (time \<Rightarrow> time) option) \<Rightarrow> time \<Rightarrow> CreateJobRequest \<Rightarrow> go_error option" where
  "CreateJobRequest_Validate cron now q =
     (if cqType q = '''' then Some (Errorf ''job type is required'')
      else if cqTTLSeconds q < 0 then Some (Errorf ''ttl_seconds cannot be negative'')
      else if cqPayload q = None then Some (Errorf ''payload is required'')
      else (case validate_payload q of
        Some e \<Rightarrow> Some e
      | None \<Rightarrow>
          (if cqCronExpr q \<noteq> '''' \<and> cron (cqCronExpr q) = None then Some (Wrap ''invalid cron_expr: '' parse_error '''')
           else if cqBackoffAlgorithm q \<notin> {'''', ''exponential'', ''linear'', ''fixed''}
           then Some (Errorf (''invalid backoff_algorithm '' @ quoted (cqBackoffAlgorithm q) @ '': must be exponential, linear, or fixed''))
           else if cqBackoffJitter q \<notin> {'''', ''none'', ''full'', ''equal''}
           then Some (Errorf (''invalid backoff_jitter '' @ quoted (cqBackoffJitter q) @ '': must be none, full, or equal''))
           else validate_run_at now q)))"

fun validate_each ::
    "(string \<Rightarrow> (time \<Rightarrow> time) option) \<Rightarrow> time \<Rightarrow> nat \<Rightarrow> CreateJobRequest list \<Rightarrow> go_error option" where
  "validate_each cron now i [] = None"
| "validate_each cron now i (q # qs) =
     (case CreateJobRequest_Validate cron now q of
        Some e \<Rightarrow> Some (Wrap (''job['' @ itoa (int i) @ '']: '') e '''')
      | None \<Rightarrow> validate_each cron now (Suc i) qs)"

definition BatchJobRequest_Validate ::
    "(string \<Rightarrow> (time \<Rightarrow> time) option) \<Rightarrow> time \<Rightarrow> CreateJobRequest list \<Rightarrow> go_error option" where
  "BatchJobRequest_Validate cron now qs =
     (if qs = [] then Some (Errorf ''at least one job is required'')
      else if 100 < length qs then Some (Errorf ''batch size exceeds maximum of 100'')
      else validate_each cron now 0 qs)"

section \<open>Responses\<close>

definition seconds_json :: "time \<Rightarrow> json" where
  \<comment> \<open>\<open>t.Format("2006-01-02T15:04:05Z07:00")\<close>\<close>
  "seconds_json t = JTime (Unix t * Second)"

definition FromJob :: "Job \<Rightarrow> json" where
  \<comment> \<open>the \<open>JobResponse\<close> of a job, encoded\<close>
  "FromJob j = JObj (
     [(''id'', JStr (jID j)), (''type'', JStr (jType j)),
      (''payload'', (case jPayload j of None \<Rightarrow> JNull | Some m \<Rightarrow> JObj m))] @
     omit (jLabels j = []) (''labels'', jpairs (jLabels j)) @
     [(''priority'', JStr (jPriority j)), (''status'', JStr (jStatus j)),
      (''retries'', jint (jRetries j)), (''max_retries'', jint (jMaxRetries j))] @
     omit (jBackoffAlgorithm j = '''') (''backoff_algorithm'', JStr (jBackoffAlgorithm j)) @
     omit (jBackoffJitter j = '''') (''backoff_jitter'', JStr (jBackoffJitter j)) @
     omit (jCronExpr j = '''') (''cron_expr'', JStr (jCronExpr j)) @
     [(''created_at'', seconds_json (jCreatedAt j)), (''updated_at'', seconds_json (jUpdatedAt j)),
      (''run_at'', seconds_json (jRunAt j))] @
     omit (IsZero (jExpiresAt j)) (''expires_at'', seconds_json (jExpiresAt j)) @
     omit (jCorrelationID j = '''') (''correlation_id'', JStr (jCorrelationID j)) @
     omit (jTimeout j = 0) (''timeout'', jint (jTimeout j)) @
     [(''version'', jint (jVersion j))] @
     omit (jTenantID j = '''') (''tenant_id'', JStr (jTenantID j)) @
     [(''paused'', JBool (jPaused j)), (''progress'', JNum (jProgress j))] @
     omit (jDedupKey j = '''') (''dedup_key'', JStr (jDedupKey j)) @
     omit (jDependencies j = []) (''dependencies'', jstrs (jDependencies j)) @
     omit (jShardKey j = '''') (''shard_key'', JStr (jShardKey j)) @
     omit (jErrorHistory j = []) (''error_history'', JArr (map attempt_json (jErrorHistory j))))"

definition batch_response :: "Job list \<Rightarrow> nat \<Rightarrow> json" where
  \<comment> \<open>\<open>BatchJobResponse\<close>: a nil slice is encoded as null, \<open>failed\<close> stays empty and is omitted\<close>
  "batch_response js n = JObj [
     (''successful'', if js = [] then JNull else
        JArr (map (\<lambda>(i, j). JObj [(''index'', jint (int i)), (''job'', FromJob j)]) (enumerate 0 js))),
     (''total'', jint (int n)), (''processed'', jint (int n))]"

section \<open>Lemmas\<close>

lemma validate_each_None:
  "validate_each cron now i qs = None \<longleftrightarrow> (\<forall>q \<in> set qs. CreateJobRequest_Validate cron now q = None)"
  by (induction qs arbitrary: i) (auto split: option.split)

lemma Validate_NoneD:
  assumes "CreateJobRequest_Validate cron now q = None"
  shows "cqType q \<noteq> ''''" and "0 \<le> cqTTLSeconds q" and "cqPayload q \<noteq> None"
    and "cqCronExpr q \<noteq> '''' \<Longrightarrow> cron (cqCronExpr q) \<noteq> None"
    and "cqRunAt q = JStr '''' \<or> (\<exists>t. cqRunAt q = JTime t \<and> now - Minute \<le> t)"
  using assms
  by (auto simp: CreateJobRequest_Validate_def validate_run_at_def split: if_splits option.splits json.splits)

end
