(* ===== verification/Handler.thy ===== *)
theory Handler
  imports Dto
begin

text \<open>
  The HTTP handlers of \<^verbatim>\<open>internal/api/handler\<close>: definitions. A handler of the source is a method of
  \<open>JobHandler\<close>; here it is a function of the handler's configuration, of the environment of the request (fresh
  identifiers, random bytes, the trace id, the digest function, the answer of the worker's HTTP endpoint) and of the
  arguments of \<open>handler\<close>. A JSON object stands for a Go map or struct, its keys in the order written. Pages of
  static HTML, the Prometheus endpoint and logging are not modelled.
\<close>

section \<open>Configuration and environment\<close>

record 's JobHandler =
  hService :: "'s JobService"
  hHasJobTypes :: bool
  hApiKey :: string
  hAdminUsername :: string
  hAdminPassword :: string
  hReadonlyUsername :: string
  hReadonlyPassword :: string
  hWorkerAddr :: string
  hSseCheckInterval :: duration

definition JobHandler_New :: "'s JobService \<Rightarrow> string \<Rightarrow> string \<Rightarrow> string \<Rightarrow> string \<Rightarrow> 's JobHandler" where
  "JobHandler_New svc apiKey adminUsername adminPassword workerAddr =
     \<lparr>hService = svc, hHasJobTypes = False, hApiKey = apiKey, hAdminUsername = adminUsername,
      hAdminPassword = adminPassword, hReadonlyUsername = '''', hReadonlyPassword = '''', hWorkerAddr = workerAddr,
      hSseCheckInterval = 15 * Second\<rparr>"

definition new_api :: "SessionStore \<Rightarrow> int \<Rightarrow> int \<Rightarrow> 's world \<Rightarrow> 's api" where
  \<comment> \<open>the state that \<open>New\<close> and \<open>RequireAuth\<close> allocate\<close>
  "new_api sessions loginRateLimit registerRateLimit w =
     \<lparr>apCache = newAPIKeyCache, apSessions = sessions, apLogin = NewLoginLimiter loginRateLimit Minute,
      apRegister = NewLoginLimiter registerRateLimit Minute, apWorld = w\<lparr>wSse := NewBroker\<rparr>\<rparr>"

definition SetReadonlyCredentials :: "string \<Rightarrow> string \<Rightarrow> 's JobHandler \<Rightarrow> 's JobHandler" where
  "SetReadonlyCredentials username password h = h\<lparr>hReadonlyUsername := username, hReadonlyPassword := password\<rparr>"

definition JobHandler_SetJobTypeStore :: "'s JobHandler \<Rightarrow> 's JobHandler" where
  "JobHandler_SetJobTypeStore h = h\<lparr>hHasJobTypes := True, hService := SetJobTypeStore (hService h)\<rparr>"

datatype worker_reply = BadURL go_error | Unreachable go_error | Answer int json

record env =
  eUuid1 :: string
  eUuid2 :: string
  eUuids :: "nat \<Rightarrow> string"
  eTrace :: string
  eRnd1 :: rand_source
  eRnd2 :: rand_source
  eSha :: "string \<Rightarrow> string"
  eWorker :: "string \<Rightarrow> string \<Rightarrow> string \<Rightarrow> worker_reply"

abbreviation hRedis :: "'s JobHandler \<Rightarrow> redis" where "hRedis h \<equiv> svcRedis (hService h)"

definition on_rdb :: "(rdb \<Rightarrow> 'x \<times> rdb) \<Rightarrow> 's api \<Rightarrow> 'x \<times> 's api" where
  "on_rdb f = on_world (on_db f)"

section \<open>Writing responses and reading requests\<close>

definition writeJSON :: "int \<Rightarrow> json \<Rightarrow> Response" where
  "writeJSON status v = plain status (Some v)"

definition writeError :: "int \<Rightarrow> string \<Rightarrow> string \<Rightarrow> Response" where
  "writeError status code msg = writeJSON status (JObj [(''code'', JStr code), (''error'', JStr msg)])"

definition app_status :: "string \<Rightarrow> int" where
  "app_status code =
     (if code = CodeNotFound then 404
      else if code = CodeInvalidArgument then 400
      else if code = CodeUnauthorized then 401
      else if code = CodeQueueFull \<or> code = CodeTooManyRequests then 429
      else if code = CodePermissionDenied then 403
      else if code = CodeConflict then 409
      else 500)"

definition writeAppError :: "go_error \<Rightarrow> Response" where
  "writeAppError e =
     (case errors_As_AppError e of
        None \<Rightarrow> writeError 500 CodeInternal ''an unexpected error occurred''
      | Some (code, msg) \<Rightarrow> writeError (app_status code) code msg)"

definition decode_body :: "(json \<Rightarrow> 'x option) \<Rightarrow> Request \<Rightarrow> go_error + 'x" where
  \<comment> \<open>\<open>json.NewDecoder(r.Body).Decode(&req)\<close>\<close>
  "decode_body dec r =
     (case rBody r of
        Inl e \<Rightarrow> Inl e
      | Inr v \<Rightarrow> (case dec v of None \<Rightarrow> Inl json_error | Some x \<Rightarrow> Inr x))"

definition dec_obj :: "(fields \<Rightarrow> 'x option) \<Rightarrow> json \<Rightarrow> 'x option" where
  \<comment> \<open>a struct from an object; null leaves the zero value\<close>
  "dec_obj dec v = (case v of JObj fs \<Rightarrow> dec fs | JNull \<Rightarrow> dec [] | _ \<Rightarrow> None)"

definition page_offset :: "int \<Rightarrow> int \<Rightarrow> int" where
  \<comment> \<open>\<open>(page - 1) * limit\<close> on 64-bit integers\<close>
  "page_offset pg limit = sint ((word_of_int pg - 1) * word_of_int limit :: 64 word)"

section \<open>Tenant isolation\<close>

definition checkJobTenantAccess :: "AuthCtx \<Rightarrow> Job \<Rightarrow> Response option" where
  \<comment> \<open>\<open>None\<close>: access granted\<close>
  "checkJobTenantAccess cx job =
     (if IsClientTenant (TenantIDFromContext cx) \<and> jTenantID job \<noteq> TenantIDFromContext cx
      then Some (writeError 403 CodePermissionDenied ''access to job denied for tenant'')
      else None)"

definition loadJobForTenant :: "'s JobHandler \<Rightarrow> time \<Rightarrow> AuthCtx \<Rightarrow> string \<Rightarrow> 's api \<Rightarrow> (Response + Job) \<times> 's api" where
  "loadJobForTenant h now cx jobID a =
     (case on_world (JobService_GetJobStatus (hService h) now jobID) a of
        (Inl e, a1) \<Rightarrow> (Inl (writeAppError e), a1)
      | (Inr job, a1) \<Rightarrow>
          (case checkJobTenantAccess cx job of
             Some resp \<Rightarrow> (Inl resp, a1) | None \<Rightarrow> (Inr job, a1)))"

definition scope_tenant :: "AuthCtx \<Rightarrow> string" where
  \<comment> \<open>the tenant of a client key, empty for the operator\<close>
  "scope_tenant cx = (if IsClientTenant (TenantIDFromContext cx) then TenantIDFromContext cx else '''')"

definition missing_id :: Response where
  "missing_id = writeError 400 CodeInvalidArgument ''missing job ID in path''"

section \<open>Submission\<close>

definition default_tenant :: "AuthCtx \<Rightarrow> CreateJobRequest \<Rightarrow> CreateJobRequest" where
  "default_tenant cx q =
     (if cqTenantID q = '''' \<and> IsClientTenant (TenantIDFromContext cx) then q\<lparr>cqTenantID := TenantIDFromContext cx\<rparr> else q)"

definition webhook_config :: "CreateJobRequest \<Rightarrow> WebhookConfig option" where
  "webhook_config q =
     (case cqWebhook q of
        None \<Rightarrow> None
      | Some wr \<Rightarrow>
          (let events = NormalizeEvents (whEvents wr)
           in Some \<lparr>wcURL = whURL wr, wcSecret = whSecret wr,
                    wcEvents = (if events = [] then [''completed'', ''failed''] else events), wcLastStatus = 0, wcAttempts = 0\<rparr>))"

definition service_request :: "CreateJobRequest \<Rightarrow> JobRequest" where
  \<comment> \<open>the arguments of the service call\<close>
  "service_request q =
     \<lparr>rqType = cqType q, rqPayload = cqPayload q, rqLabels = cqLabels q, rqPriority = cqPriority q,
      rqMaxRetries = cqMaxRetries q, rqBackoffAlgorithm = cqBackoffAlgorithm q, rqBackoffJitter = cqBackoffJitter q,
      rqCronExpr = cqCronExpr q, rqRunAt = cqRunAt q, rqCorrelationID = cqCorrelationID q, rqTimeout = cqTimeout q,
      rqVersion = cqVersion q, rqTenantID = cqTenantID q, rqWebhook = webhook_config q, rqDedupKey = cqDedupKey q,
      rqDependencies = cqDependencies q, rqShardKey = cqShardKey q, rqTTLSeconds = cqTTLSeconds q\<rparr>"

definition CreateJob :: "'s JobHandler \<Rightarrow> env \<Rightarrow> 's handler" where
  "CreateJob h en now cx r a =
     (case decode_body json_request r of
        Inl e \<Rightarrow> (writeError 400 CodeInvalidArgument (''invalid JSON body: '' @ err_msg e), a)
      | Inr q \<Rightarrow>
          (case CreateJobRequest_Validate (svcCron (hService h)) now q of
             Some e \<Rightarrow> (writeError 400 CodeInvalidArgument (err_msg e), a)
           | None \<Rightarrow>
               (case on_world (JobService_CreateJob (hService h) (eUuid1 en) (eUuid2 en) (eTrace en) now
                                 (service_request (default_tenant cx q))) a of
                  (Inl e, a1) \<Rightarrow> (writeAppError e, a1)
                | (Inr job, a1) \<Rightarrow> (writeJSON 201 (FromJob job), a1))))"

definition CreateJobBatch :: "'s JobHandler \<Rightarrow> env \<Rightarrow> 's handler" where
  \<comment> \<open>the requests handed to the service carry no \<open>TTLSeconds\<close>\<close>
  "CreateJobBatch h en now cx r a =
     (case decode_body json_batch r of
        Inl e \<Rightarrow> (writeError 400 CodeInvalidArgument (''invalid JSON body: '' @ err_msg e), a)
      | Inr qs \<Rightarrow>
          (case BatchJobRequest_Validate (svcCron (hService h)) now qs of
             Some e \<Rightarrow> (writeError 400 CodeInvalidArgument (err_msg e), a)
           | None \<Rightarrow>
               (case on_world (JobService_CreateJobBatch (hService h) (eUuids en) (eTrace en) now
                       (map (\<lambda>q. (service_request (default_tenant cx q))\<lparr>rqTTLSeconds := 0\<rparr>) qs)) a of
                  (Inl e, a1) \<Rightarrow> (writeError 500 CodeInternal (''failed to create batch: '' @ err_msg e), a1)
                | (Inr js, a1) \<Rightarrow> (writeJSON 200 (batch_response js (length qs)), a1))))"

section \<open>Queries\<close>

definition time_param :: "Request \<Rightarrow> string \<Rightarrow> time" where
  \<comment> \<open>a timestamp parameter; the zero instant when absent or malformed\<close>
  "time_param r k = (case rQuery r k of JTime t \<Rightarrow> t | _ \<Rightarrow> zero_time)"

definition positive_or :: "int \<Rightarrow> int \<Rightarrow> int" where
  "positive_or d n = (if n \<le> 0 then d else n)"

definition list_filter :: "Request \<Rightarrow> string \<Rightarrow> JobFilter" where
  \<comment> \<open>the filter \<open>ListJobs\<close> builds from the query for the given tenant\<close>
  "list_filter r tenant =
     (let pg = positive_or 1 (Atoi (query_text r ''page''));
          limit = positive_or 20 (Atoi (query_text r ''limit''));
          offset = page_offset pg limit
      in empty_filter\<lparr>fTenantID := tenant, fStatus := query_text r ''status'', fType := query_text r ''type'',
           fLabelKey := query_text r ''label_key'', fLabelValue := query_text r ''label_value'',
           fCreatedAfter := time_param r ''created_after'', fCreatedBefore := time_param r ''created_before'',
           fSearchQuery := query_text r ''search'', fLimit := limit, fOffset := (if offset < 0 then 0 else offset)\<rparr>)"

definition count_or_zero :: "go_error + int \<Rightarrow> int" where
  "count_or_zero x = (case x of Inl e \<Rightarrow> 0 | Inr n \<Rightarrow> n)"

definition ListJobs :: "'s JobHandler \<Rightarrow> 's handler" where
  "ListJobs h now cx r a =
     (let q = query_text r ''tenant_id''; t = TenantIDFromContext cx in
      if IsClientTenant t \<and> q \<noteq> '''' \<and> q \<noteq> t
      then (writeError 403 CodePermissionDenied ''access denied for tenant'', a)
      else (let f = list_filter r (if IsClientTenant t then t else q) in
        (case on_world (JobService_SearchJobs (hService h) now f) a of
           (Inl e, a1) \<Rightarrow> (writeAppError e, a1)
         | (Inr js, a1) \<Rightarrow>
             (let (n, a2) = on_world (JobService_CountJobs (hService h) now (f\<lparr>fLimit := 0, fOffset := 0\<rparr>)) a1
              in (writeJSON 200 (JObj [(''jobs'', JArr (map FromJob js)), (''total'', jint (count_or_zero n)),
                    (''page'', jint (positive_or 1 (Atoi (query_text r ''page'')))), (''limit'', jint (fLimit f))]), a2)))))"

definition path_job_id :: "Request \<Rightarrow> string" where
  \<comment> \<open>the path value, or the first segment after \<open>/jobs/\<close>\<close>
  "path_job_id r =
     (if rPathValue r ''id'' \<noteq> '''' then rPathValue r ''id''
      else takeWhile (\<lambda>c. c \<noteq> CHR ''/'') (TrimPrefix (rPath r) ''/jobs/''))"

definition Handler_GetJobStatus :: "'s JobHandler \<Rightarrow> 's handler" where
  "Handler_GetJobStatus h now cx r a =
     (if path_job_id r = '''' then (missing_id, a)
      else (case on_world (JobService_GetJobStatus (hService h) now (path_job_id r)) a of
              (Inl e, a1) \<Rightarrow> (writeAppError e, a1)
            | (Inr job, a1) \<Rightarrow>
                (case checkJobTenantAccess cx job of
                   Some resp \<Rightarrow> (resp, a1) | None \<Rightarrow> (writeJSON 200 (FromJob job), a1))))"

definition GetJobDeps :: "'s JobHandler \<Rightarrow> 's handler" where
  "GetJobDeps h now cx r a =
     (let jobID = rPathValue r ''id'' in
      if jobID = '''' then (missing_id, a)
      else (case on_world (JobService_GetJobStatus (hService h) now jobID) a of
        (Inl e, a1) \<Rightarrow> (writeAppError e, a1)
      | (Inr job, a1) \<Rightarrow>
          (case checkJobTenantAccess cx job of
             Some resp \<Rightarrow> (resp, a1)
           | None \<Rightarrow>
               (let (deps, a2) = (if jDependencies job \<noteq> [] then
                        (case on_world (JobService_GetJobByIDs (hService h) now (jDependencies job)) a1 of
                           (Inl e, a2) \<Rightarrow> ([], a2) | (Inr ds, a2) \<Rightarrow> (ds, a2))
                      else ([], a1));
                    (allJobs, a3) = on_world (JobService_SearchJobs (hService h) now (empty_filter\<lparr>fLimit := 500\<rparr>)) a2;
                    dependents = (case allJobs of Inl e \<Rightarrow> [] | Inr js \<Rightarrow> filter (\<lambda>j. jobID \<in> set (jDependencies j)) js)
                in (writeJSON 200 (JObj [(''job'', FromJob job), (''depends_on'', JArr (map FromJob deps)),
                      (''dependents'', JArr (map FromJob dependents))]), a3)))))"

section \<open>Monitoring\<close>

definition blob_value :: "blob \<Rightarrow> json" where
  "blob_value b = (case b of Txt s \<Rightarrow> JStr s | Num n \<Rightarrow> JStr (itoa n) | Doc v \<Rightarrow> v)"

definition worker_json :: "WorkerInfo \<Rightarrow> json" where
  "worker_json i = JObj [(''id'', JStr (wiID i)), (''last_heartbeat'', blob_value (wiLastHeartbeat i))]"

definition slice_json :: "('x \<Rightarrow> json) \<Rightarrow> 'x list \<Rightarrow> json" where
  \<comment> \<open>a slice built by \<open>append\<close>: nil when nothing was appended\<close>
  "slice_json f xs = (if xs = [] then JNull else JArr (map f xs))"

definition depth_json :: "PriorityDepthReport \<Rightarrow> json" where
  "depth_json d = JObj [(''dequeue_weights'', JObj (map (map_prod id jint) (pdDequeueWeights d))),
     (''partitions_per_priority'', jint (pdPartitionsPerPriority d)),
     (''by_priority'', JObj (map (\<lambda>(k, t). (k, JObj [(''total'', jint (ptTotal t)),
        (''partitions'', JObj (map (map_prod id jint) (ptPartitions t)))])) (pdByPriority d)))]"

definition pending_in_scope :: "string \<Rightarrow> queue_lengths \<Rightarrow> int" where
  \<comment> \<open>the nested loops that sum \<open>totalPending\<close>\<close>
  "pending_in_scope scope ql =
     sum_list (map (\<lambda>(ty, ts). sum_list (map snd (filter (\<lambda>(t, n). scope = '''' \<or> t = scope) ts))) ql)"

definition status_count :: "(string \<times> int) list \<Rightarrow> string \<Rightarrow> json" where
  "status_count m s = jint (case map_of m s of None \<Rightarrow> 0 | Some n \<Rightarrow> n)"

definition GetStats :: "'s JobHandler \<Rightarrow> 's handler" where
  "GetStats h now cx r a =
     (case on_world (JobService_QueueLengths (hService h) now) a of
        (Inl e, a1) \<Rightarrow> (writeAppError e, a1)
      | (Inr ql, a1) \<Rightarrow>
          (let (ws, a2) = on_world (JobService_GetActiveWorkers (hService h) now) a1;
               workers = (case ws of Inl e \<Rightarrow> [] | Inr l \<Rightarrow> l);
               scope = scope_tenant cx in
           (case on_world (JobService_JobStatusCounts (hService h) now scope) a2 of
              (Inl e, a3) \<Rightarrow> (writeAppError e, a3)
            | (Inr sc, a3) \<Rightarrow>
                (let (dlq, a4) = on_world (JobService_CountFailedJobs (hService h) now scope '''') a3;
                     ((depths, derr), a5) = on_world (JobService_PriorityPartitionDepths (hService h) now) a4
                 in (writeJSON 200 (JObj [
                       (''total_pending'', jint (pending_in_scope scope ql)),
                       (''total_processing'', status_count sc StatusProcessing),
                       (''total_completed'', status_count sc StatusCompleted),
                       (''total_failed'', status_count sc StatusFailed),
                       (''total_dlq'', jint (count_or_zero dlq)),
                       (''total_jobs'', jint (sum_list (map snd sc))),
                       (''queue_breakdown'', JObj (map (\<lambda>(ty, ts). (ty, JObj (map (map_prod id jint) ts))) ql)),
                       (''priority_breakdown'', depth_json depths),
                       (''worker_count'', jint (int (length workers))),
                       (''workers'', slice_json worker_json workers),
                       (''tenant_id'', JStr scope),
                       (''approx_completed'', status_count sc StatusCompleted),
                       (''approx_failed'', status_count sc StatusFailed)]), a5)))))"

definition rate_json :: "TenantRateStatus \<Rightarrow> json" where
  "rate_json s = JObj [(''tenant'', JStr (trTenant s)), (''current'', jint (trCurrent s)), (''limit'', jint (trLimit s)),
     (''window_seconds'', jint (trWindowSeconds s)), (''limited'', JBool (trLimited s))]"

definition GetRateLimits :: "'s JobHandler \<Rightarrow> 's handler" where
  "GetRateLimits h now cx r a =
     (case on_world (JobService_RateLimitStatus (hService h) now) a of
        (Inl e, a1) \<Rightarrow> (writeAppError e, a1)
      | (Inr ss, a1) \<Rightarrow>
          (let (window, limit) = fold (\<lambda>s (w, l). (if w = 1 then trWindowSeconds s else w, if l < trLimit s then trLimit s else l)) ss (1, 0)
           in (writeJSON 200 (JObj [(''window_seconds'', jint window), (''limit'', jint limit),
                 (''unlimited'', JBool (limit = 0)), (''tenants'', JArr (map rate_json ss))]), a1)))"

definition GetWorkers :: "'s JobHandler \<Rightarrow> 's handler" where
  "GetWorkers h now cx r a =
     (case on_world (JobService_GetActiveWorkers (hService h) now) a of
        (Inl e, a1) \<Rightarrow> (writeAppError e, a1) | (Inr ws, a1) \<Rightarrow> (writeJSON 200 (slice_json worker_json ws), a1))"

section \<open>Webhooks\<close>

definition regwebhook_json :: "RegisteredWebhook \<Rightarrow> json" where
  "regwebhook_json w = JObj (regwebhook_fields w)"

definition dec_webhook_body :: "fields \<Rightarrow> (string \<times> string \<times> string list \<times> string) option" where
  "dec_webhook_body fs =
     do { u \<leftarrow> dec_str fs ''url''; s \<leftarrow> dec_str fs ''secret''; es \<leftarrow> dec_strs fs ''events'';
          t \<leftarrow> dec_str fs ''tenant_id''; Some (u, s, es, t) }"

definition RegisterWebhook :: "'s JobHandler \<Rightarrow> env \<Rightarrow> 's handler" where
  "RegisterWebhook h en now cx r a =
     (case decode_body (dec_obj dec_webhook_body) r of
        Inl e \<Rightarrow> (writeError 400 CodeInvalidArgument (''invalid JSON: '' @ err_msg e), a)
      | Inr (url, secret, events, tenant) \<Rightarrow>
          (if url = '''' then (writeError 400 CodeInvalidArgument ''url is required'', a)
           else (let t = TenantIDFromContext cx;
                     tenantID = (if IsClientTenant t then t else if tenant \<noteq> '''' then tenant else t) in
             (case on_rdb (WebhookStore_Create (hRedis h) (eUuid1 en) now tenantID url secret (NormalizeEvents events)) a of
                (Inl e, a1) \<Rightarrow> (writeAppError e, a1)
              | (Inr wh, a1) \<Rightarrow> (writeJSON 201 (regwebhook_json wh), a1)))))"

definition ListWebhooks :: "'s JobHandler \<Rightarrow> 's handler" where
  "ListWebhooks h now cx r a =
     (case on_rdb (WebhookStore_List (hRedis h) now (TenantIDFromContext cx)) a of
        (Inl e, a1) \<Rightarrow> (writeAppError e, a1)
      | (Inr ws, a1) \<Rightarrow> (writeJSON 200 (slice_json regwebhook_json ws), a1))"

definition webhook_not_found :: Response where
  "webhook_not_found = writeError 404 CodeNotFound ''webhook not found''"

definition GetWebhook :: "'s JobHandler \<Rightarrow> 's handler" where
  "GetWebhook h now cx r a =
     (case on_rdb (WebhookStore_GetByID (hRedis h) now (rPathValue r ''id'')) a of
        (Inl e, a1) \<Rightarrow> (webhook_not_found, a1) | (Inr wh, a1) \<Rightarrow> (writeJSON 200 (regwebhook_json wh), a1))"

definition GetWebhookDeliveries :: "'s JobHandler \<Rightarrow> 's handler" where
  "GetWebhookDeliveries h now cx r a =
     (case on_rdb (WebhookStore_GetByID (hRedis h) now (rPathValue r ''id'')) a of
        (Inl e, a1) \<Rightarrow> (webhook_not_found, a1)
      | (Inr wh, a1) \<Rightarrow>
          (case on_rdb (ListDeliveries (hRedis h) now (rwURL wh) (positive_or 20 (Atoi (query_text r ''limit'')))) a1 of
             (Inl e, a2) \<Rightarrow> (writeError 500 CodeInternal ''failed to load delivery history'', a2)
           | (Inr ds, a2) \<Rightarrow> (writeJSON 200 (JArr (map delivery_json ds)), a2)))"

definition UpdateWebhook :: "'s JobHandler \<Rightarrow> 's handler" where
  "UpdateWebhook h now cx r a =
     (case decode_body (dec_obj (\<lambda>fs. do { u \<leftarrow> dec_str fs ''url''; s \<leftarrow> dec_str fs ''secret''; es \<leftarrow> dec_strs fs ''events'';
                                            Some (u, s, es) })) r of
        Inl e \<Rightarrow> (writeError 400 CodeInvalidArgument (''invalid JSON: '' @ err_msg e), a)
      | Inr (url, secret, events) \<Rightarrow>
          (case on_rdb (WebhookStore_Update (hRedis h) now (rPathValue r ''id'') url secret events) a of
             (Inl e, a1) \<Rightarrow> (webhook_not_found, a1) | (Inr wh, a1) \<Rightarrow> (writeJSON 200 (regwebhook_json wh), a1)))"

definition no_content :: Response where "no_content = plain 204 None"

definition DeleteWebhook :: "'s JobHandler \<Rightarrow> 's handler" where
  "DeleteWebhook h now cx r a =
     (case on_rdb (WebhookStore_Delete (hRedis h) now (rPathValue r ''id'')) a of
        (Some e, a1) \<Rightarrow> (writeAppError e, a1) | (None, a1) \<Rightarrow> (no_content, a1))"

section \<open>Control of single jobs\<close>

definition with_own_job ::
    "'s JobHandler \<Rightarrow> time \<Rightarrow> AuthCtx \<Rightarrow> string \<Rightarrow> ('s world \<Rightarrow> go_error option \<times> 's world) \<Rightarrow> json \<Rightarrow> 's api \<Rightarrow> Response \<times> 's api" where
  \<comment> \<open>load the job, check the tenant, run the operation, answer with the document\<close>
  "with_own_job h now cx jobID opn body a =
     (case loadJobForTenant h now cx jobID a of
        (Inl resp, a1) \<Rightarrow> (resp, a1)
      | (Inr job, a1) \<Rightarrow>
          (case on_world opn a1 of (Some e, a2) \<Rightarrow> (writeAppError e, a2) | (None, a2) \<Rightarrow> (writeJSON 200 body, a2)))"

definition status_body :: "string \<Rightarrow> string \<Rightarrow> json" where
  "status_body status jobID = JObj [(''status'', JStr status), (''job_id'', JStr jobID)]"

definition PauseJob :: "'s JobHandler \<Rightarrow> 's handler" where
  "PauseJob h now cx r a =
     (let jobID = rPathValue r ''id'' in
      if jobID = '''' then (missing_id, a)
      else with_own_job h now cx jobID (JobService_PauseJob (hService h) now jobID) (status_body ''paused'' jobID) a)"

definition ResumeJob :: "'s JobHandler \<Rightarrow> 's handler" where
  "ResumeJob h now cx r a =
     (let jobID = rPathValue r ''id'' in
      if jobID = '''' then (missing_id, a)
      else with_own_job h now cx jobID (JobService_ResumeJob (hService h) now jobID) (status_body ''resumed'' jobID) a)"

definition CancelJob :: "'s JobHandler \<Rightarrow> 's handler" where
  "CancelJob h now cx r a =
     (let jobID = rPathValue r ''id'' in
      if jobID = '''' then (missing_id, a)
      else with_own_job h now cx jobID (JobService_CancelJob (hService h) now jobID) (status_body ''cancelled'' jobID) a)"

definition UpdateJobProgress :: "'s JobHandler \<Rightarrow> 's handler" where
  "UpdateJobProgress h now cx r a =
     (let jobID = rPathValue r ''id'' in
      if jobID = '''' then (missing_id, a)
      else (case decode_body (dec_obj (\<lambda>fs. dec_float fs ''progress'')) r of
        Inl e \<Rightarrow> (writeError 400 CodeInvalidArgument (''invalid JSON body: '' @ err_msg e), a)
      | Inr p \<Rightarrow>
          with_own_job h now cx jobID (JobService_UpdateJobProgress (hService h) now jobID p)
            (JObj [(''job_id'', JStr jobID), (''progress'', JNum p)]) a))"

section \<open>Dead letters\<close>

definition publishDLQSSE :: "string \<Rightarrow> string \<Rightarrow> 's api \<Rightarrow> 's api" where
  \<comment> \<open>the broker of a handler is never nil\<close>
  "publishDLQSSE jobID status a =
     a\<lparr>apWorld := (apWorld a)\<lparr>wSse := Broker_Publish
         (zero_event\<lparr>evKind := ''dlq'', evJobID := jobID, evStatus := status, evType := ''dlq''\<rparr>) (wSse (apWorld a))\<rparr>\<rparr>"

definition ListFailedJobs :: "'s JobHandler \<Rightarrow> 's handler" where
  "ListFailedJobs h now cx r a =
     (let tenantID = scope_tenant cx; jobType = query_text r ''queue'';
          limit = positive_or 20 (Atoi (query_text r ''limit'')); pg = positive_or 1 (Atoi (query_text r ''page'')) in
      (case on_world (JobService_ListFailedJobs (hService h) now tenantID jobType limit (page_offset pg limit)) a of
         (Inl e, a1) \<Rightarrow> (writeAppError e, a1)
       | (Inr js, a1) \<Rightarrow>
           (let (n, a2) = on_world (JobService_CountFailedJobs (hService h) now tenantID jobType) a1
            in (writeJSON 200 (JObj [(''jobs'', JArr (map FromJob js)), (''total'', jint (count_or_zero n)),
                  (''page'', jint pg), (''limit'', jint limit)]), a2))))"

definition GetFailedJobDetail :: "'s JobHandler \<Rightarrow> 's handler" where
  "GetFailedJobDetail h now cx r a =
     (case loadJobForTenant h now cx (rPathValue r ''id'') a of
        (Inl resp, a1) \<Rightarrow> (resp, a1) | (Inr job, a1) \<Rightarrow> (writeJSON 200 (FromJob job), a1))"

definition ReplayFailedJob :: "'s JobHandler \<Rightarrow> env \<Rightarrow> 's handler" where
  "ReplayFailedJob h en now cx r a =
     (case on_world (JobService_ReplayJob (hService h) (eTrace en) now (rPathValue r ''id'') (scope_tenant cx)) a of
        (Inl e, a1) \<Rightarrow> (writeAppError e, a1)
      | (Inr job, a1) \<Rightarrow> (writeJSON 200 (FromJob job), publishDLQSSE (rPathValue r ''id'') ''replayed'' a1))"

definition DeleteFailedJob :: "'s JobHandler \<Rightarrow> 's handler" where
  "DeleteFailedJob h now cx r a =
     (case on_world (JobService_DeleteJob (hService h) now (rPathValue r ''id'') (scope_tenant cx)) a of
        (Some e, a1) \<Rightarrow> (writeAppError e, a1)
      | (None, a1) \<Rightarrow> (no_content, publishDLQSSE (rPathValue r ''id'') ''purged'' a1))"

definition BulkPurgeDLQ :: "'s JobHandler \<Rightarrow> 's handler" where
  "BulkPurgeDLQ h now cx r a =
     (case rQuery r ''older_than'' of
        JTime olderThan \<Rightarrow>
          (case on_world (JobService_BulkPurgeDLQ (hService h) now (TenantIDFromContext cx) (query_text r ''queue'') olderThan) a of
             (Inl e, a1) \<Rightarrow> (writeAppError e, a1)
           | (Inr n, a1) \<Rightarrow> (writeJSON 200 (JObj [(''deleted'', jint n)]), publishDLQSSE '''' ''bulk_purged'' a1))
      | v \<Rightarrow> (writeError 400 CodeInvalidArgument
                (if query_text r ''older_than'' = '''' then ''older_than is required'' else ''invalid timestamp format''), a))"

section \<open>Job types\<close>

definition job_type_json :: "JobType \<Rightarrow> json" where
  "job_type_json t = JObj (job_type_fields t)"

definition ListJobTypes :: "'s JobHandler \<Rightarrow> 's handler" where
  "ListJobTypes h now cx r a =
     (if \<not> hHasJobTypes h then (writeJSON 200 (JObj [(''job_types'', JArr (map job_type_json BuiltIn))]), a)
      else (case on_rdb (JobTypes_List (hRedis h) now) a of
              (Inl e, a1) \<Rightarrow> (writeAppError e, a1)
            | (Inr ts, a1) \<Rightarrow> (writeJSON 200 (JObj [(''job_types'', JArr (map job_type_json ts))]), a1)))"

definition no_registry :: Response where
  "no_registry = writeError 503 CodeInternal ''job type registry not configured''"

definition CreateJobType :: "'s JobHandler \<Rightarrow> env \<Rightarrow> 's handler" where
  "CreateJobType h en now cx r a =
     (if \<not> hHasJobTypes h then (no_registry, a)
      else (case decode_body (dec_obj (\<lambda>fs. do { n \<leftarrow> dec_str fs ''name''; d \<leftarrow> dec_str fs ''description'';
                     hd' \<leftarrow> dec_str fs ''handler''; p \<leftarrow> dec_str fs ''payload_hint''; Some (n, d, hd', p) })) r of
        Inl e \<Rightarrow> (writeError 400 CodeInvalidArgument (''invalid JSON: '' @ err_msg e), a)
      | Inr (name, description, handler, hint) \<Rightarrow>
          (case on_rdb (JobTypes_Create (hRedis h) (eUuid1 en) now name description handler hint) a of
             (Inl e, a1) \<Rightarrow> (writeError 400 CodeInvalidArgument (err_msg e), a1)
           | (Inr t, a1) \<Rightarrow> (writeJSON 201 (job_type_json t), a1))))"

definition DeleteJobType :: "'s JobHandler \<Rightarrow> 's handler" where
  "DeleteJobType h now cx r a =
     (if \<not> hHasJobTypes h then (no_registry, a)
      else (case on_rdb (JobTypes_Delete (hRedis h) now (rPathValue r ''name'')) a of
              (Some e, a1) \<Rightarrow> (writeError 400 CodeInvalidArgument (err_msg e), a1) | (None, a1) \<Rightarrow> (no_content, a1)))"

section \<open>Clients\<close>

definition clientIP :: "Request \<Rightarrow> string" where
  "clientIP r =
     (let xff = rHeader r ''X-Forwarded-For''
      in if xff \<noteq> '''' then TrimSpace (takeWhile (\<lambda>c. c \<noteq> CHR '','') xff) else rRemoteHost r)"

definition tenant_required :: Response where
  "tenant_required = sendJSONError 400 ''BAD_REQUEST'' ''tenant_id is required''"

definition RegisterClient :: "'s JobHandler \<Rightarrow> env \<Rightarrow> 's handler" where
  "RegisterClient h en now cx r a =
     (let (ok, l) = LoginLimiter_Allow now (clientIP r) (apRegister a); a0 = a\<lparr>apRegister := l\<rparr> in
      if \<not> ok then (sendJSONError 429 ''TOO_MANY_REQUESTS'' ''registration rate limit exceeded'', a0)
      else (case decode_body (dec_obj (\<lambda>fs. dec_str fs ''tenant_id'')) r of
        Inl e \<Rightarrow> (sendJSONError 400 ''BAD_REQUEST'' ''invalid json payload'', a0)
      | Inr tenant \<Rightarrow>
          (if tenant = '''' then (tenant_required, a0)
           else (case eRnd1 en 32 of
             Inl e \<Rightarrow> (sendJSONError 500 ''INTERNAL_ERROR'' ''failed to generate key'', a0)
           | Inr bs \<Rightarrow>
               (let rawKey = ''tq_live_'' @ hex_encode bs in
                (case on_world (st_RegisterClient (svcStore (hService h)) now tenant (eSha en rawKey)) a0 of
                   (Some e, a1) \<Rightarrow> (sendJSONError 500 ''INTERNAL_ERROR'' ''failed to register client'', a1)
                 | (None, a1) \<Rightarrow>
                     (plain 201 (Some (JObj [(''tenant_id'', JStr tenant), (''api_key'', JStr rawKey),
                        (''message'', JStr ''Store this API key safely. It will not be shown again.'')])), a1)))))))"

definition GetClientInfo :: "'s handler" where
  "GetClientInfo now cx r a =
     (if \<not> IsClientTenant (TenantIDFromContext cx) then (sendJSONError 400 ''BAD_REQUEST'' ''not a client API key'', a)
      else (plain 200 (Some (JObj [(''tenant_id'', JStr (TenantIDFromContext cx))])), a))"

definition Handler_RevokeClient :: "'s JobHandler \<Rightarrow> 's handler" where
  "Handler_RevokeClient h now cx r a =
     (let tenantID = rPathValue r ''tenant_id'' in
      if tenantID = '''' then (tenant_required, a)
      else (case on_world (JobService_RevokeClient (hService h) now tenantID) a of
              (Some e, a1) \<Rightarrow> (sendJSONError 500 ''INTERNAL_ERROR'' ''failed to revoke client'', a1)
            | (None, a1) \<Rightarrow> (no_content, a1)))"

definition hex_source :: "rand_source \<Rightarrow> go_error + string" where
  "hex_source rnd = newToken rnd 32"

definition Handler_RotateClientKey :: "'s JobHandler \<Rightarrow> env \<Rightarrow> 's handler" where
  "Handler_RotateClientKey h en now cx r a =
     (let tenantID = rPathValue r ''tenant_id'' in
      if tenantID = '''' then (tenant_required, a)
      else (case on_world (JobService_RotateClientKey (hService h) (eSha en) (hex_source (eRnd1 en)) now tenantID) a of
              (Inl e, a1) \<Rightarrow> (sendJSONError 500 ''INTERNAL_ERROR'' ''failed to rotate key'', a1)
            | (Inr rawKey, a1) \<Rightarrow>
                (plain 200 (Some (JObj [(''tenant_id'', JStr tenantID), (''api_key'', JStr rawKey),
                   (''message'', JStr ''Store this new API key safely. The old key is now invalid.'')])), a1)))"

definition UpdateClientConfig :: "'s JobHandler \<Rightarrow> 's handler" where
  "UpdateClientConfig h now cx r a =
     (let tenantID = rPathValue r ''tenant_id'' in
      if tenantID = '''' then (tenant_required, a)
      else (case decode_body (dec_obj (\<lambda>fs. dec_int fs ''concurrency_limit'')) r of
        Inl e \<Rightarrow> (sendJSONError 400 ''BAD_REQUEST'' ''invalid json payload'', a)
      | Inr n \<Rightarrow>
          (case on_world (JobService_UpdateTenantConfig (hService h) now tenantID n) a of
             (Some e, a1) \<Rightarrow> (sendJSONError 500 ''INTERNAL_ERROR'' ''failed to update config'', a1)
           | (None, a1) \<Rightarrow> (no_content, a1))))"

definition ListClients :: "'s JobHandler \<Rightarrow> 's handler" where
  "ListClients h now cx r a =
     (case on_world (st_ListClients (svcStore (hService h)) now) a of
        (Inl e, a1) \<Rightarrow> (sendJSONError 500 ''INTERNAL_ERROR'' ''failed to fetch clients'', a1)
      | (Inr cs, a1) \<Rightarrow>
          (plain 200 (Some (JObj [(''clients'', JArr (map (\<lambda>c. JObj [(''tenant_id'', JStr (crTenantID c)),
             (''created_at'', JTime (crCreatedAt c))]) cs))])), a1))"

section \<open>Operator controls\<close>

definition GetPausedQueues :: "'s JobHandler \<Rightarrow> 's handler" where
  "GetPausedQueues h now cx r a =
     (case on_world (JobService_GetPausedJobTypes (hService h) now) a of
        (Inl e, a1) \<Rightarrow> (writeError 500 CodeInternal (err_msg e), a1)
      | (Inr ts, a1) \<Rightarrow> (plain 200 (Some (JObj [(''paused_queues'', jstrs ts)])), a1))"

definition queue_type_required :: Response where
  "queue_type_required = writeError 400 CodeInvalidArgument ''job type is required''"

definition PauseQueue :: "'s JobHandler \<Rightarrow> 's handler" where
  "PauseQueue h now cx r a =
     (let jobType = rPathValue r ''type'' in
      if jobType = '''' then (queue_type_required, a)
      else (case on_world (JobService_PauseJobType (hService h) now jobType) a of
              (Some e, a1) \<Rightarrow> (writeError 500 CodeInternal (err_msg e), a1)
            | (None, a1) \<Rightarrow> (plain 200 (Some (JObj [(''status'', JStr ''paused''), (''type'', JStr jobType)])), a1)))"

definition ResumeQueue :: "'s JobHandler \<Rightarrow> 's handler" where
  "ResumeQueue h now cx r a =
     (let jobType = rPathValue r ''type'' in
      if jobType = '''' then (queue_type_required, a)
      else (case on_world (JobService_ResumeJobType (hService h) now jobType) a of
              (Some e, a1) \<Rightarrow> (writeError 500 CodeInternal (err_msg e), a1)
            | (None, a1) \<Rightarrow> (plain 200 (Some (JObj [(''status'', JStr ''resumed''), (''type'', JStr jobType)])), a1)))"

definition path_unescaped :: "char \<Rightarrow> bool" where
  \<comment> \<open>the characters \<open>url.PathEscape\<close> keeps\<close>
  "path_unescaped c \<longleftrightarrow>
     (CHR ''0'' \<le> c \<and> c \<le> CHR ''9'') \<or> (CHR ''A'' \<le> c \<and> c \<le> CHR ''Z'') \<or> (CHR ''a'' \<le> c \<and> c \<le> CHR ''z'') \<or>
     c \<in> set ''-_.~$&+=:@''"

definition upper_hex :: "nat \<Rightarrow> char" where
  "upper_hex n = (if n < 10 then char_of (48 + n) else char_of (55 + n))"

definition PathEscape :: "string \<Rightarrow> string" where
  "PathEscape s = concat (map (\<lambda>c. if path_unescaped c then [c]
      else [CHR ''%'', upper_hex (of_char c div 16), upper_hex (of_char c mod 16)]) s)"

definition proxyWorker :: "'s JobHandler \<Rightarrow> env \<Rightarrow> Request \<Rightarrow> string \<Rightarrow> Response" where
  "proxyWorker h en r path =
     (case eWorker en (rMethod r) (''http://'' @ hWorkerAddr h @ path) (hApiKey h) of
        BadURL e \<Rightarrow> writeError 500 CodeInternal ''an unexpected error occurred''
      | Unreachable e \<Rightarrow> writeError 502 CodeInternal ''worker unreachable''
      | Answer status body \<Rightarrow> plain status (Some body))"

definition GetCircuitBreakers :: "'s JobHandler \<Rightarrow> env \<Rightarrow> 's handler" where
  "GetCircuitBreakers h en now cx r a = (proxyWorker h en r ''/circuit-breaker'', a)"

definition ResetCircuitBreaker :: "'s JobHandler \<Rightarrow> env \<Rightarrow> 's handler" where
  "ResetCircuitBreaker h en now cx r a =
     (let jobType = rPathValue r ''type'' in
      if jobType = '''' then (writeError 400 CodeInvalidArgument ''missing plugin type in path'', a)
      else (proxyWorker h en r (''/circuit-breaker/reset/'' @ PathEscape jobType),
            a\<lparr>apWorld := (apWorld a)\<lparr>wSse := Broker_Publish
                (zero_event\<lparr>evKind := ''circuit_breaker'', evType := jobType, evStatus := ''reset''\<rparr>) (wSse (apWorld a))\<rparr>\<rparr>))"

section \<open>Sessions\<close>

definition sessionCookie :: "string \<Rightarrow> time \<Rightarrow> Cookie" where
  \<comment> \<open>name, path and the three protection flags are constants of the source\<close>
  "sessionCookie i expires =
     (if i = '''' then \<lparr>ckValue = i, ckMaxAge = - 1, ckExpires = zero_time\<rparr>
      else \<lparr>ckValue = i, ckMaxAge = 0, ckExpires = expires\<rparr>)"

definition login_role :: "'s JobHandler \<Rightarrow> string \<Rightarrow> string \<Rightarrow> string option" where
  "login_role h username password =
     (if username = hAdminUsername h \<and> password = hAdminPassword h then Some RoleAdmin
      else if hReadonlyUsername h \<noteq> '''' \<and> username = hReadonlyUsername h \<and> password = hReadonlyPassword h
      then Some RoleViewer else None)"

definition session_fields :: "Session \<Rightarrow> fields" where
  "session_fields sess = [(''username'', JStr (seUsername sess)), (''role'', JStr (seRole sess)),
     (''csrf_token'', JStr (seCSRF sess)), (''expires_at'', seconds_json (seExpiresAt sess))]"

definition Login :: "'s JobHandler \<Rightarrow> env \<Rightarrow> 's handler" where
  "Login h en now cx r a =
     (let (ok, l) = LoginLimiter_Allow now (clientIP r) (apLogin a); a0 = a\<lparr>apLogin := l\<rparr> in
      if \<not> ok then (writeError 429 CodeTooManyRequests ''too many login attempts, try again later'', a0)
      else (case decode_body (dec_obj (\<lambda>fs. do { u \<leftarrow> dec_str fs ''username''; p \<leftarrow> dec_str fs ''password''; Some (u, p) })) r of
        Inl e \<Rightarrow> (writeError 400 CodeInvalidArgument ''invalid JSON body'', a0)
      | Inr (u, p) \<Rightarrow>
          (if u = '''' \<or> p = '''' then (writeError 400 CodeInvalidArgument ''username and password required'', a0)
           else (case login_role h u p of
             None \<Rightarrow> (writeError 401 CodeUnauthorized ''invalid credentials'', a0)
           | Some role \<Rightarrow>
               (case Session_Create (eRnd1 en) (eRnd2 en) now u role (apSessions a0) of
                  (Inl e, ss) \<Rightarrow> (writeError 500 CodeInternal ''an unexpected error occurred'', a0\<lparr>apSessions := ss\<rparr>)
                | (Inr sess, ss) \<Rightarrow>
                    (\<lparr>rsStatus = 200, rsBody = Some (JObj (session_fields sess)),
                      rsCookie = Some (sessionCookie (seID sess) (seExpiresAt sess))\<rparr>, a0\<lparr>apSessions := ss\<rparr>))))))"

definition Logout :: "'s handler" where
  "Logout now cx r a =
     (\<lparr>rsStatus = 204, rsBody = None, rsCookie = Some (sessionCookie '''' (now - Hour))\<rparr>,
      (case SessionFromContext cx of None \<Rightarrow> a | Some sess \<Rightarrow> a\<lparr>apSessions := Session_Delete (seID sess) (apSessions a)\<rparr>))"

definition GetSession :: "'s handler" where
  "GetSession now cx r a =
     (let anonymous = writeJSON 200 (JObj [(''authenticated'', JBool False)]) in
      (case rCookie r of
         None \<Rightarrow> (anonymous, a)
       | Some c \<Rightarrow>
           (case Session_Get now c (apSessions a) of
              (None, ss) \<Rightarrow> (anonymous, a\<lparr>apSessions := ss\<rparr>)
            | (Some sess, ss) \<Rightarrow>
                (writeJSON 200 (JObj ((''authenticated'', JBool True) # session_fields sess)), a\<lparr>apSessions := ss\<rparr>))))"

section \<open>The event stream\<close>

text \<open>
  \<^verbatim>\<open>JobEventsSSE\<close> subscribes a channel and loops over a \<^verbatim>\<open>select\<close>. One turn of the loop is one of: the client went away,
  the ticker fired (sessions only), a message arrived. A turn gives the text written, if any, and whether the loop goes on.
\<close>

datatype sse_turn = ClientGone | Tick | Incoming

record sse_stream =
  ssChannel :: nat
  ssFilter :: string
  ssSession :: "Session option"

definition json_event :: "json \<Rightarrow> Event option" where
  "json_event v = dec_obj (\<lambda>fs. do { k \<leftarrow> dec_str fs ''kind''; j \<leftarrow> dec_str fs ''job_id''; s \<leftarrow> dec_str fs ''status'';
     ty \<leftarrow> dec_str fs ''type''; t \<leftarrow> dec_str fs ''tenant_id''; e \<leftarrow> dec_str fs ''error''; p \<leftarrow> dec_float fs ''progress'';
     Some \<lparr>evKind = k, evJobID = j, evStatus = s, evType = ty, evTenant = t, evError = e, evProgress = p\<rparr> }) v"

definition sseEventMatchesTenant :: "json \<Rightarrow> string \<Rightarrow> bool" where
  "sseEventMatchesTenant msg tenantID =
     (case json_event msg of None \<Rightarrow> True | Some ev \<Rightarrow> evTenant ev \<noteq> '''' \<and> evTenant ev = tenantID)"

definition sse_open :: "AuthCtx \<Rightarrow> 's api \<Rightarrow> sse_stream \<times> 's api" where
  \<comment> \<open>what \<open>JobEventsSSE\<close> does before its loop\<close>
  "sse_open cx a =
     (let (ch, b) = Broker_Subscribe (wSse (apWorld a)) in
      (\<lparr>ssChannel = ch,
        ssFilter = (if AuthTypeFromContext cx = AuthTypeAPIKey then scope_tenant cx else ''''),
        ssSession = (if AuthTypeFromContext cx = AuthTypeSession then SessionFromContext cx else None)\<rparr>,
       a\<lparr>apWorld := (apWorld a)\<lparr>wSse := b\<rparr>\<rparr>))"

definition sse_close :: "sse_stream \<Rightarrow> 's api \<Rightarrow> 's api" where
  "sse_close st a = a\<lparr>apWorld := (apWorld a)\<lparr>wSse := Broker_Unsubscribe (ssChannel st) (wSse (apWorld a))\<rparr>\<rparr>"

fun sse_loop :: "time \<Rightarrow> sse_turn \<Rightarrow> sse_stream \<Rightarrow> 's api \<Rightarrow> json option \<times> bool \<times> 's api" where
  "sse_loop now ClientGone st a = (None, False, sse_close st a)"
| "sse_loop now Tick st a =
     (case ssSession st of
        None \<Rightarrow> (None, True, a)
      | Some sess \<Rightarrow>
          (case Session_Get now (seID sess) (apSessions a) of
             (None, ss) \<Rightarrow> (Some (JObj [(''error'', JStr ''session expired'')]), False, sse_close st (a\<lparr>apSessions := ss\<rparr>))
           | (Some _, ss) \<Rightarrow> (None, True, a\<lparr>apSessions := ss\<rparr>)))"
| "sse_loop now Incoming st a =
     (let (msg, b) = Broker_Receive (ssChannel st) (wSse (apWorld a)); a1 = a\<lparr>apWorld := (apWorld a)\<lparr>wSse := b\<rparr>\<rparr> in
      (case msg of
         None \<Rightarrow> (None, True, a1)
       | Some m \<Rightarrow>
           (if ssFilter st \<noteq> '''' \<and> \<not> sseEventMatchesTenant m (ssFilter st) then (None, True, a1) else (Some m, True, a1))))"

end
