(* ===== verification/Config.thy ===== *)
theory Config
  imports Go_Errors
begin

text \<open>
  \<^verbatim>\<open>internal/config/config.go\<close>: the configuration read from the environment. \<open>env\<close> is \<^verbatim>\<open>os.Getenv\<close> (the empty string for
  an unset variable); \<open>pf\<close> is \<^verbatim>\<open>strconv.ParseFloat\<close>, a float being a rational.
\<close>

record Config =
  ServerPort :: string
  RedisHost :: string
  RedisPassword :: string
  RedisDB :: int
  ApiKey :: string
  AdminUsername :: string
  AdminPassword :: string
  ReadonlyUsername :: string
  ReadonlyPassword :: string
  SessionTTLSeconds :: int
  LoginRateLimit :: int
  WorkerAddr :: string
  JobRateLimit :: rat
  LogLevel :: string
  MaxQueueSize :: int
  StoreBackend :: string
  PostgresConnStr :: string
  DrainTimeoutSeconds :: int
  WorkerPoolSize :: int
  WorkerPort :: string
  SchedulerPort :: string
  TenantRateLimit :: int
  SLATargetSeconds :: int
  OTELExporterOTLPEndpoint :: string
  RegisterRateLimit :: int
  ArchiveAgeDays :: int

definition getEnvOrDefault :: "(string \<Rightarrow> string) \<Rightarrow> string \<Rightarrow> string \<Rightarrow> string" where
  "getEnvOrDefault env key defaultVal = (if env key \<noteq> '''' then env key else defaultVal)"

definition getEnvAsInt :: "(string \<Rightarrow> string) \<Rightarrow> string \<Rightarrow> int \<Rightarrow> int" where
  "getEnvAsInt env key defaultVal =
     (if env key = '''' then defaultVal else (case ParseInt (env key) of Some v \<Rightarrow> v | None \<Rightarrow> defaultVal))"

definition getEnvAsFloat :: "(string \<Rightarrow> rat option) \<Rightarrow> (string \<Rightarrow> string) \<Rightarrow> string \<Rightarrow> rat \<Rightarrow> rat" where
  "getEnvAsFloat pf env key defaultVal =
     (if env key = '''' then defaultVal else (case pf (env key) of Some v \<Rightarrow> v | None \<Rightarrow> defaultVal))"

definition getEnvAsInt64 :: "(string \<Rightarrow> string) \<Rightarrow> string \<Rightarrow> int \<Rightarrow> int" where
  "getEnvAsInt64 env key defaultVal =
     (if env key = '''' then defaultVal else (case ParseInt (env key) of Some v \<Rightarrow> v | None \<Rightarrow> defaultVal))"

definition Load :: "(string \<Rightarrow> rat option) \<Rightarrow> (string \<Rightarrow> string) \<Rightarrow> Config" where
  "Load pf env = \<lparr>
     ServerPort = getEnvOrDefault env ''PORT'' ''8080'',
     RedisHost = getEnvOrDefault env ''REDIS_HOST'' ''localhost:6379'',
     RedisPassword = getEnvOrDefault env ''REDIS_PASSWORD'' '''',
     RedisDB = getEnvAsInt env ''REDIS_DB'' 0,
     ApiKey = getEnvOrDefault env ''API_KEY'' ''secret-api-key'',
     AdminUsername = getEnvOrDefault env ''ADMIN_USERNAME'' ''admin'',
     AdminPassword = getEnvOrDefault env ''ADMIN_PASSWORD'' ''admin123'',
     ReadonlyUsername = getEnvOrDefault env ''READONLY_USERNAME'' '''',
     ReadonlyPassword = getEnvOrDefault env ''READONLY_PASSWORD'' '''',
     SessionTTLSeconds = getEnvAsInt env ''SESSION_TTL_SECONDS'' 28800,
     LoginRateLimit = getEnvAsInt env ''LOGIN_RATE_LIMIT'' 5,
     WorkerAddr = getEnvOrDefault env ''WORKER_ADDR'' ''localhost:8081'',
     JobRateLimit = getEnvAsFloat pf env ''JOB_RATE_LIMIT'' 0,
     LogLevel = getEnvOrDefault env ''LOG_LEVEL'' ''info'',
     MaxQueueSize = getEnvAsInt64 env ''MAX_QUEUE_SIZE'' 10000,
     StoreBackend = getEnvOrDefault env ''STORE_BACKEND'' ''redis'',
     PostgresConnStr = getEnvOrDefault env ''POSTGRES_CONN_STR'' '''',
     DrainTimeoutSeconds = getEnvAsInt env ''DRAIN_TIMEOUT'' 60,
     WorkerPoolSize = getEnvAsInt env ''WORKER_POOL_SIZE'' 50,
     WorkerPort = getEnvOrDefault env ''WORKER_PORT'' ''8081'',
     SchedulerPort = getEnvOrDefault env ''SCHEDULER_PORT'' ''8082'',
     TenantRateLimit = getEnvAsInt64 env ''TENANT_RATE_LIMIT'' 0,
     SLATargetSeconds = getEnvAsInt env ''SLA_TARGET_SECONDS'' 5,
     OTELExporterOTLPEndpoint = getEnvOrDefault env ''OTEL_EXPORTER_OTLP_ENDPOINT'' '''',
     RegisterRateLimit = getEnvAsInt env ''REGISTER_RATE_LIMIT'' 10,
     ArchiveAgeDays = getEnvAsInt env ''ARCHIVE_AGE_DAYS'' 7\<rparr>"

definition Config_Validate :: "Config \<Rightarrow> go_error option" where
  "Config_Validate c =
     (if RedisHost c = '''' then Some (Errorf ''REDIS_HOST is required'')
      else if ServerPort c = '''' then Some (Errorf ''PORT is required'')
      else if ApiKey c = '''' then Some (Errorf ''API_KEY is required'')
      else if StoreBackend c \<notin> {''redis'', ''postgres'', ''dual''}
      then Some (Errorf (''STORE_BACKEND must be one of: redis, postgres, dual (got '' @ quoted (StoreBackend c) @ '')''))
      else if (StoreBackend c = ''postgres'' \<or> StoreBackend c = ''dual'') \<and> PostgresConnStr c = ''''
      then Some (Errorf (''POSTGRES_CONN_STR is required when STORE_BACKEND is '' @ StoreBackend c))
      else if LogLevel c \<notin> {''info'', ''error'', ''debug''}
      then Some (Errorf (''LOG_LEVEL must be one of: info, error, debug (got '' @ quoted (LogLevel c) @ '')''))
      else None)"

section \<open>Lemmas\<close>

lemma getEnvAsInt_default: "ParseInt (env key) = None \<Longrightarrow> getEnvAsInt env key d = d"
  by (simp add: getEnvAsInt_def)

lemma getEnvAsInt_range:
  "- (2 ^ 63) \<le> d \<Longrightarrow> d < 2 ^ 63 \<Longrightarrow> - (2 ^ 63) \<le> getEnvAsInt env key d \<and> getEnvAsInt env key d < 2 ^ 63"
  by (auto simp: getEnvAsInt_def ParseInt_def split: option.splits if_splits)

lemma Load_required: "RedisHost (Load pf env) \<noteq> ''''" "ServerPort (Load pf env) \<noteq> ''''" "ApiKey (Load pf env) \<noteq> ''''"
  by (simp_all add: Load_def getEnvOrDefault_def)

lemma Load_Validate:
  "Config_Validate (Load pf env) = None \<longleftrightarrow>
     StoreBackend (Load pf env) \<in> {''redis'', ''postgres'', ''dual''} \<and>
     (StoreBackend (Load pf env) \<in> {''postgres'', ''dual''} \<longrightarrow> env ''POSTGRES_CONN_STR'' \<noteq> '''') \<and>
     LogLevel (Load pf env) \<in> {''info'', ''error'', ''debug''}"
proof -
  have conn: "PostgresConnStr (Load pf env) = env ''POSTGRES_CONN_STR''"
    by (simp add: Load_def getEnvOrDefault_def)
  show ?thesis unfolding Config_Validate_def conn by (auto simp: Load_required)
qed

end
