(* ===== verification/Routes.thy ===== *)
theory Routes
  imports Handler Config
begin

text \<open>
  \<^verbatim>\<open>internal/api/routes/routes.go\<close>: the wiring of the API process and its route table. A pattern of \<^verbatim>\<open>http.ServeMux\<close> is a
  method with a list of segments, each literal or a wildcard; the pattern \<^verbatim>\<open>GET /\<close> and \<^verbatim>\<open>GET /swagger/\<close> match every
  path below them. No two other patterns of the table overlap, so the first match is the most
  specific one. Paths are assumed clean, and not \<^verbatim>\<open>/swagger\<close> (the mux redirects those). Static pages, the Prometheus
  endpoint and Swagger are the parameter \<open>pages\<close>, from the name of the page to its response; the request logger is left out.
\<close>

section \<open>Patterns\<close>

datatype segment = Lit string | Wild string

fun match_segments :: "segment list \<Rightarrow> string list \<Rightarrow> (string \<times> string) list option" where
  \<comment> \<open>the bindings of the wildcards; a wildcard needs a non-empty segment\<close>
  "match_segments [] [] = Some []"
| "match_segments (Lit l # ps) (s # ss) = (if l = s then match_segments ps ss else None)"
| "match_segments (Wild n # ps) (s # ss) = (if s \<noteq> '''' then map_option ((#) (n, s)) (match_segments ps ss) else None)"
| "match_segments _ _ = None"

fun split_on :: "char \<Rightarrow> string \<Rightarrow> string list" where
  \<comment> \<open>\<open>strings.Split\<close> by one character\<close>
  "split_on d [] = ['''']"
| "split_on d (c # cs) =
     (if c = d then '''' # split_on d cs
      else (case split_on d cs of [] \<Rightarrow> [[c]] | s # ss \<Rightarrow> (c # s) # ss))"

definition path_segments :: "string \<Rightarrow> string list" where
  "path_segments path = tl (split_on (CHR ''/'') path)"

datatype access = Public | Read | Write | Csrf

record 's route =
  rtMethod :: string
  rtPattern :: "segment list"
  rtBelow :: bool
  rtAccess :: access
  rtHandler :: "'s handler"

definition method_matches :: "string \<Rightarrow> string \<Rightarrow> bool" where
  \<comment> \<open>a pattern for GET also matches HEAD\<close>
  "method_matches pm m \<longleftrightarrow> pm = m \<or> (pm = ''GET'' \<and> m = ''HEAD'')"

definition match_path :: "'s route \<Rightarrow> string \<Rightarrow> (string \<times> string) list option" where
  "match_path rt path =
     (let ss = path_segments path in
      if rtBelow rt then (if length (rtPattern rt) < length ss then match_segments (rtPattern rt) (take (length (rtPattern rt)) ss) else None)
      else match_segments (rtPattern rt) ss)"

fun find_route :: "'s route list \<Rightarrow> Request \<Rightarrow> ('s route \<times> (string \<times> string) list) option" where
  "find_route [] r = None"
| "find_route (rt # rts) r =
     (if method_matches (rtMethod rt) (rMethod r)
      then (case match_path rt (rPath r) of Some b \<Rightarrow> Some (rt, b) | None \<Rightarrow> find_route rts r)
      else find_route rts r)"

section \<open>Wiring\<close>

record 's api_config =
  acHandler :: "'s JobHandler"
  acApiKey :: string
  acHasWebhooks :: bool

definition NewRouter ::
    "RedisQueue \<Rightarrow> 's world Store \<Rightarrow> (string \<Rightarrow> (time \<Rightarrow> time) option) \<Rightarrow> (json \<Rightarrow> string) \<Rightarrow> Config \<Rightarrow> bool \<Rightarrow> bool \<Rightarrow> 's api_config" where
  \<comment> \<open>the two flags: whether a webhook store and a job type store are given\<close>
  "NewRouter q store cron fmt cfg hasWebhooks hasJobTypes =
     (let svc0 = JobService_New q store (MaxQueueSize cfg) cron fmt;
          svc1 = (if hasWebhooks then SetWebhookStore svc0 else svc0);
          svc2 = (if hasJobTypes then SetJobTypeStore svc1 else svc1);
          svc3 = SetSSEBroker svc2;
          h0 = JobHandler_New svc3 (ApiKey cfg) (AdminUsername cfg) (AdminPassword cfg) (WorkerAddr cfg);
          h1 = SetReadonlyCredentials (ReadonlyUsername cfg) (ReadonlyPassword cfg) h0;
          h2 = (if hasJobTypes then JobHandler_SetJobTypeStore h1 else h1)
      in \<lparr>acHandler = h2, acApiKey = ApiKey cfg, acHasWebhooks = hasWebhooks\<rparr>)"

definition router_state :: "Config \<Rightarrow> 's world \<Rightarrow> 's api" where
  "router_state cfg w =
     new_api (NewStore (SessionTTLSeconds cfg * Second)) (LoginRateLimit cfg) (RegisterRateLimit cfg) w"

section \<open>The table\<close>

definition route_for :: "access \<Rightarrow> string \<Rightarrow> segment list \<Rightarrow> 's handler \<Rightarrow> 's route" where
  "route_for acc m segs fn = \<lparr>rtMethod = m, rtPattern = segs, rtBelow = False, rtAccess = acc, rtHandler = fn\<rparr>"

abbreviation v1 :: "segment list \<Rightarrow> segment list" where "v1 ss \<equiv> Lit ''api'' # Lit ''v1'' # ss"

definition page_handler :: "(string \<Rightarrow> Response) \<Rightarrow> string \<Rightarrow> 's handler" where
  "page_handler pages name now cx r a = (pages name, a)"

definition JobEventsSSE :: "'s handler" where
  \<comment> \<open>the part of the stream handler before its loop; the first bytes are a comment line\<close>
  "JobEventsSSE now cx r a = (plain 200 (Some (JStr '': keepalive'')), snd (sse_open cx a))"

definition public_routes :: "'s JobHandler \<Rightarrow> env \<Rightarrow> 's route list" where
  "public_routes h en = [
     route_for Public ''POST'' (v1 [Lit ''login'']) (Login h en),
     route_for Public ''GET'' (v1 [Lit ''session'']) GetSession,
     route_for Public ''POST'' (v1 [Lit ''register'']) (RegisterClient h en)]"

definition page_routes :: "(string \<Rightarrow> Response) \<Rightarrow> 's route list" where
  "page_routes pages = [
     route_for Public ''GET'' [Lit ''features''] (page_handler pages ''features''),
     route_for Public ''GET'' [Lit ''docs''] (page_handler pages ''docs''),
     route_for Public ''GET'' [Lit ''docs'', Lit ''sdk''] (page_handler pages ''sdk''),
     route_for Public ''GET'' [Lit ''ui''] (page_handler pages ''ui''),
     route_for Public ''GET'' [Lit ''login''] (page_handler pages ''login''),
     route_for Public ''GET'' [Lit ''metrics''] (page_handler pages ''metrics''),
     route_for Public ''GET'' [Lit ''admin'', Lit ''dlq''] (page_handler pages ''admin''),
     route_for Public ''GET'' [Lit ''client'', Lit ''register''] (page_handler pages ''client_register''),
     route_for Public ''GET'' [Lit ''client'', Lit ''login''] (page_handler pages ''client_login''),
     route_for Public ''GET'' [Lit ''client'', Lit ''dashboard''] (page_handler pages ''client_dashboard'')]"

definition read_routes :: "'s JobHandler \<Rightarrow> env \<Rightarrow> 's route list" where
  "read_routes h en = [
     route_for Read ''GET'' [Lit ''jobs''] (ListJobs h),
     route_for Read ''GET'' [Lit ''jobs'', Wild ''id''] (Handler_GetJobStatus h),
     route_for Read ''GET'' (v1 [Lit ''jobs'', Wild ''id'']) (Handler_GetJobStatus h),
     route_for Read ''GET'' (v1 [Lit ''jobs'', Wild ''id'', Lit ''deps'']) (GetJobDeps h),
     route_for Read ''GET'' (v1 [Lit ''stats'']) (GetStats h),
     route_for Read ''GET'' [Lit ''workers''] (GetWorkers h),
     route_for Read ''GET'' [Lit ''events''] JobEventsSSE,
     route_for Read ''GET'' (v1 [Lit ''events'']) JobEventsSSE,
     route_for Read ''GET'' (v1 [Lit ''dlq'']) (ListFailedJobs h),
     route_for Read ''GET'' (v1 [Lit ''dlq'', Wild ''id'']) (GetFailedJobDetail h),
     route_for Read ''GET'' (v1 [Lit ''circuit-breakers'']) (GetCircuitBreakers h en),
     route_for Read ''GET'' (v1 [Lit ''rate-limits'']) (GetRateLimits h),
     route_for Read ''GET'' (v1 [Lit ''clients'']) (ListClients h),
     route_for Read ''GET'' (v1 [Lit ''client'', Lit ''me'']) GetClientInfo,
     route_for Read ''GET'' (v1 [Lit ''job-types'']) (ListJobTypes h),
     route_for Read ''GET'' (v1 [Lit ''operator'', Lit ''paused-queues'']) (GetPausedQueues h)]"

definition write_routes :: "'s JobHandler \<Rightarrow> env \<Rightarrow> 's route list" where
  "write_routes h en = [
     route_for Write ''POST'' [Lit ''jobs''] (CreateJob h en),
     route_for Write ''POST'' [Lit ''jobs'', Lit ''batch''] (CreateJobBatch h en),
     route_for Write ''PATCH'' [Lit ''jobs'', Wild ''id'', Lit ''progress''] (UpdateJobProgress h),
     route_for Write ''POST'' [Lit ''jobs'', Wild ''id'', Lit ''cancel''] (CancelJob h),
     route_for Write ''POST'' [Lit ''jobs'', Wild ''id'', Lit ''pause''] (PauseJob h),
     route_for Write ''POST'' [Lit ''jobs'', Wild ''id'', Lit ''resume''] (ResumeJob h),
     route_for Write ''POST'' (v1 [Lit ''dlq'', Wild ''id'', Lit ''replay'']) (ReplayFailedJob h en),
     route_for Write ''DELETE'' (v1 [Lit ''dlq'', Wild ''id'']) (DeleteFailedJob h),
     route_for Write ''DELETE'' (v1 [Lit ''dlq'']) (BulkPurgeDLQ h),
     route_for Write ''POST'' (v1 [Lit ''circuit-breakers'', Lit ''reset'', Wild ''type'']) (ResetCircuitBreaker h en),
     route_for Write ''POST'' (v1 [Lit ''job-types'']) (CreateJobType h en),
     route_for Write ''DELETE'' (v1 [Lit ''job-types'', Wild ''name'']) (DeleteJobType h),
     route_for Write ''DELETE'' (v1 [Lit ''clients'', Wild ''tenant_id'']) (Handler_RevokeClient h),
     route_for Write ''POST'' (v1 [Lit ''clients'', Wild ''tenant_id'', Lit ''rotate'']) (Handler_RotateClientKey h en),
     route_for Write ''PUT'' (v1 [Lit ''clients'', Wild ''tenant_id'', Lit ''config'']) (UpdateClientConfig h),
     route_for Write ''POST'' (v1 [Lit ''operator'', Lit ''queue'', Wild ''type'', Lit ''pause'']) (PauseQueue h),
     route_for Write ''POST'' (v1 [Lit ''operator'', Lit ''queue'', Wild ''type'', Lit ''resume'']) (ResumeQueue h),
     route_for Csrf ''POST'' (v1 [Lit ''logout'']) Logout]"

definition webhook_routes :: "'s JobHandler \<Rightarrow> env \<Rightarrow> 's route list" where
  "webhook_routes h en = [
     route_for Read ''GET'' (v1 [Lit ''webhooks'']) (ListWebhooks h),
     route_for Read ''GET'' (v1 [Lit ''webhooks'', Wild ''id'']) (GetWebhook h),
     route_for Read ''GET'' (v1 [Lit ''webhooks'', Wild ''id'', Lit ''deliveries'']) (GetWebhookDeliveries h),
     route_for Write ''POST'' (v1 [Lit ''webhooks'']) (RegisterWebhook h en),
     route_for Write ''PUT'' (v1 [Lit ''webhooks'', Wild ''id'']) (UpdateWebhook h),
     route_for Write ''DELETE'' (v1 [Lit ''webhooks'', Wild ''id'']) (DeleteWebhook h)]"

definition catch_all :: "(string \<Rightarrow> Response) \<Rightarrow> 's route list" where
  "catch_all pages = [
     \<lparr>rtMethod = ''GET'', rtPattern = [Lit ''swagger''], rtBelow = True, rtAccess = Public, rtHandler = page_handler pages ''swagger''\<rparr>,
     \<lparr>rtMethod = ''GET'', rtPattern = [], rtBelow = True, rtAccess = Public, rtHandler = page_handler pages ''landing''\<rparr>]"

definition route_table :: "(string \<Rightarrow> Response) \<Rightarrow> 's api_config \<Rightarrow> env \<Rightarrow> 's route list" where
  "route_table pages ac en =
     (let h = acHandler ac in
      public_routes h en @ page_routes pages @ read_routes h en @ write_routes h en @
      (if acHasWebhooks ac then webhook_routes h en else []) @ catch_all pages)"

fun guarded :: "string \<Rightarrow> (string \<Rightarrow> string) \<Rightarrow> 's world Store \<Rightarrow> access \<Rightarrow> 's handler \<Rightarrow> 's handler" where
  "guarded apiKey sha store Public fn = fn"
| "guarded apiKey sha store Read fn = read_route apiKey sha store fn"
| "guarded apiKey sha store Write fn = write_route apiKey sha store fn"
| "guarded apiKey sha store Csrf fn = RequireAuth apiKey sha store (CSRFProtect fn)"

definition method_not_allowed :: Response where
  "method_not_allowed = plain 405 None"

definition ServeHTTP :: "(string \<Rightarrow> Response) \<Rightarrow> 's api_config \<Rightarrow> env \<Rightarrow> time \<Rightarrow> Request \<Rightarrow> 's api \<Rightarrow> Response \<times> 's api" where
  \<comment> \<open>every path matches \<open>GET /\<close>, so a request without a match has the wrong method\<close>
  "ServeHTTP pages ac en now r a =
     (case find_route (route_table pages ac en) r of
        None \<Rightarrow> (method_not_allowed, a)
      | Some (rt, b) \<Rightarrow>
          guarded (acApiKey ac) (eSha en) (svcStore (hService (acHandler ac))) (rtAccess rt) (rtHandler rt) now no_auth
            (r\<lparr>rPathValue := (\<lambda>k. case map_of b k of None \<Rightarrow> '''' | Some v \<Rightarrow> v)\<rparr>) a)"

end
