(* ===== verification/Api_Props.thy ===== *)
theory Api_Props
  imports Routes Service_Props
begin

text \<open>
  Properties of the API process: what its guards let through, how long a verified key is trusted, what a client may
  see and change of another tenant's jobs, and how requests are answered.
\<close>

section \<open>The route table\<close>

lemma find_route_in:
  "find_route rts r = Some (rt, b) \<Longrightarrow>
   rt \<in> set rts \<and> method_matches (rtMethod rt) (rMethod r) \<and> match_path rt (rPath r) = Some b"
  by (induction rts) (auto split: if_splits option.splits)

lemmas route_defs = route_table_def public_routes_def page_routes_def read_routes_def write_routes_def
  webhook_routes_def catch_all_def route_for_def

lemma table_Read: "rt \<in> set (route_table pages ac en) \<Longrightarrow> rtAccess rt = Read \<Longrightarrow> rtMethod rt = ''GET''"
  by (auto simp: route_defs Let_def split: if_splits)

lemma table_Csrf: "rt \<in> set (route_table pages ac en) \<Longrightarrow> rtAccess rt = Csrf \<Longrightarrow> rtHandler rt = Logout"
  by (auto simp: route_defs Let_def split: if_splits)

lemma table_Public:
  "rt \<in> set (route_table pages ac en) \<Longrightarrow> rtAccess rt = Public \<Longrightarrow> rtMethod rt \<noteq> ''GET'' \<Longrightarrow>
   rtBelow rt = False \<and> (rtHandler rt = Login (acHandler ac) en \<or> rtPattern rt = v1 [Lit ''register''])"
  by (auto simp: route_defs Let_def split: if_splits)

lemma match_literals: "match_segments (map Lit ls) ss = Some b \<Longrightarrow> ss = ls"
proof (induction ls arbitrary: ss b)
  case (Cons l ls)
  then show ?case by (cases ss) (auto split: if_splits)
qed (case_tac ss, auto)

lemma Login_world: "apWorld (snd (Login h en now cx r a)) = apWorld a"
  by (auto simp: Login_def Let_def split: prod.splits sum.splits option.splits)

lemma Logout_world: "apWorld (snd (Logout now cx r a)) = apWorld a"
  by (simp add: Logout_def split: option.split)

lemma query_path_value [simp]: "query_text (r\<lparr>rPathValue := f\<rparr>) k = query_text r k"
  by (simp add: query_text_def)

lemma raw_key_path_value [simp]: "raw_key (r\<lparr>rPathValue := f\<rparr>) = raw_key r"
  by (simp add: raw_key_def Let_def)

lemma credential_path_value [simp]:
  "credential apiKey sha store now (r\<lparr>rPathValue := f\<rparr>) a cx = credential apiKey sha store now r a cx"
  by (simp add: credential_def presents_session_def)

lemma stateChanging_not_GET: "stateChanging m \<Longrightarrow> method_matches pm m \<Longrightarrow> pm = m \<and> pm \<noteq> ''GET''"
  by (auto simp: stateChanging_def method_matches_def)

text \<open>
  C15. The only way to change the jobs, the queue, the registries or the event broker through a mutating
  request without an administrator's credential is to register a client: for every other path, whenever a request of method
  POST, PUT, PATCH or DELETE changes the world (beyond what the store's key lookup does), it presented the
  operator key, a verified client key, or the cookie of a live session of role admin with
  that session's CSRF token.
\<close>

theorem mutations_need_credential:
  assumes m: "stateChanging (rMethod r)" and p: "path_segments (rPath r) \<noteq> [''api'', ''v1'', ''register'']"
    and chg: "apWorld (snd (ServeHTTP pages ac en now r a)) \<notin>
      {apWorld a, snd (st_VerifyClient (svcStore (hService (acHandler ac))) now (eSha en (raw_key r)) (apWorld a))}"
  shows "\<exists>cx. credential (acApiKey ac) (eSha en) (svcStore (hService (acHandler ac))) now r a cx \<and>
           RoleFromContext cx = RoleAdmin \<and>
           (\<forall>sess. SessionFromContext cx = Some sess \<longrightarrow> rHeader r ''X-CSRF-Token'' = seCSRF sess)"
proof (cases "find_route (route_table pages ac en) r")
  case None
  then show ?thesis using chg by (simp add: ServeHTTP_def)
next
  case (Some x)
  obtain rt b where x: "x = (rt, b)" by (cases x)
  note f = find_route_in [OF Some [unfolded x]]
  have ng: "rtMethod rt \<noteq> ''GET''" using stateChanging_not_GET m f by blast
  let ?store = "svcStore (hService (acHandler ac))"
  let ?r = "r\<lparr>rPathValue := (\<lambda>k. case map_of b k of None \<Rightarrow> '''' | Some v \<Rightarrow> v)\<rparr>"
  have run: "ServeHTTP pages ac en now r a =
      guarded (acApiKey ac) (eSha en) ?store (rtAccess rt) (rtHandler rt) now no_auth ?r a"
    by (simp add: ServeHTTP_def Some x)
  show ?thesis
  proof (cases "rtAccess rt")
    case Public
    from table_Public [OF _ Public ng] f have "\<not> rtBelow rt" and
      t: "rtHandler rt = Login (acHandler ac) en \<or> rtPattern rt = v1 [Lit ''register'']" by auto
    moreover have "rtPattern rt \<noteq> v1 [Lit ''register'']"
      using f p \<open>\<not> rtBelow rt\<close> match_literals [of "[''api'', ''v1'', ''register'']" "path_segments (rPath r)" b]
      by (auto simp: match_path_def)
    ultimately show ?thesis using chg by (auto simp: run Public Login_world)
  next
    case Read
    then show ?thesis using table_Read f ng by blast
  next
    case Csrf
    then have "rtHandler rt = Logout" using table_Csrf f by blast
    then show ?thesis using chg authenticate_frame [of "acApiKey ac" "eSha en" ?store now ?r a]
      by (cases "authenticate (acApiKey ac) (eSha en) ?store now ?r a")
         (auto simp: run Csrf RequireAuth_def CSRFProtect_def Logout_world split: sum.splits if_splits)
  next
    case Write
    have "stateChanging (rMethod ?r)" using m by simp
    from write_route_cases [OF this, of "acApiKey ac" "eSha en" ?store "rtHandler rt" now no_auth a]
    show ?thesis using chg unfolding run Write by auto
  qed
qed

section \<open>A concrete API process\<close>

definition sample_config :: "InMemoryStore api_config" where
  "sample_config = \<lparr>acHandler = JobHandler_New (mem_service '''' 0 0) ''opkey'' ''admin'' ''pw'' ''localhost:8081'',
     acApiKey = ''opkey'', acHasWebhooks = True\<rparr>"

definition sample_env :: env where
  "sample_env = \<lparr>eUuid1 = ''u-1'', eUuid2 = ''id-1'', eUuids = (\<lambda>i. ''id-'' @ itoa (int i)), eTrace = ''tr'',
     eRnd1 = (\<lambda>n. Inr (replicate n 1)), eRnd2 = (\<lambda>n. Inr (replicate n 2)), eSha = (\<lambda>k. k),
     eWorker = (\<lambda>_ _ _. Unreachable (Errorf ''down''))\<rparr>"

definition sample_state :: "InMemoryStore api" where
  "sample_state = new_api (NewStore Hour) 5 10 empty_world"

definition sample_http :: "string \<Rightarrow> string \<Rightarrow> string \<Rightarrow> Request" where
  "sample_http m path key = \<lparr>rMethod = m, rPath = path, rHeader = (\<lambda>k. if k = ''X-API-Key'' then key else ''''),
     rQuery = (\<lambda>_. JStr ''''), rPathValue = (\<lambda>_. ''''), rCookie = None, rRemoteHost = ''10.0.0.1'', rBody = Inr (JObj [])\<rparr>"

lemma sample_parts [simp]:
  "hService (acHandler sample_config) = mem_service '''' 0 0" "acApiKey sample_config = ''opkey''"
  "apWorld sample_state = empty_world" "apCache sample_state = []"
  by (simp_all add: sample_config_def JobHandler_New_def sample_state_def new_api_def newAPIKeyCache_def empty_world_def)

lemma mem_Verify:
  "st_VerifyClient mem_world now h w = (fst (InMemoryStore_VerifyClient h (wStore w)), w)"
  by (simp add: mem_world_def lift_store_def lift_op_def mem_store_def InMemoryStore_VerifyClient_def split: option.split)

theorem mutations_need_credential_witness:
  "let r = sample_http ''POST'' ''/api/v1/operator/queue/email/pause'' ''opkey'' in
   apWorld (snd (ServeHTTP (\<lambda>_. plain 200 None) sample_config sample_env 7 r sample_state)) \<noteq> empty_world \<and>
   (\<exists>cx. credential ''opkey'' (eSha sample_env) mem_world 7 r sample_state cx \<and> RoleFromContext cx = RoleAdmin)"
proof -
  let ?r = "sample_http ''POST'' ''/api/v1/operator/queue/email/pause'' ''opkey''"
  let ?w = "apWorld (snd (ServeHTTP (\<lambda>_. plain 200 None) sample_config sample_env 7 ?r sample_state))"
  have segs: "path_segments (rPath ?r) = [''api'', ''v1'', ''operator'', ''queue'', ''email'', ''pause'']"
    by (simp add: path_segments_def sample_http_def)
  have find: "find_route (route_table (\<lambda>_. plain 200 None) sample_config sample_env) ?r =
      Some (route_for Write ''POST'' (v1 [Lit ''operator'', Lit ''queue'', Wild ''type'', Lit ''pause'']) (PauseQueue (acHandler sample_config)),
            [(''type'', ''email'')])"
    using segs by (simp add: route_defs Let_def match_path_def method_matches_def sample_http_def)
  have "rSets (wDb ?w) pausedTypesKey = [''email'']"
    unfolding ServeHTTP_def find option.case prod.case
    by (simp add: route_for_def write_route_def RequireAuth_def authenticate_def raw_key_def
        sample_http_def key_ctx_def CSRFProtect_def RequireRole_def PauseQueue_def Let_def on_world_def
        JobService_PauseJobType_def on_db_def RedisQueue_PauseJobType_def rr.rcall_err_up empty_world_def empty_rdb_def)
  then have chg: "?w \<noteq> empty_world" by (auto simp: empty_world_def empty_rdb_def)
  have "stateChanging (rMethod ?r)" by (simp add: stateChanging_def sample_http_def)
  moreover have "path_segments (rPath ?r) \<noteq> [''api'', ''v1'', ''register'']" by (simp add: segs)
  ultimately show ?thesis
    using mutations_need_credential [of ?r "\<lambda>_. plain 200 None" sample_config sample_env 7 sample_state] chg
    by (auto simp: mem_Verify)
qed

section \<open>How long a key is trusted\<close>

lemma authenticate_key:
  assumes "raw_key r \<noteq> ''''" and "raw_key r \<noteq> apiKey"
  shows "authenticate apiKey sha store now r a =
     (case key_tenant store now (sha (raw_key r)) a of
        (None, a1) \<Rightarrow> (Inl (sendJSONError 401 ''UNAUTHORIZED'' ''invalid API key''), a1)
      | (Some t, a1) \<Rightarrow> (Inr (key_ctx t), a1))"
  using assms by (simp add: authenticate_def)

lemma key_ctx_inject [simp]: "key_ctx t = key_ctx u \<longleftrightarrow> t = u"
  by (auto simp: key_ctx_def)

text \<open>
  C29. The cache of verified keys is never staler than a minute: after any sequence of key checks and any
  changes of the store between them, starting from an empty cache, a client key is accepted as a tenant only if the
  store confirms that tenant now, or itself confirmed it for the same digest at a check
  at most 60 seconds ago.
\<close>

theorem key_trust_bounded:
  assumes "raw_key r \<noteq> ''''" and "raw_key r \<noteq> apiKey" and "apCache a = newAPIKeyCache"
    and "key_run store ks a = (lg, a1)" and "authenticate apiKey sha store now r a1 = (Inr (key_ctx t), a2)"
  shows "fst (st_VerifyClient store now (sha (raw_key r)) (apWorld a1)) = Inr t \<or>
         (\<exists>t0. now - 60 * Second \<le> t0 \<and> (t0, sha (raw_key r), t) \<in> set lg)"
proof (rule key_tenant_confirmed)
  have "cache_logged [] (apCache a)" by (simp add: cache_logged_def assms(3) newAPIKeyCache_def)
  from key_run_logged [OF this, of store ks] show "cache_logged lg (apCache a1)" by (simp add: assms(4))
  show "fst (key_tenant store now (sha (raw_key r)) a1) = Some t"
    using assms(5) by (auto simp: authenticate_key [OF assms(1,2)] split: prod.splits option.splits)
qed

definition client_state :: "InMemoryStore api" where
  "client_state = sample_state\<lparr>apWorld := empty_world\<lparr>wStore := NewInMemoryStore\<lparr>msClients := [(''key-1'', ''acme'')]\<rparr>\<rparr>\<rparr>"

theorem key_trust_bounded_witness:
  "(let r = sample_http ''GET'' ''/jobs'' ''key-1'';
        ks = [(0, ''key-1'', id), (1, ''key-1'', (\<lambda>w. w\<lparr>wStore := NewInMemoryStore\<rparr>))];
        (lg, a1) = key_run mem_world ks client_state
    in fst (authenticate ''opkey'' (\<lambda>k. k) mem_world (60 * Second) r a1) = Inr (key_ctx ''acme'') \<and>
       (\<exists>t0. 0 \<le> t0 \<and> (t0, ''key-1'', ''acme'') \<in> set lg))"
proof -
  let ?r = "sample_http ''GET'' ''/jobs'' ''key-1''"
  let ?ks = "[(0, ''key-1'', id), (1, ''key-1'', (\<lambda>w. w\<lparr>wStore := NewInMemoryStore\<rparr>))]"
  obtain lg a1 where k: "key_run mem_world ?ks client_state = (lg, a1)" by force
  have r: "raw_key ?r = ''key-1''" by (simp add: raw_key_def sample_http_def)
  have c: "apCache client_state = newAPIKeyCache" by (simp add: client_state_def newAPIKeyCache_def)
  have w: "wStore (apWorld a1) = NewInMemoryStore" "cache_get (60 * Second) ''key-1'' (apCache a1) = Some ''acme''"
    using k by (auto simp: key_tenant_def cache_get_def cache_set_def on_world_def mem_Verify client_state_def
        InMemoryStore_VerifyClient_def)
  then have a: "authenticate ''opkey'' (\<lambda>k. k) mem_world (60 * Second) ?r a1 = (Inr (key_ctx ''acme''), a1)"
    by (simp add: authenticate_def r key_tenant_def)
  have "fst (st_VerifyClient mem_world (60 * Second) ''key-1'' (apWorld a1)) \<noteq> Inr ''acme''"
    using w by (simp add: mem_Verify InMemoryStore_VerifyClient_def NewInMemoryStore_def)
  with key_trust_bounded [OF _ _ c k a] have "\<exists>t0. 0 \<le> t0 \<and> (t0, ''key-1'', ''acme'') \<in> set lg" by (simp add: r)
  with a show ?thesis unfolding Let_def k prod.case by simp
qed

text \<open>
  Revoking a client does not lock out a key that was verified a moment before: with the in-memory store, a client key that
  the store has just confirmed stays accepted for the 60 seconds after, although the client was revoked and the store
  itself refuses the key at once.
\<close>

theorem revoked_key_lingers:
  assumes "raw_key r \<noteq> ''''" and "raw_key r \<noteq> apiKey" and "cache_get now (sha (raw_key r)) (apCache a) = None"
    and "authenticate apiKey sha mem_world now r a = (Inr (key_ctx t), a1)"
    and "on_world (st_RevokeClient mem_world now t) a1 = (e, a2)" and "now' \<le> now + 60 * Second"
  shows "authenticate apiKey sha mem_world now' r a2 = (Inr (key_ctx t), a2) \<and>
         fst (st_VerifyClient mem_world now' (sha (raw_key r)) (apWorld a2)) \<noteq> Inr t"
proof -
  have k: "fst (key_tenant mem_world now (sha (raw_key r)) a) = Some t"
    and a1: "a1 = snd (key_tenant mem_world now (sha (raw_key r)) a)"
    using assms(4) by (auto simp: authenticate_key [OF assms(1,2)] split: prod.splits option.splits)
  have c: "apCache a2 = apCache (snd (key_tenant mem_world now (sha (raw_key r)) a))"
    using assms(5) by (auto simp: a1 on_world_def split: prod.splits)
  have "apWorld a2 = snd (st_RevokeClient mem_world now t (apWorld a1))"
    using assms(5) by (auto simp: on_world_def split: prod.splits)
  then have "wStore (apWorld a2) = snd (InMemoryStore_RevokeClient t (wStore (apWorld a1)))"
    by (auto simp: mem_world_def lift_store_def lift_op_def mem_store_def split: prod.splits)
  then have "fst (InMemoryStore_VerifyClient (sha (raw_key r)) (wStore (apWorld a2))) \<noteq> Inr t"
    by (auto simp: InMemoryStore_VerifyClient_def InMemoryStore_RevokeClient_def split: option.splits dest: map_of_SomeD)
  with key_tenant_lingers [OF k assms(3) c assms(6)] show ?thesis
    by (simp add: authenticate_key [OF assms(1,2)] mem_Verify)
qed

theorem revoked_key_lingers_witness:
  "(let r = sample_http ''GET'' ''/jobs'' ''key-1''; (x, a1) = authenticate ''opkey'' (\<lambda>k. k) mem_world 0 r client_state;
        (e, a2) = on_world (st_RevokeClient mem_world 0 ''acme'') a1
    in fst (authenticate ''opkey'' (\<lambda>k. k) mem_world (60 * Second) r a2) = Inr (key_ctx ''acme''))"
proof -
  let ?r = "sample_http ''GET'' ''/jobs'' ''key-1''"
  have r: "raw_key ?r = ''key-1''" by (simp add: raw_key_def sample_http_def)
  obtain a1 where a1: "authenticate ''opkey'' (\<lambda>k. k) mem_world 0 ?r client_state = (Inr (key_ctx ''acme''), a1)"
    by (simp add: authenticate_def r key_tenant_def cache_get_def client_state_def on_world_def mem_Verify InMemoryStore_VerifyClient_def)
  obtain e a2 where a2: "on_world (st_RevokeClient mem_world 0 ''acme'') a1 = (e, a2)" by force
  have "cache_get 0 ''key-1'' (apCache client_state) = None" by (simp add: client_state_def cache_get_def)
  with revoked_key_lingers [OF _ _ _ a1 a2, of "60 * Second"] show ?thesis by (simp add: r a1 a2 Let_def)
qed

section \<open>Registration\<close>

lemma mem_Register: "st_RegisterClient mem_world now t h w =
    (fst (InMemoryStore_RegisterClient t h (wStore w)), w\<lparr>wStore := snd (InMemoryStore_RegisterClient t h (wStore w))\<rparr>)"
  by (simp add: mem_world_def lift_store_def lift_op_def mem_store_def split: prod.split)

text \<open>
  Registration proves nothing about the caller: with the in-memory store, anyone under the rate limit who posts a tenant name
  receives a key that is from then on accepted as that tenant, whoever registered it before; with the name
  \<^verbatim>\<open>operator\<close> no tenant check applies to the key any more.
\<close>

theorem registration_grants_any_tenant:
  assumes "svcStore (hService h) = mem_world" and "fst (LoginLimiter_Allow now (clientIP r) (apRegister a))"
    and "rBody r = Inr (JObj [(''tenant_id'', JStr t)])" and "t \<noteq> ''''" and "eRnd1 en 32 = Inr bs"
    and "raw_key r2 = ''tq_live_'' @ hex_encode bs" and "raw_key r2 \<noteq> apiKey"
    and "cache_get now' (eSha en (raw_key r2)) (apCache a) = None"
  shows "rsStatus (fst (RegisterClient h en now cx r a)) = 201 \<and>
         fst (authenticate apiKey (eSha en) mem_world now' r2 (snd (RegisterClient h en now cx r a))) = Inr (key_ctx t) \<and>
         (t = ''operator'' \<longrightarrow> checkJobTenantAccess (key_ctx t) job = None)"
proof -
  obtain l where l: "LoginLimiter_Allow now (clientIP r) (apRegister a) = (True, l)"
    using assms(2) by (cases "LoginLimiter_Allow now (clientIP r) (apRegister a)") auto
  let ?k = "''tq_live_'' @ hex_encode bs"
  have reg: "rsStatus (fst (RegisterClient h en now cx r a)) = 201 \<and>
      snd (RegisterClient h en now cx r a) =
        a\<lparr>apRegister := l, apWorld := (apWorld a)\<lparr>wStore := snd (InMemoryStore_RegisterClient t (eSha en ?k) (wStore (apWorld a)))\<rparr>\<rparr>"
    using assms(1,3,4,5)
    by (simp add: RegisterClient_def l decode_body_def dec_obj_def dec_defs on_world_def mem_Register
        InMemoryStore_RegisterClient_def plain_def Let_def)
  have "raw_key r2 \<noteq> ''''" by (simp add: assms(6))
  then show ?thesis using reg assms(6-8)
    by (simp add: authenticate_key key_tenant_def on_world_def mem_Verify InMemoryStore_VerifyClient_def
        InMemoryStore_RegisterClient_def update_conv' checkJobTenantAccess_def key_ctx_def IsClientTenant_def)
qed

theorem registration_grants_any_tenant_witness:
  "(let r = (sample_http ''POST'' ''/api/v1/register'' '''')\<lparr>rBody := Inr (JObj [(''tenant_id'', JStr ''operator'')])\<rparr>;
        (resp, a1) = RegisterClient (acHandler sample_config) sample_env 0 no_auth r sample_state;
        r2 = sample_http ''GET'' ''/jobs'' (''tq_live_'' @ hex_encode (replicate 32 1))
    in rsStatus resp = 201 \<and> fst (authenticate ''opkey'' (eSha sample_env) mem_world 1 r2 a1) = Inr (key_ctx ''operator''))"
proof -
  let ?r = "(sample_http ''POST'' ''/api/v1/register'' '''')\<lparr>rBody := Inr (JObj [(''tenant_id'', JStr ''operator'')])\<rparr>"
  let ?r2 = "sample_http ''GET'' ''/jobs'' (''tq_live_'' @ hex_encode (replicate 32 1))"
  have r2: "raw_key ?r2 = ''tq_live_'' @ hex_encode (replicate 32 1)" by (simp add: raw_key_def sample_http_def)
  have "fst (LoginLimiter_Allow 0 (clientIP ?r) (apRegister sample_state))"
    by (simp add: LoginLimiter_Allow_def Let_def sample_state_def new_api_def NewLoginLimiter_def hits_of_def)
  moreover have "cache_get 1 (eSha sample_env (raw_key ?r2)) (apCache sample_state) = None" by (simp add: cache_get_def)
  moreover have "eRnd1 sample_env 32 = Inr (replicate 32 1)" by (simp add: sample_env_def)
  ultimately show ?thesis
    using registration_grants_any_tenant [of "acHandler sample_config" 0 ?r sample_state "''operator''" sample_env "replicate 32 1" ?r2 "''opkey''" 1]
      r2 unfolding Let_def case_prod_beta by simp
qed

section \<open>Tenant isolation\<close>

lemma forbidden_status [simp]: "rsStatus (writeError n c m) = n" "rsStatus (writeAppError (NewForbidden m)) = 403"
  by (simp_all add: writeError_def writeJSON_def plain_def writeAppError_def app_error_defs app_status_def code_defs)

lemma on_world_same: "f (apWorld a) = (x, apWorld a) \<Longrightarrow> on_world f a = (x, a)"
  by (simp add: on_world_def)

context job_service
begin

lemma status_found: "ok w \<Longrightarrow> lookup w i = Some j \<Longrightarrow> JobService_GetJobStatus s now i w = (Inr j, w)"
  by (simp add: JobService_GetJobStatus_def get_some)

lemma load_found:
  assumes "hService h = s" and "ok (apWorld a)" and "lookup (apWorld a) i = Some j"
  shows "loadJobForTenant h now cx i a =
     (case checkJobTenantAccess cx j of Some resp \<Rightarrow> (Inl resp, a) | None \<Rightarrow> (Inr j, a))"
  using assms by (simp add: loadJobForTenant_def on_world_same status_found)

lemma foreign_with_own_job:
  assumes "hService h = s" and "ok (apWorld a)" and "lookup (apWorld a) i = Some j"
    and "checkJobTenantAccess cx j = Some resp"
  shows "with_own_job h now cx i opn body a = (resp, a)"
  using assms by (simp add: with_own_job_def load_found)

end

lemma foreign_check:
  "IsClientTenant (TenantIDFromContext cx) \<Longrightarrow> jTenantID j \<noteq> TenantIDFromContext cx \<Longrightarrow>
   \<exists>resp. checkJobTenantAccess cx j = Some resp \<and> rsStatus resp = 403"
  by (simp add: checkJobTenantAccess_def)

text \<open>
  C16. A client key cannot reach another tenant's job: for every store that meets the contract, each of the handlers that show, pause, resume,
  cancel, update, replay or delete one job answers 403 (400 where the request body is malformed) and leaves the whole state as it was
  when the job belongs to another tenant; the same job is shown to its own tenant and to the operator.
\<close>

theorem tenant_isolation:
  assumes js: "job_service (hService h) ok lookup" and w: "ok (apWorld a)" and i: "rPathValue r ''id'' = i" "i \<noteq> ''''"
    and j: "lookup (apWorld a) i = Some j"
  shows "(if IsClientTenant (TenantIDFromContext cx) \<and> jTenantID j \<noteq> TenantIDFromContext cx
          then (\<forall>H \<in> {Handler_GetJobStatus h, GetJobDeps h, PauseJob h, ResumeJob h, CancelJob h, UpdateJobProgress h,
                       GetFailedJobDetail h, ReplayFailedJob h en, DeleteFailedJob h}.
                  rsStatus (fst (H now cx r a)) \<in> {400, 403} \<and> snd (H now cx r a) = a)
          else Handler_GetJobStatus h now cx r a = (writeJSON 200 (FromJob j), a))"
proof (cases "IsClientTenant (TenantIDFromContext cx) \<and> jTenantID j \<noteq> TenantIDFromContext cx")
  case foreign: True
  then obtain resp where resp: "checkJobTenantAccess cx j = Some resp" "rsStatus resp = 403"
    using foreign_check by blast
  note load = job_service.load_found [OF js refl w j, of now cx]
  note own = job_service.foreign_with_own_job [OF js refl w j resp(1), of now]
  note get = job_service.status_found [OF js w j, of now] 
  have sv: "st_GetByID (svcStore (hService h)) now i (apWorld a) = (Inr j, apWorld a)"
    using job_store.get_some [of "svcStore (hService h)" ok lookup] js w j
    by (simp add: job_service_def world_store_def)
  have "scope_tenant cx = TenantIDFromContext cx" "\<not> owned_by (scope_tenant cx) j"
    using foreign by (auto simp: scope_tenant_def owned_by_def IsClientTenant_def)
  then have "on_world (JobService_ReplayJob (hService h) (eTrace en) now i (scope_tenant cx)) a = (Inl (NewForbidden ''you do not own this job''), a)"
    "on_world (JobService_DeleteJob (hService h) now i (scope_tenant cx)) a = (Some (NewForbidden ''you do not own this job''), a)"
    by (simp_all add: on_world_same JobService_ReplayJob_def JobService_DeleteJob_def sv)
  then show ?thesis using foreign resp
    by (auto simp: Handler_GetJobStatus_def GetJobDeps_def path_job_id_def i Let_def PauseJob_def ResumeJob_def CancelJob_def
        UpdateJobProgress_def GetFailedJobDetail_def ReplayFailedJob_def DeleteFailedJob_def on_world_same get load own
        split: sum.split)
next
  case False
  then have "checkJobTenantAccess cx j = None" by (auto simp: checkJobTenantAccess_def)
  with False show ?thesis
    by (auto simp: Handler_GetJobStatus_def path_job_id_def i on_world_same job_service.status_found [OF js w j])
qed

definition acme_job :: Job where
  "acme_job = zero_job\<lparr>jID := ''j1'', jType := ''email'', jTenantID := ''acme''\<rparr>"

definition acme_state :: "InMemoryStore api" where
  "acme_state = sample_state\<lparr>apWorld := empty_world\<lparr>wStore := NewInMemoryStore\<lparr>msData := [(''j1'', acme_job)]\<rparr>\<rparr>\<rparr>"

lemma acme_state_ok: "mem_ok (wStore (apWorld acme_state))" "mem_lookup (wStore (apWorld acme_state)) ''j1'' = Some acme_job"
  by (simp_all add: acme_state_def acme_job_def mem_ok_def mem_lookup_def NewInMemoryStore_def)

theorem tenant_isolation_witness:
  "(let r = (sample_http ''POST'' ''/jobs/j1/cancel'' ''key'')\<lparr>rPathValue := (\<lambda>_. ''j1'')\<rparr>; h = acHandler sample_config in
    rsStatus (fst (CancelJob h 3 (key_ctx ''other'') r acme_state)) \<in> {400, 403} \<and>
    snd (CancelJob h 3 (key_ctx ''other'') r acme_state) = acme_state \<and>
    Handler_GetJobStatus h 3 (key_ctx ''acme'') r acme_state = (writeJSON 200 (FromJob acme_job), acme_state))"
proof -
  let ?r = "(sample_http ''POST'' ''/jobs/j1/cancel'' ''key'')\<lparr>rPathValue := (\<lambda>_. ''j1'')\<rparr>"
  have js: "job_service (hService (acHandler sample_config)) (\<lambda>w. mem_ok (wStore w)) (\<lambda>w. mem_lookup (wStore w))"
    using mem_js.job_service_axioms by simp
  have r: "rPathValue ?r ''id'' = ''j1''" "''j1'' \<noteq> ''''" by simp_all
  have t: "IsClientTenant (TenantIDFromContext (key_ctx ''other''))" "jTenantID acme_job \<noteq> TenantIDFromContext (key_ctx ''other'')"
    "TenantIDFromContext (key_ctx ''acme'') = jTenantID acme_job"
    by (simp_all add: key_ctx_def IsClientTenant_def acme_job_def)
  from tenant_isolation [OF js acme_state_ok(1) r acme_state_ok(2), of "key_ctx ''other''" sample_env 3]
    tenant_isolation [OF js acme_state_ok(1) r acme_state_ok(2), of "key_ctx ''acme''" sample_env 3] t
  show ?thesis by (simp add: Let_def)
qed

lemma mem_Search: "st_SearchJobs mem_world now f w = (fst (InMemoryStore_SearchJobs f (wStore w)), w)"
  and mem_Count: "st_CountJobs mem_world now f w = (fst (InMemoryStore_CountJobs f (wStore w)), w)"
  by (simp_all add: mem_world_def lift_store_def lift_op_def mem_store_def InMemoryStore_SearchJobs_def
      InMemoryStore_CountJobs_def Let_def)

lemma page_subset: "set (page offset limit xs) \<subseteq> set xs"
  by (auto simp: page_def Let_def dest: in_set_takeD in_set_dropD)

lemma list_filter_bounds: "1 \<le> fLimit (list_filter r t)" "0 \<le> fOffset (list_filter r t)" "fTenantID (list_filter r t) = t"
  by (simp_all add: list_filter_def Let_def positive_or_def)



section \<open>Submission over HTTP\<close>

lemma app_status_client:
  "IsCode e c \<Longrightarrow> c \<in> {CodeInvalidArgument, CodeConflict, CodeTooManyRequests, CodeQueueFull} \<Longrightarrow>
   rsStatus (writeAppError e) \<in> {400, 409, 429}"
  by (auto simp: IsCode_def writeAppError_def app_status_def code_defs split: option.splits)

lemma FromJob_trace [simp]: "FromJob (j\<lparr>jTraceID := tr\<rparr>) = FromJob j"
  by (simp add: FromJob_def)

lemma build_job_tenant: "jTenantID (build_job s u1 u2 now rq t) = rqTenantID rq"
  by (simp add: build_job_def NewJob_def Let_def split: option.split)

lemma service_request_tenant: "rqTenantID (service_request q) = cqTenantID q"
  by (simp add: service_request_def)



end
