(* ===== verification/Dispatcher.thy ===== *)
theory Dispatcher
  imports Service_Props
begin

text \<open>
  \<^verbatim>\<open>internal/webhooks/dispatcher.go\<close>: the process that delivers the webhook events the service publishes.
  The HTTP client and the HMAC are parameters. An environment \<open>surroundings\<close> gives for every attempt the instant of its record, the
  draw of \<^verbatim>\<open>rand.Int63n\<close>, and whether the context ended during the wait before it. \<^verbatim>\<open>rand.Int63n\<close> panics on a
  bound that is not positive, which ends the process: that outcome is \<open>Panicked\<close>.
\<close>

section \<open>Configuration\<close>

record DispatcherConfig =
  dcMaxRetries :: int
  dcBaseDelay :: duration
  dcMaxDelay :: duration

definition DefaultMaxRetries :: int where "DefaultMaxRetries = 5"
definition DefaultBaseDelay :: duration where "DefaultBaseDelay = 1 * Second"
definition DefaultMaxDelay :: duration where "DefaultMaxDelay = 5 * Minute"

definition config_defaults :: "DispatcherConfig \<Rightarrow> DispatcherConfig" where
  "config_defaults c = \<lparr>
     dcMaxRetries = (if dcMaxRetries c \<le> 0 then DefaultMaxRetries else dcMaxRetries c),
     dcBaseDelay = (if dcBaseDelay c \<le> 0 then DefaultBaseDelay else dcBaseDelay c),
     dcMaxDelay = (if dcMaxDelay c \<le> 0 then DefaultMaxDelay else dcMaxDelay c)\<rparr>"

definition NewDispatcher :: "DispatcherConfig list \<Rightarrow> DispatcherConfig" where
  \<comment> \<open>the configuration of the dispatcher; the argument is the variadic parameter\<close>
  "NewDispatcher cfg =
     (case cfg of [] \<Rightarrow> config_defaults \<lparr>dcMaxRetries = 0, dcBaseDelay = 0, dcMaxDelay = 0\<rparr> | c # _ \<Rightarrow> config_defaults c)"

section \<open>Events and payloads\<close>

record WebhookEvent =
  weJobID :: string
  weTenantID :: string
  weStatus :: string
  weResult :: json
  weError :: string
  weTimestamp :: time
  weURL :: string
  weSecret :: string

definition or_else :: "'a \<Rightarrow> 'a option \<Rightarrow> 'a" where
  "or_else d x = (case x of None \<Rightarrow> d | Some v \<Rightarrow> v)"

definition decode_event :: "json option \<Rightarrow> WebhookEvent" where
  \<comment> \<open>\<open>_ = json.Unmarshal(...)\<close>: a field of the wrong kind keeps its zero value, the others are set\<close>
  "decode_event data =
     (let fs = (case data of Some (JObj fs) \<Rightarrow> fs | _ \<Rightarrow> []); str = (\<lambda>k. or_else '''' (dec_str fs k)) in
      \<lparr>weJobID = str ''job_id'', weTenantID = str ''tenant_id'', weStatus = str ''status'',
       weResult = or_else JNull (dec_any fs ''result''), weError = str ''error'',
       weTimestamp = or_else zero_time (dec_time fs ''timestamp''), weURL = str ''url'', weSecret = str ''secret''\<rparr>)"

definition payload_fields :: "WebhookEvent \<Rightarrow> fields" where
  \<comment> \<open>\<open>WebhookPayload\<close>: the event without URL and secret\<close>
  "payload_fields ev =
     [(''job_id'', JStr (weJobID ev)), (''tenant_id'', JStr (weTenantID ev)), (''status'', JStr (weStatus ev))] @
     omit (weResult ev = JNull) (''result'', weResult ev) @
     omit (weError ev = '''') (''error'', JStr (weError ev)) @
     [(''timestamp'', JTime (weTimestamp ev))]"

section \<open>Sending\<close>

datatype http_result = BadRequest go_error | NoResponse go_error | Responded int

type_synonym http_client = "string \<Rightarrow> json \<Rightarrow> string option \<Rightarrow> http_result"

definition sign :: "(json \<Rightarrow> string \<Rightarrow> string) \<Rightarrow> json \<Rightarrow> string \<Rightarrow> string" where
  "sign hmac body secret = hmac body secret"

definition Dispatcher_send :: "http_client \<Rightarrow> (json \<Rightarrow> string \<Rightarrow> string) \<Rightarrow> WebhookEvent \<Rightarrow> int \<times> go_error option" where
  "Dispatcher_send http hmac ev =
     (let body = JObj (payload_fields ev);
          signature = (if weSecret ev \<noteq> '''' then Some (''sha256='' @ sign hmac body (weSecret ev)) else None)
      in case http (weURL ev) body signature of
           BadRequest e \<Rightarrow> (0, Some e)
         | NoResponse e \<Rightarrow> (0, Some e)
         | Responded status \<Rightarrow> (status, if 400 \<le> status then Some (HTTPStatus status) else None))"

fun errors_As_status :: "go_error \<Rightarrow> int option" where
  \<comment> \<open>\<open>errors.As\<close> to an interface with \<open>StatusCode()\<close>\<close>
  "errors_As_status (HTTPStatus n) = Some n"
| "errors_As_status (Wrap p e q) = errors_As_status e"
| "errors_As_status _ = None"

definition isClientError :: "go_error \<Rightarrow> bool" where
  "isClientError e \<longleftrightarrow> (case errors_As_status e of Some n \<Rightarrow> 400 \<le> n \<and> n < 500 | None \<Rightarrow> False)"

section \<open>Backoff\<close>

definition backoff :: "DispatcherConfig \<Rightarrow> (int \<Rightarrow> int) \<Rightarrow> int \<Rightarrow> duration option" where
  \<comment> \<open>\<open>None\<close>: the bound of the random draw is not positive\<close>
  "backoff c rnd attempt =
     (let raw = sint (word_of_int (dcBaseDelay c) * push_bit (nat (min attempt (dcMaxRetries c))) 1 :: 64 word);
          delay = (if dcMaxDelay c < raw then dcMaxDelay c else raw)
      in if delay \<le> 1 then None else Some (delay + (rnd (delay div 2) - delay div 4)))"

section \<open>The delivery loop\<close>

record surroundings =
  suNow :: "int \<Rightarrow> time"
  suRnd :: "int \<Rightarrow> int \<Rightarrow> int"
  suDone :: "int \<Rightarrow> bool"
  suHttp :: "int \<Rightarrow> http_client"
  suHmac :: "json \<Rightarrow> string \<Rightarrow> string"

datatype outcome = Delivered | ClientError | Exhausted | Stopped | Panicked

definition attempt_result :: "WebhookEvent \<Rightarrow> surroundings \<Rightarrow> int \<Rightarrow> int \<times> go_error option" where
  "attempt_result ev su attempt = Dispatcher_send (suHttp su attempt) (suHmac su) ev"

definition delivery_record :: "WebhookEvent \<Rightarrow> surroundings \<Rightarrow> int \<Rightarrow> int \<Rightarrow> DeliveryRecord" where
  "delivery_record ev su attempt backoffMs =
     (let (status, err) = attempt_result ev su attempt in
      \<lparr>drTimestamp = suNow su attempt, drJobID = weJobID ev, drTenantID = weTenantID ev, drURL = weURL ev,
       drStatusCode = status, drAttempt = attempt + 1, drSuccess = (err = None),
       drError = (case err of None \<Rightarrow> '''' | Some e \<Rightarrow> err_msg e), drBackoffMs = backoffMs\<rparr>)"

function dispatch_from :: "redis \<Rightarrow> DispatcherConfig \<Rightarrow> surroundings \<Rightarrow> WebhookEvent \<Rightarrow> int \<Rightarrow> rdb \<Rightarrow> outcome \<times> rdb" where
  \<comment> \<open>the loop from the given attempt on\<close>
  "dispatch_from r c su ev attempt db =
     (if dcMaxRetries c \<le> attempt then (Exhausted, db)
      else (case (if attempt \<le> 0 then Some 0 else backoff c (suRnd su attempt) attempt) of
        None \<Rightarrow> (Panicked, db)
      | Some delay \<Rightarrow>
          (if 0 < attempt \<and> suDone su attempt then (Stopped, db)
           else (let err = snd (attempt_result ev su attempt);
                     db1 = snd (RecordDelivery r (suNow su attempt) (delivery_record ev su attempt (delay div Millisecond)) db) in
             (case err of
                None \<Rightarrow> (Delivered, db1)
              | Some e \<Rightarrow> (if isClientError e then (ClientError, db1) else dispatch_from r c su ev (attempt + 1) db1))))))"
  by pat_completeness auto

termination
  by (relation "measure (\<lambda>(r, c, su, ev, attempt, db). nat (dcMaxRetries c - attempt))") auto

declare dispatch_from.simps [simp del]

definition dispatch :: "redis \<Rightarrow> DispatcherConfig \<Rightarrow> surroundings \<Rightarrow> WebhookEvent \<Rightarrow> rdb \<Rightarrow> outcome \<times> rdb" where
  "dispatch r c su ev db = dispatch_from r c su ev 0 db"

definition acknowledges :: "outcome \<Rightarrow> bool" where
  \<comment> \<open>whether the message is acknowledged with \<open>XACK\<close>\<close>
  "acknowledges x \<longleftrightarrow> x \<in> {Delivered, ClientError, Exhausted}"

definition Start_batch :: "go_error + (string \<times> json option) list \<Rightarrow> (WebhookEvent \<times> string) list" where
  \<comment> \<open>the deliveries one round of \<open>Start\<close> spawns for the reply of \<open>XREADGROUP\<close>\<close>
  "Start_batch reply =
     (case reply of Inl e \<Rightarrow> [] | Inr msgs \<Rightarrow> map (\<lambda>(i, data). (decode_event data, i)) msgs)"

section \<open>Lemmas\<close>

definition retryable :: "WebhookEvent \<Rightarrow> surroundings \<Rightarrow> int \<Rightarrow> bool" where
  \<comment> \<open>the attempt failed and not with a client error\<close>
  "retryable ev su i \<longleftrightarrow> (case snd (attempt_result ev su i) of None \<Rightarrow> False | Some e \<Rightarrow> \<not> isClientError e)"

definition attempts_made :: "DispatcherConfig \<Rightarrow> WebhookEvent \<Rightarrow> surroundings \<Rightarrow> int \<Rightarrow> int list" where
  \<comment> \<open>the attempts from \<open>k\<close> on: up to and including the first that is not to be retried\<close>
  "attempts_made c ev su k =
     (let is = [k..dcMaxRetries c - 1] in
      takeWhile (retryable ev su) is @ take 1 (dropWhile (retryable ev su) is))"

definition wait_ms :: "DispatcherConfig \<Rightarrow> surroundings \<Rightarrow> int \<Rightarrow> int" where
  "wait_ms c su i = (if i \<le> 0 then 0 else or_else 0 (backoff c (suRnd su i) i) div Millisecond)"

definition final_outcome :: "DispatcherConfig \<Rightarrow> WebhookEvent \<Rightarrow> surroundings \<Rightarrow> int \<Rightarrow> outcome" where
  "final_outcome c ev su k =
     (case dropWhile (retryable ev su) [k..dcMaxRetries c - 1] of
        [] \<Rightarrow> Exhausted
      | i # _ \<Rightarrow> (if snd (attempt_result ev su i) = None then Delivered else ClientError))"

lemma attempts_made_rec:
  "attempts_made c ev su k =
     (if dcMaxRetries c \<le> k then [] else k # (if retryable ev su k then attempts_made c ev su (k + 1) else []))"
  by (simp add: attempts_made_def Let_def upto_rec1)

lemma final_outcome_rec:
  "final_outcome c ev su k =
     (if dcMaxRetries c \<le> k then Exhausted
      else if retryable ev su k then final_outcome c ev su (k + 1)
      else if snd (attempt_result ev su k) = None then Delivered else ClientError)"
  by (simp add: final_outcome_def upto_rec1)

lemma take_append_take: "take n (xs @ take n ys) = take n (xs @ ys)"
  by (simp add: min_def)

lemma dispatch_from_exact:
  assumes up: "redis_up r" and nd: "\<And>i. \<not> suDone su i"
    and bo: "\<And>i. 0 < i \<Longrightarrow> i < dcMaxRetries c \<Longrightarrow> backoff c (suRnd su i) i \<noteq> None" and k: "0 \<le> k"
  shows "fst (dispatch_from r c su ev k db) = final_outcome c ev su k \<and>
         rLists (snd (dispatch_from r c su ev k db)) (deliveries_key (weURL ev)) =
           (let new = rev (map (\<lambda>i. Doc (delivery_json (delivery_record ev su i (wait_ms c su i)))) (attempts_made c ev su k));
                old = rLists db (deliveries_key (weURL ev))
            in if new = [] then old else take 50 (new @ old))"
  using k
proof (induction "nat (dcMaxRetries c - k)" arbitrary: k db rule: less_induct)
  case less
  show ?case
  proof (cases "dcMaxRetries c \<le> k")
    case True
    then show ?thesis by (simp add: dispatch_from.simps final_outcome_rec [of c ev su k] attempts_made_rec [of c ev su k])
  next
    case False
    let ?rec = "delivery_record ev su k (wait_ms c su k)"
    define db1 where "db1 = snd (RecordDelivery r (suNow su k) ?rec db)"
    have url: "drURL ?rec = weURL ev" by (simp add: delivery_record_def Let_def split: prod.split)
    have l1: "rLists db1 (deliveries_key (weURL ev)) = take 50 (Doc (delivery_json ?rec) # rLists db (deliveries_key (weURL ev)))"
      using redis_up.RecordDelivery_up [OF up, of "suNow su k" ?rec db] by (simp add: db1_def url put_list_def)
    obtain d where d: "(if k \<le> 0 then Some 0 else backoff c (suRnd su k) k) = Some d" "d div Millisecond = wait_ms c su k"
      using bo [of k] False by (cases "k \<le> 0") (auto simp: wait_ms_def or_else_def split: option.splits)
    have step: "dispatch_from r c su ev k db =
        (case snd (attempt_result ev su k) of None \<Rightarrow> (Delivered, db1)
         | Some e \<Rightarrow> (if isClientError e then (ClientError, db1) else dispatch_from r c su ev (k + 1) db1))"
      using False d nd by (subst dispatch_from.simps) (simp add: Let_def flip: db1_def)
    show ?thesis
    proof (cases "retryable ev su k")
      case True
      then obtain e where e: "snd (attempt_result ev su k) = Some e" "\<not> isClientError e"
        by (auto simp: retryable_def split: option.splits)
      have "nat (dcMaxRetries c - (k + 1)) < nat (dcMaxRetries c - k)" "0 \<le> k + 1" using False less.prems by auto
      from less.hyps [OF this, of db1] show ?thesis
        using e True False by (auto simp: step final_outcome_rec [of c ev su k] attempts_made_rec [of c ev su k] l1 take_append_take take_Cons' min_def Let_def)
    next
      case nr: False
      then show ?thesis using False
        by (auto simp: step retryable_def final_outcome_rec [of c ev su k] attempts_made_rec [of c ev su k] l1 split: option.splits)
    qed
  qed
qed

lemma NewDispatcher_default:
  "dcMaxRetries (NewDispatcher []) = 5" "dcBaseDelay (NewDispatcher []) = Second" "dcMaxDelay (NewDispatcher []) = 5 * Minute"
  by (simp_all add: NewDispatcher_def config_defaults_def DefaultMaxRetries_def DefaultBaseDelay_def DefaultMaxDelay_def)

lemma backoff_default:
  assumes "0 < attempt" and "attempt < 5"
  shows "backoff (NewDispatcher []) rnd attempt =
           Some (2 ^ nat attempt * Second + (rnd (2 ^ nat attempt * Second div 2) - 2 ^ nat attempt * Second div 4))"
proof -
  have "attempt \<in> {1, 2, 3, 4}" using assms by auto
  then show ?thesis by (auto simp: backoff_def Let_def NewDispatcher_default push_bit_eq_mult)
qed

lemma attempts_made_bounds:
  "set (attempts_made c ev su k) \<subseteq> {k..<dcMaxRetries c} \<and> distinct (attempts_made c ev su k)"
proof (induction "nat (dcMaxRetries c - k)" arbitrary: k rule: less_induct)
  case less
  show ?case
  proof (cases "dcMaxRetries c \<le> k")
    case True
    then show ?thesis by (subst (1 2) attempts_made_rec) simp
  next
    case False
    then have "nat (dcMaxRetries c - (k + 1)) < nat (dcMaxRetries c - k)" by simp
    from less [OF this] False show ?thesis by (subst (1 2) attempts_made_rec) auto
  qed
qed

text \<open>
  C25. Delivery of a webhook event, with the default configuration and Redis answering: the dispatcher always
  ends, by acknowledging the message, after at most five attempts; it stops at the first
  attempt that succeeds or is answered with a client error (4xx) and retries every other failure; and it leaves one
  record of every attempt made, newest first, with its number, status, error and the backoff before it, in the history of the URL,
  which never exceeds 50 entries.
\<close>

theorem dispatch_exact:
  assumes "redis_up r" and "\<And>i. \<not> suDone su i"
  shows "fst (dispatch r (NewDispatcher []) su ev db) = final_outcome (NewDispatcher []) ev su 0 \<and>
         acknowledges (fst (dispatch r (NewDispatcher []) su ev db)) \<and>
         1 \<le> length (attempts_made (NewDispatcher []) ev su 0) \<and> length (attempts_made (NewDispatcher []) ev su 0) \<le> 5 \<and>
         rLists (snd (dispatch r (NewDispatcher []) su ev db)) (deliveries_key (weURL ev)) =
           take 50 (rev (map (\<lambda>i. Doc (delivery_json (delivery_record ev su i (wait_ms (NewDispatcher []) su i))))
                           (attempts_made (NewDispatcher []) ev su 0)) @ rLists db (deliveries_key (weURL ev)))"
proof -
  let ?c = "NewDispatcher []"
  have "backoff ?c (suRnd su i) i \<noteq> None" if "0 < i" "i < dcMaxRetries ?c" for i
    using backoff_default [of i "suRnd su i"] that by (simp add: NewDispatcher_default)
  from dispatch_from_exact [of r su ?c 0 ev db, OF assms this]
  have run: "fst (dispatch r ?c su ev db) = final_outcome ?c ev su 0"
    "rLists (snd (dispatch r ?c su ev db)) (deliveries_key (weURL ev)) =
       (let new = rev (map (\<lambda>i. Doc (delivery_json (delivery_record ev su i (wait_ms ?c su i)))) (attempts_made ?c ev su 0))
        in if new = [] then rLists db (deliveries_key (weURL ev)) else take 50 (new @ rLists db (deliveries_key (weURL ev))))"
    by (simp_all add: dispatch_def Let_def)
  have ne: "attempts_made ?c ev su 0 \<noteq> []" by (subst attempts_made_rec) (simp add: NewDispatcher_default)
  have "length (attempts_made ?c ev su 0) = card (set (attempts_made ?c ev su 0))"
    using attempts_made_bounds distinct_card by metis
  also have "\<dots> \<le> card {0..<dcMaxRetries ?c}" by (rule card_mono) (use attempts_made_bounds in auto)
  finally have "length (attempts_made ?c ev su 0) \<le> 5" by (simp add: NewDispatcher_default)
  moreover have "acknowledges (final_outcome ?c ev su 0)"
    by (simp add: final_outcome_def acknowledges_def split: list.split)
  ultimately show ?thesis using run ne by (auto simp: Let_def Suc_le_eq)
qed

definition sample_event :: WebhookEvent where
  "sample_event = \<lparr>weJobID = ''j1'', weTenantID = ''acme'', weStatus = ''completed'', weResult = JNull, weError = '''',
     weTimestamp = 3, weURL = ''http://x'', weSecret = ''s''\<rparr>"

definition flaky :: surroundings where
  "flaky = \<lparr>suNow = (\<lambda>i. i), suRnd = (\<lambda>i n. 0), suDone = (\<lambda>i. False),
     suHttp = (\<lambda>i u b s. if i = 0 then Responded 503 else if i = 1 then NoResponse (Errorf ''refused'') else Responded 404),
     suHmac = (\<lambda>b s. s)\<rparr>"

theorem dispatch_exact_witness:
  "fst (dispatch redis_ref (NewDispatcher []) flaky sample_event empty_rdb) = ClientError \<and>
   length (rLists (snd (dispatch redis_ref (NewDispatcher []) flaky sample_event empty_rdb)) (deliveries_key ''http://x'')) = 3"
proof -
  have nd: "\<not> suDone flaky i" for i by (simp add: flaky_def)
  have ty: "retryable sample_event flaky i \<longleftrightarrow> i = 0 \<or> i = 1" for i
    by (simp add: retryable_def attempt_result_def Dispatcher_send_def flaky_def isClientError_def Let_def)
  have res: "snd (attempt_result sample_event flaky 2) \<noteq> None"
    by (simp add: attempt_result_def Dispatcher_send_def flaky_def Let_def)
  have "final_outcome (NewDispatcher []) sample_event flaky 0 = ClientError"
    "attempts_made (NewDispatcher []) sample_event flaky 0 = [0, 1, 2]"
    using res by (simp_all add: final_outcome_def attempts_made_def NewDispatcher_default upto.simps ty Let_def)
  with dispatch_exact [OF rr.redis_up_axioms nd, of sample_event empty_rdb] show ?thesis
    by (simp add: sample_event_def empty_rdb_def)
qed

text \<open>
  The wait before retry number \<open>n\<close> of a webhook delivery is, with the default configuration, within a quarter of \<open>2^n\<close> seconds, for
  every draw of the random source: no overflow, no panic and never longer than 20 seconds.
\<close>

theorem backoff_default_bounds:
  assumes "0 < attempt" and "attempt < 5" and "\<And>n. 0 < n \<Longrightarrow> 0 \<le> rnd n \<and> rnd n < n"
  shows "\<exists>d. backoff (NewDispatcher []) rnd attempt = Some d \<and>
           3 * (2 ^ nat attempt * Second) \<le> 4 * d \<and> 4 * d < 5 * (2 ^ nat attempt * Second) \<and> d < 20 * Second"
proof -
  have "attempt \<in> {1, 2, 3, 4}" using assms by auto
  then show ?thesis using assms(3) [of "2 ^ nat attempt * Second div 2"]
    by (auto simp: backoff_default)
qed

theorem backoff_default_bounds_witness:
  "\<exists>d. backoff (NewDispatcher []) (\<lambda>n. n - 1) 4 = Some d \<and> d < 20 * Second"
  using backoff_default_bounds [of 4 "\<lambda>n. n - 1"] by auto

text \<open>
  With a larger configuration the shift runs out of 64 bits: at attempt 55 the delay is zero and
  the draw of the jitter panics.
\<close>

lemma backoff_panics: "backoff (NewDispatcher [\<lparr>dcMaxRetries = 100, dcBaseDelay = 0, dcMaxDelay = 0\<rparr>]) rnd 55 = None"
  by (simp add: backoff_def Let_def NewDispatcher_def config_defaults_def DefaultBaseDelay_def DefaultMaxDelay_def push_bit_eq_mult)

text \<open>
  What the service publishes is what the dispatcher reads: for every target of an event the service
  appends one document to the stream, and decoding it gives back the job's id and tenant, the event, the result,
  the error text, the instant, and the target's URL and secret; the secret is in no field of the body that is
  sent.
\<close>

theorem published_event_decodes:
  assumes "redis_up (svcRedis s)"
  shows "\<exists>v. rStreams (publish_each s now job event result [(url, secret)] db) ''task_queue:webhooks:stream'' =
             rStreams db ''task_queue:webhooks:stream'' @ [v] \<and>
           decode_event (Some v) = \<lparr>weJobID = jID job, weTenantID = jTenantID job, weStatus = event, weResult = result,
             weError = webhook_error_text s event result, weTimestamp = now, weURL = url, weSecret = secret\<rparr> \<and>
           jget (payload_fields (decode_event (Some v))) ''secret'' = None"
  using assms
  by (simp add: RedisQueue_PublishWebhookEvent_def redis_up.rcall_err_up decode_event_def dec_defs or_else_def Let_def
      payload_fields_def)

theorem published_event_decodes_witness:
  "\<exists>v. rStreams (publish_each (mem_service '''' 0 0) 3 zero_job ''failed'' (JStr ''boom'') [(''http://x'', ''s'')] empty_rdb)
         ''task_queue:webhooks:stream'' = [v] \<and> weError (decode_event (Some v)) = ''boom''"
proof -
  have up: "redis_up (svcRedis (mem_service '''' 0 0))" using rr.redis_up_axioms by simp
  show ?thesis
    using published_event_decodes [OF up, of 3 zero_job "''failed''" "JStr ''boom''" "''http://x''" "''s''" empty_rdb]
    by (auto simp: empty_rdb_def webhook_error_text_def)
qed

end
