(* ===== verification/Plugins.thy ===== *)
theory Plugins
  imports Executor Dto
begin

text \<open>
  The built-in plugins (\<^verbatim>\<open>internal/worker/plugins/standard\<close>), their global registration, and the context
  values they use (\<^verbatim>\<open>internal/worker/plugin/interface.go\<close>). What a plugin reaches outside the process is a field of
  \<open>plugin_env\<close>: the environment variables, the operations of the SMTP and HTTP libraries, the end of its context
  (\<open>peDone i\<close> is the context's error if it is found ended at the \<open>i\<close>-th check), the submitter and the progress
  callback of the context. Sleeps have no effect in the model.
\<close>

section \<open>Context and environment\<close>

datatype http_reply = BadRequest go_error | NoResponse go_error | Replied int string

record smtp_client =
  smSendMail :: "string \<Rightarrow> string \<Rightarrow> string list \<Rightarrow> string \<Rightarrow> go_error option"
  smDial :: "string \<Rightarrow> go_error option"
  smStartTLSOffered :: bool
  smStartTLS :: "string \<Rightarrow> go_error option"
  smAuth :: "string \<Rightarrow> string \<Rightarrow> string \<Rightarrow> go_error option"
  smMail :: "string \<Rightarrow> go_error option"
  smRcpt :: "string \<Rightarrow> go_error option"
  smData :: "go_error option"
  smWrite :: "string \<Rightarrow> go_error option"
  smClose :: "go_error option"
  smQuit :: "go_error option"

record 's plugin_env =
  peGetenv :: "string \<Rightarrow> string"
  peSmtp :: smtp_client
  peHttp :: "string \<Rightarrow> string \<Rightarrow> (string \<times> string) list \<Rightarrow> json option \<Rightarrow> http_reply"
  peDone :: "nat \<Rightarrow> go_error option"
  peSubmitter :: "(nat \<Rightarrow> JobRequest \<Rightarrow> 's world \<Rightarrow> (go_error + Job) \<times> 's world) option"
  peProgress :: "(rat \<Rightarrow> 's world \<Rightarrow> 's world) option"

definition WithSubmitter ::
    "(nat \<Rightarrow> JobRequest \<Rightarrow> 's world \<Rightarrow> (go_error + Job) \<times> 's world) \<Rightarrow> 's plugin_env \<Rightarrow> 's plugin_env" where
  \<comment> \<open>the number is that of the call; it selects the identifiers drawn by it\<close>
  "WithSubmitter f pe = pe\<lparr>peSubmitter := Some f\<rparr>"

definition WithProgressCallback :: "(rat \<Rightarrow> 's world \<Rightarrow> 's world) \<Rightarrow> 's plugin_env \<Rightarrow> 's plugin_env" where
  "WithProgressCallback f pe = pe\<lparr>peProgress := Some f\<rparr>"

definition ReportProgress :: "'s plugin_env \<Rightarrow> rat \<Rightarrow> 's world \<Rightarrow> 's world" where
  "ReportProgress pe pct w = (case peProgress pe of None \<Rightarrow> w | Some f \<Rightarrow> f pct w)"

definition worker_context ::
    "'s JobService \<Rightarrow> (nat \<Rightarrow> string) \<Rightarrow> (nat \<Rightarrow> string) \<Rightarrow> string \<Rightarrow> (nat \<Rightarrow> time) \<Rightarrow> (rat \<Rightarrow> time) \<Rightarrow> Job \<Rightarrow>
     's plugin_env \<Rightarrow> 's plugin_env" where
  \<comment> \<open>the context \<open>ProcessOnce\<close> gives a plugin: the service submits, with the identifiers and the instant of the
      \<open>i\<close>-th call, and progress goes to the record of the job\<close>
  "worker_context s u1 u2 tr now pt job pe =
     WithProgressCallback (\<lambda>pct w. snd (JobService_UpdateJobProgress s (pt pct) (jID job) pct w))
       (WithSubmitter (\<lambda>i. JobService_CreateJob s (u1 i) (u2 i) tr (now i)) pe)"

definition text_field :: "Job \<Rightarrow> string \<Rightarrow> string" where
  \<comment> \<open>\<open>v, _ := job.Payload[k].(string)\<close>\<close>
  "text_field job k = as_string (map_of (payload_of job) k)"

definition fails :: "go_error \<Rightarrow> outcome" where "fails e = Returned JNull (Some e)"

definition missing_field :: "string \<Rightarrow> string \<Rightarrow> go_error" where
  "missing_field p k = Errorf (p @ '' plugin: missing required field '' @ [CHR 0x27] @ k @ [CHR 0x27])"

definition returns :: "json \<Rightarrow> outcome" where "returns v = Returned v None"

section \<open>Email\<close>

fun first_error :: "go_error option list \<Rightarrow> go_error option" where
  "first_error [] = None"
| "first_error (None # es) = first_error es"
| "first_error (Some e # es) = Some e"

definition before_colon :: "string \<Rightarrow> string" where
  \<comment> \<open>\<open>host, _, _ := strings.Cut(addr, ":")\<close>\<close>
  "before_colon addr = takeWhile (\<lambda>c. c \<noteq> CHR '':'') addr"

definition sendWithAuth :: "smtp_client \<Rightarrow> string \<Rightarrow> string \<Rightarrow> string \<Rightarrow> string \<Rightarrow> string \<Rightarrow> string list \<Rightarrow> string \<Rightarrow> go_error option" where
  "sendWithAuth sm addr user pass host from rcpts msg =
     first_error ([smDial sm addr] @
       (if smStartTLSOffered sm then [smStartTLS sm (before_colon addr)] else []) @
       [smAuth sm user pass host, smMail sm from] @ map (smRcpt sm) rcpts @
       [smData sm, smWrite sm msg, smClose sm, smQuit sm])"

definition crlf :: string where "crlf = [CHR 0x0D, CHR 0x0A]"

fun join_lines :: "string list \<Rightarrow> string" where
  "join_lines [] = ''''"
| "join_lines [l] = l"
| "join_lines (l # ls) = l @ crlf @ join_lines ls"

definition buildMIME :: "string \<Rightarrow> string \<Rightarrow> string \<Rightarrow> string \<Rightarrow> string" where
  "buildMIME from to subject body =
     join_lines [''From: '' @ from, ''To: '' @ to, ''Subject: '' @ subject, ''MIME-Version: 1.0'',
       ''Content-Type: text/plain; charset='' @ quoted ''utf-8'', '''', body]"

definition or_default :: "string \<Rightarrow> string \<Rightarrow> string" where
  "or_default s d = (if s = '''' then d else s)"

definition sendSMTP :: "'s plugin_env \<Rightarrow> string \<Rightarrow> string \<Rightarrow> string \<Rightarrow> go_error option" where
  "sendSMTP pe to subject body =
     (let host = peGetenv pe ''SMTP_HOST''; port = or_default (peGetenv pe ''SMTP_PORT'') ''587'';
          user = peGetenv pe ''SMTP_USER''; pass = peGetenv pe ''SMTP_PASSWORD'';
          from = or_default (or_default (peGetenv pe ''SMTP_FROM'') user) ''noreply@taskqueue.local'';
          addr = host @ '':'' @ port; msg = buildMIME from to subject body
      in if user \<noteq> '''' \<and> pass \<noteq> '''' then sendWithAuth (peSmtp pe) addr user pass host from [to] msg
         else smSendMail (peSmtp pe) addr from [to] msg)"

definition smtpConfigured :: "'s plugin_env \<Rightarrow> bool" where
  "smtpConfigured pe \<longleftrightarrow> peGetenv pe ''SMTP_HOST'' \<noteq> ''''"

definition Email_Execute :: "'s plugin_env \<Rightarrow> Job \<Rightarrow> 's world \<Rightarrow> outcome \<times> 's world" where
  "Email_Execute pe job w =
     (let to = text_field job ''to''; subject = text_field job ''subject''; body = text_field job ''body''
      in if to = '''' then (fails (missing_field ''email'' ''to''), w)
         else if smtpConfigured pe then
           (case sendSMTP pe to subject body of
              Some e \<Rightarrow> (fails (Wrap ''email plugin: smtp send failed: '' e ''''), w)
            | None \<Rightarrow> (returns (JStr (''email sent to '' @ to @ '' via SMTP'')), w))
         else (returns (JStr (''email sent to '' @ to @ '' (simulated)'')), w))"

section \<open>HTTP and Slack\<close>

definition upper_char :: "char \<Rightarrow> char" where
  "upper_char c = (if CHR ''a'' \<le> c \<and> c \<le> CHR ''z'' then char_of (of_char c - 32 :: nat) else c)"

definition lower_char :: "char \<Rightarrow> char" where
  "lower_char c = (if CHR ''A'' \<le> c \<and> c \<le> CHR ''Z'' then char_of (of_char c + 32 :: nat) else c)"

definition ToUpper :: "string \<Rightarrow> string" where
  \<comment> \<open>\<open>strings.ToUpper\<close> on ASCII text\<close>
  "ToUpper s = map upper_char s"

fun canonical :: "bool \<Rightarrow> string \<Rightarrow> string" where
  "canonical up [] = []"
| "canonical up (c # cs) = (if up then upper_char c else lower_char c) # canonical (c = CHR ''-'') cs"

definition header_byte :: "char \<Rightarrow> bool" where
  "header_byte c \<longleftrightarrow> (CHR ''a'' \<le> c \<and> c \<le> CHR ''z'') \<or> (CHR ''A'' \<le> c \<and> c \<le> CHR ''Z'') \<or> (CHR ''0'' \<le> c \<and> c \<le> CHR ''9'') \<or>
     c \<in> set (''!#$%&'' @ [CHR 0x27] @ ''*+-.^_'' @ [CHR 0x60] @ ''|~'')"

definition CanonicalHeaderKey :: "string \<Rightarrow> string" where
  \<comment> \<open>of \<open>net/http\<close>: keys with other bytes are left alone\<close>
  "CanonicalHeaderKey k = (if list_all header_byte k then canonical True k else k)"

definition header_set :: "string \<times> string \<Rightarrow> (string \<times> string) list \<Rightarrow> (string \<times> string) list" where
  "header_set kv h = AList.update (CanonicalHeaderKey (fst kv)) (snd kv) h"

fun string_values :: "fields \<Rightarrow> (string \<times> string) list" where
  \<comment> \<open>the entries of a map whose value is a string\<close>
  "string_values [] = []"
| "string_values ((k, JStr s) # fs) = (k, s) # string_values fs"
| "string_values ((k, JTime t) # fs) = (k, time_text t) # string_values fs"
| "string_values (_ # fs) = string_values fs"

definition http_body :: "Job \<Rightarrow> json option" where
  "http_body job = (case map_of (payload_of job) ''body'' of None \<Rightarrow> None | Some JNull \<Rightarrow> None | Some v \<Rightarrow> Some v)"

definition http_headers :: "Job \<Rightarrow> (string \<times> string) list" where
  "http_headers job =
     (let h0 = (if http_body job \<noteq> None then [(''Content-Type'', ''application/json'')] else []);
          h1 = (case map_of (payload_of job) ''headers'' of Some (JObj hs) \<Rightarrow> fold header_set (string_values hs) h0 | _ \<Rightarrow> h0)
      in header_set (''X-Task-Queue-Tenant-ID'', jTenantID job) (header_set (''X-Task-Queue-Job-ID'', jID job) h1))"

definition HTTP_Execute :: "'s plugin_env \<Rightarrow> Job \<Rightarrow> 's world \<Rightarrow> outcome \<times> 's world" where
  "HTTP_Execute pe job w =
     (let url = text_field job ''url''; method = ToUpper (or_default (text_field job ''method'') ''POST'')
      in if url = '''' then (fails (missing_field ''http'' ''url''), w)
         else (case peHttp pe method url (http_headers job) (http_body job) of
                 BadRequest e \<Rightarrow> (fails (Wrap ''http plugin: build request: '' e ''''), w)
               | NoResponse e \<Rightarrow> (fails (Wrap ''http plugin: request failed: '' e ''''), w)
               | Replied status body \<Rightarrow>
                   (let respBody = take 65536 body in
                    if 400 \<le> status then (fails (Errorf (''http plugin: upstream returned '' @ itoa status @ '': '' @ respBody)), w)
                    else (returns (JObj [(''status_code'', jint status), (''body'', JStr respBody)]), w))))"

definition Slack_Execute :: "'s plugin_env \<Rightarrow> Job \<Rightarrow> 's world \<Rightarrow> outcome \<times> 's world" where
  "Slack_Execute pe job w =
     (let text = text_field job ''text''; webhookURL = or_default (text_field job ''webhook_url'') (peGetenv pe ''SLACK_WEBHOOK_URL'')
      in if text = '''' then (fails (missing_field ''slack'' ''text''), w)
         else if webhookURL = '''' then (returns (JStr ''slack message simulated''), w)
         else (case peHttp pe ''POST'' webhookURL [(''Content-Type'', ''application/json'')] (Some (JObj [(''text'', JStr text)])) of
                 BadRequest e \<Rightarrow> (fails (Wrap ''slack plugin: failed to create request: '' e ''''), w)
               | NoResponse e \<Rightarrow> (fails (Wrap ''slack plugin: http post failed: '' e ''''), w)
               | Replied status body \<Rightarrow>
                   (if 400 \<le> status then (fails (Errorf (''slack plugin: received error status '' @ itoa status)), w)
                    else (returns (JStr ''slack message delivered''), w))))"

section \<open>Simulated work\<close>

definition Image_Execute :: "'s plugin_env \<Rightarrow> Job \<Rightarrow> 's world \<Rightarrow> outcome \<times> 's world" where
  "Image_Execute pe job w =
     (let sourceURL = text_field job ''source_url''; operation = or_default (text_field job ''operation'') ''process''
      in if sourceURL = '''' then (fails (missing_field ''image'' ''source_url''), w)
         else (returns (JObj [(''status'', JStr ''processed''), (''operation'', JStr operation), (''url'', JStr sourceURL)]), w))"

fun progress_loop :: "'s plugin_env \<Rightarrow> (nat \<Rightarrow> rat) \<Rightarrow> nat list \<Rightarrow> 's world \<Rightarrow> go_error option \<times> 's world" where
  \<comment> \<open>a loop that stops at a check that finds the context ended and reports progress after each round\<close>
  "progress_loop pe pct [] w = (None, w)"
| "progress_loop pe pct (i # is) w =
     (case peDone pe i of Some e \<Rightarrow> (Some e, w) | None \<Rightarrow> progress_loop pe pct is (ReportProgress pe (pct i) w))"

definition DataExport_Execute :: "'s plugin_env \<Rightarrow> Job \<Rightarrow> 's world \<Rightarrow> outcome \<times> 's world" where
  "DataExport_Execute pe job w =
     (let fmt = or_default (text_field job ''format'') ''csv''
      in case progress_loop pe (\<lambda>i. of_nat (200 * i + 200) / 1000 * 100) [0, 1, 2, 3, 4] w of
           (Some e, w1) \<Rightarrow> (fails e, w1)
         | (None, w1) \<Rightarrow>
             (returns (JObj [(''download_url'', JStr (''https://storage.example.com/exports/export_'' @ jID job @ ''.'' @ fmt)),
                (''format'', JStr fmt), (''status'', JStr ''ready'')]), w1))"

definition LLM_Execute :: "'s plugin_env \<Rightarrow> Job \<Rightarrow> 's world \<Rightarrow> outcome \<times> 's world" where
  "LLM_Execute pe job w =
     (let prompt = text_field job ''prompt''; model = or_default (text_field job ''model'') ''gpt-4o''
      in if prompt = '''' then (fails (missing_field ''llm'' ''prompt''), w)
         else (case progress_loop pe (\<lambda>i. of_nat i * 20) [1, 2, 3, 4, 5] w of
                 (Some e, w1) \<Rightarrow> (fails e, w1)
               | (None, w1) \<Rightarrow>
                   (returns (JObj [(''response'', JStr (''This is a simulated AI response for the prompt: '' @ quoted prompt @
                      '' using model '' @ model @ ''.'')), (''model'', JStr model), (''tokens'', jint 42), (''status'', JStr ''success'')]), w1)))"

definition S3_Execute :: "'s plugin_env \<Rightarrow> Job \<Rightarrow> 's world \<Rightarrow> outcome \<times> 's world" where
  "S3_Execute pe job w =
     (let bucket = text_field job ''bucket''; objectKey = text_field job ''object_key''; data = text_field job ''data''
      in if bucket = '''' then (fails (missing_field ''s3'' ''bucket''), w)
         else if objectKey = '''' then (fails (missing_field ''s3'' ''object_key''), w)
         else if data = '''' then (fails (missing_field ''s3'' ''data''), w)
         else (case peDone pe 0 of
                 Some e \<Rightarrow> (fails e, w)
               | None \<Rightarrow>
                   (returns (JObj [(''s3_url'', JStr (''s3://'' @ bucket @ ''/'' @ objectKey)),
                      (''https_url'', JStr (''https://'' @ bucket @ ''.s3.amazonaws.com/'' @ objectKey)), (''status'', JStr ''uploaded'')]), w)))"

definition PDF_Execute :: "'s plugin_env \<Rightarrow> Job \<Rightarrow> 's world \<Rightarrow> outcome \<times> 's world" where
  "PDF_Execute pe job w =
     (if text_field job ''html'' = '''' \<and> text_field job ''url'' = ''''
      then (fails (Errorf ''pdf plugin: must provide either 'html' or 'url' in payload''), w)
      else (case peDone pe 0 of
              Some e \<Rightarrow> (fails e, w)
            | None \<Rightarrow>
                (returns (JObj [(''pdf_url'', JStr (''https://storage.example.com/pdfs/rendered_'' @ jID job @ ''.pdf'')),
                   (''status'', JStr ''success'')]), w)))"

section \<open>Map-reduce\<close>

definition child_request :: "Job \<Rightarrow> string \<Rightarrow> fields \<Rightarrow> string list \<Rightarrow> JobRequest" where
  \<comment> \<open>the arguments of the two calls of \<open>CreateJob\<close>\<close>
  "child_request job type payload dependencies =
     \<lparr>rqType = type, rqPayload = Some payload, rqLabels = [], rqPriority = or_default (jPriority job) ''medium'',
      rqMaxRetries = 3, rqBackoffAlgorithm = '''', rqBackoffJitter = '''', rqCronExpr = '''', rqRunAt = JStr '''',
      rqCorrelationID = jCorrelationID job, rqTimeout = 0, rqVersion = 1, rqTenantID = jTenantID job, rqWebhook = None,
      rqDedupKey = '''', rqDependencies = dependencies, rqShardKey = '''', rqTTLSeconds = 0\<rparr>"

definition map_request :: "Job \<Rightarrow> string \<Rightarrow> nat \<Rightarrow> json \<Rightarrow> JobRequest" where
  "map_request job mapType i item =
     child_request job mapType [(''item'', item), (''map_index'', jint (int i)), (''parent_job'', JStr (jID job))] []"

definition reduce_request :: "Job \<Rightarrow> string \<Rightarrow> nat \<Rightarrow> string list \<Rightarrow> JobRequest" where
  "reduce_request job reduceType n ids =
     child_request job reduceType
       [(''parent_job'', JStr (jID job)), (''map_jobs'', JArr (map JStr ids)), (''item_count'', jint (int n))] ids"

fun fan_out ::
    "'s plugin_env \<Rightarrow> (nat \<Rightarrow> JobRequest \<Rightarrow> 's world \<Rightarrow> (go_error + Job) \<times> 's world) \<Rightarrow> Job \<Rightarrow> string \<Rightarrow> nat \<Rightarrow> nat \<Rightarrow>
     json list \<Rightarrow> 's world \<Rightarrow> (go_error + string list) \<times> 's world" where
  \<comment> \<open>the loop over the items from the \<open>i\<close>-th of \<open>n\<close> on\<close>
  "fan_out pe submit job mapType n i [] w = (Inr [], w)"
| "fan_out pe submit job mapType n i (item # items) w =
     (case submit i (map_request job mapType i item) w of
        (Inl e, w1) \<Rightarrow> (Inl (Wrap (''map_reduce plugin: failed to spawn map job '' @ itoa (int i) @ '': '') e ''''), w1)
      | (Inr mapJob, w1) \<Rightarrow>
          (let w2 = ReportProgress pe (of_nat (i + 1) / of_nat n * 50) w1 in
           (case fan_out pe submit job mapType n (i + 1) items w2 of
              (Inl e, w3) \<Rightarrow> (Inl e, w3)
            | (Inr ids, w3) \<Rightarrow> (Inr (jID mapJob # ids), w3))))"

definition MapReduce_Execute :: "'s plugin_env \<Rightarrow> Job \<Rightarrow> 's world \<Rightarrow> outcome \<times> 's world" where
  "MapReduce_Execute pe job w =
     (let items = (case map_of (payload_of job) ''items'' of Some (JArr vs) \<Rightarrow> vs | _ \<Rightarrow> []);
          mapType = text_field job ''map_job_type''; reduceType = text_field job ''reduce_job_type'' in
      if items = [] then (fails (Errorf ''map_reduce plugin: missing or empty 'items' array''), w)
      else if mapType = '''' then (fails (Errorf (''map_reduce plugin: missing '' @ [CHR 0x27] @ ''map_job_type'' @ [CHR 0x27])), w)
      else if reduceType = '''' then (fails (Errorf (''map_reduce plugin: missing '' @ [CHR 0x27] @ ''reduce_job_type'' @ [CHR 0x27])), w)
      else (case peSubmitter pe of
        None \<Rightarrow> (fails (Errorf ''map_reduce plugin: job submitter not found in context (ensure worker injected it)''), w)
      | Some submit \<Rightarrow>
          (case fan_out pe submit job mapType (length items) 0 items w of
             (Inl e, w1) \<Rightarrow> (fails e, w1)
           | (Inr ids, w1) \<Rightarrow>
               (case submit (length items) (reduce_request job reduceType (length items) ids) w1 of
                  (Inl e, w2) \<Rightarrow> (fails (Wrap ''map_reduce plugin: failed to spawn reduce job: '' e ''''), w2)
                | (Inr reduceJob, w2) \<Rightarrow>
                    (returns (JObj [(''status'', JStr ''fan_out_complete''), (''map_jobs_count'', jint (int (length ids))),
                       (''reduce_job_id'', JStr (jID reduceJob)), (''reduce_job_type'', JStr reduceType)]),
                     ReportProgress pe 100 w2)))))"

section \<open>Global registration\<close>

definition RegisterGlobal :: "'s JobPlugin \<Rightarrow> 's Registry \<Rightarrow> 's Registry" where
  "RegisterGlobal p reg = snd (Registry_Register p reg)"

definition standard_plugins :: "'s plugin_env \<Rightarrow> 's JobPlugin list" where
  \<comment> \<open>the \<open>init\<close> functions, in the order of the file names\<close>
  "standard_plugins pe = map (\<lambda>(t, f). \<lparr>plType = t, plExecute = f pe\<rparr>)
     [(''data_export'', DataExport_Execute), (''email'', Email_Execute), (''http'', HTTP_Execute), (''image'', Image_Execute),
      (''llm'', LLM_Execute), (''map_reduce'', MapReduce_Execute), (''pdf'', PDF_Execute), (''s3_upload'', S3_Execute),
      (''slack'', Slack_Execute)]"

definition globalRegistry :: "'s plugin_env \<Rightarrow> 's Registry" where
  "globalRegistry pe = fold RegisterGlobal (standard_plugins pe) NewRegistry"

end
