(* ===== verification/Plugin_Props.thy ===== *)
theory Plugin_Props
  imports Plugins Service_Props
begin

text \<open>
  Properties of the built-in plugins: which accepted job types a worker can run, what the
  validation of requests guarantees to a plugin, and what a map-reduce job submits.
\<close>

section \<open>Immediate submissions\<close>

lemma build_job_immediate:
  assumes "rqCronExpr rq = ''''"
  shows "jID (build_job s u1 u2 now rq zero_time) = u2" "jStatus (build_job s u1 u2 now rq zero_time) = StatusPending"
    "jRunAt (build_job s u1 u2 now rq zero_time) = now" "jType (build_job s u1 u2 now rq zero_time) = rqType rq"
    "jPayload (build_job s u1 u2 now rq zero_time) = rqPayload rq"
    "jTenantID (build_job s u1 u2 now rq zero_time) = rqTenantID rq"
    "jDependencies (build_job s u1 u2 now rq zero_time) = rqDependencies rq"
  using assms by (simp_all add: build_job_def NewJob_def Let_def IsZero_def)

definition pushed :: "'s JobService \<Rightarrow> string \<Rightarrow> Job \<Rightarrow> (string \<Rightarrow> blob list) \<Rightarrow> string \<Rightarrow> blob list" where
  \<comment> \<open>the lists after a push of the job to its pending partition\<close>
  "pushed s tr j ls =
     (let k = getPartitionedKey (svcQueue s) (jID j) (jPriority j) in ls(k := Doc (job_json (j\<lparr>jTraceID := tr\<rparr>)) # ls k))"

context job_service
begin

lemma CreateJob_immediate:
  assumes w: "ok w" and rq: "rqRunAt rq = JStr ''''" "rqCronExpr rq = ''''"
    and res: "JobService_CreateJob s u1 u2 tr now rq w = (Inr job, w')"
  shows "ok w'" and "lookup w' = (lookup w)(u2 \<mapsto> build_job s u1 u2 now rq zero_time)" and "jID job = u2"
    and "rZsets (wDb w') = rZsets (wDb w)"
    and "rLists (wDb w') =
          (if \<forall>d\<in>set (rqDependencies rq). \<exists>j. lookup w d = Some j \<and> jStatus j = StatusCompleted
           then pushed s tr (build_job s u1 u2 now rq zero_time) (rLists (wDb w)) else rLists (wDb w))"
proof -
  let ?saved = "build_job s u1 u2 now rq zero_time"
  have r: "run_at_check now (rqRunAt rq) = Inr zero_time" by (simp add: run_at_check_def rq(1))
  from CreateJob_stages [OF w res] obtain allMet w5 where q: "quiet w w5" and
    m: "allMet = (\<forall>d\<in>set (rqDependencies rq). \<exists>j. lookup w d = Some j \<and> jStatus j = StatusCompleted)" and
    sub: "submit_job s tr now allMet ?saved w5 = (Inr job, w')"
    using r by auto
  have k: "ok w5" "lookup w5 = lookup w" using frame_quiet [OF w q] by auto
  have l: "rLists (wDb w5) = rLists (wDb w)" "rZsets (wDb w5) = rZsets (wDb w)" using quiet_queue [OF q] by auto
  note spec = submit_job_spec [OF k(1) sub]
  show "ok w'" and "lookup w' = (lookup w)(u2 \<mapsto> ?saved)" and "jID job = u2"
    using spec by (auto simp: k(2) build_job_immediate [OF rq(2)] split: if_splits)
  have "rZsets (wDb w') = rZsets (wDb w) \<and> rLists (wDb w') = (if allMet then pushed s tr ?saved (rLists (wDb w)) else rLists (wDb w))"
    using spec by (auto simp: build_job_immediate [OF rq(2)] enqueued_def queue_frame_def pushed_def Let_def l split: if_splits)
  then show "rZsets (wDb w') = rZsets (wDb w)" and
    "rLists (wDb w') =
          (if \<forall>d\<in>set (rqDependencies rq). \<exists>j. lookup w d = Some j \<and> jStatus j = StatusCompleted
           then pushed s tr ?saved (rLists (wDb w)) else rLists (wDb w))" by (simp_all add: m)
qed

end

section \<open>Fan-out\<close>

lemma child_request_fields [simp]:
  "rqRunAt (map_request job t i v) = JStr ''''" "rqCronExpr (map_request job t i v) = ''''"
  "rqDependencies (map_request job t i v) = []" "rqRunAt (reduce_request job t n ids) = JStr ''''"
  "rqCronExpr (reduce_request job t n ids) = ''''" "rqDependencies (reduce_request job t n ids) = ids"
  by (simp_all add: map_request_def reduce_request_def child_request_def)

definition map_job ::
    "'s JobService \<Rightarrow> (nat \<Rightarrow> string) \<Rightarrow> (nat \<Rightarrow> string) \<Rightarrow> (nat \<Rightarrow> time) \<Rightarrow> Job \<Rightarrow> string \<Rightarrow> nat \<times> json \<Rightarrow> Job" where
  \<comment> \<open>the record of the \<open>i\<close>-th map job\<close>
  "map_job s u1 u2 now job mapType x =
     build_job s (u1 (fst x)) (u2 (fst x)) (now (fst x)) (map_request job mapType (fst x) (snd x)) zero_time"

lemma map_job_id [simp]: "jID (map_job s u1 u2 now job mapType x) = u2 (fst x)"
  "jStatus (map_job s u1 u2 now job mapType x) = StatusPending"
  by (simp_all add: map_job_def build_job_immediate)

lemma fold_upd_notin: "k \<notin> u ` set (map fst xs) \<Longrightarrow> fold (\<lambda>x m. m(u (fst x) \<mapsto> f x)) xs m k = m k"
  by (induction xs arbitrary: m) auto

lemma fold_upd_cong: "m k = m' k \<Longrightarrow> fold (\<lambda>x m. m(u (fst x) \<mapsto> f x)) xs m k = fold (\<lambda>x m. m(u (fst x) \<mapsto> f x)) xs m' k"
proof (induction xs arbitrary: m m')
  case (Cons x xs)
  show ?case unfolding fold_simps by (rule Cons.IH) (use Cons.prems in simp)
qed simp

definition progressed :: "time \<Rightarrow> rat \<Rightarrow> Job \<Rightarrow> Job" where
  "progressed t x j = j\<lparr>jProgress := x, jUpdatedAt := t\<rparr>"

definition touched :: "Job option \<Rightarrow> Job option \<Rightarrow> bool" where
  \<comment> \<open>the second record is the first one, but for its progress\<close>
  "touched a b \<longleftrightarrow> b = a \<or> (\<exists>t x. b = map_option (progressed t x) a)"

lemma progressed_twice [simp]: "progressed t x (progressed u y j) = progressed t x j"
  by (simp add: progressed_def)

lemma touched_refl [simp]: "touched a a"
  by (simp add: touched_def)

lemma touched_again: "touched a b \<Longrightarrow> map_option (progressed t x) b = map_option (progressed t x) a"
  by (auto simp: touched_def option.map_comp comp_def)

lemma touched_progressed: "touched a b \<Longrightarrow> touched a (map_option (progressed t x) b)"
  by (auto simp: touched_again touched_def [of a "map_option f a" for f])

lemma touched_trans: "touched a b \<Longrightarrow> touched b c \<Longrightarrow> touched a c"
  using touched_progressed [of a b] by (auto simp: touched_def [of b c])

context job_service
begin

lemma UpdateJobProgress_spec:
  assumes w: "ok w" and x: "0 \<le> x" "x \<le> 100" and w': "w' = snd (JobService_UpdateJobProgress s t i x w)"
  shows "ok w'" and "lookup w' = (lookup w)(i := map_option (progressed t x) (lookup w i))"
    and "rLists (wDb w') = rLists (wDb w)" and "rZsets (wDb w') = rZsets (wDb w)"
proof -
  have e: "w' = snd (st_UpdateProgress (svcStore s) t i x w)" using x by (simp add: w' JobService_UpdateJobProgress_def)
  show "rLists (wDb w') = rLists (wDb w)" and "rZsets (wDb w') = rZsets (wDb w)"
    using progress_queue [OF w, of t i x] by (simp_all add: e queue_frame_def)
  show "ok w'" and "lookup w' = (lookup w)(i := map_option (progressed t x) (lookup w i))"
    using progress_some [OF w, of i _ t x] progress_none [OF w, of i t x] w
    by (cases "lookup w i"; force simp: e progressed_def)+
qed

lemma fan_out_spec:
  assumes pe: "pe = worker_context s u1 u2 tr now pt job pe0" and "ok w" and fresh: "jID job \<notin> u2 ` {i..<i + length items}"
    and n: "i + length items \<le> n"
    and "fan_out pe (\<lambda>i. JobService_CreateJob s (u1 i) (u2 i) tr (now i)) job mapType n i items w = (Inr ids, w')"
  shows "ok w' \<and> ids = map u2 [i..<i + length items] \<and>
         (\<forall>k. k \<noteq> jID job \<longrightarrow>
            lookup w' k = fold (\<lambda>x m. m(u2 (fst x) \<mapsto> map_job s u1 u2 now job mapType x)) (enumerate i items) (lookup w) k) \<and>
         touched (lookup w (jID job)) (lookup w' (jID job)) \<and>
         rZsets (wDb w') = rZsets (wDb w) \<and>
         rLists (wDb w') = fold (\<lambda>x. pushed s tr (map_job s u1 u2 now job mapType x)) (enumerate i items) (rLists (wDb w))"
  using assms(2-)
proof (induction items arbitrary: i w ids)
  case Nil
  then show ?case by simp
next
  case (Cons item items)
  let ?c = "\<lambda>i. JobService_CreateJob s (u1 i) (u2 i) tr (now i)" and ?x = "of_nat (i + 1) / of_nat n * 50 :: rat"
  from Cons.prems(4) obtain j w1 where c: "?c i (map_request job mapType i item) w = (Inr j, w1)"
    by (auto split: prod.splits sum.splits)
  note im = CreateJob_immediate [OF Cons.prems(1) _ _ c, simplified]
  define w2 where w2: "w2 = snd (JobService_UpdateJobProgress s (pt ?x) (jID job) ?x w1)"
  have "ReportProgress pe ?x w1 = w2"
    by (simp add: pe worker_context_def WithProgressCallback_def ReportProgress_def w2)
  with Cons.prems(4) c obtain ids' where f: "ids = jID j # ids'" "fan_out pe ?c job mapType n (i + 1) items w2 = (Inr ids', w')"
    by (auto split: prod.splits sum.splits)
  have "0 \<le> ?x" "?x \<le> 100" using Cons.prems(3) by (simp_all add: field_simps)
  note up = UpdateJobProgress_spec [OF im(1) this w2]
  have m: "map_job s u1 u2 now job mapType (i, item) =
      build_job s (u1 i) (u2 i) (now i) (map_request job mapType i item) zero_time" by (simp add: map_job_def)
  have notin: "jID job \<noteq> u2 i" "jID job \<notin> u2 ` {i + 1..<i + 1 + length items}" using Cons.prems(2) by auto
  have t: "touched (lookup w (jID job)) (lookup w2 (jID job))" using im(2) notin(1) by (simp add: up(2) touched_progressed)
  have l: "lookup w2 k = ((lookup w)(u2 i \<mapsto> map_job s u1 u2 now job mapType (i, item))) k" if "k \<noteq> jID job" for k
    using that im(2) by (simp add: up(2) m)
  from Cons.IH [OF up(1) notin(2) _ f(2)] Cons.prems(3) have IH: "ok w'" "ids' = map u2 [i + 1..<i + 1 + length items]"
    "\<And>k. k \<noteq> jID job \<Longrightarrow>
       lookup w' k = fold (\<lambda>x m. m(u2 (fst x) \<mapsto> map_job s u1 u2 now job mapType x)) (enumerate (i + 1) items) (lookup w2) k"
    "touched (lookup w2 (jID job)) (lookup w' (jID job))" "rZsets (wDb w') = rZsets (wDb w2)"
    "rLists (wDb w') = fold (\<lambda>x. pushed s tr (map_job s u1 u2 now job mapType x)) (enumerate (i + 1) items) (rLists (wDb w2))"
    by (simp_all del: fun_upd_apply)
  have "lookup w' k = fold (\<lambda>x m. m(u2 (fst x) \<mapsto> map_job s u1 u2 now job mapType x)) (enumerate i (item # items)) (lookup w) k"
    if "k \<noteq> jID job" for k
    using IH(3) [OF that] fold_upd_cong [where m = "lookup w2" and k = k and m' = "(lookup w)(u2 i \<mapsto> map_job s u1 u2 now job mapType (i, item))", OF l [OF that]] by (simp del: fun_upd_apply)
  with IH im up touched_trans [OF t IH(4)] show ?case
    by (simp add: f(1) m upt_conv_Cons del: upt_Suc fun_upd_apply)
qed

end

lemma fold_upd_in:
  "inj_on u (fst ` set xs) \<Longrightarrow> distinct (map fst xs) \<Longrightarrow> x \<in> set xs \<Longrightarrow> fold (\<lambda>x m. m(u (fst x) \<mapsto> f x)) xs m (u (fst x)) = Some (f x)"
proof (induction xs arbitrary: m)
  case (Cons y ys)
  show ?case
  proof (cases "x = y")
    case True
    have "u (fst y) \<notin> u ` set (map fst ys)" using Cons.prems(1,2) by (auto simp: inj_on_def)
    then show ?thesis by (simp add: True fold_upd_notin del: fun_upd_apply) simp
  next
    case False
    then show ?thesis using Cons by (simp add: inj_on_def)
  qed
qed simp

lemma fst_enumerate: "fst ` set (enumerate 0 items) = {0..<length items}" "distinct (map fst (enumerate 0 items))"
  by (simp_all add: enumerate_eq_zip flip: set_map)

lemma fold_enumerate_nth:
  assumes "inj_on u {0..<length items}" "i < length items"
  shows "fold (\<lambda>x m. m(u (fst x) \<mapsto> f x)) (enumerate 0 items) m (u i) = Some (f (i, items ! i))"
  using fold_upd_in [of u "enumerate 0 items" "(i, items ! i)" f m] assms
  by (simp add: fst_enumerate in_set_enumerate_eq del: fun_upd_apply)

lemma fold_enumerate_other:
  assumes "k \<notin> u ` {0..<length items}"
  shows "fold (\<lambda>x m. m(u (fst x) \<mapsto> f x)) (enumerate 0 items) m k = m k"
  by (rule fold_upd_notin) (use assms in \<open>simp only: set_map fst_enumerate not_False_eq_True\<close>)

lemma MapReduce_stages:
  assumes items: "map_of (Executor.payload_of job) ''items'' = Some (JArr items)"
    and run: "MapReduce_Execute (worker_context s u1 u2 tr now pt job pe) job w = (Returned v None, w')"
  obtains ids w1 j w2 where "items \<noteq> []"
    and "fan_out (worker_context s u1 u2 tr now pt job pe) (\<lambda>i. JobService_CreateJob s (u1 i) (u2 i) tr (now i)) job
           (text_field job ''map_job_type'') (length items) 0 items w = (Inr ids, w1)"
    and "JobService_CreateJob s (u1 (length items)) (u2 (length items)) tr (now (length items))
           (reduce_request job (text_field job ''reduce_job_type'') (length items) ids) w1 = (Inr j, w2)"
    and "w' = snd (JobService_UpdateJobProgress s (pt 100) (jID job) 100 w2)"
proof -
  let ?pe = "worker_context s u1 u2 tr now pt job pe"
  have sub: "peSubmitter ?pe = Some (\<lambda>i. JobService_CreateJob s (u1 i) (u2 i) tr (now i))"
    by (simp add: worker_context_def WithProgressCallback_def WithSubmitter_def)
  have pr: "ReportProgress ?pe 100 w2 = snd (JobService_UpdateJobProgress s (pt 100) (jID job) 100 w2)" for w2
    by (simp add: worker_context_def WithProgressCallback_def ReportProgress_def)
  have "items \<noteq> []" "text_field job ''map_job_type'' \<noteq> ''''" "text_field job ''reduce_job_type'' \<noteq> ''''"
    using run by (auto simp: MapReduce_Execute_def items Let_def fails_def split: if_splits)
  with run that show ?thesis
    by (auto simp: MapReduce_Execute_def items sub pr Let_def fails_def returns_def split: prod.splits sum.splits)
qed

text \<open>
  C23. A map-reduce job that succeeds in the context of a worker has submitted exactly its fan-out: one pending record per item, in
  order, with the item, its index and the parent in the payload and the parent's tenant; and one pending reduce record that depends on exactly
  those jobs. The map jobs are pushed to the queue, each once; the reduce job is not, as its dependencies are
  open. The record of the parent shows progress 100; no other record of the store and nothing delayed changes.
\<close>

theorem map_reduce_fan_out:
  assumes js: "job_service s ok lookup" and w: "ok w"
    and items: "map_of (Executor.payload_of job) ''items'' = Some (JArr items)"
    and fresh: "inj_on u2 {0..length items}" "jID job \<notin> u2 ` {0..length items}"
    and run: "MapReduce_Execute (worker_context s u1 u2 tr now pt job pe) job w = (Returned v None, w')"
  shows "ok w' \<and>
    (\<forall>i < length items. \<exists>j. lookup w' (u2 i) = Some j \<and> jType j = text_field job ''map_job_type'' \<and> jStatus j = StatusPending \<and>
       jTenantID j = jTenantID job \<and>
       jPayload j = Some [(''item'', items ! i), (''map_index'', jint (int i)), (''parent_job'', JStr (jID job))]) \<and>
    (\<exists>j. lookup w' (u2 (length items)) = Some j \<and> jType j = text_field job ''reduce_job_type'' \<and> jStatus j = StatusPending \<and>
       jDependencies j = map u2 [0..<length items]) \<and>
    lookup w' (jID job) = map_option (progressed (pt 100) 100) (lookup w (jID job)) \<and>
    (\<forall>k. k \<noteq> jID job \<longrightarrow> k \<notin> u2 ` {0..length items} \<longrightarrow> lookup w' k = lookup w k) \<and>
    rLists (wDb w') = fold (\<lambda>x. pushed s tr (map_job s u1 u2 now job (text_field job ''map_job_type'') x))
                        (enumerate 0 items) (rLists (wDb w)) \<and>
    rZsets (wDb w') = rZsets (wDb w)"
proof -
  let ?n = "length items" and ?mt = "text_field job ''map_job_type''" and ?rt = "text_field job ''reduce_job_type''"
  let ?mj = "map_job s u1 u2 now job ?mt"
  obtain ids w1 j w2 where ne: "items \<noteq> []"
    and f: "fan_out (worker_context s u1 u2 tr now pt job pe) (\<lambda>i. JobService_CreateJob s (u1 i) (u2 i) tr (now i)) job ?mt ?n 0 items w =
      (Inr ids, w1)"
    and c: "JobService_CreateJob s (u1 ?n) (u2 ?n) tr (now ?n) (reduce_request job ?rt ?n ids) w1 = (Inr j, w2)"
    and r: "w' = snd (JobService_UpdateJobProgress s (pt 100) (jID job) 100 w2)"
    by (rule MapReduce_stages [OF items run])
  have p: "jID job \<notin> u2 ` {0..<0 + ?n}" "jID job \<noteq> u2 ?n" and inj: "inj_on u2 {0..<?n}" "\<And>i. i < ?n \<Longrightarrow> u2 i \<noteq> u2 ?n"
    using fresh by (auto intro: inj_on_subset dest!: inj_onD [OF fresh(1)])
  then have other: "u2 i \<noteq> jID job" if "i < ?n" for i using that by (metis atLeastLessThan_iff image_eqI add_0 zero_le)
  note fo = job_service.fan_out_spec [OF js refl w p(1) _ f, simplified]
  have ids: "ids = map u2 [0..<?n]" and
    l1: "\<And>k. k \<noteq> jID job \<Longrightarrow> lookup w1 k = fold (\<lambda>x m. m(u2 (fst x) \<mapsto> ?mj x)) (enumerate 0 items) (lookup w) k"
    using fo by auto
  have stored: "lookup w1 (u2 i) = Some (?mj (i, items ! i))" if "i < ?n" for i
    using fold_enumerate_nth [OF inj(1) that, of ?mj "lookup w"] by (simp add: l1 [OF other [OF that]])
  then have unmet: "\<not> (\<forall>d\<in>set ids. \<exists>j. lookup w1 d = Some j \<and> jStatus j = StatusCompleted)"
    using ne by (auto simp: ids intro!: bexI [of _ 0])
  note im = job_service.CreateJob_immediate [OF js _ _ _ c, simplified, OF conjunct1 [OF fo]]
  note up = job_service.UpdateJobProgress_spec [OF js im(1) _ _ r, simplified]
  have "lookup w' (u2 i) = Some (?mj (i, items ! i))" if "i < ?n" for i
    using stored inj(2) other that by (simp add: up(2) im(2))
  moreover have "lookup w' k = lookup w k" if "k \<noteq> jID job" "k \<notin> u2 ` {0..?n}" for k
  proof -
    have "k \<noteq> u2 ?n" "k \<notin> u2 ` {0..<?n}" using that(2) by auto
    then show ?thesis using that(1) by (simp add: up(2) im(2) l1 fold_enumerate_other)
  qed
  moreover have "lookup w' (jID job) = map_option (progressed (pt 100) 100) (lookup w (jID job))"
    using fo p(2) by (simp add: up(2) im(2) touched_again)
  moreover have "lookup w' (u2 ?n) = Some (build_job s (u1 ?n) (u2 ?n) (now ?n) (reduce_request job ?rt ?n ids) zero_time)"
    using p(2) by (simp add: up(2) im(2))
  moreover have "rLists (wDb w') = fold (\<lambda>x. pushed s tr (?mj x)) (enumerate 0 items) (rLists (wDb w))" "rZsets (wDb w') = rZsets (wDb w)"
    using im(4) im(5) [unfolded if_not_P [OF unmet]] up(3,4) fo by simp_all
  ultimately show ?thesis using up(1)
    by (auto simp: ids map_job_def build_job_immediate map_request_def reduce_request_def child_request_def)
qed

section \<open>A concrete fan-out\<close>

lemma mem_create_succeeds:
  assumes "mem_ok (wStore w)" "rqType rq \<in> set allowedJobTypes" "rqDedupKey rq = ''''" "rqRunAt rq = JStr ''''"
    and "\<forall>d\<in>set (rqDependencies rq). mem_lookup (wStore w) d \<noteq> None"
  shows "\<exists>job w'. JobService_CreateJob (mem_service '''' 0 0) u1 u2 tr now rq w = (Inr job, w')"
proof -
  let ?s = "mem_service '''' 0 0"
  have "isJobTypeAllowed ?s now (rqType rq) w = (True, w)" "dedup_check ?s now rq w = (None, w)"
    using assms(2,3) by (simp_all add: isJobTypeAllowed_def dedup_check_def)
  moreover obtain m where "dependency_check ?s now (rqDependencies rq) w = (Inr m, w)"
    using assms(1,5) mem_js.map_filter_complete [of "mem_lookup (wStore w)" "rqDependencies rq"]
    by (cases "rqDependencies rq = []") (auto simp: dependency_check_def mem_js.ids_law [of w, simplified])
  moreover have "rate_check ?s now t w = (None, w)" "size_check ?s now w = (None, w)" for t
    by (simp_all add: rate_check_def size_check_def on_db_def RedisQueue_IsAllowed_def)
  moreover have "run_at_check now (rqRunAt rq) = Inr zero_time" by (simp add: run_at_check_def assms(4))
  ultimately have c: "JobService_CreateJob ?s u1 u2 tr now rq w = submit_job ?s tr now m (build_job ?s u1 u2 now rq zero_time) w"
    by (simp add: JobService_CreateJob_def)
  obtain x w' where r: "submit_job ?s tr now m (build_job ?s u1 u2 now rq zero_time) w = (x, w')" by force
  with mem_js.submit_job_spec [OF assms(1) r] c show ?thesis by auto
qed

definition sample_map_reduce :: Job where
  "sample_map_reduce = zero_job\<lparr>jID := ''mr'', jType := ''map_reduce'', jTenantID := ''acme'',
     jPayload := Some [(''items'', JArr [JStr ''a'', JStr ''b'']), (''map_job_type'', JStr ''http''), (''reduce_job_type'', JStr ''email'')]\<rparr>"

definition sample_plugin_env :: "InMemoryStore plugin_env" where
  "sample_plugin_env = \<lparr>peGetenv = (\<lambda>_. ''''),
     peSmtp = \<lparr>smSendMail = (\<lambda>_ _ _ _. None), smDial = (\<lambda>_. None), smStartTLSOffered = False, smStartTLS = (\<lambda>_. None),
       smAuth = (\<lambda>_ _ _. None), smMail = (\<lambda>_. None), smRcpt = (\<lambda>_. None), smData = None, smWrite = (\<lambda>_. None),
       smClose = None, smQuit = None\<rparr>,
     peHttp = (\<lambda>_ _ _ _. Replied 200 ''ok''), peDone = (\<lambda>_. None),
     peSubmitter = None, peProgress = None\<rparr>"

definition sample_context :: "InMemoryStore plugin_env" where
  "sample_context = worker_context (mem_service '''' 0 0) (\<lambda>i. ''u'') (\<lambda>i. ''id-'' @ itoa (int i)) ''tr'' (\<lambda>i. 5) (\<lambda>x. 6)
     sample_map_reduce sample_plugin_env"

lemma itoa_small: "itoa 0 = ''0''" "itoa 1 = ''1''" "itoa 2 = ''2''"
  by code_simp+

theorem map_reduce_fan_out_witness:
  "\<exists>v w' j. MapReduce_Execute sample_context sample_map_reduce empty_world = (Returned v None, w') \<and>
     mem_lookup (wStore w') ''id-2'' = Some j \<and> jDependencies j = [''id-0'', ''id-1''] \<and> rZsets (wDb w') = rZsets empty_rdb"
proof -
  let ?s = "mem_service '''' 0 0" and ?u2 = "\<lambda>i. ''id-'' @ itoa (int i)"
  let ?c = "\<lambda>i. JobService_CreateJob ?s ''u'' (?u2 i) ''tr'' 5"
  have fields: "text_field sample_map_reduce ''map_job_type'' = ''http''" "text_field sample_map_reduce ''reduce_job_type'' = ''email''"
    "map_of (Executor.payload_of sample_map_reduce) ''items'' = Some (JArr [JStr ''a'', JStr ''b''])"
    by (simp_all add: text_field_def Executor.payload_of_def sample_map_reduce_def as_string_def)
  have rq: "rqType (map_request sample_map_reduce ''http'' i v) = ''http''" "rqDedupKey (map_request sample_map_reduce ''http'' i v) = ''''"
    "rqType (reduce_request sample_map_reduce ''email'' n ids) = ''email''" "rqDedupKey (reduce_request sample_map_reduce ''email'' n ids) = ''''"
    for i v n ids by (simp_all add: map_request_def reduce_request_def child_request_def)
  have allowed: "''http'' \<in> set allowedJobTypes" "''email'' \<in> set allowedJobTypes" by (simp_all add: allowedJobTypes_def)
  obtain j0 w0 where 0: "?c 0 (map_request sample_map_reduce ''http'' 0 (JStr ''a'')) empty_world = (Inr j0, w0)"
    using mem_create_succeeds [of empty_world "map_request sample_map_reduce ''http'' 0 (JStr ''a'')" "''u''" "?u2 0" "''tr''" 5] by (auto simp: rq allowed)
  note s0 = mem_js.CreateJob_immediate [OF _ _ _ 0, simplified]
  note p0 = mem_js.UpdateJobProgress_spec [OF s0(1), where x = 25 and t = 6 and i = "''mr''", OF _ _ refl, simplified]
  let ?p0 = "snd (JobService_UpdateJobProgress ?s 6 ''mr'' 25 w0)"
  obtain j1 w1 where 1: "?c 1 (map_request sample_map_reduce ''http'' 1 (JStr ''b'')) ?p0 = (Inr j1, w1)"
    using mem_create_succeeds [of ?p0 "map_request sample_map_reduce ''http'' 1 (JStr ''b'')" "''u''" "?u2 1" "''tr''" 5] p0 by (auto simp: rq allowed)
  note s1 = mem_js.CreateJob_immediate [OF _ _ _ 1, simplified, OF p0(1)]
  note p1 = mem_js.UpdateJobProgress_spec [OF s1(1), where x = 50 and t = 6 and i = "''mr''", OF _ _ refl, simplified]
  let ?p1 = "snd (JobService_UpdateJobProgress ?s 6 ''mr'' 50 w1)"
  have ids: "jID j0 = ''id-0''" "jID j1 = ''id-1''" using s0(3) s1(3) by (simp_all add: itoa_small)
  obtain j2 w2 where 2: "?c 2 (reduce_request sample_map_reduce ''email'' 2 [''id-0'', ''id-1'']) ?p1 = (Inr j2, w2)"
    using mem_create_succeeds [of ?p1 "reduce_request sample_map_reduce ''email'' 2 [''id-0'', ''id-1'']" "''u''" "?u2 2" "''tr''" 5] s0(2) p0(2) s1(2) p1
    by (auto simp: rq allowed itoa_small)
  let ?w = "snd (JobService_UpdateJobProgress ?s 6 ''mr'' 100 w2)"
  have pe: "peSubmitter sample_context = Some ?c"
    "ReportProgress sample_context x w = snd (JobService_UpdateJobProgress ?s 6 ''mr'' x w)" for x w
    by (simp_all add: sample_context_def worker_context_def WithProgressCallback_def WithSubmitter_def ReportProgress_def sample_map_reduce_def)
  obtain v where run: "MapReduce_Execute sample_context sample_map_reduce empty_world = (Returned v None, ?w)"
    using 0 1 2 by (simp add: MapReduce_Execute_def fields pe Let_def returns_def ids numeral_2_eq_2)
  have inj: "inj_on ?u2 {0..length [JStr ''a'', JStr ''b'']}" "jID sample_map_reduce \<notin> ?u2 ` {0..length [JStr ''a'', JStr ''b'']}"
    by (auto simp: inj_on_def numeral_2_eq_2 le_Suc_eq itoa_small itoa_small [simplified] sample_map_reduce_def)
  note r = map_reduce_fan_out [OF mem_js.job_service_axioms empty_world_ok(1) fields(3) inj run [unfolded sample_context_def]]
  have n: "length [JStr ''a'', JStr ''b''] = 2" "[0..<2] = [0, Suc 0]" by (simp_all add: numeral_2_eq_2)
  from r obtain j where "mem_lookup (wStore ?w) ''id-2'' = Some j" "jDependencies j = [''id-0'', ''id-1'']"
    unfolding n by (auto simp: itoa_small)
  moreover from r have "rZsets (wDb ?w) = rZsets empty_rdb" by (simp add: empty_world_def)
  ultimately show ?thesis using run by blast
qed

section \<open>Registered types and validated payloads\<close>

lemma registered_first:
  "map_of (fold RegisterGlobal ps reg) t = (case map_of reg t of Some p \<Rightarrow> Some p | None \<Rightarrow> find (\<lambda>p. plType p = t) ps)"
  by (induction ps arbitrary: reg)
     (auto simp: RegisterGlobal_def Registry_Register_def update_conv' split: option.split)

lemma standard_types:
  "map plType (standard_plugins pe) =
     [''data_export'', ''email'', ''http'', ''image'', ''llm'', ''map_reduce'', ''pdf'', ''s3_upload'', ''slack'']"
  by (simp add: standard_plugins_def)

lemma globalRegistry_get:
  "Registry_Get t (globalRegistry pe) = Inr p \<longleftrightarrow> p \<in> set (standard_plugins pe) \<and> plType p = t"
proof -
  have "distinct (map plType (standard_plugins pe))" by (simp add: standard_types)
  from find_unique [OF this, of t p] show ?thesis
    by (auto simp: Registry_Get_def globalRegistry_def registered_first NewRegistry_def split: option.splits)
qed

lemma globalRegistry_has:
  "(\<exists>p. Registry_Get t (globalRegistry pe) = Inr p) \<longleftrightarrow> t \<in> set (map plType (standard_plugins pe))"
  by (auto simp: globalRegistry_get)

text \<open>
  Of the types the service accepts without a registry, the test types have no plugin: a worker answers
  their jobs with an error.
\<close>

lemma accepted_without_plugin:
  assumes "t \<in> set allowedJobTypes"
  shows "(\<exists>p. Registry_Get t (globalRegistry pe) = Inr p) \<longleftrightarrow> t \<in> {''email'', ''image'', ''http''}"
  using assms by (simp add: globalRegistry_has standard_types allowedJobTypes_def) (elim disjE; simp)

lemma jget_map_of: "jget fs k = map_of fs k"
  by (induction fs) auto

lemma validated_fields:
  assumes "CreateJobRequest_Validate cron now q = None" "jPayload job = cqPayload q"
  shows "cqType q = ''email'' \<Longrightarrow> text_field job ''to'' \<noteq> ''''" "cqType q = ''image'' \<Longrightarrow> text_field job ''source_url'' \<noteq> ''''"
    "cqType q = ''http'' \<Longrightarrow> text_field job ''url'' \<noteq> ''''"
  using assms
  by (auto simp: CreateJobRequest_Validate_def validate_payload_def payload_string_def text_field_def Executor.payload_of_def
      jget_map_of split: option.splits if_splits)



end
