(* ===== verification/Sql.thy ===== *)
theory Sql
  imports Store
begin

text \<open>
  The PostgreSQL database behind \<^verbatim>\<open>internal/storage/postgres\<close>. The server and its driver are not part of
  the program: they are the parameter \<open>pg\<close>, and the locales \<open>pg_service\<close> and \<open>pg_up\<close> state what the program
  relies on, in terms of the documented effect of a statement (\<open>sql_step\<close>). The tables are those of
  \<^verbatim>\<open>db/migrations\<close>: \<open>id\<close> is the primary key of \<^verbatim>\<open>jobs\<close>, \<^verbatim>\<open>idx_jobs_dedup_key_unique\<close> makes a non-empty key
  unique within a tenant, and digests of keys are unique in \<^verbatim>\<open>clients\<close>. The text of a statement is
  represented by its parts: the selected columns, the condition as a function of the table and a row, the new
  values as a function of the old row. A condition that is null is not met. Rows that an \<^verbatim>\<open>ORDER BY\<close> leaves tied are
  listed in the order of the table.
\<close>

section \<open>Tables\<close>

record pgrow =
  cId :: string
  cTenant :: string
  cType :: string
  cPayload :: json
  cStatus :: string
  cPriority :: string
  cAttempts :: int
  cMaxAttempts :: int
  cError :: "string option"
  cResult :: "json option"
  cCorrelation :: string
  cTimeout :: int
  cVersion :: int
  cCreatedAt :: time
  cUpdatedAt :: time
  cScheduledAt :: time
  cCompletedAt :: "time option"
  cProcessedBy :: "string option"
  cHeartbeatAt :: "time option"
  cWebhookURL :: "string option"
  cWebhookSecret :: "string option"
  cWebhookEvents :: "string list"
  cWebhookLastStatus :: int
  cWebhookAttempts :: int
  cErrorHistory :: "json option"
  cDedupKey :: "string option"
  cDependencies :: "json option"
  cShardKey :: "string option"
  cProgress :: rat
  cCronExpr :: "string option"
  cExpiresAt :: "time option"

record pgclient =
  clTenant :: string
  clHash :: string
  clCreatedAt :: time

record pgdb =
  dbJobs :: "pgrow list"
  dbClients :: "pgclient list"
  dbArchive :: "pgrow list"

definition jobs_columns :: "string list" where
  \<comment> \<open>of the table \<open>jobs\<close> after all migrations\<close>
  "jobs_columns = [''id'', ''tenant_id'', ''type'', ''payload'', ''status'', ''priority'', ''attempts'', ''max_attempts'', ''error'',
     ''result'', ''correlation_id'', ''timeout_seconds'', ''version'', ''created_at'', ''updated_at'', ''scheduled_at'',
     ''completed_at'', ''processed_by'', ''last_heartbeat_at'', ''webhook_url'', ''webhook_secret'', ''webhook_events'',
     ''webhook_last_status'', ''webhook_attempts'', ''error_history'', ''dedup_key'', ''dependencies'', ''shard_key'', ''progress'',
     ''cron_expr'', ''expires_at'']"

definition archive_columns :: "string list" where
  \<comment> \<open>of the table \<open>jobs_archive\<close>\<close>
  "archive_columns = take 25 jobs_columns @ [''cron_expr'']"

section \<open>Statements\<close>

datatype stmt =
    Insert "pgrow list" "(pgrow \<Rightarrow> pgrow \<Rightarrow> pgrow) option"
  | Select "string list" "pgrow list \<Rightarrow> pgrow \<Rightarrow> bool" "pgrow list \<Rightarrow> pgrow list" "(int \<times> int) option"
  | Count "pgrow \<Rightarrow> bool"
  | GroupCount "pgrow \<Rightarrow> bool"
  | Update "pgrow \<Rightarrow> bool" "pgrow \<Rightarrow> pgrow"
  | Delete "pgrow \<Rightarrow> bool"
  | Archive "pgrow \<Rightarrow> bool"
  | InsertClient string string
  | SelectClients "pgclient \<Rightarrow> bool" "pgclient list \<Rightarrow> pgclient list"
  | DeleteClients "pgclient \<Rightarrow> bool"

datatype pg_reply =
    Affected int
  | Rows "pgrow list"
  | Number int
  | Groups "(string \<times> string \<times> int) list"
  | ClientRows "pgclient list"

definition duplicate_key :: "string \<Rightarrow> go_error" where
  "duplicate_key idx = Errorf (''ERROR: duplicate key value violates unique constraint '' @ quoted idx @ '' (SQLSTATE 23505)'')"

definition same_dedup :: "pgrow \<Rightarrow> pgrow \<Rightarrow> bool" where
  "same_dedup a b \<longleftrightarrow> cTenant a = cTenant b \<and> cDedupKey a = cDedupKey b \<and> cDedupKey a \<notin> {None, Some ''''}"

fun insert_rows :: "(pgrow \<Rightarrow> pgrow \<Rightarrow> pgrow) option \<Rightarrow> pgrow list \<Rightarrow> pgrow list \<Rightarrow> go_error + pgrow list" where
  \<comment> \<open>row by row; a conflict on the primary key is resolved by the given update of the existing row\<close>
  "insert_rows upd [] tab = Inr tab"
| "insert_rows upd (r # rs) tab =
     (if list_ex (\<lambda>x. cId x = cId r) tab then
        (case upd of
           None \<Rightarrow> Inl (duplicate_key ''jobs_pkey'')
         | Some f \<Rightarrow> insert_rows upd rs (map (\<lambda>x. if cId x = cId r then f r x else x) tab))
      else if list_ex (same_dedup r) tab then Inl (duplicate_key ''idx_jobs_dedup_key_unique'')
      else insert_rows upd rs (tab @ [r]))"

definition limited :: "(int \<times> int) option \<Rightarrow> 'a list \<Rightarrow> 'a list" where
  "limited lo xs = (case lo of None \<Rightarrow> xs | Some (l, off) \<Rightarrow> take (nat l) (drop (nat off) xs))"

fun group_counts :: "(string \<times> string) list \<Rightarrow> (string \<times> string \<times> int) list" where
  "group_counts ks = map (\<lambda>k. (fst k, snd k, int (length (filter ((=) k) ks)))) (remdups ks)"

fun sql_step :: "time \<Rightarrow> stmt \<Rightarrow> pgdb \<Rightarrow> (go_error + pg_reply) \<times> pgdb" where
  "sql_step now (Insert rs upd) db =
     (case insert_rows upd rs (dbJobs db) of
        Inl e \<Rightarrow> (Inl e, db) | Inr tab \<Rightarrow> (Inr (Affected (int (length rs))), db\<lparr>dbJobs := tab\<rparr>))"
| "sql_step now (Select cols p arr lo) db =
     (case lo of
        Some (l, off) \<Rightarrow>
          (if l < 0 \<or> off < 0 then (Inl (Errorf ''ERROR: LIMIT must not be negative''), db)
           else (Inr (Rows (limited lo (arr (filter (p (dbJobs db)) (dbJobs db))))), db))
      | None \<Rightarrow> (Inr (Rows (arr (filter (p (dbJobs db)) (dbJobs db)))), db))"
| "sql_step now (Count p) db = (Inr (Number (int (length (filter p (dbJobs db))))), db)"
| "sql_step now (GroupCount p) db = (Inr (Groups (group_counts (map (\<lambda>r. (cType r, cTenant r)) (filter p (dbJobs db))))), db)"
| "sql_step now (Update p f) db =
     (Inr (Affected (int (length (filter p (dbJobs db))))), db\<lparr>dbJobs := map (\<lambda>r. if p r then f r else r) (dbJobs db)\<rparr>)"
| "sql_step now (Delete p) db =
     (Inr (Affected (int (length (filter p (dbJobs db))))), db\<lparr>dbJobs := filter (\<lambda>r. \<not> p r) (dbJobs db)\<rparr>)"
| "sql_step now (Archive p) db =
     \<comment> \<open>\<open>INSERT INTO jobs_archive SELECT *\<close> of the deleted rows needs a target column for every column\<close>
     (if length archive_columns < length jobs_columns then (Inl (Errorf ''ERROR: INSERT has more expressions than target columns (SQLSTATE 42601)''), db)
      else (Inr (Affected (int (length (filter p (dbJobs db))))),
            db\<lparr>dbJobs := filter (\<lambda>r. \<not> p r) (dbJobs db), dbArchive := dbArchive db @ filter p (dbJobs db)\<rparr>))"
| "sql_step now (InsertClient t h) db =
     (if list_ex (\<lambda>c. clHash c = h) (dbClients db) then (Inl (duplicate_key ''clients_api_key_hash_key''), db)
      else (Inr (Affected 1), db\<lparr>dbClients := dbClients db @ [\<lparr>clTenant = t, clHash = h, clCreatedAt = now\<rparr>]\<rparr>))"
| "sql_step now (SelectClients p arr) db = (Inr (ClientRows (arr (filter p (dbClients db)))), db)"
| "sql_step now (DeleteClients p) db =
     (Inr (Affected (int (length (filter p (dbClients db))))), db\<lparr>dbClients := filter (\<lambda>c. \<not> p c) (dbClients db)\<rparr>)"

section \<open>The service\<close>

record pg =
  pgrun :: "time \<Rightarrow> stmt \<Rightarrow> pgdb \<Rightarrow> (go_error + pg_reply) \<times> pgdb"
  pgscan :: "string list \<Rightarrow> string list \<Rightarrow> go_error option"
  pgilike :: "string \<Rightarrow> json \<Rightarrow> bool"

definition scan_error :: "string list \<Rightarrow> string list \<Rightarrow> go_error" where
  "scan_error cols dests = Errorf (''number of field descriptions must equal number of destinations, got '' @
     itoa (int (length cols)) @ '' and '' @ itoa (int (length dests)))"

text \<open>
  \<open>pgscan cols dests\<close> is the error of the driver's \<^verbatim>\<open>Scan\<close> of a row with the given columns into the given
  destinations; the driver demands as many destinations as columns. \<open>pgilike\<close> is the match of the text of a
  value with a pattern.
\<close>

locale pg_service =
  fixes P :: pg
  assumes run: "pgrun P now s db = sql_step now s db \<or> (\<exists>e. pgrun P now s db = (Inl e, db))"
    and scan_mismatch: "length cols \<noteq> length dests \<Longrightarrow> pgscan P cols dests = Some (scan_error cols dests)"
    and scan_match: "length cols = length dests \<Longrightarrow> pgscan P cols dests = None"

locale pg_up = pg_service P for P +
  assumes run_up: "pgrun P now s db = sql_step now s db"

definition pg_ref :: pg where
  "pg_ref = \<lparr>pgrun = sql_step, pgscan = (\<lambda>c d. if length c = length d then None else Some (scan_error c d)), pgilike = (\<lambda>_ _. False)\<rparr>"

interpretation pg_ref: pg_up pg_ref
  by unfold_locales (simp_all add: pg_ref_def)

section \<open>Constraints\<close>

definition pg_ok :: "pgdb \<Rightarrow> bool" where
  \<comment> \<open>the constraints of the tables\<close>
  "pg_ok db \<longleftrightarrow> distinct (map cId (dbJobs db)) \<and> distinct (map clHash (dbClients db)) \<and>
     (\<forall>a \<in> set (dbJobs db). \<forall>b \<in> set (dbJobs db). same_dedup a b \<longrightarrow> a = b)"

definition keeps_keys :: "(pgrow \<Rightarrow> pgrow) \<Rightarrow> bool" where
  \<comment> \<open>an update of the columns without uniqueness constraint\<close>
  "keeps_keys f \<longleftrightarrow> (\<forall>r. cId (f r) = cId r \<and> cTenant (f r) = cTenant r \<and> cDedupKey (f r) = cDedupKey r)"

definition find_row :: "pgdb \<Rightarrow> string \<Rightarrow> pgrow option" where
  "find_row db i = find (\<lambda>r. cId r = i) (dbJobs db)"

lemma same_dedup_update:
  "keeps_keys f \<Longrightarrow> same_dedup (f a) b = same_dedup a b" "keeps_keys f \<Longrightarrow> same_dedup a (f b) = same_dedup a b"
  by (auto simp: keeps_keys_def same_dedup_def)

lemma same_dedup_sym: "same_dedup a b \<longleftrightarrow> same_dedup b a"
  unfolding same_dedup_def by metis

lemma map_update_ids: "keeps_keys f \<Longrightarrow> map cId (map (\<lambda>r. if p r then f r else r) tab) = map cId tab"
  by (simp add: keeps_keys_def)

definition jobs_ok :: "pgrow list \<Rightarrow> bool" where
  "jobs_ok tab \<longleftrightarrow> distinct (map cId tab) \<and> (\<forall>a \<in> set tab. \<forall>b \<in> set tab. same_dedup a b \<longrightarrow> cId a = cId b)"

lemma pg_ok_jobs: "pg_ok db \<longleftrightarrow> jobs_ok (dbJobs db) \<and> distinct (map clHash (dbClients db))"
  unfolding pg_ok_def jobs_ok_def by (auto dest: inj_onD simp: distinct_map)

lemma jobs_ok_update:
  assumes "jobs_ok tab" and "keeps_keys f"
  shows "jobs_ok (map (\<lambda>r. if p r then f r else r) tab)"
proof -
  have d: "distinct (map cId (map (\<lambda>r. if p r then f r else r) tab))"
    unfolding map_update_ids [OF assms(2)] using assms(1) by (simp add: jobs_ok_def)
  have "cId (f a) = cId a" for a using assms(2) by (simp add: keeps_keys_def)
  then show ?thesis
    using assms(1) d unfolding jobs_ok_def by (auto simp: same_dedup_update [OF assms(2)])
qed

lemma jobs_ok_filter: "jobs_ok tab \<Longrightarrow> jobs_ok (filter p tab)"
  by (auto simp: jobs_ok_def distinct_map_filter)

fun keyed :: "stmt \<Rightarrow> bool" where
  "keyed (Insert rs (Some f)) \<longleftrightarrow> (\<forall>r \<in> set rs. keeps_keys (f r))"
| "keyed (Update p f) \<longleftrightarrow> keeps_keys f"
| "keyed _ \<longleftrightarrow> True"

lemma jobs_ok_insert:
  "jobs_ok tab \<Longrightarrow> keyed (Insert rs upd) \<Longrightarrow> insert_rows upd rs tab = Inr tab' \<Longrightarrow> jobs_ok tab'"
proof (induction rs arbitrary: tab)
  case (Cons r rs)
  have k: "keyed (Insert rs upd)" using Cons.prems(2) by (cases upd) auto
  show ?case
  proof (cases "list_ex (\<lambda>x. cId x = cId r) tab")
    case True
    then obtain f where f: "upd = Some f" using Cons.prems(3) by (auto split: option.splits)
    then have "jobs_ok (map (\<lambda>x. if cId x = cId r then f r x else x) tab)"
      using Cons.prems(1,2) by (intro jobs_ok_update) auto
    then show ?thesis using Cons.IH k Cons.prems(3) True f by simp
  next
    case False
    then have d: "\<not> list_ex (same_dedup r) tab" and i: "insert_rows upd rs (tab @ [r]) = Inr tab'"
      using Cons.prems(3) by (auto split: if_splits)
    have "cId r \<notin> cId ` set tab" using False by (auto simp: list_ex_iff)
    moreover have "\<forall>b \<in> set tab. \<not> same_dedup r b \<and> \<not> same_dedup b r"
      using d same_dedup_sym by (auto simp: list_ex_iff)
    ultimately have "jobs_ok (tab @ [r])" using Cons.prems(1) by (simp add: jobs_ok_def ball_Un)
    then show ?thesis using Cons.IH k i by blast
  qed
qed simp

text \<open>Every statement whose updates leave the keys alone keeps the constraints, whether it succeeds or not.\<close>

lemma sql_step_ok:
  assumes "pg_ok db" and "keyed s"
  shows "pg_ok (snd (sql_step now s db))"
proof (cases s)
  case (Insert rs upd)
  with assms show ?thesis
    by (auto simp: pg_ok_jobs split: sum.split intro: jobs_ok_insert)
next
  case (Update p f)
  with assms show ?thesis by (auto simp: pg_ok_jobs intro: jobs_ok_update)
qed (use assms in \<open>auto simp: pg_ok_jobs jobs_ok_filter distinct_map_filter list_ex_iff split: option.split\<close>)

context pg_service
begin

lemma run_ok: "pg_ok db \<Longrightarrow> keyed s \<Longrightarrow> pg_ok (snd (pgrun P now s db))"
  using run [of now s db] sql_step_ok by fastforce

end

end
