(* ===== verification/Postgres.thy ===== *)
theory Postgres
  imports Sql
begin

text \<open>
  \<^verbatim>\<open>PostgresStore\<close> of \<^verbatim>\<open>internal/storage/postgres/postgres.go\<close>, one definition per method, over the service
  \<open>pg\<close>. \<open>fmt\<close> is the verb \<open>%v\<close>. The transaction of \<^verbatim>\<open>Dequeue\<close> is its two statements; an error of the second
  surfaces at the commit, which then leaves the table as it was. The list of dependencies is written as null
  when it is empty.
\<close>

section \<open>Connecting\<close>

datatype attempt = PoolError go_error | PingError go_error | MigrateError go_error | Connected

definition attempt_text :: "nat \<Rightarrow> int \<Rightarrow> string" where
  "attempt_text i maxRetries = '' (attempt '' @ itoa (int i + 1) @ ''/'' @ itoa (maxRetries + 1) @ ''): ''"

function connect_from :: "(nat \<Rightarrow> attempt) \<Rightarrow> (nat \<Rightarrow> go_error option) \<Rightarrow> int \<Rightarrow> nat \<Rightarrow> go_error option \<Rightarrow> go_error option" where
  \<comment> \<open>the loop of \<open>NewWithRetry\<close> from the given attempt on; \<open>None\<close>: no error (with a negative maximum also no pool). \<open>stop i\<close> is the error of the context found
      ended in the backoff before attempt \<open>i\<close>\<close>
  "connect_from try stop maxRetries i lastErr =
     (if maxRetries < int i then lastErr
      else (case (if i = 0 then None else stop i) of
        Some e \<Rightarrow> Some (Wrap ''postgres: context cancelled during retry: '' e '''')
      | None \<Rightarrow>
          (case try i of
             PoolError e \<Rightarrow> connect_from try stop maxRetries (i + 1)
               (Some (Wrap (''postgres: failed to create pool'' @ attempt_text i maxRetries) e ''''))
           | PingError e \<Rightarrow> connect_from try stop maxRetries (i + 1)
               (Some (Wrap (''postgres: health check failed'' @ attempt_text i maxRetries) e ''''))
           | MigrateError e \<Rightarrow> connect_from try stop maxRetries (i + 1)
               (Some (Wrap (''postgres: auto-migration failed'' @ attempt_text i maxRetries) e ''''))
           | Connected \<Rightarrow> None)))"
  by pat_completeness auto

termination
  by (relation "measure (\<lambda>(t, s, m, i, e). nat (m + 1 - int i))") auto

declare connect_from.simps [simp del]

definition NewWithRetry :: "go_error option \<Rightarrow> (nat \<Rightarrow> attempt) \<Rightarrow> (nat \<Rightarrow> go_error option) \<Rightarrow> int \<Rightarrow> go_error option" where
  \<comment> \<open>the first argument is the error of parsing the connection string\<close>
  "NewWithRetry parsed try stop maxRetries =
     (case parsed of
        Some e \<Rightarrow> Some (Wrap ''postgres: failed to parse config: '' e '''')
      | None \<Rightarrow> connect_from try stop maxRetries 0 None)"

definition Postgres_New :: "go_error option \<Rightarrow> (nat \<Rightarrow> attempt) \<Rightarrow> (nat \<Rightarrow> go_error option) \<Rightarrow> go_error option" where
  "Postgres_New parsed try stop = NewWithRetry parsed try stop 5"

definition CreatePool :: "go_error option \<Rightarrow> attempt \<Rightarrow> go_error option" where
  "CreatePool parsed a =
     (case parsed of
        Some e \<Rightarrow> Some (Wrap ''postgres: failed to parse config: '' e '''')
      | None \<Rightarrow>
          (case a of
             PoolError e \<Rightarrow> Some (Wrap ''postgres: failed to create pool: '' e '''')
           | PingError e \<Rightarrow> Some (Wrap ''postgres: health check failed: '' e '''')
           | _ \<Rightarrow> None))"

section \<open>Writing\<close>

definition nullIfEmpty :: "string \<Rightarrow> string option" where
  "nullIfEmpty s = (if s = '''' then None else Some s)"

definition payload_json :: "Job \<Rightarrow> json" where
  "payload_json j = (case jPayload j of None \<Rightarrow> JNull | Some m \<Rightarrow> JObj m)"

definition deps_json :: "string list \<Rightarrow> json" where
  "deps_json ds = (if ds = [] then JNull else JArr (map JStr ds))"

definition inserted_row :: "time \<Rightarrow> Job \<Rightarrow> pgrow" where
  \<comment> \<open>the columns \<open>Save\<close> and \<open>SaveBatch\<close> insert, the others with their defaults\<close>
  "inserted_row now j =
     \<lparr>cId = jID j, cTenant = jTenantID j, cType = jType j, cPayload = payload_json j, cStatus = jStatus j,
      cPriority = jPriority j, cAttempts = jRetries j, cMaxAttempts = jMaxRetries j, cError = None, cResult = None,
      cCorrelation = jCorrelationID j, cTimeout = jTimeout j, cVersion = jVersion j, cCreatedAt = now, cUpdatedAt = now,
      cScheduledAt = jRunAt j, cCompletedAt = None, cProcessedBy = None, cHeartbeatAt = None,
      cWebhookURL = map_option wcURL (jWebhook j), cWebhookSecret = map_option wcSecret (jWebhook j),
      cWebhookEvents = (case jWebhook j of None \<Rightarrow> [] | Some h \<Rightarrow> wcEvents h),
      cWebhookLastStatus = (case jWebhook j of None \<Rightarrow> 0 | Some h \<Rightarrow> wcLastStatus h),
      cWebhookAttempts = (case jWebhook j of None \<Rightarrow> 0 | Some h \<Rightarrow> wcAttempts h),
      cErrorHistory = None, cDedupKey = nullIfEmpty (jDedupKey j), cDependencies = Some (deps_json (jDependencies j)),
      cShardKey = nullIfEmpty (jShardKey j), cProgress = jProgress j, cCronExpr = nullIfEmpty (jCronExpr j), cExpiresAt = None\<rparr>"

definition save_conflict :: "pgrow \<Rightarrow> pgrow \<Rightarrow> pgrow" where
  "save_conflict ex r = r\<lparr>cStatus := cStatus ex, cAttempts := cAttempts ex, cUpdatedAt := cUpdatedAt ex,
     cProcessedBy := cProcessedBy ex, cResult := cResult ex, cError := cError ex, cScheduledAt := cScheduledAt ex,
     cCronExpr := cCronExpr ex\<rparr>"

definition enqueue_row :: "time \<Rightarrow> Job \<Rightarrow> pgrow" where
  \<comment> \<open>the row \<open>Enqueue\<close> inserts: the last four columns have their defaults\<close>
  "enqueue_row now j = (inserted_row now j)\<lparr>cDedupKey := None, cDependencies := Some (JArr []), cShardKey := None, cCronExpr := None\<rparr>"

definition enqueue_conflict :: "pgrow \<Rightarrow> pgrow \<Rightarrow> pgrow" where
  "enqueue_conflict ex r = r\<lparr>cStatus := cStatus ex, cAttempts := cAttempts ex, cUpdatedAt := cUpdatedAt ex,
     cProcessedBy := cProcessedBy ex, cResult := cResult ex, cError := cError ex\<rparr>"

definition pg_exec :: "pg \<Rightarrow> time \<Rightarrow> stmt \<Rightarrow> pgdb \<Rightarrow> (go_error + int) \<times> pgdb" where
  \<comment> \<open>\<open>Exec\<close> and the number of affected rows\<close>
  "pg_exec P now s db = (case pgrun P now s db of
     (Inl e, db') \<Rightarrow> (Inl e, db') | (Inr (Affected n), db') \<Rightarrow> (Inr n, db') | (Inr _, db') \<Rightarrow> (Inr 0, db'))"

definition exec_err :: "(go_error + int) \<times> pgdb \<Rightarrow> go_error option \<times> pgdb" where
  "exec_err x = (case x of (Inl e, db) \<Rightarrow> (Some e, db) | (Inr n, db) \<Rightarrow> (None, db))"

definition affect_one :: "string \<Rightarrow> (go_error + int) \<times> pgdb \<Rightarrow> go_error option \<times> pgdb" where
  \<comment> \<open>no affected row means the job is unknown\<close>
  "affect_one i x = (case x of
     (Inl e, db) \<Rightarrow> (Some e, db) | (Inr n, db) \<Rightarrow> (if n = 0 then Some (not_found i) else None, db))"

definition PostgresStore_Save :: "pg \<Rightarrow> time \<Rightarrow> Job \<Rightarrow> pgdb \<Rightarrow> go_error option \<times> pgdb" where
  "PostgresStore_Save P now job db = exec_err (pg_exec P now (Insert [inserted_row now job] (Some save_conflict)) db)"

definition PostgresStore_SaveBatch :: "pg \<Rightarrow> time \<Rightarrow> Job list \<Rightarrow> pgdb \<Rightarrow> go_error option \<times> pgdb" where
  "PostgresStore_SaveBatch P now batch db =
     (if batch = [] then (None, db) else exec_err (pg_exec P now (Insert (map (inserted_row now) batch) None) db))"

definition PostgresStore_Enqueue :: "pg \<Rightarrow> time \<Rightarrow> Job \<Rightarrow> pgdb \<Rightarrow> go_error option \<times> pgdb" where
  "PostgresStore_Enqueue P now job db = exec_err (pg_exec P now (Insert [enqueue_row now job] (Some enqueue_conflict)) db)"

definition PostgresStore_UpdateStatus :: "pg \<Rightarrow> time \<Rightarrow> string \<Rightarrow> string \<Rightarrow> string \<Rightarrow> pgdb \<Rightarrow> go_error option \<times> pgdb" where
  "PostgresStore_UpdateStatus P now i status workerID db =
     affect_one i (pg_exec P now (Update (\<lambda>r. cId r = i)
       (\<lambda>r. r\<lparr>cStatus := status, cProcessedBy := Some workerID, cUpdatedAt := now\<rparr>)) db)"

definition PostgresStore_UpdateProgress :: "pg \<Rightarrow> time \<Rightarrow> string \<Rightarrow> rat \<Rightarrow> pgdb \<Rightarrow> go_error option \<times> pgdb" where
  "PostgresStore_UpdateProgress P now i progress db =
     affect_one i (pg_exec P now (Update (\<lambda>r. cId r = i) (\<lambda>r. r\<lparr>cProgress := progress, cUpdatedAt := now\<rparr>)) db)"

definition result_text :: "(json \<Rightarrow> string) \<Rightarrow> json \<Rightarrow> string" where
  "result_text fmt result = (case result of JStr s \<Rightarrow> s | _ \<Rightarrow> fmt result)"

definition history_entry :: "(json \<Rightarrow> string) \<Rightarrow> time \<Rightarrow> string \<Rightarrow> json \<Rightarrow> json option" where
  \<comment> \<open>the parameter appended to \<open>error_history\<close>; \<open>%v\<close> of a string is the string\<close>
  "history_entry fmt now status result =
     (if status = StatusFailed \<or> (status = StatusPending \<and> result \<noteq> JNull)
      then Some (attempt_json \<lparr>aeError = result_text fmt result, aeTimestamp = now, aeAttempt = 0\<rparr>) else None)"

definition appended :: "json option \<Rightarrow> json option \<Rightarrow> json option" where
  "appended entry old = (case entry of None \<Rightarrow> old
     | Some v \<Rightarrow> (case old of Some (JArr vs) \<Rightarrow> Some (JArr (vs @ [v])) | None \<Rightarrow> Some (JArr [v]) | Some x \<Rightarrow> Some (JArr [x, v])))"

definition PostgresStore_UpdateResult ::
    "(json \<Rightarrow> string) \<Rightarrow> pg \<Rightarrow> time \<Rightarrow> string \<Rightarrow> string \<Rightarrow> string \<Rightarrow> json \<Rightarrow> pgdb \<Rightarrow> go_error option \<times> pgdb" where
  "PostgresStore_UpdateResult fmt P now i status workerID result db =
     affect_one i (pg_exec P now (Update (\<lambda>r. cId r = i)
       (\<lambda>r. r\<lparr>cStatus := status, cProcessedBy := Some workerID,
             cResult := (if status = StatusFailed then None else Some result),
             cError := (if status = StatusFailed then Some (result_text fmt result) else None),
             cUpdatedAt := now, cCompletedAt := (if status \<in> {StatusCompleted, StatusFailed} then Some now else None),
             cErrorHistory := appended (history_entry fmt now status result) (cErrorHistory r)\<rparr>)) db)"

definition PostgresStore_Heartbeat :: "pg \<Rightarrow> time \<Rightarrow> string \<Rightarrow> pgdb \<Rightarrow> go_error option \<times> pgdb" where
  "PostgresStore_Heartbeat P now i db =
     exec_err (pg_exec P now (Update (\<lambda>r. cId r = i) (\<lambda>r. r\<lparr>cHeartbeatAt := Some now, cUpdatedAt := now\<rparr>)) db)"

definition PostgresStore_Complete :: "(json \<Rightarrow> string) \<Rightarrow> pg \<Rightarrow> time \<Rightarrow> string \<Rightarrow> json \<Rightarrow> pgdb \<Rightarrow> go_error option \<times> pgdb" where
  "PostgresStore_Complete fmt P now i result = PostgresStore_UpdateResult fmt P now i StatusCompleted '''' result"

definition PostgresStore_Fail ::
    "(json \<Rightarrow> string) \<Rightarrow> pg \<Rightarrow> time \<Rightarrow> string \<Rightarrow> go_error \<Rightarrow> bool \<Rightarrow> pgdb \<Rightarrow> go_error option \<times> pgdb" where
  "PostgresStore_Fail fmt P now i e requeue =
     PostgresStore_UpdateResult fmt P now i (if requeue then StatusPending else StatusFailed) '''' (JStr (err_msg e))"

definition PostgresStore_RecoverOrphans :: "pg \<Rightarrow> time \<Rightarrow> duration \<Rightarrow> pgdb \<Rightarrow> (go_error + int) \<times> pgdb" where
  "PostgresStore_RecoverOrphans P now timeout db =
     pg_exec P now (Update (\<lambda>r. cStatus r = StatusProcessing \<and> (case cHeartbeatAt r of None \<Rightarrow> False | Some t \<Rightarrow> t < now - timeout))
       (\<lambda>r. r\<lparr>cStatus := StatusPending, cProcessedBy := None, cUpdatedAt := now\<rparr>)) db"

definition PostgresStore_DeleteJob :: "pg \<Rightarrow> time \<Rightarrow> string \<Rightarrow> pgdb \<Rightarrow> go_error option \<times> pgdb" where
  "PostgresStore_DeleteJob P now i db = exec_err (pg_exec P now (Delete (\<lambda>r. cId r = i)) db)"

definition row_matches3 :: "string \<Rightarrow> string \<Rightarrow> string \<Rightarrow> pgrow \<Rightarrow> bool" where
  \<comment> \<open>\<open>($1 = '' OR tenant_id = $1) AND ...\<close>\<close>
  "row_matches3 tenantID status typeStr r \<longleftrightarrow>
     (tenantID = '''' \<or> cTenant r = tenantID) \<and> (status = '''' \<or> cStatus r = status) \<and> (typeStr = '''' \<or> cType r = typeStr)"

definition PostgresStore_DeleteJobsBefore :: "pg \<Rightarrow> time \<Rightarrow> string \<Rightarrow> string \<Rightarrow> string \<Rightarrow> time \<Rightarrow> pgdb \<Rightarrow> (go_error + int) \<times> pgdb" where
  "PostgresStore_DeleteJobsBefore P now tenantID status jobType before db =
     pg_exec P now (Delete (\<lambda>r. row_matches3 tenantID status jobType r \<and> cCreatedAt r < before)) db"

definition PostgresStore_ArchiveOldJobs :: "pg \<Rightarrow> time \<Rightarrow> time \<Rightarrow> pgdb \<Rightarrow> (go_error + int) \<times> pgdb" where
  "PostgresStore_ArchiveOldJobs P now cutoff db =
     (case pg_exec P now (Archive (\<lambda>r. cStatus r \<in> {''completed'', ''failed'', ''cancelled''} \<and> cUpdatedAt r < cutoff)) db of
        (Inl e, db') \<Rightarrow> (Inl (Wrap ''postgres_store: failed to archive old jobs: '' e ''''), db')
      | (Inr n, db') \<Rightarrow> (Inr n, db'))"

section \<open>Reading\<close>

definition pg_rows :: "pg \<Rightarrow> time \<Rightarrow> stmt \<Rightarrow> pgdb \<Rightarrow> (go_error + pgrow list) \<times> pgdb" where
  "pg_rows P now s db = (case pgrun P now s db of
     (Inl e, db') \<Rightarrow> (Inl e, db') | (Inr (Rows rs), db') \<Rightarrow> (Inr rs, db') | (Inr _, db') \<Rightarrow> (Inr [], db'))"

definition base_columns :: "string list" where
  \<comment> \<open>the first fourteen columns of every query for jobs\<close>
  "base_columns = [''id'', ''tenant_id'', ''type'', ''payload'', ''status'', ''priority'', ''attempts'', ''max_attempts'',
     ''correlation_id'', ''timeout_seconds'', ''version'', ''scheduled_at'', ''created_at'', ''updated_at'']"

definition webhook_columns :: "string list" where
  "webhook_columns = [''webhook_url'', ''webhook_secret'', ''webhook_events'', ''webhook_last_status'', ''webhook_attempts'']"

definition getByID_columns :: "string list" where
  "getByID_columns = base_columns @ [''processed_by'', ''result'', ''error'', ''progress''] @ webhook_columns @
     [''error_history'', ''dedup_key'', ''dependencies'', ''shard_key'', ''cron_expr'', ''expires_at'']"

definition base_dests :: "string list" where
  "base_dests = [''j.ID'', ''j.TenantID'', ''j.Type'', ''payload'', ''status'', ''priority'', ''j.Retries'', ''j.MaxRetries'',
     ''j.CorrelationID'', ''j.Timeout'', ''j.Version'', ''j.RunAt'', ''j.CreatedAt'', ''j.UpdatedAt'']"

definition webhook_dests :: "string list" where
  "webhook_dests = [''webhookURL'', ''webhookSecret'', ''webhookEvents'', ''webhookLastStatus'', ''webhookAttempts'']"

definition getByID_dests :: "string list" where
  \<comment> \<open>the destinations of the \<open>Scan\<close> in \<open>GetByID\<close>\<close>
  "getByID_dests = base_dests @ [''processedBy'', ''res'', ''errStr'', ''j.Progress''] @ webhook_dests @
     [''errHistoryJSON'', ''dedupKey'', ''depsJSON'', ''shardKey'', ''cronExp'']"

definition list_columns :: "string list" where
  \<comment> \<open>of \<open>ListJobs\<close> and \<open>SearchJobs\<close>\<close>
  "list_columns = base_columns @ [''processed_by'', ''progress''] @ webhook_columns @
     [''error_history'', ''dedup_key'', ''dependencies'', ''shard_key'', ''cron_expr'', ''expires_at'']"

definition brief_columns :: "string list" where
  \<comment> \<open>of \<open>GetByIDs\<close> and \<open>GetByWorkerAndStatus\<close>\<close>
  "brief_columns = base_columns @ [''processed_by'', ''progress''] @ webhook_columns @
     [''error_history'', ''dedup_key'', ''dependencies'', ''shard_key'']"

definition scanJobs_dests :: "string list" where
  "scanJobs_dests = base_dests @ [''processedBy'', ''j.Progress''] @ webhook_dests @
     [''errHistoryJSON'', ''dedupKey'', ''depsJSON'', ''shardKey'', ''cronExp'']"

definition text_of :: "string option \<Rightarrow> string" where
  "text_of s = (case s of None \<Rightarrow> '''' | Some t \<Rightarrow> t)"

definition scanned_job :: "pgrow \<Rightarrow> Job" where
  \<comment> \<open>the job built from a scanned row; fields without a column keep their zero value\<close>
  "scanned_job r = zero_job\<lparr>jID := cId r, jTenantID := cTenant r, jType := cType r,
     jPayload := (case cPayload r of JObj m \<Rightarrow> Some m | _ \<Rightarrow> None), jStatus := cStatus r, jPriority := cPriority r,
     jRetries := cAttempts r, jMaxRetries := cMaxAttempts r, jCorrelationID := cCorrelation r, jTimeout := cTimeout r,
     jVersion := cVersion r, jRunAt := cScheduledAt r, jCreatedAt := cCreatedAt r, jUpdatedAt := cUpdatedAt r,
     jProcessedBy := text_of (cProcessedBy r), jProgress := cProgress r,
     jWebhook := (case cWebhookURL r of None \<Rightarrow> None
        | Some u \<Rightarrow> Some \<lparr>wcURL = u, wcSecret = text_of (cWebhookSecret r), wcEvents = cWebhookEvents r,
                          wcLastStatus = cWebhookLastStatus r, wcAttempts = cWebhookAttempts r\<rparr>),
     jErrorHistory := (case cErrorHistory r of Some (JArr vs) \<Rightarrow> (case json_attempts vs of None \<Rightarrow> [] | Some as \<Rightarrow> as) | _ \<Rightarrow> []),
     jDedupKey := text_of (cDedupKey r),
     jDependencies := (case cDependencies r of Some (JArr vs) \<Rightarrow> (case dec_strings vs of None \<Rightarrow> [] | Some ds \<Rightarrow> ds) | _ \<Rightarrow> []),
     jShardKey := text_of (cShardKey r), jCronExpr := text_of (cCronExpr r)\<rparr>"

definition scanned_full :: "pgrow \<Rightarrow> Job" where
  \<comment> \<open>\<open>GetByID\<close> also reads the result, which a non-empty error text replaces\<close>
  "scanned_full r = (scanned_job r)\<lparr>jResult :=
     (case cError r of None \<Rightarrow> (case cResult r of None \<Rightarrow> JNull | Some v \<Rightarrow> v)
      | Some e \<Rightarrow> (if e \<noteq> '''' then JStr e else (case cResult r of None \<Rightarrow> JNull | Some v \<Rightarrow> v)))\<rparr>"

definition PostgresStore_GetByID :: "pg \<Rightarrow> time \<Rightarrow> string \<Rightarrow> pgdb \<Rightarrow> (go_error + Job) \<times> pgdb" where
  "PostgresStore_GetByID P now i db =
     (case pg_rows P now (Select getByID_columns (\<lambda>tab r. cId r = i) id None) db of
        (Inl e, db') \<Rightarrow> (Inl e, db')
      | (Inr [], db') \<Rightarrow> (Inl (not_found i), db')
      | (Inr (r # _), db') \<Rightarrow>
          (case pgscan P getByID_columns getByID_dests of Some e \<Rightarrow> (Inl e, db') | None \<Rightarrow> (Inr (scanned_full r), db')))"

fun scanJobs :: "pg \<Rightarrow> string list \<Rightarrow> pgrow list \<Rightarrow> go_error + Job list" where
  "scanJobs P cols [] = Inr []"
| "scanJobs P cols (r # rs) =
     (case pgscan P cols scanJobs_dests of
        Some e \<Rightarrow> Inl e
      | None \<Rightarrow> (case scanJobs P cols rs of Inl e \<Rightarrow> Inl e | Inr js \<Rightarrow> Inr (scanned_job r # js)))"

definition query_jobs ::
    "pg \<Rightarrow> time \<Rightarrow> string list \<Rightarrow> (pgrow \<Rightarrow> bool) \<Rightarrow> (pgrow list \<Rightarrow> pgrow list) \<Rightarrow> (int \<times> int) option \<Rightarrow> pgdb \<Rightarrow> (go_error + Job list) \<times> pgdb" where
  \<comment> \<open>\<open>Query\<close> followed by \<open>scanJobs\<close>\<close>
  "query_jobs P now cols p arr lo db =
     (case pg_rows P now (Select cols (\<lambda>tab. p) arr lo) db of
        (Inl e, db') \<Rightarrow> (Inl e, db') | (Inr rs, db') \<Rightarrow> (scanJobs P cols rs, db'))"

definition newest_rows :: "pgrow list \<Rightarrow> pgrow list" where
  \<comment> \<open>\<open>ORDER BY created_at DESC\<close>\<close>
  "newest_rows rs = sort_key (\<lambda>r. - cCreatedAt r) rs"

definition PostgresStore_GetByWorkerAndStatus :: "pg \<Rightarrow> time \<Rightarrow> string \<Rightarrow> string \<Rightarrow> pgdb \<Rightarrow> (go_error + Job list) \<times> pgdb" where
  "PostgresStore_GetByWorkerAndStatus P now workerID status =
     query_jobs P now brief_columns (\<lambda>r. cProcessedBy r = Some workerID \<and> cStatus r = status) id None"

definition PostgresStore_ListJobs ::
    "pg \<Rightarrow> time \<Rightarrow> string \<Rightarrow> string \<Rightarrow> string \<Rightarrow> int \<Rightarrow> int \<Rightarrow> pgdb \<Rightarrow> (go_error + Job list) \<times> pgdb" where
  "PostgresStore_ListJobs P now tenantID status typeStr limit offset =
     query_jobs P now list_columns (row_matches3 tenantID status typeStr) newest_rows (Some (limit, offset))"

definition row_filter :: "pg \<Rightarrow> JobFilter \<Rightarrow> pgrow \<Rightarrow> bool" where
  \<comment> \<open>the conditions \<open>SearchJobs\<close> and \<open>CountJobs\<close> collect\<close>
  "row_filter P f r \<longleftrightarrow> row_matches3 (fTenantID f) (fStatus f) (fType f) r \<and>
     (fSearchQuery f = '''' \<or>
      (let pat = ''%'' @ fSearchQuery f @ ''%'' in
       pgilike P pat (JStr (cId r)) \<or> pgilike P pat (cPayload r) \<or>
       (case cErrorHistory r of None \<Rightarrow> False | Some v \<Rightarrow> pgilike P pat v) \<or> pgilike P pat (JStr (cType r))))"

definition PostgresStore_SearchJobs :: "pg \<Rightarrow> time \<Rightarrow> JobFilter \<Rightarrow> pgdb \<Rightarrow> (go_error + Job list) \<times> pgdb" where
  "PostgresStore_SearchJobs P now f =
     query_jobs P now list_columns (row_filter P f) newest_rows (Some (fLimit f, fOffset f))"

definition pg_number :: "pg \<Rightarrow> time \<Rightarrow> stmt \<Rightarrow> pgdb \<Rightarrow> (go_error + int) \<times> pgdb" where
  "pg_number P now s db = (case pgrun P now s db of
     (Inl e, db') \<Rightarrow> (Inl e, db') | (Inr (Number n), db') \<Rightarrow> (Inr n, db') | (Inr _, db') \<Rightarrow> (Inr 0, db'))"

definition PostgresStore_CountJobs :: "pg \<Rightarrow> time \<Rightarrow> JobFilter \<Rightarrow> pgdb \<Rightarrow> (go_error + int) \<times> pgdb" where
  "PostgresStore_CountJobs P now f = pg_number P now (Count (row_filter P f))"

definition PostgresStore_IsDedupKeyTaken :: "pg \<Rightarrow> time \<Rightarrow> string \<Rightarrow> string \<Rightarrow> pgdb \<Rightarrow> (go_error + bool) \<times> pgdb" where
  "PostgresStore_IsDedupKeyTaken P now dedupKey tenantID db =
     (if dedupKey = '''' then (Inr False, db)
      else (case pg_number P now (Count (\<lambda>r. cDedupKey r = Some dedupKey \<and> cTenant r = tenantID)) db of
              (Inl e, db') \<Rightarrow> (Inl e, db') | (Inr n, db') \<Rightarrow> (Inr (0 < n), db')))"

definition PostgresStore_GetByIDs :: "pg \<Rightarrow> time \<Rightarrow> string list \<Rightarrow> pgdb \<Rightarrow> (go_error + Job list) \<times> pgdb" where
  "PostgresStore_GetByIDs P now is = query_jobs P now brief_columns (\<lambda>r. cId r \<in> set is) id None"

definition PostgresStore_GetQueueLengths :: "pg \<Rightarrow> time \<Rightarrow> pgdb \<Rightarrow> (go_error + queue_lengths) \<times> pgdb" where
  "PostgresStore_GetQueueLengths P now db =
     (case pgrun P now (GroupCount (\<lambda>r. cStatus r = ''pending'')) db of
        (Inl e, db') \<Rightarrow> (Inl e, db')
      | (Inr (Groups gs), db') \<Rightarrow>
          (Inr (fold (\<lambda>(ty, t, n) m. AList.update ty (AList.update t n (case map_of m ty of None \<Rightarrow> [] | Some i \<Rightarrow> i)) m) gs []), db')
      | (Inr _, db') \<Rightarrow> (Inr [], db'))"

section \<open>Jobs with dependencies\<close>

definition completed_in :: "pgrow list \<Rightarrow> string \<Rightarrow> bool" where
  "completed_in tab i \<longleftrightarrow> list_ex (\<lambda>d. cId d = i \<and> cStatus d = ''completed'') tab"

definition deps_of :: "pgrow \<Rightarrow> string list" where
  \<comment> \<open>\<open>jsonb_array_elements_text\<close> of the column; none for null and for the empty list\<close>
  "deps_of r = (case cDependencies r of Some (JArr vs) \<Rightarrow> map (\<lambda>v. as_string (Some v)) vs | _ \<Rightarrow> [])"

definition ready :: "time \<Rightarrow> pgrow list \<Rightarrow> pgrow \<Rightarrow> bool" where
  \<comment> \<open>pending, due, and every dependency is a completed job\<close>
  "ready now tab r \<longleftrightarrow> cStatus r = ''pending'' \<and> cScheduledAt r \<le> now \<and> list_all (completed_in tab) (deps_of r)"

definition rank :: "pgrow \<Rightarrow> nat" where
  \<comment> \<open>\<open>priority = 'high' DESC, priority = 'medium' DESC\<close>\<close>
  "rank r = (if cPriority r = ''high'' then 0 else if cPriority r = ''medium'' then 1 else 2)"

definition urgent_first :: "pgrow list \<Rightarrow> pgrow list" where
  "urgent_first rs = sort_key rank (sort_key cScheduledAt rs)"

definition ids_then_jobs :: "pg \<Rightarrow> time \<Rightarrow> stmt \<Rightarrow> pgdb \<Rightarrow> (go_error + Job list) \<times> pgdb" where
  \<comment> \<open>select ids, then \<open>GetByIDs\<close>\<close>
  "ids_then_jobs P now s db =
     (case pg_rows P now s db of
        (Inl e, db') \<Rightarrow> (Inl e, db')
      | (Inr rs, db') \<Rightarrow> (if rs = [] then (Inr [], db') else PostgresStore_GetByIDs P now (map cId rs) db'))"

definition PostgresStore_GetReadyDAGJobs :: "pg \<Rightarrow> time \<Rightarrow> int \<Rightarrow> pgdb \<Rightarrow> (go_error + Job list) \<times> pgdb" where
  "PostgresStore_GetReadyDAGJobs P now limit =
     ids_then_jobs P now (Select [''id''] (\<lambda>tab r. ready now tab r \<and> deps_of r \<noteq> []) urgent_first (Some (limit, 0)))"

definition PostgresStore_GetDependentJobs :: "pg \<Rightarrow> time \<Rightarrow> string \<Rightarrow> pgdb \<Rightarrow> (go_error + Job list) \<times> pgdb" where
  "PostgresStore_GetDependentJobs P now parentID =
     ids_then_jobs P now (Select [''id''] (\<lambda>tab r. cStatus r = ''pending'' \<and> parentID \<in> set (deps_of r)) id None)"

definition PostgresStore_Dequeue :: "pg \<Rightarrow> time \<Rightarrow> string \<Rightarrow> string \<Rightarrow> pgdb \<Rightarrow> (go_error + Job option) \<times> pgdb" where
  "PostgresStore_Dequeue P now tenantID shardKey db =
     (case pg_rows P now (Select [''id''] (\<lambda>tab r. ready now tab r \<and> (tenantID = '''' \<or> cTenant r = tenantID) \<and>
             (shardKey = '''' \<or> cShardKey r = Some shardKey)) urgent_first (Some (1, 0))) db of
        (Inl e, db1) \<Rightarrow> (Inl e, db1)
      | (Inr [], db1) \<Rightarrow> (Inr None, db1)
      | (Inr (r # _), db1) \<Rightarrow>
          (case pg_exec P now (Update (\<lambda>x. cId x = cId r)
                  (\<lambda>x. x\<lparr>cStatus := ''processing'', cUpdatedAt := now, cHeartbeatAt := Some now\<rparr>)) db1 of
             (Inl e, db2) \<Rightarrow> (Inl e, db2)
           | (Inr _, db2) \<Rightarrow>
               (case PostgresStore_GetByID P now (cId r) db2 of
                  (Inl e, db3) \<Rightarrow> (Inl e, db3) | (Inr j, db3) \<Rightarrow> (Inr (Some j), db3))))"

section \<open>Clients\<close>

definition PostgresStore_RegisterClient :: "pg \<Rightarrow> time \<Rightarrow> string \<Rightarrow> string \<Rightarrow> pgdb \<Rightarrow> go_error option \<times> pgdb" where
  "PostgresStore_RegisterClient P now tenantID hash db = exec_err (pg_exec P now (InsertClient tenantID hash) db)"

definition pg_clients :: "pg \<Rightarrow> time \<Rightarrow> stmt \<Rightarrow> pgdb \<Rightarrow> (go_error + pgclient list) \<times> pgdb" where
  "pg_clients P now s db = (case pgrun P now s db of
     (Inl e, db') \<Rightarrow> (Inl e, db') | (Inr (ClientRows cs), db') \<Rightarrow> (Inr cs, db') | (Inr _, db') \<Rightarrow> (Inr [], db'))"

definition PostgresStore_VerifyClient :: "pg \<Rightarrow> time \<Rightarrow> string \<Rightarrow> pgdb \<Rightarrow> (go_error + string) \<times> pgdb" where
  "PostgresStore_VerifyClient P now hash db =
     (case pg_clients P now (SelectClients (\<lambda>c. clHash c = hash) id) db of
        (Inl e, db') \<Rightarrow> (Inl (if err_msg e = ''no rows in result set'' then ErrClientNotFound else e), db')
      | (Inr [], db') \<Rightarrow> (Inl ErrClientNotFound, db')
      | (Inr (c # _), db') \<Rightarrow> (Inr (clTenant c), db'))"

fun first_per_tenant :: "string list \<Rightarrow> pgclient list \<Rightarrow> ClientRecord list" where
  \<comment> \<open>the loop with the map \<open>seen\<close>\<close>
  "first_per_tenant seen [] = []"
| "first_per_tenant seen (c # cs) =
     (if clTenant c \<in> set seen then first_per_tenant seen cs
      else \<lparr>crTenantID = clTenant c, crCreatedAt = clCreatedAt c\<rparr> # first_per_tenant (clTenant c # seen) cs)"

definition PostgresStore_ListClients :: "pg \<Rightarrow> time \<Rightarrow> pgdb \<Rightarrow> (go_error + ClientRecord list) \<times> pgdb" where
  "PostgresStore_ListClients P now db =
     (case pg_clients P now (SelectClients (\<lambda>c. True) (sort_key (\<lambda>c. - clCreatedAt c))) db of
        (Inl e, db') \<Rightarrow> (Inl (Wrap ''postgres_store: failed to list clients: '' e ''''), db')
      | (Inr cs, db') \<Rightarrow> (Inr (first_per_tenant [] cs), db'))"

definition PostgresStore_RevokeClient :: "pg \<Rightarrow> time \<Rightarrow> string \<Rightarrow> pgdb \<Rightarrow> go_error option \<times> pgdb" where
  "PostgresStore_RevokeClient P now tenantID db = exec_err (pg_exec P now (DeleteClients (\<lambda>c. clTenant c = tenantID)) db)"

section \<open>The store\<close>

definition postgres_store :: "(json \<Rightarrow> string) \<Rightarrow> pg \<Rightarrow> pgdb Store" where
  "postgres_store fmt P =
     \<lparr>st_Save = PostgresStore_Save P, st_SaveBatch = PostgresStore_SaveBatch P, st_GetByID = PostgresStore_GetByID P,
      st_UpdateStatus = PostgresStore_UpdateStatus P, st_UpdateProgress = PostgresStore_UpdateProgress P,
      st_UpdateResult = PostgresStore_UpdateResult fmt P, st_GetByWorkerAndStatus = PostgresStore_GetByWorkerAndStatus P,
      st_Enqueue = PostgresStore_Enqueue P, st_Dequeue = PostgresStore_Dequeue P, st_Heartbeat = PostgresStore_Heartbeat P,
      st_Complete = PostgresStore_Complete fmt P, st_Fail = PostgresStore_Fail fmt P, st_ListJobs = PostgresStore_ListJobs P,
      st_SearchJobs = PostgresStore_SearchJobs P, st_CountJobs = PostgresStore_CountJobs P,
      st_RecoverOrphans = PostgresStore_RecoverOrphans P, st_ArchiveOldJobs = PostgresStore_ArchiveOldJobs P,
      st_DeleteJob = PostgresStore_DeleteJob P, st_DeleteJobsBefore = PostgresStore_DeleteJobsBefore P,
      st_IsDedupKeyTaken = PostgresStore_IsDedupKeyTaken P, st_GetByIDs = PostgresStore_GetByIDs P,
      st_GetReadyDAGJobs = PostgresStore_GetReadyDAGJobs P, st_GetDependentJobs = PostgresStore_GetDependentJobs P,
      st_GetQueueLengths = PostgresStore_GetQueueLengths P, st_RegisterClient = PostgresStore_RegisterClient P,
      st_VerifyClient = PostgresStore_VerifyClient P, st_ListClients = PostgresStore_ListClients P,
      st_RevokeClient = PostgresStore_RevokeClient P\<rparr>"

section \<open>Selection of the backend\<close>

datatype backend = RedisBackend | PostgresBackend | DualBackend

definition InitStore :: "string \<Rightarrow> go_error option \<Rightarrow> go_error + backend" where
  \<comment> \<open>of \<open>internal/storage/factory.go\<close>; the second argument is the error of \<open>postgres.New\<close>. \<open>DualBackend\<close> is a \<open>DualStore\<close>
      with PostgreSQL as primary and Redis as secondary store\<close>
  "InitStore storeBackend pgErr =
     (if storeBackend = ''redis'' then Inr RedisBackend
      else if storeBackend = ''postgres'' then
        (case pgErr of Some e \<Rightarrow> Inl (Wrap ''factory: failed to init postgres: '' e '''') | None \<Rightarrow> Inr PostgresBackend)
      else if storeBackend = ''dual'' then
        (case pgErr of Some e \<Rightarrow> Inl (Wrap ''factory: failed to init postgres for dual: '' e '''') | None \<Rightarrow> Inr DualBackend)
      else Inl (Errorf (''factory: unknown store backend: '' @ storeBackend)))"

end
