(* ===== verification/Postgres_Props.thy ===== *)
theory Postgres_Props
  imports Postgres Service_Proofs
begin

text \<open>
  Properties of the PostgreSQL store: its writes implement the contract of the store on the rows of the table and keep
  the constraints, duplicates are refused by the unique index, \<^verbatim>\<open>Dequeue\<close> claims the most urgent job; but no query for jobs can
  be read, as every column list differs in length from the destinations of its \<^verbatim>\<open>Scan\<close>.
\<close>

section \<open>Rows by id\<close>

lemma find_row_Some: "find_row db i = Some r \<Longrightarrow> r \<in> set (dbJobs db) \<and> cId r = i"
  by (auto simp: find_row_def find_Some_iff)

lemma find_row_None: "find_row db i = None \<longleftrightarrow> (\<forall>r \<in> set (dbJobs db). cId r \<noteq> i)"
  by (auto simp: find_row_def find_None_iff)

lemma find_row_in: "pg_ok db \<Longrightarrow> r \<in> set (dbJobs db) \<Longrightarrow> find_row db (cId r) = Some r"
  by (simp add: pg_ok_def find_row_def find_unique)

lemma find_update:
  assumes "\<And>r. cId (f r) = cId r"
  shows "find (\<lambda>r. cId r = k) (map (\<lambda>r. if cId r = i then f r else r) tab) =
     (if k = i then map_option f (find (\<lambda>r. cId r = i) tab) else find (\<lambda>r. cId r = k) tab)"
  using assms by (induction tab) auto

lemma find_row_update:
  assumes "\<And>r. cId (f r) = cId r"
  shows "find_row (db\<lparr>dbJobs := map (\<lambda>r. if cId r = i then f r else r) (dbJobs db)\<rparr>) =
     (find_row db)(i := map_option f (find_row db i))"
  by (rule ext) (simp add: find_row_def find_update [OF assms])

lemma find_row_delete:
  "find_row (db\<lparr>dbJobs := filter (\<lambda>r. cId r \<noteq> i) (dbJobs db)\<rparr>) = (find_row db)(i := None)"
proof (rule ext)
  fix k
  have "find (\<lambda>r. cId r = k) (filter (\<lambda>r. cId r \<noteq> i) tab) = (if k = i then None else find (\<lambda>r. cId r = k) tab)" for tab
    by (induction tab) auto
  then show "find_row (db\<lparr>dbJobs := filter (\<lambda>r. cId r \<noteq> i) (dbJobs db)\<rparr>) k = ((find_row db)(i := None)) k"
    by (cases "k = i") (simp_all add: find_row_def)
qed

lemma find_append: "find p (xs @ ys) = (case find p xs of None \<Rightarrow> find p ys | Some x \<Rightarrow> Some x)"
  by (induction xs) auto

context pg_up
begin

lemma update_one:
  fixes f i now db
  defines "y \<equiv> affect_one i (pg_exec P now (Update (\<lambda>r. cId r = i) f) db)"
  assumes id: "\<And>r. cId (f r) = cId r"
  shows "case find_row db i of None \<Rightarrow> fst y = Some (not_found i) \<and> find_row (snd y) = find_row db
         | Some r \<Rightarrow> fst y = None \<and> find_row (snd y) = (find_row db)(i \<mapsto> f r)"
proof -
  have n: "length (filter (\<lambda>r. cId r = i) (dbJobs db)) = 0 \<longleftrightarrow> find_row db i = None"
    by (simp add: find_row_None filter_empty_conv)
  show ?thesis using n
    by (auto simp: y_def affect_one_def pg_exec_def run_up find_row_update [OF id] fun_upd_idem split: option.split if_splits)
qed

lemma insert_one:
  fixes f row now db
  defines "y \<equiv> exec_err (pg_exec P now (Insert [row] (Some f)) db)"
  assumes id: "\<And>ex r. cId (f ex r) = cId r"
  shows "case find_row db (cId row) of
           Some r \<Rightarrow> fst y = None \<and> find_row (snd y) = (find_row db)(cId row \<mapsto> f row r)
         | None \<Rightarrow> (if list_ex (same_dedup row) (dbJobs db) then y = (Some (duplicate_key ''idx_jobs_dedup_key_unique''), db)
                    else fst y = None \<and> find_row (snd y) = (find_row db)(cId row \<mapsto> row))"
proof -
  have n: "list_ex (\<lambda>x. cId x = cId row) (dbJobs db) \<longleftrightarrow> find_row db (cId row) \<noteq> None"
    by (auto simp: find_row_None list_ex_iff)
  show ?thesis
  proof (cases "find_row db (cId row)")
    case None
    then have "find_row (db\<lparr>dbJobs := dbJobs db @ [row]\<rparr>) = (find_row db)(cId row \<mapsto> row)"
      by (auto simp: find_row_def find_append fun_eq_iff split: option.split)
    with None n show ?thesis by (simp add: y_def exec_err_def pg_exec_def run_up)
  next
    case (Some r)
    with n show ?thesis
      by (simp add: y_def exec_err_def pg_exec_def run_up find_row_update id)
  qed
qed

end

definition result_row :: "(json \<Rightarrow> string) \<Rightarrow> time \<Rightarrow> string \<Rightarrow> string \<Rightarrow> json \<Rightarrow> pgrow \<Rightarrow> pgrow" where
  \<comment> \<open>the row after \<open>UpdateResult\<close>\<close>
  "result_row fmt now s p v r = r\<lparr>cStatus := s, cProcessedBy := Some p,
     cResult := (if s = StatusFailed then None else Some v), cError := (if s = StatusFailed then Some (result_text fmt v) else None),
     cUpdatedAt := now, cCompletedAt := (if s \<in> {StatusCompleted, StatusFailed} then Some now else None),
     cErrorHistory := appended (history_entry fmt now s v) (cErrorHistory r)\<rparr>"

lemma result_row_simps [simp]:
  "cId (result_row fmt now s p v r) = cId r" "cStatus (result_row fmt now s p v r) = s"
  "cError (result_row fmt now s p v r) = (if s = StatusFailed then Some (result_text fmt v) else None)"
  "cResult (result_row fmt now s p v r) = (if s = StatusFailed then None else Some v)"
  by (simp_all add: result_row_def)

lemma save_conflict_id [simp]: "cId (save_conflict ex r) = cId r" "cId (inserted_row now j) = jID j"
  by (simp_all add: save_conflict_def inserted_row_def)

context pg_up
begin

lemma UpdateResult_row:
  "case find_row db i of
     None \<Rightarrow> fst (PostgresStore_UpdateResult fmt P now i s p v db) = Some (not_found i) \<and>
             find_row (snd (PostgresStore_UpdateResult fmt P now i s p v db)) = find_row db
   | Some r \<Rightarrow> fst (PostgresStore_UpdateResult fmt P now i s p v db) = None \<and>
             find_row (snd (PostgresStore_UpdateResult fmt P now i s p v db)) = (find_row db)(i \<mapsto> result_row fmt now s p v r)"
proof -
  have "PostgresStore_UpdateResult fmt P now i s p v db =
      affect_one i (pg_exec P now (Update (\<lambda>r. cId r = i) (result_row fmt now s p v)) db)"
    by (simp add: PostgresStore_UpdateResult_def result_row_def [abs_def])
  then show ?thesis
    using update_one [where f = "result_row fmt now s p v" and i = i and now = now and db = db] by (simp only: result_row_simps)
qed

lemmas UpdateStatus_row = update_one [where f = "\<lambda>r. r\<lparr>cStatus := s, cProcessedBy := Some p, cUpdatedAt := now\<rparr>"
    and i = i and now = now and db = db, simplified, folded PostgresStore_UpdateStatus_def] for s p i now db
lemmas UpdateProgress_row = update_one [where f = "\<lambda>r. r\<lparr>cProgress := x, cUpdatedAt := now\<rparr>" and i = i and now = now and db = db,
    simplified, folded PostgresStore_UpdateProgress_def] for x i now db
lemmas Save_row = insert_one [where f = save_conflict and row = "inserted_row now j" and now = now and db = db,
    OF save_conflict_id(1), folded PostgresStore_Save_def, unfolded save_conflict_id(2)] for now j db

end

section \<open>Writes\<close>


definition sample_row_job :: Job where
  "sample_row_job = zero_job\<lparr>jID := ''j1'', jType := ''email'', jTenantID := ''acme'', jStatus := StatusPending, jPriority := ''low'', jDedupKey := ''k''\<rparr>"

definition sample_pgdb :: pgdb where
  "sample_pgdb = \<lparr>dbJobs = [inserted_row 3 sample_row_job], dbClients = [], dbArchive = []\<rparr>"

lemma sample_pgdb_row: "find_row sample_pgdb i = (if i = ''j1'' then Some (inserted_row 3 sample_row_job) else None)"
  by (simp add: find_row_def sample_pgdb_def sample_row_job_def)

lemma sample_pgdb_ok: "pg_ok sample_pgdb"
  by (simp add: pg_ok_def sample_pgdb_def)


section \<open>Constraints\<close>

inductive pg_reach :: "(json \<Rightarrow> string) \<Rightarrow> pg \<Rightarrow> pgdb \<Rightarrow> bool" for fmt P where
  start: "pg_reach fmt P \<lparr>dbJobs = [], dbClients = [], dbArchive = []\<rparr>"
| save: "pg_reach fmt P db \<Longrightarrow> pg_reach fmt P (snd (PostgresStore_Save P now j db))"
| batch: "pg_reach fmt P db \<Longrightarrow> pg_reach fmt P (snd (PostgresStore_SaveBatch P now js db))"
| enqueue: "pg_reach fmt P db \<Longrightarrow> pg_reach fmt P (snd (PostgresStore_Enqueue P now j db))"
| status: "pg_reach fmt P db \<Longrightarrow> pg_reach fmt P (snd (PostgresStore_UpdateStatus P now i s p db))"
| progress: "pg_reach fmt P db \<Longrightarrow> pg_reach fmt P (snd (PostgresStore_UpdateProgress P now i x db))"
| result: "pg_reach fmt P db \<Longrightarrow> pg_reach fmt P (snd (PostgresStore_UpdateResult fmt P now i s p v db))"
| heartbeat: "pg_reach fmt P db \<Longrightarrow> pg_reach fmt P (snd (PostgresStore_Heartbeat P now i db))"
| dequeue: "pg_reach fmt P db \<Longrightarrow> pg_reach fmt P (snd (PostgresStore_Dequeue P now t k db))"
| recover: "pg_reach fmt P db \<Longrightarrow> pg_reach fmt P (snd (PostgresStore_RecoverOrphans P now d db))"
| delete: "pg_reach fmt P db \<Longrightarrow> pg_reach fmt P (snd (PostgresStore_DeleteJob P now i db))"
| purge: "pg_reach fmt P db \<Longrightarrow> pg_reach fmt P (snd (PostgresStore_DeleteJobsBefore P now t s ty b db))"
| archive: "pg_reach fmt P db \<Longrightarrow> pg_reach fmt P (snd (PostgresStore_ArchiveOldJobs P now c db))"
| register: "pg_reach fmt P db \<Longrightarrow> pg_reach fmt P (snd (PostgresStore_RegisterClient P now t h db))"
| revoke: "pg_reach fmt P db \<Longrightarrow> pg_reach fmt P (snd (PostgresStore_RevokeClient P now t db))"

lemma run_result_state:
  "snd (exec_err x) = snd x" "snd (affect_one i x) = snd x" "snd (pg_exec P now s db) = snd (pgrun P now s db)"
  "snd (pg_rows P now s db) = snd (pgrun P now s db)"
  by (auto simp: exec_err_def affect_one_def pg_exec_def pg_rows_def split: prod.split sum.split pg_reply.split)

lemma keeps_keys_updates [simp]:
  "keeps_keys (\<lambda>r. r\<lparr>cStatus := s, cProcessedBy := p, cUpdatedAt := u\<rparr>)" "keeps_keys (\<lambda>r. r\<lparr>cProgress := x, cUpdatedAt := u\<rparr>)"
  "keeps_keys (\<lambda>r. r\<lparr>cHeartbeatAt := t, cUpdatedAt := u\<rparr>)" "keeps_keys (\<lambda>r. r\<lparr>cStatus := s, cUpdatedAt := u, cHeartbeatAt := t\<rparr>)"
  "keeps_keys (\<lambda>r. r\<lparr>cStatus := s, cProcessedBy := p, cResult := v, cError := e, cUpdatedAt := u, cCompletedAt := t,
     cErrorHistory := h (cErrorHistory r)\<rparr>)"
  "keeps_keys (save_conflict r)" "keeps_keys (enqueue_conflict r)"
  by (simp_all add: keeps_keys_def save_conflict_def enqueue_conflict_def)

context pg_service
begin

lemma GetByID_ok: "pg_ok db \<Longrightarrow> pg_ok (snd (PostgresStore_GetByID P now i db))"
  using run_ok [of db "Select getByID_columns (\<lambda>tab r. cId r = i) id None" now]
    run_result_state(4) [of P now "Select getByID_columns (\<lambda>tab r. cId r = i) id None" db]
  by (auto simp: PostgresStore_GetByID_def split: prod.split sum.split list.split option.split)

lemma Dequeue_ok:
  assumes "pg_ok db"
  shows "pg_ok (snd (PostgresStore_Dequeue P now t k db))"
proof -
  let ?sel = "Select [''id''] (\<lambda>tab r. ready now tab r \<and> (t = '''' \<or> cTenant r = t) \<and> (k = '''' \<or> cShardKey r = Some k)) urgent_first (Some (1, 0))"
  obtain x db1 where 1: "pg_rows P now ?sel db = (x, db1)" by force
  have ok1: "pg_ok db1" using run_ok [OF assms, of ?sel now] run_result_state(4) [of P now ?sel db] 1 by simp
  have upd: "pg_ok db2" if "pg_exec P now (Update q (\<lambda>x. x\<lparr>cStatus := ''processing'', cUpdatedAt := now, cHeartbeatAt := Some now\<rparr>)) db1 = (y, db2)" for q y db2
    using run_ok [OF ok1, of "Update q (\<lambda>x. x\<lparr>cStatus := ''processing'', cUpdatedAt := now, cHeartbeatAt := Some now\<rparr>)" now] run_result_state(3) that
    by (metis keeps_keys_updates(4) keyed.simps(2) snd_conv)
  have get: "pg_ok db3" if "PostgresStore_GetByID P now i db2 = (y, db3)" "pg_ok db2" for i db2 y db3
    using GetByID_ok [OF that(2), of now i] that(1) by simp
  show ?thesis using ok1 upd get
    by (auto simp: PostgresStore_Dequeue_def 1 split: prod.splits sum.splits list.splits)
qed

lemma archive_ok: "pg_ok db \<Longrightarrow> pg_ok (snd (PostgresStore_ArchiveOldJobs P now c db))"
  using run_ok [of db "Archive (\<lambda>r. cStatus r \<in> {''completed'', ''failed'', ''cancelled''} \<and> cUpdatedAt r < c)" now]
    run_result_state(3) [of P now "Archive (\<lambda>r. cStatus r \<in> {''completed'', ''failed'', ''cancelled''} \<and> cUpdatedAt r < c)" db]
  by (auto simp: PostgresStore_ArchiveOldJobs_def split: prod.split sum.split)

end



section \<open>Duplicates\<close>

definition pg_world :: "(json \<Rightarrow> string) \<Rightarrow> pg \<Rightarrow> pgdb world Store" where
  "pg_world fmt P = lift_store wStore (\<lambda>a. wStore_update (\<lambda>_. a)) (postgres_store fmt P)"

definition taken :: "pgdb \<Rightarrow> Job \<Rightarrow> bool" where
  \<comment> \<open>a row of the tenant has the dedup key of the job\<close>
  "taken db j \<longleftrightarrow> (\<exists>r \<in> set (dbJobs db). cTenant r = jTenantID j \<and> cDedupKey r = Some (jDedupKey j))"

lemma taken_row: "jDedupKey j \<noteq> '''' \<Longrightarrow> list_ex (same_dedup (inserted_row now j)) (dbJobs db) \<longleftrightarrow> taken db j"
  unfolding taken_def list_ex_iff same_dedup_def by (intro bex_cong) (auto simp: inserted_row_def nullIfEmpty_def)

lemma Contains_prefix: "HasPrefix t s \<Longrightarrow> Contains t s"
  by (cases t) (auto simp: HasPrefix_def)

lemma Contains_in: "Contains (p @ s @ q) s"
  by (induction p) (simp_all add: Contains_prefix HasPrefix_def)

text \<open>
  Over PostgreSQL a dedup key is used once per tenant: the check before a submission answers exactly whether a row of the tenant
  has the key; and where a submission with a taken key gets past the check, because another was faster, the unique index
  refuses the row and the service answers with a conflict, leaving table, queue and events as they were.
\<close>

theorem postgres_dedup:
  assumes P: "pg_up P" and st: "svcStore s = pg_world fmt P" and k: "jDedupKey j \<noteq> ''''" and new: "find_row (wStore w) (jID j) = None"
  shows "st_IsDedupKeyTaken (svcStore s) now (jDedupKey j) (jTenantID j) w = (Inr (taken (wStore w) j), w) \<and>
         (taken (wStore w) j \<longrightarrow>
           submit_job s tr now allMet j w = (Inl (NewConflict ''job with this dedup_key already exists concurrently''), w)) \<and>
         (\<not> taken (wStore w) j \<longrightarrow> fst (st_Save (svcStore s) now j w) = None)"
proof -
  have n: "0 < int (length (filter (\<lambda>r. cDedupKey r = Some (jDedupKey j) \<and> cTenant r = jTenantID j) (dbJobs (wStore w)))) \<longleftrightarrow> taken (wStore w) j"
    by (auto simp: taken_def filter_empty_conv)
  have chk: "st_IsDedupKeyTaken (svcStore s) now (jDedupKey j) (jTenantID j) w = (Inr (taken (wStore w) j), w)"
    using k n by (simp add: st pg_world_def lift_store_def lift_op_def postgres_store_def PostgresStore_IsDedupKeyTaken_def
        pg_number_def pg_up.run_up [OF P])
  note sv = pg_up.Save_row [OF P, where db = "wStore w" and j = j and now = now, unfolded new option.case taken_row [OF k]]
  have save: "st_Save (svcStore s) now j w =
      (fst (PostgresStore_Save P now j (wStore w)), w\<lparr>wStore := snd (PostgresStore_Save P now j (wStore w))\<rparr>)"
    by (simp add: st pg_world_def lift_store_def lift_op_def postgres_store_def split: prod.split)
  have c: "Contains (err_msg (duplicate_key ''idx_jobs_dedup_key_unique'')) ''idx_jobs_dedup_key_unique''"
    using Contains_in [of "''ERROR: duplicate key value violates unique constraint '' @ [CHR 0x22]" "''idx_jobs_dedup_key_unique''"
        "[CHR 0x22] @ '' (SQLSTATE 23505)''"]
    by (simp add: duplicate_key_def quoted_def)
  show ?thesis using chk sv c by (auto simp: save submit_job_def)
qed

definition sample_pg_service :: "pgdb JobService" where
  "sample_pg_service = JobService_New (NewWithRateLimit redis_ref '''' 0) (pg_world (\<lambda>_. '''') pg_ref) 0 (\<lambda>_. None) (\<lambda>_. '''')"

theorem postgres_dedup_witness:
  "let w = \<lparr>wStore = sample_pgdb, wDb = empty_rdb, wSse = NewBroker\<rparr>
   in submit_job sample_pg_service ''tr'' 7 True (sample_row_job\<lparr>jID := ''j2''\<rparr>) w =
        (Inl (NewConflict ''job with this dedup_key already exists concurrently''), w)"
proof -
  let ?w = "\<lparr>wStore = sample_pgdb, wDb = empty_rdb, wSse = NewBroker\<rparr>" and ?j = "sample_row_job\<lparr>jID := ''j2''\<rparr>"
  have st: "svcStore sample_pg_service = pg_world (\<lambda>_. '''') pg_ref" by (simp add: sample_pg_service_def JobService_New_def)
  have k: "jDedupKey ?j \<noteq> ''''" by (simp add: sample_row_job_def)
  have new: "find_row (wStore ?w) (jID ?j) = None" by (simp add: sample_pgdb_row)
  have "taken (wStore ?w) ?j" by (simp add: taken_def sample_pgdb_def sample_row_job_def inserted_row_def nullIfEmpty_def)
  with postgres_dedup [OF pg_ref.pg_up_axioms st k new] show ?thesis by simp
qed

section \<open>Reads\<close>

lemma column_counts: "length getByID_columns = 29" "length getByID_dests = 28" "length list_columns = 27" "length brief_columns = 25"
  "length scanJobs_dests = 26"
  by (simp_all add: getByID_columns_def getByID_dests_def list_columns_def brief_columns_def scanJobs_dests_def base_columns_def
      base_dests_def webhook_columns_def webhook_dests_def)

context pg_up
begin

lemma scanJobs_fails:
  "cols \<in> {list_columns, brief_columns} \<Longrightarrow> scanJobs P cols rs = (if rs = [] then Inr [] else Inl (scan_error cols scanJobs_dests))"
  by (cases rs) (auto simp: scan_mismatch column_counts)

lemma query_jobs_all:
  "cols \<in> {list_columns, brief_columns} \<Longrightarrow> query_jobs P now cols p id None db =
     (if \<exists>r \<in> set (dbJobs db). p r then Inl (scan_error cols scanJobs_dests) else Inr [], db)"
  by (auto simp: query_jobs_def pg_rows_def run_up scanJobs_fails filter_empty_conv)

lemma query_jobs_page:
  assumes "cols \<in> {list_columns, brief_columns}" and "0 < l"
  shows "query_jobs P now cols p newest_rows (Some (l, 0)) db =
     (if \<exists>r \<in> set (dbJobs db). p r then Inl (scan_error cols scanJobs_dests) else Inr [], db)"
proof -
  let ?rs = "limited (Some (l, 0)) (newest_rows (filter p (dbJobs db)))"
  have "length (newest_rows (filter p (dbJobs db))) = length (filter p (dbJobs db))" by (simp add: newest_rows_def)
  then have "?rs = [] \<longleftrightarrow> filter p (dbJobs db) = []" using assms(2) by (auto simp: limited_def)
  then have "?rs = [] \<longleftrightarrow> \<not> (\<exists>r \<in> set (dbJobs db). p r)" by (auto simp: filter_empty_conv)
  then show ?thesis using assms(2) by (simp add: query_jobs_def pg_rows_def run_up scanJobs_fails [OF assms(1)])
qed

lemma GetByID_fails:
  "PostgresStore_GetByID P now i db =
     (Inl (if find_row db i = None then not_found i else scan_error getByID_columns getByID_dests), db)"
proof -
  have "filter (\<lambda>r. cId r = i) (dbJobs db) = [] \<longleftrightarrow> find_row db i = None" by (simp add: find_row_None filter_empty_conv)
  then show ?thesis
    by (cases "filter (\<lambda>r. cId r = i) (dbJobs db)")
       (auto simp: PostgresStore_GetByID_def pg_rows_def run_up scan_mismatch column_counts)
qed

end

text \<open>
  C21. No job can be read back from PostgreSQL: \<^verbatim>\<open>GetByID\<close> selects 29 columns into 28 destinations, the listings 27 and
  the queries by ids and by worker 25 into 26, which the driver refuses. So \<^verbatim>\<open>GetByID\<close> fails for every stored job with an
  error that is not the one for unknown jobs, and every listing fails as soon as it would contain a job.
\<close>

theorem postgres_reads_fail:
  assumes P: "pg_up P" and l: "0 < l"
  shows "(find_row db i \<noteq> None \<longrightarrow>
            PostgresStore_GetByID P now i db = (Inl (scan_error getByID_columns getByID_dests), db) \<and>
            \<not> errors_Is (scan_error getByID_columns getByID_dests) ErrJobNotFound) \<and>
         (find_row db i = None \<longrightarrow> PostgresStore_GetByID P now i db = (Inl (not_found i), db)) \<and>
         PostgresStore_GetByIDs P now is db =
           (if \<exists>r \<in> set (dbJobs db). cId r \<in> set is then Inl (scan_error brief_columns scanJobs_dests) else Inr [], db) \<and>
         PostgresStore_ListJobs P now t s ty l 0 db =
           (if \<exists>r \<in> set (dbJobs db). row_matches3 t s ty r then Inl (scan_error list_columns scanJobs_dests) else Inr [], db) \<and>
         PostgresStore_SearchJobs P now (empty_filter\<lparr>fTenantID := t, fLimit := l\<rparr>) db =
           (if \<exists>r \<in> set (dbJobs db). t = '''' \<or> cTenant r = t then Inl (scan_error list_columns scanJobs_dests) else Inr [], db)"
proof -
  have f: "row_filter P (empty_filter\<lparr>fTenantID := t, fLimit := l\<rparr>) = (\<lambda>r. t = '''' \<or> cTenant r = t)"
    by (rule ext) (simp add: row_filter_def row_matches3_def empty_filter_def)
  show ?thesis
    unfolding PostgresStore_GetByIDs_def PostgresStore_ListJobs_def PostgresStore_SearchJobs_def f
    using pg_up.query_jobs_all [OF P, of brief_columns now "\<lambda>r. cId r \<in> set is" db]
      pg_up.query_jobs_page [OF P _ l, of list_columns now _ db] pg_up.GetByID_fails [OF P, of now i db]
    by (simp add: empty_filter_def scan_error_def)
qed

theorem postgres_reads_fail_witness:
  "isl (fst (PostgresStore_GetByID pg_ref 5 ''j1'' sample_pgdb)) \<and> isl (fst (PostgresStore_ListJobs pg_ref 5 '''' '''' '''' 20 0 sample_pgdb))"
  using postgres_reads_fail [OF pg_ref.pg_up_axioms, where l = 20 and db = sample_pgdb and i = "''j1''" and now = 5
      and t = "''''" and s = "''''" and ty = "''''"]
  by (simp add: sample_pgdb_row row_matches3_def) (simp add: sample_pgdb_def)

section \<open>Claiming a job\<close>

lemma urgent_first_hd:
  assumes "urgent_first xs = r # rs" and "x \<in> set xs"
  shows "rank r < rank x \<or> (rank r = rank x \<and> cScheduledAt r \<le> cScheduledAt x)"
proof -
  let ?zs = "sort_key cScheduledAt xs"
  have e: "sort_key rank ?zs = r # rs" using assms(1) by (simp add: urgent_first_def)
  have x: "x \<in> set (r # rs)" using assms(2) by (simp flip: e)
  have "sorted (map rank (r # rs))" by (simp flip: e)
  then have le: "rank r \<le> rank x" using x by auto
  have same: "filter (\<lambda>y. rank y = rank r) (r # rs) = filter (\<lambda>y. rank y = rank r) ?zs"
    using sort_key_stable [of rank "rank r" ?zs] by (simp add: e)
  have "sorted (map cScheduledAt (filter (\<lambda>y. rank y = rank r) ?zs))" by (rule sorted_filter) simp
  then have "cScheduledAt r \<le> cScheduledAt x" if "rank x = rank r"
    using that x by (auto simp flip: same)
  with le show ?thesis by (auto simp: le_less)
qed

lemma urgent_first_set: "set (urgent_first xs) = set xs"
  by (simp add: urgent_first_def)

definition claimable :: "time \<Rightarrow> string \<Rightarrow> string \<Rightarrow> pgdb \<Rightarrow> pgrow \<Rightarrow> bool" where
  "claimable now tenantID shardKey db r \<longleftrightarrow> r \<in> set (dbJobs db) \<and> cStatus r = ''pending'' \<and> cScheduledAt r \<le> now \<and>
     (\<forall>d \<in> set (deps_of r). \<exists>x \<in> set (dbJobs db). cId x = d \<and> cStatus x = ''completed'') \<and>
     (tenantID = '''' \<or> cTenant r = tenantID) \<and> (shardKey = '''' \<or> cShardKey r = Some shardKey)"

text \<open>
  C20. \<^verbatim>\<open>Dequeue\<close> of the PostgreSQL store claims the most urgent job: when no pending, due job of the tenant and shard has all its
  dependencies completed it answers without a job and changes nothing; otherwise it marks exactly one such job as
  processing, with a heartbeat, one of the highest priority and, within that, of the earliest schedule. The claimed job is not
  handed out, as it cannot be read back: the call ends with the error of \<^verbatim>\<open>GetByID\<close>.
\<close>

theorem postgres_Dequeue_claims:
  assumes P: "pg_up P" and ok: "pg_ok db" and run: "PostgresStore_Dequeue P now t k db = (x, db')"
  shows "if \<exists>r. claimable now t k db r then
           (\<exists>r. claimable now t k db r \<and>
              (\<forall>c. claimable now t k db c \<longrightarrow> rank r < rank c \<or> rank r = rank c \<and> cScheduledAt r \<le> cScheduledAt c) \<and>
              find_row db' = (find_row db)(cId r \<mapsto> r\<lparr>cStatus := ''processing'', cUpdatedAt := now, cHeartbeatAt := Some now\<rparr>) \<and>
              x = Inl (scan_error getByID_columns getByID_dests))
         else x = Inr None \<and> db' = db"
proof -
  let ?p = "\<lambda>r. ready now (dbJobs db) r \<and> (t = '''' \<or> cTenant r = t) \<and> (k = '''' \<or> cShardKey r = Some k)"
  let ?f = "\<lambda>x. x\<lparr>cStatus := ''processing'', cUpdatedAt := now, cHeartbeatAt := Some now\<rparr> :: pgrow"
  have cand: "r \<in> set (filter ?p (dbJobs db)) \<longleftrightarrow> claimable now t k db r" for r
    by (auto simp: claimable_def ready_def list_all_iff completed_in_def list_ex_iff)
  show ?thesis
  proof (cases "urgent_first (filter ?p (dbJobs db))")
    case Nil
    then have "set (filter ?p (dbJobs db)) = {}" using urgent_first_set [of "filter ?p (dbJobs db)"] by simp
    then have "\<not> claimable now t k db r" for r unfolding cand [symmetric] by simp
    then show ?thesis using run Nil
      by (simp add: PostgresStore_Dequeue_def pg_rows_def pg_up.run_up [OF P] limited_def)
  next
    case (Cons r rs)
    have rc: "claimable now t k db r" using cand [of r] Cons urgent_first_set [of "filter ?p (dbJobs db)"] by auto
    have best: "rank r < rank c \<or> rank r = rank c \<and> cScheduledAt r \<le> cScheduledAt c" if "claimable now t k db c" for c
      using urgent_first_hd [OF Cons, of c] that cand by blast
    let ?db = "db\<lparr>dbJobs := map (\<lambda>x. if cId x = cId r then ?f x else x) (dbJobs db)\<rparr>"
    have "find_row db (cId r) = Some r" using find_row_in [OF ok] rc by (simp add: claimable_def)
    then have row: "find_row ?db = (find_row db)(cId r \<mapsto> ?f r)" by (subst find_row_update) simp_all
    have "(x, db') = (Inl (scan_error getByID_columns getByID_dests), ?db)"
      using run Cons row by (simp add: PostgresStore_Dequeue_def pg_rows_def pg_exec_def pg_up.run_up [OF P] limited_def pg_up.GetByID_fails [OF P])
    then show ?thesis using rc best row by auto
  qed
qed

theorem postgres_Dequeue_claims_witness:
  "\<exists>e db'. PostgresStore_Dequeue pg_ref 5 ''acme'' '''' sample_pgdb = (Inl e, db') \<and>
     (\<exists>r. find_row db' ''j1'' = Some r \<and> cStatus r = ''processing'')"
proof -
  obtain x db' where d: "PostgresStore_Dequeue pg_ref 5 ''acme'' '''' sample_pgdb = (x, db')" by force
  have c: "claimable 5 ''acme'' '''' sample_pgdb r \<longleftrightarrow> r = inserted_row 3 sample_row_job" for r
    by (auto simp: claimable_def sample_pgdb_def inserted_row_def sample_row_job_def deps_of_def deps_json_def zero_job_def zero_time_def)
  from postgres_Dequeue_claims [OF pg_ref.pg_up_axioms sample_pgdb_ok d] show ?thesis
    using d by (auto simp: c inserted_row_def sample_row_job_def)
qed

section \<open>Archiving and connecting\<close>

text \<open>The archive table lacks five columns of the table of jobs, so every archiving run fails and moves nothing.\<close>

lemma archive_fails:
  assumes "pg_up P"
  shows "isl (fst (PostgresStore_ArchiveOldJobs P now c db)) \<and> snd (PostgresStore_ArchiveOldJobs P now c db) = db"
  using pg_up.run_up [OF assms]
  by (simp add: PostgresStore_ArchiveOldJobs_def pg_exec_def archive_columns_def jobs_columns_def)

lemma connect_from_success:
  assumes "int n \<le> maxRetries" "i \<le> n" "try n = Connected" "\<forall>k. i \<le> k \<and> k < n \<longrightarrow> try k \<noteq> Connected" "\<forall>k. stop k = None"
  shows "connect_from try stop maxRetries i e = None"
  using assms
proof (induction "n - i" arbitrary: i e)
  case 0
  then show ?case by (subst connect_from.simps) auto
next
  case (Suc d)
  then have "i < n" "try i \<noteq> Connected" by auto
  then have "connect_from try stop maxRetries (i + 1) e' = None" for e' using Suc by (intro Suc.hyps(1)) auto
  then show ?case using Suc.prems \<open>i < n\<close> \<open>try i \<noteq> Connected\<close> by (subst connect_from.simps) (auto split: attempt.split)
qed

end
