(* ===== verification/Migrate.thy ===== *)
theory Migrate
  imports Go_Errors "HOL-Library.List_Lexorder" "HOL-Library.Char_ord" "HOL-Library.Sublist"
begin

text \<open>
  The schema migrations of \<^verbatim>\<open>internal/storage/postgres/migrate.go\<close>. The schema is a value of any type; what a script does to it,
  the files of the directory and the errors of the database are fields of \<open>migrator\<close>. The state is the schema
  with the rows of \<^verbatim>\<open>schema_migrations\<close> in the order of their instants. A script and the row that records it are one
  transaction.
\<close>

section \<open>Definitions\<close>

record 's migrator =
  mgEnsure :: "go_error option"
  mgApplied :: "go_error option"
  mgEntries :: "go_error + (string \<times> bool) list"
  mgRead :: "string \<Rightarrow> go_error + string"
  mgBegin :: "string \<Rightarrow> go_error option"
  mgApply :: "string \<Rightarrow> 's \<Rightarrow> go_error + 's"
  mgRecord :: "string \<Rightarrow> go_error option"
  mgCommit :: "string \<Rightarrow> go_error option"

type_synonym 's schema = "'s \<times> string list"

definition HasSuffix :: "string \<Rightarrow> string \<Rightarrow> bool" where
  "HasSuffix s p \<longleftrightarrow> length p \<le> length s \<and> drop (length s - length p) s = p"

definition migration_files :: "(string \<times> bool) list \<Rightarrow> string list" where
  \<comment> \<open>the entries are names, with a flag for directories\<close>
  "migration_files entries =
     sort (map fst (filter (\<lambda>(n, isDir). \<not> isDir \<and> HasSuffix n ''.sql'' \<and> \<not> HasSuffix n ''_rollback.sql'') entries))"

definition version_of :: "string \<Rightarrow> string" where
  "version_of name = TrimSuffix name ''.sql''"

definition apply_one :: "'s migrator \<Rightarrow> string \<Rightarrow> 's schema \<Rightarrow> go_error + 's schema" where
  \<comment> \<open>read the file and run its transaction\<close>
  "apply_one m name st =
     (let version = version_of name in
      (case mgRead m name of
         Inl e \<Rightarrow> Inl (Wrap (''migrate: read '' @ name @ '': '') e '''')
       | Inr sql \<Rightarrow>
           (case mgBegin m version of
              Some e \<Rightarrow> Inl (Wrap (''migrate: begin tx for '' @ version @ '': '') e '''')
            | None \<Rightarrow>
                (case mgApply m sql (fst st) of
                   Inl e \<Rightarrow> Inl (Wrap (''migrate: apply '' @ version @ '' failed: '') e '''')
                 | Inr schema \<Rightarrow>
                     (case mgRecord m version of
                        Some e \<Rightarrow> Inl e
                      | None \<Rightarrow>
                          (case mgCommit m version of
                             Some e \<Rightarrow> Inl (Wrap (''migrate: commit '' @ version @ '': '') e '''')
                           | None \<Rightarrow> Inr (schema, snd st @ [version])))))))"

fun migrate_loop :: "'s migrator \<Rightarrow> string list \<Rightarrow> string list \<Rightarrow> 's schema \<Rightarrow> go_error option \<times> 's schema" where
  \<comment> \<open>the loop over the files; \<open>applied\<close> was read before it\<close>
  "migrate_loop m applied [] st = (None, st)"
| "migrate_loop m applied (name # names) st =
     (if version_of name \<in> set applied then migrate_loop m applied names st
      else (case apply_one m name st of
              Inl e \<Rightarrow> (Some e, st) | Inr st' \<Rightarrow> migrate_loop m applied names st'))"

definition RunMigrations :: "'s migrator \<Rightarrow> string \<Rightarrow> 's schema \<Rightarrow> go_error option \<times> 's schema" where
  "RunMigrations m dir st =
     (case mgEnsure m of
        Some e \<Rightarrow> (Some (Wrap ''migrate: create schema_migrations table: '' e ''''), st)
      | None \<Rightarrow>
          (case mgApplied m of
             Some e \<Rightarrow> (Some (Wrap ''migrate: read applied versions: '' e ''''), st)
           | None \<Rightarrow>
               (case mgEntries m of
                  Inl e \<Rightarrow> (Some (Wrap (''migrate: read dir '' @ dir @ '': '') e ''''), st)
                | Inr entries \<Rightarrow> migrate_loop m (snd st) (migration_files entries) st)))"

definition rollback_name :: "string \<Rightarrow> string" where
  "rollback_name version = version @ ''_rollback.sql''"

definition RollbackLastMigration :: "'s migrator \<Rightarrow> 's schema \<Rightarrow> go_error option \<times> 's schema" where
  \<comment> \<open>the last applied version is rolled back by the file that bears its name; the path is shortened to the name\<close>
  "RollbackLastMigration m st =
     (case mgEnsure m of
        Some e \<Rightarrow> (Some (Wrap ''rollback: create schema_migrations table: '' e ''''), st)
      | None \<Rightarrow>
          (case mgApplied m of
             Some e \<Rightarrow> (Some e, st)
           | None \<Rightarrow>
               (if snd st = [] then (None, st)
                else (let version = last (snd st) in
                  (case mgEntries m of
                     Inl e \<Rightarrow> (Some (Errorf (''rollback file not found: '' @ rollback_name version)), st)
                   | Inr entries \<Rightarrow>
                       (if rollback_name version \<notin> fst ` set entries
                        then (Some (Errorf (''rollback file not found: '' @ rollback_name version)), st)
                        else (case mgRead m (rollback_name version) of
                          Inl e \<Rightarrow> (Some e, st)
                        | Inr sql \<Rightarrow>
                            (case mgBegin m version of
                               Some e \<Rightarrow> (Some e, st)
                             | None \<Rightarrow>
                                 (case mgApply m sql (fst st) of
                                    Inl e \<Rightarrow> (Some (Wrap (''rollback '' @ version @ '' failed: '') e ''''), st)
                                  | Inr schema \<Rightarrow>
                                      (case mgRecord m version of
                                         Some e \<Rightarrow> (Some e, st)
                                       | None \<Rightarrow>
                                           (case mgCommit m version of
                                              Some e \<Rightarrow> (Some e, st)
                                            | None \<Rightarrow> (None, (schema, removeAll version (snd st))))))))))))))"

section \<open>Properties\<close>

fun scripts_run :: "'s migrator \<Rightarrow> string list \<Rightarrow> 's \<Rightarrow> 's option" where
  \<comment> \<open>the schema after the scripts of the named files\<close>
  "scripts_run m [] s = Some s"
| "scripts_run m (n # ns) s =
     (case mgRead m n of Inl e \<Rightarrow> None | Inr sql \<Rightarrow> (case mgApply m sql s of Inl e \<Rightarrow> None | Inr s' \<Rightarrow> scripts_run m ns s'))"

lemma apply_one_Inr:
  "apply_one m n st = Inr st' \<Longrightarrow> \<exists>sql s'. mgRead m n = Inr sql \<and> mgApply m sql (fst st) = Inr s' \<and> st' = (s', snd st @ [version_of n])"
  by (auto simp: apply_one_def Let_def split: sum.splits option.splits)

lemma migrate_loop_prefix:
  assumes "migrate_loop m applied names st = (r, st')"
  shows "\<exists>dn rest. filter (\<lambda>n. version_of n \<notin> set applied) names = dn @ rest \<and> (r = None \<longleftrightarrow> rest = []) \<and>
     scripts_run m dn (fst st) = Some (fst st') \<and> snd st' = snd st @ map version_of dn"
  using assms
proof (induction names arbitrary: st)
  case (Cons n ns)
  show ?case
  proof (cases "version_of n \<in> set applied")
    case True
    then show ?thesis using Cons by simp
  next
    case False
    show ?thesis
    proof (cases "apply_one m n st")
      case (Inl e)
      then show ?thesis using Cons.prems False
        by (intro exI [of _ "[]"] exI [of _ "n # filter (\<lambda>n. version_of n \<notin> set applied) ns"]) auto
    next
      case (Inr st1)
      then have "migrate_loop m applied ns st1 = (r, st')" using Cons.prems False by simp
      from Cons.IH [OF this] obtain dn rest where d:
        "filter (\<lambda>n. version_of n \<notin> set applied) ns = dn @ rest" "r = None \<longleftrightarrow> rest = []"
        "scripts_run m dn (fst st1) = Some (fst st')" "snd st' = snd st1 @ map version_of dn" by blast
      from apply_one_Inr [OF Inr] obtain sql s' where "mgRead m n = Inr sql" "mgApply m sql (fst st) = Inr s'"
        "st1 = (s', snd st @ [version_of n])" by blast
      with d False show ?thesis by (intro exI [of _ "n # dn"] exI [of _ rest]) simp
    qed
  qed
qed simp

lemma migrate_loop_done: "\<forall>n \<in> set names. version_of n \<in> set applied \<Longrightarrow> migrate_loop m applied names st = (None, st)"
  by (induction names) auto

text \<open>
  C40. Migrations run in order and once: whatever fails on the way, a run has applied, in the order of the file names, an initial
  part of the scripts not applied before, recorded exactly their versions, and left no trace of the script it failed
  at; without an error it has applied all of them, and a second run then applies nothing.
\<close>

theorem migrations_in_order:
  assumes "mgEntries m = Inr entries" and run: "RunMigrations m dir st = (r, st')" and "mgEnsure m = None" "mgApplied m = None"
  shows "(\<exists>dn rest. filter (\<lambda>n. version_of n \<notin> set (snd st)) (migration_files entries) = dn @ rest \<and>
            scripts_run m dn (fst st) = Some (fst st') \<and> snd st' = snd st @ map version_of dn \<and> (r = None \<longleftrightarrow> rest = [])) \<and>
         sorted (migration_files entries) \<and> (r = None \<longrightarrow> RunMigrations m dir st' = (None, st'))"
proof -
  have loop: "RunMigrations m dir s = migrate_loop m (snd s) (migration_files entries) s" for s
    by (simp add: RunMigrations_def assms)
  from migrate_loop_prefix [OF run [unfolded loop]] obtain dn rest where
    d: "filter (\<lambda>n. version_of n \<notin> set (snd st)) (migration_files entries) = dn @ rest" "r = None \<longleftrightarrow> rest = []"
    "scripts_run m dn (fst st) = Some (fst st')" "snd st' = snd st @ map version_of dn" by blast
  have "version_of n \<in> set (snd st')" if "r = None" "n \<in> set (migration_files entries)" for n
  proof (cases "version_of n \<in> set (snd st)")
    case False
    then have "n \<in> set (filter (\<lambda>n. version_of n \<notin> set (snd st)) (migration_files entries))" using that by simp
    then have "n \<in> set dn" using d that by simp
    then show ?thesis by (simp add: d(4))
  qed (simp add: d(4))
  then have "r = None \<longrightarrow> RunMigrations m dir st' = (None, st')" unfolding loop by (simp add: migrate_loop_done)
  moreover have "sorted (migration_files entries)" by (simp add: migration_files_def)
  ultimately show ?thesis using d by blast
qed

definition sample_migrator :: "string list migrator" where
  \<comment> \<open>a schema is the list of the scripts run; the second script is broken\<close>
  "sample_migrator = \<lparr>mgEnsure = None, mgApplied = None,
     mgEntries = Inr [(''002_b.sql'', False), (''001_a.sql'', False), (''001_rollback.sql'', False)], mgRead = Inr,
     mgBegin = (\<lambda>_. None), mgApply = (\<lambda>q s. if q = ''002_b.sql'' then Inl (Errorf ''syntax error'') else Inr (s @ [q])),
     mgRecord = (\<lambda>_. None), mgCommit = (\<lambda>_. None)\<rparr>"

lemma sample_files: "migration_files [(''002_b.sql'', False), (''001_a.sql'', False), (''001_rollback.sql'', False)] = [''001_a.sql'', ''002_b.sql'']"
  by code_simp

theorem migrations_in_order_witness:
  "let (r, st') = RunMigrations sample_migrator ''db'' ([], [])
   in r \<noteq> None \<and> (\<exists>dn. strict_prefix dn [''001_a.sql'', ''002_b.sql''] \<and> snd st' = map version_of dn)"
proof -
  obtain r st' where run: "RunMigrations sample_migrator ''db'' ([], []) = (r, st')"
    by (cases "RunMigrations sample_migrator ''db'' ([], [])")
  have p: "mgEnsure sample_migrator = None" "mgApplied sample_migrator = None"
    "mgEntries sample_migrator = Inr [(''002_b.sql'', False), (''001_a.sql'', False), (''001_rollback.sql'', False)]"
    by (simp_all add: sample_migrator_def)
  from migrations_in_order [OF p(3) run p(1,2)] obtain dn rest where d: "[''001_a.sql'', ''002_b.sql''] = dn @ rest"
    "scripts_run sample_migrator dn [] = Some (fst st')" "snd st' = map version_of dn" "r = None \<longleftrightarrow> rest = []"
    by (auto simp: sample_files)
  have "rest \<noteq> []" using d(1,2) by (auto simp: sample_migrator_def)
  then have "strict_prefix dn [''001_a.sql'', ''002_b.sql'']" unfolding d(1) by (auto simp: strict_prefix_def)
  with d \<open>rest \<noteq> []\<close> show ?thesis unfolding Let_def run prod.case by auto
qed

end
