(* ===== verification/Secrets.thy ===== *)
theory Secrets
  imports Json
begin

text \<open>
  The secret providers of \<^verbatim>\<open>internal/secrets\<close>: environment variables, and Vault with a cache and coalesced
  reads. What Vault answers to one fetch is a \<open>vault_reply\<close>: the first read, the login and the second read, with the instant at which the
  value is stored. The concurrent behaviour is the step relation \<open>vault_step\<close> over the goroutines that call
  \<^verbatim>\<open>GetSecret\<close>: each step is an access to the shared maps or a completed exchange with Vault. The history
  \<open>vsReads\<close> records the keys that were read; no operation looks at it.
\<close>

section \<open>Providers\<close>

definition Env_GetSecret :: "(string \<Rightarrow> string) \<Rightarrow> string \<Rightarrow> go_error + string" where
  "Env_GetSecret getenv key = Inr (getenv key)"

definition defaultTTL :: duration where "defaultTTL = 5 * Minute"
definition defaultRefreshWindow :: duration where "defaultRefreshWindow = 30 * Second"

record cachedSecret =
  csValue :: string
  csExpiresAt :: time

record VaultSecretsProvider =
  vpRoleID :: string
  vpSecretID :: string
  vpToken :: string
  vpCache :: "string \<Rightarrow> cachedSecret option"
  vpTtl :: duration
  vpRefreshWindow :: duration

record vault_reply =
  vrRead :: "go_error + fields option"
  vrLogin :: "go_error + string option"
  vrReread :: "go_error + fields option"
  vrAt :: time

definition vault_login :: "go_error + string option \<Rightarrow> VaultSecretsProvider \<Rightarrow> go_error option \<times> VaultSecretsProvider" where
  \<comment> \<open>\<open>login\<close>; an answer without authentication information is \<open>Inr None\<close>\<close>
  "vault_login reply p =
     (case reply of
        Inl e \<Rightarrow> (Some e, p)
      | Inr None \<Rightarrow> (Some (Errorf ''vault: no auth info returned''), p)
      | Inr (Some token) \<Rightarrow> (None, p\<lparr>vpToken := token\<rparr>))"

definition NewVaultSecretsProvider ::
    "go_error option \<Rightarrow> go_error + string option \<Rightarrow> string \<Rightarrow> string \<Rightarrow> go_error + VaultSecretsProvider" where
  \<comment> \<open>the first argument is the error of making the client\<close>
  "NewVaultSecretsProvider clientErr reply roleID secretID =
     (case clientErr of
        Some e \<Rightarrow> Inl (Wrap ''vault: failed to create client: '' e '''')
      | None \<Rightarrow>
          (case vault_login reply \<lparr>vpRoleID = roleID, vpSecretID = secretID, vpToken = '''', vpCache = (\<lambda>_. None),
                   vpTtl = defaultTTL, vpRefreshWindow = defaultRefreshWindow\<rparr> of
             (Some e, p) \<Rightarrow> Inl (Wrap ''vault: initial login failed: '' e '''')
           | (None, p) \<Rightarrow> Inr p))"

definition secret_path :: "string \<Rightarrow> string" where
  "secret_path tenantID = ''secret/data/taskqueue/'' @ tenantID"

definition api_key_of :: "string \<Rightarrow> fields option \<Rightarrow> go_error + string" where
  \<comment> \<open>the value inside the \<open>data\<close> field of a KV v2 secret\<close>
  "api_key_of path secret =
     (case secret of
        None \<Rightarrow> Inl (Errorf (''vault: secret not found at path '' @ path))
      | Some sd \<Rightarrow>
          (case jget sd ''data'' of
             Some (JObj d) \<Rightarrow>
               (case jget d ''api_key'' of
                  Some (JStr v) \<Rightarrow> Inr v
                | Some (JTime t) \<Rightarrow> Inr (time_text t)
                | _ \<Rightarrow> Inl (Errorf (''vault: api_key not found in secret data at '' @ path)))
           | _ \<Rightarrow> Inl (Errorf (''vault: invalid KV v2 structure at path '' @ path))))"

definition read_failure :: "vault_reply \<Rightarrow> go_error \<Rightarrow> VaultSecretsProvider \<Rightarrow> go_error option \<times> VaultSecretsProvider" where
  \<comment> \<open>the block after a failed read: \<open>innerErr\<close> is the variable declared in its \<open>if\<close>, to which the second read
      is assigned; the test that follows is on the outer \<open>err\<close>\<close>
  "read_failure a err p =
     (let (loginErr, p1) = vault_login (vrLogin a) p;
          innerErr = (if loginErr = None then (case vrReread a of Inl e \<Rightarrow> Some e | Inr _ \<Rightarrow> None) else loginErr)
      in (Some err, p1))"

definition fetchAndCache :: "vault_reply \<Rightarrow> string \<Rightarrow> VaultSecretsProvider \<Rightarrow> (go_error + string) \<times> VaultSecretsProvider" where
  "fetchAndCache a tenantID p =
     (let path = secret_path tenantID;
          (err, secret, p1) = (case vrRead a of
             Inr s \<Rightarrow> (None, s, p)
           | Inl e \<Rightarrow> (let (err', p') = read_failure a e p in
               (err', (case vrReread a of Inr s \<Rightarrow> s | Inl _ \<Rightarrow> None), p')))
      in case err of
           Some e \<Rightarrow> (Inl (Wrap (''vault: failed to read path '' @ path @ '': '') e ''''), p1)
         | None \<Rightarrow>
             (case api_key_of path secret of
                Inl e \<Rightarrow> (Inl e, p1)
              | Inr apiKey \<Rightarrow>
                  (Inr apiKey, p1\<lparr>vpCache := (vpCache p1)(tenantID \<mapsto> \<lparr>csValue = apiKey, csExpiresAt = vrAt a + vpTtl p1\<rparr>)\<rparr>)))"

definition cache_hit :: "time \<Rightarrow> string \<Rightarrow> VaultSecretsProvider \<Rightarrow> (string \<times> bool) option" where
  \<comment> \<open>the first part of \<open>GetSecret\<close>: a fresh cached value and whether a refresh is started\<close>
  "cache_hit now tenantID p =
     (case vpCache p tenantID of
        None \<Rightarrow> None
      | Some c \<Rightarrow> (if now < csExpiresAt c then Some (csValue c, csExpiresAt c - now < vpRefreshWindow p) else None))"

section \<open>Goroutines\<close>

datatype caller =
    Ready
  | Refreshing string
  | Leading string nat
  | Closing string nat "go_error + string"
  | Awaiting string nat
  | Got string "go_error + string"

record vault_state =
  vsProvider :: VaultSecretsProvider
  vsInflight :: "string \<Rightarrow> nat option"
  vsFlights :: "(string \<times> (go_error + string) option) list"
  vsCallers :: "nat \<Rightarrow> caller"
  vsReads :: "(string \<times> time \<times> string) list"

definition set_caller :: "nat \<Rightarrow> caller \<Rightarrow> vault_state \<Rightarrow> vault_state" where
  "set_caller g c s = s\<lparr>vsCallers := (vsCallers s)(g := c)\<rparr>"

definition vault_fetch :: "nat \<Rightarrow> string \<Rightarrow> vault_state \<Rightarrow> vault_state" where
  \<comment> \<open>\<open>fetch\<close> up to the outcome of \<open>LoadOrStore\<close>: join the flight of the tenant, or open one and lead it\<close>
  "vault_fetch g tenantID s =
     (case vsInflight s tenantID of
        Some f \<Rightarrow> set_caller g (Awaiting tenantID f) s
      | None \<Rightarrow>
          (let f = length (vsFlights s) in
           set_caller g (Leading tenantID f)
             (s\<lparr>vsInflight := (vsInflight s)(tenantID \<mapsto> f), vsFlights := vsFlights s @ [(tenantID, None)]\<rparr>)))"

definition vault_answer :: "vault_reply \<Rightarrow> nat \<Rightarrow> string \<Rightarrow> nat \<Rightarrow> vault_state \<Rightarrow> vault_state" where
  \<comment> \<open>the leader's \<open>fetchAndCache\<close>, the result published in the flight and its channel closed\<close>
  "vault_answer a g tenantID f s =
     (let (r, p) = fetchAndCache a tenantID (vsProvider s) in
      set_caller g (Closing tenantID f r)
        (s\<lparr>vsProvider := p, vsFlights := (vsFlights s)[f := (tenantID, Some r)],
           vsReads := (case r of Inr v \<Rightarrow> (tenantID, vrAt a, v) # vsReads s | Inl _ \<Rightarrow> vsReads s)\<rparr>))"

definition vault_unlist :: "nat \<Rightarrow> string \<Rightarrow> go_error + string \<Rightarrow> vault_state \<Rightarrow> vault_state" where
  "vault_unlist g tenantID r s = set_caller g (Got tenantID r) (s\<lparr>vsInflight := (vsInflight s)(tenantID := None)\<rparr>)"

definition awaitFetch :: "nat \<Rightarrow> vault_state \<Rightarrow> (go_error + string) option" where
  \<comment> \<open>what a waiting caller receives; \<open>None\<close>: the flight is open\<close>
  "awaitFetch f s = (if f < length (vsFlights s) then snd (vsFlights s ! f) else None)"

inductive vault_step :: "time \<Rightarrow> vault_state \<Rightarrow> vault_state \<Rightarrow> bool" where
  hit: "vsCallers s g = Ready \<Longrightarrow> cache_hit now t (vsProvider s) = Some (v, False) \<Longrightarrow>
    vault_step now s (set_caller g (Got t (Inr v)) s)"
| hit_refresh: "vsCallers s g = Ready \<Longrightarrow> vsCallers s g' = Ready \<Longrightarrow> g' \<noteq> g \<Longrightarrow>
    cache_hit now t (vsProvider s) = Some (v, True) \<Longrightarrow>
    vault_step now s (set_caller g' (Refreshing t) (set_caller g (Got t (Inr v)) s))"
| miss: "vsCallers s g = Ready \<Longrightarrow> cache_hit now t (vsProvider s) = None \<Longrightarrow> vault_step now s (vault_fetch g t s)"
| refresh: "vsCallers s g = Refreshing t \<Longrightarrow> vault_step now s (vault_fetch g t s)"
| answer: "vsCallers s g = Leading t f \<Longrightarrow> vrAt a = now \<Longrightarrow> vault_step now s (vault_answer a g t f s)"
| unlist: "vsCallers s g = Closing t f r \<Longrightarrow> vault_step now s (vault_unlist g t r s)"
| await: "vsCallers s g = Awaiting t f \<Longrightarrow> awaitFetch f s = Some r \<Longrightarrow> vault_step now s (set_caller g (Got t r) s)"
| give_up: "vsCallers s g = Awaiting t f \<Longrightarrow> vault_step now s (set_caller g (Got t (Inl e)) s)"
| return: "vsCallers s g = Got t r \<Longrightarrow> vault_step now s (set_caller g Ready s)"

inductive vault_reach :: "vault_state \<Rightarrow> vault_state \<Rightarrow> bool" for s0 where
  start: "vault_reach s0 s0"
| step: "vault_reach s0 s \<Longrightarrow> vault_step now s s' \<Longrightarrow> vault_reach s0 s'"

definition idle_vault :: "VaultSecretsProvider \<Rightarrow> vault_state" where
  "idle_vault p = \<lparr>vsProvider = p, vsInflight = (\<lambda>_. None), vsFlights = [], vsCallers = (\<lambda>_. Ready), vsReads = []\<rparr>"

section \<open>Invariant\<close>

fun owns :: "caller \<Rightarrow> (string \<times> nat) option" where
  "owns (Leading t f) = Some (t, f)"
| "owns (Closing t f r) = Some (t, f)"
| "owns _ = None"

fun joins :: "caller \<Rightarrow> (string \<times> nat) option" where
  "joins (Awaiting t f) = Some (t, f)"
| "joins _ = None"

fun serves :: "caller \<Rightarrow> (string \<times> string) option" where
  "serves (Closing t f (Inr v)) = Some (t, v)"
| "serves (Got t (Inr v)) = Some (t, v)"
| "serves _ = None"

definition flight_of :: "vault_state \<Rightarrow> nat \<Rightarrow> string option" where
  "flight_of s f = (if f < length (vsFlights s) then Some (fst (vsFlights s ! f)) else None)"

definition coalesced :: "vault_state \<Rightarrow> bool" where
  \<comment> \<open>the listed flight of a tenant has exactly one owner, and nobody waits for a flight of another tenant\<close>
  "coalesced s \<longleftrightarrow>
     (\<forall>g t f. owns (vsCallers s g) = Some (t, f) \<longrightarrow> vsInflight s t = Some f) \<and>
     (\<forall>g g' t f f'. owns (vsCallers s g) = Some (t, f) \<longrightarrow> owns (vsCallers s g') = Some (t, f') \<longrightarrow> g = g') \<and>
     (\<forall>t f. vsInflight s t = Some f \<longrightarrow> flight_of s f = Some t) \<and>
     (\<forall>g t f. joins (vsCallers s g) = Some (t, f) \<longrightarrow> flight_of s f = Some t)"

definition was_read :: "vault_state \<Rightarrow> string \<Rightarrow> string \<Rightarrow> bool" where
  "was_read s t v \<longleftrightarrow> (\<exists>u. (t, u, v) \<in> set (vsReads s))"

definition truthful :: "duration \<Rightarrow> vault_state \<Rightarrow> bool" where
  \<comment> \<open>cached, published and returned keys come from reads of the same tenant, and a cached one expires \<open>ttl\<close> after its read\<close>
  "truthful ttl s \<longleftrightarrow> vpTtl (vsProvider s) = ttl \<and>
     (\<forall>t c. vpCache (vsProvider s) t = Some c \<longrightarrow> (t, csExpiresAt c - ttl, csValue c) \<in> set (vsReads s)) \<and>
     (\<forall>t v. (t, Some (Inr v)) \<in> set (vsFlights s) \<longrightarrow> was_read s t v) \<and>
     (\<forall>g t v. serves (vsCallers s g) = Some (t, v) \<longrightarrow> was_read s t v)"

lemma set_caller_simps [simp]:
  "vsProvider (set_caller g c s) = vsProvider s" "vsInflight (set_caller g c s) = vsInflight s"
  "vsFlights (set_caller g c s) = vsFlights s" "vsReads (set_caller g c s) = vsReads s"
  "vsCallers (set_caller g c s) = (vsCallers s)(g := c)" "flight_of (set_caller g c s) = flight_of s"
  "was_read (set_caller g c s) = was_read s"
  by (simp_all add: set_caller_def flight_of_def was_read_def fun_eq_iff)

lemma coalesced_set_caller:
  assumes "coalesced s" "owns c = None" "\<forall>t f. joins c = Some (t, f) \<longrightarrow> flight_of s f = Some t"
  shows "coalesced (set_caller g c s)"
  using assms unfolding coalesced_def by (simp split: if_splits)

lemma truthful_set_caller:
  assumes "truthful ttl s" "\<forall>t v. serves c = Some (t, v) \<longrightarrow> was_read s t v"
  shows "truthful ttl (set_caller g c s)"
  using assms unfolding truthful_def by simp

lemma fetchAndCache_cases:
  assumes "fetchAndCache a t p = (r, p')"
  shows "vpTtl p' = vpTtl p" and
    "vpCache p' = (case r of Inl e \<Rightarrow> vpCache p | Inr v \<Rightarrow> (vpCache p)(t \<mapsto> \<lparr>csValue = v, csExpiresAt = vrAt a + vpTtl p\<rparr>))"
  using assms
  by (auto simp: fetchAndCache_def read_failure_def vault_login_def Let_def split: sum.splits option.splits prod.splits)

lemma awaitFetch_flight: "awaitFetch f s = Some r \<Longrightarrow> flight_of s f = Some t \<Longrightarrow> (t, Some r) \<in> set (vsFlights s)"
  by (auto simp: awaitFetch_def flight_of_def split: if_splits) (metis nth_mem prod.collapse)

lemma coalesced_fetch:
  assumes "coalesced s" shows "coalesced (vault_fetch g t s)"
proof (cases "vsInflight s t")
  case (Some f)
  then show ?thesis using assms by (auto simp: vault_fetch_def coalesced_def intro!: coalesced_set_caller)
next
  case None
  have "owns (vsCallers s g') \<noteq> Some (t, f)" for g' f using assms None by (force simp: coalesced_def)
  then show ?thesis using assms None
    by (auto simp: vault_fetch_def Let_def coalesced_def flight_of_def set_caller_def nth_append split: if_splits) 
qed

lemma coalesced_answer:
  assumes "coalesced s" "vsCallers s g = Leading t f"
  shows "coalesced (vault_answer a g t f s)"
proof -
  obtain r p where r: "fetchAndCache a t (vsProvider s) = (r, p)" by force
  have o: "owns (vsCallers s g) = Some (t, f)" by (simp add: assms(2))
  then have "flight_of s f = Some t" using assms(1) by (auto simp: coalesced_def)
  then have "flight_of (vault_answer a g t f s) = flight_of s"
    by (auto simp: vault_answer_def r set_caller_def flight_of_def nth_list_update split: if_splits)
  moreover have "owns (vsCallers (vault_answer a g t f s) g') = owns (vsCallers s g')" for g'
    by (simp add: vault_answer_def r o)
  moreover have "joins (vsCallers (vault_answer a g t f s) g') = joins (vsCallers s g')" for g'
    by (simp add: vault_answer_def r assms(2))
  moreover have "vsInflight (vault_answer a g t f s) = vsInflight s" by (simp add: vault_answer_def r)
  ultimately show ?thesis using assms(1) by (simp add: coalesced_def)
qed

lemma coalesced_unlist:
  assumes "coalesced s" "vsCallers s g = Closing t f r"
  shows "coalesced (vault_unlist g t r s)"
proof -
  have "owns (vsCallers s g) = Some (t, f)" by (simp add: assms(2))
  then have "\<forall>g' f'. owns (vsCallers s g') = Some (t, f') \<longrightarrow> g' = g" using assms(1) by (auto simp: coalesced_def)
  then show ?thesis using assms(1) by (auto simp: coalesced_def vault_unlist_def flight_of_def set_caller_def split: if_splits)
qed

lemma truthful_fetch: "truthful ttl s \<Longrightarrow> truthful ttl (vault_fetch g t s)"
  by (auto simp: truthful_def was_read_def vault_fetch_def Let_def set_caller_def split: option.split)

lemma truthful_answer:
  assumes "truthful ttl s" shows "truthful ttl (vault_answer a g t f s)"
proof -
  obtain r p where r: "fetchAndCache a t (vsProvider s) = (r, p)" by force
  note c = fetchAndCache_cases [OF r]
  have "set ((vsFlights s)[f := (t, Some r)]) \<subseteq> insert (t, Some r) (set (vsFlights s))" by (rule set_update_subset_insert)
  then show ?thesis using assms
    by (cases r; (auto simp: truthful_def was_read_def vault_answer_def r set_caller_def c; blast))
qed

lemma truthful_unlist:
  assumes "truthful ttl s" "vsCallers s g = Closing t f r" shows "truthful ttl (vault_unlist g t r s)"
proof -
  have "serves (Got t r) = serves (vsCallers s g)" unfolding assms(2) by (cases r) simp_all
  then have "\<forall>t' v. serves (Got t r) = Some (t', v) \<longrightarrow> was_read s t' v" using assms(1) unfolding truthful_def by metis
  from truthful_set_caller [OF assms(1) this, of g] show ?thesis
    by (simp add: vault_unlist_def set_caller_def truthful_def was_read_def)
qed

lemma hit_read:
  assumes "truthful ttl s" "cache_hit now t (vsProvider s) = Some (v, b)"
  shows "\<exists>u. (t, u, v) \<in> set (vsReads s) \<and> now < u + ttl"
proof -
  obtain c where c: "vpCache (vsProvider s) t = Some c" "v = csValue c" "now < csExpiresAt c"
    using assms(2) by (auto simp: cache_hit_def split: option.splits if_splits)
  then have "(t, csExpiresAt c - ttl, v) \<in> set (vsReads s)" using assms(1) by (simp add: truthful_def)
  with c(3) show ?thesis by (intro exI [of _ "csExpiresAt c - ttl"]) simp
qed

lemma vault_step_inv:
  assumes "vault_step now s s'" "coalesced s" "truthful ttl s"
  shows "coalesced s' \<and> truthful ttl s'"
  using assms(1)
proof cases
  case (hit g t v)
  have "was_read s t v" using hit_read [OF assms(3) hit(3)] by (auto simp: was_read_def)
  then show ?thesis unfolding hit(1) using assms(2,3) by (simp add: coalesced_set_caller truthful_set_caller)
next
  case (hit_refresh g g' t v)
  have "was_read s t v" using hit_read [OF assms(3) hit_refresh(5)] by (auto simp: was_read_def)
  then show ?thesis unfolding hit_refresh(1) using assms(2,3) by (simp add: coalesced_set_caller truthful_set_caller)
next
  case (await g t f r)
  then have "joins (vsCallers s g) = Some (t, f)" by simp
  then have "flight_of s f = Some t" using assms(2) unfolding coalesced_def by blast
  from awaitFetch_flight [OF await(3) this] have "\<forall>v. r = Inr v \<longrightarrow> was_read s t v" using assms(3) unfolding truthful_def by blast
  then show ?thesis unfolding await(1) using assms(2,3) by (cases r) (simp_all add: coalesced_set_caller truthful_set_caller)
qed (use assms(2,3) in \<open>simp_all add: coalesced_set_caller truthful_set_caller coalesced_fetch truthful_fetch coalesced_answer
       truthful_answer coalesced_unlist truthful_unlist\<close>)

lemma vault_reach_inv:
  assumes "vault_reach (idle_vault p) s" "vpCache p = (\<lambda>_. None)"
  shows "coalesced s \<and> truthful (vpTtl p) s"
  using assms(1)
proof induction
  case start
  show ?case by (simp add: coalesced_def truthful_def idle_vault_def assms(2))
next
  case (step s now s')
  then show ?case using vault_step_inv by blast
qed

text \<open>
  C28. The Vault provider under concurrent callers: for each tenant at most one goroutine reads from Vault at a time; every key a
  caller gets was read from Vault for that caller's tenant; and a key served from the cache was read less than the time to live
  before.
\<close>

theorem vault_reads_coalesced:
  assumes "vault_reach (idle_vault p) s" "vpCache p = (\<lambda>_. None)"
  shows "(\<forall>g g' t f f'. vsCallers s g = Leading t f \<longrightarrow> vsCallers s g' = Leading t f' \<longrightarrow> g = g') \<and>
         (\<forall>g t v. vsCallers s g = Got t (Inr v) \<longrightarrow> (\<exists>u. (t, u, v) \<in> set (vsReads s))) \<and>
         (\<forall>now t v b. cache_hit now t (vsProvider s) = Some (v, b) \<longrightarrow> (\<exists>u. (t, u, v) \<in> set (vsReads s) \<and> now < u + vpTtl p))"
proof (intro conjI allI impI)
  note inv = vault_reach_inv [OF assms]
  fix g g' t f f' assume "vsCallers s g = Leading t f" "vsCallers s g' = Leading t f'"
  then have "owns (vsCallers s g) = Some (t, f)" "owns (vsCallers s g') = Some (t, f')" by simp_all
  then show "g = g'" using inv unfolding coalesced_def by blast
next
  note inv = vault_reach_inv [OF assms]
  fix g t v assume "vsCallers s g = Got t (Inr v)"
  then have "serves (vsCallers s g) = Some (t, v)" by simp
  then show "\<exists>u. (t, u, v) \<in> set (vsReads s)" using inv unfolding truthful_def was_read_def by blast
next
  fix now t v b assume "cache_hit now t (vsProvider s) = Some (v, b)"
  then show "\<exists>u. (t, u, v) \<in> set (vsReads s) \<and> now < u + vpTtl p" using vault_reach_inv [OF assms] hit_read by blast
qed

definition sample_provider :: VaultSecretsProvider where
  "sample_provider = \<lparr>vpRoleID = ''r'', vpSecretID = ''s'', vpToken = ''tok'', vpCache = (\<lambda>_. None), vpTtl = defaultTTL,
     vpRefreshWindow = defaultRefreshWindow\<rparr>"

definition sample_reply :: vault_reply where
  "sample_reply = \<lparr>vrRead = Inr (Some [(''data'', JObj [(''api_key'', JStr ''k1'')])]), vrLogin = Inl (Errorf ''down''),
     vrReread = Inr None, vrAt = 100\<rparr>"

definition sample_flight :: vault_state where
  \<comment> \<open>one goroutine leads, another joins, the answer arrives\<close>
  "sample_flight = vault_answer sample_reply 0 ''acme'' 0 (vault_fetch 1 ''acme'' (vault_fetch 0 ''acme'' (idle_vault sample_provider)))"

theorem vault_reads_coalesced_witness:
  "vsCallers sample_flight 1 = Awaiting ''acme'' 0 \<and>
   (\<exists>u. (''acme'', u, ''k1'') \<in> set (vsReads sample_flight) \<and> 200 < u + defaultTTL)"
proof -
  let ?s1 = "vault_fetch 0 ''acme'' (idle_vault sample_provider)" and ?s2 = "vault_fetch 1 ''acme'' (vault_fetch 0 ''acme'' (idle_vault sample_provider))"
  note defs = vault_fetch_def vault_answer_def idle_vault_def set_caller_def sample_provider_def sample_reply_def Let_def cache_hit_def
    fetchAndCache_def api_key_of_def
  have "vault_reach (idle_vault sample_provider) ?s1"
    by (rule vault_reach.step [OF vault_reach.start, of 5]) (rule vault_step.miss; simp add: defs)
  then have "vault_reach (idle_vault sample_provider) ?s2"
    by (rule vault_reach.step [of _ _ 6]) (rule vault_step.miss; simp add: defs)
  then have r: "vault_reach (idle_vault sample_provider) sample_flight" unfolding sample_flight_def
    by (rule vault_reach.step [of _ _ 100]) (rule vault_step.answer; simp add: defs)
  have "cache_hit 200 ''acme'' (vsProvider sample_flight) = Some (''k1'', False)"
    by (simp add: sample_flight_def defs defaultTTL_def defaultRefreshWindow_def)
  moreover have "vpTtl sample_provider = defaultTTL" "vpCache sample_provider = (\<lambda>_. None)" by (simp_all add: sample_provider_def)
  ultimately have "\<exists>u. (''acme'', u, ''k1'') \<in> set (vsReads sample_flight) \<and> 200 < u + defaultTTL"
    using vault_reads_coalesced [OF r] by metis
  moreover have "vsCallers sample_flight 1 = Awaiting ''acme'' 0" by (simp add: sample_flight_def defs)
  ultimately show ?thesis by blast
qed

section \<open>Failed reads\<close>

text \<open>
  A read that fails once fails for good: neither a new login nor the second read can change the
  answer, and the cache keeps its entries.
\<close>

lemma relogin_without_effect:
  assumes "vrRead a = Inl e"
  shows "fst (fetchAndCache a t p) = Inl (Wrap (''vault: failed to read path '' @ secret_path t @ '': '') e '''')"
    and "vpCache (snd (fetchAndCache a t p)) = vpCache p"
  using assms
  by (simp_all add: fetchAndCache_def read_failure_def vault_login_def Let_def split: sum.split option.split prod.split)

end
