(* ===== verification/Process.thy ===== *)
theory Process
  imports Plugins Worker Config Migrate Postgres_Props
begin

text \<open>
  The processes: the health endpoints (\<^verbatim>\<open>internal/health\<close>), the start of the API, the worker and the scheduler, the worker's
  circuit-breaker endpoint (\<^verbatim>\<open>cmd/worker\<close>), the rounds of the pool's goroutines, the contexts a job runs under, and the commands of
  \<^verbatim>\<open>cmd/cli\<close>. The errors of connecting to Redis, PostgreSQL and the trace collector are arguments. A context is its chain of
  derivations; \<open>fired\<close> lists the cancel functions that were called and the timers that expired.
\<close>

section \<open>Health\<close>

record Checker =
  hcName :: string
  hcPinger :: "go_error option option"

definition NewChecker :: "string \<Rightarrow> go_error option option \<Rightarrow> Checker" where
  \<comment> \<open>\<open>None\<close> is a nil pinger, else the answer of its \<open>Ping\<close>\<close>
  "NewChecker name pinger = \<lparr>hcName = name, hcPinger = pinger\<rparr>"

definition Checker_Live :: "Checker \<Rightarrow> Response" where
  "Checker_Live c = plain 200 (Some (JObj [(''status'', JStr ''ok''), (''service'', JStr (hcName c))]))"

definition Checker_Ready :: "Checker \<Rightarrow> Response" where
  "Checker_Ready c =
     (case hcPinger c of
        Some (Some e) \<Rightarrow>
          plain 503 (Some (JObj [(''status'', JStr ''not_ready''), (''service'', JStr (hcName c)), (''error'', JStr (err_msg e))]))
      | _ \<Rightarrow> plain 200 (Some (JObj [(''status'', JStr ''ready''), (''service'', JStr (hcName c))])))"

section \<open>Starting the processes\<close>

record connections =
  \<comment> \<open>what the calls of \<open>tracing.Init\<close>, \<open>Ping\<close> and \<open>postgres.New\<close> answer\<close>
  cnTracing :: "go_error option"
  cnPing :: "go_error option"
  cnPostgres :: "go_error option"

definition connect_all :: "Config \<Rightarrow> connections \<Rightarrow> go_error + backend" where
  \<comment> \<open>the common first steps of \<open>run\<close>\<close>
  "connect_all cfg cn =
     (case Config_Validate cfg of
        Some e \<Rightarrow> Inl (Wrap ''invalid configuration: '' e '''')
      | None \<Rightarrow>
          (case cnTracing cn of
             Some e \<Rightarrow> Inl (Wrap ''failed to init tracing: '' e '''')
           | None \<Rightarrow>
               (case cnPing cn of
                  Some e \<Rightarrow> Inl (Wrap ''failed to connect to redis: '' e '''')
                | None \<Rightarrow>
                    (case InitStore (StoreBackend cfg) (cnPostgres cn) of
                       Inl e \<Rightarrow> Inl (Wrap ''failed to initialise storage: '' e '''')
                     | Inr b \<Rightarrow> Inr b))))"

definition api_queue :: "redis \<Rightarrow> Config \<Rightarrow> RedisQueue" where
  "api_queue r cfg = NewWithRateLimit r ''jobs'' (TenantRateLimit cfg)"

definition scheduler_queue :: "redis \<Rightarrow> RedisQueue" where
  "scheduler_queue r = RedisQueue_New r ''''"

definition worker_service ::
    "redis \<Rightarrow> Config \<Rightarrow> 's world Store \<Rightarrow> (string \<Rightarrow> (time \<Rightarrow> time) option) \<Rightarrow> (json \<Rightarrow> string) \<Rightarrow> 's JobService" where
  "worker_service r cfg store cron fmt = JobService_New (NewWithRateLimit r ''jobs'' (TenantRateLimit cfg)) store 0 cron fmt"

definition scheduler_service ::
    "redis \<Rightarrow> Config \<Rightarrow> 's world Store \<Rightarrow> (string \<Rightarrow> (time \<Rightarrow> time) option) \<Rightarrow> (json \<Rightarrow> string) \<Rightarrow> 's JobService" where
  "scheduler_service r cfg store cron fmt = JobService_New (scheduler_queue r) store (MaxQueueSize cfg) cron fmt"

definition worker_executor :: "'s plugin_env \<Rightarrow> redis \<Rightarrow> 's JobExecutor" where
  "worker_executor pe r = JobExecutor_Use LoggingMiddleware (NewJobExecutor (globalRegistry pe) (Some r))"

definition instance_id :: "go_error + string \<Rightarrow> string \<Rightarrow> string" where
  \<comment> \<open>the host name, or a text made from the clock\<close>
  "instance_id host clock = (case host of Inl e \<Rightarrow> ''worker-'' @ clock | Inr h \<Rightarrow> (if h = '''' then ''worker-'' @ clock else h))"

definition worker_start :: "Config \<Rightarrow> connections \<Rightarrow> string \<Rightarrow> int + Pool" where
  \<comment> \<open>the exit code, or the pool that is started\<close>
  "worker_start cfg cn instanceID =
     (case connect_all cfg cn of
        Inl e \<Rightarrow> Inl 1
      | Inr b \<Rightarrow> (case Pool_New (WorkerPoolSize cfg) instanceID of Inl e \<Rightarrow> Inl 1 | Inr p \<Rightarrow> Inr p))"

section \<open>The worker's endpoints\<close>

definition cors :: "(Request \<Rightarrow> 'a \<Rightarrow> Response \<times> 'a) \<Rightarrow> Request \<Rightarrow> 'a \<Rightarrow> Response \<times> 'a" where
  "cors nxt r a = (if rMethod r = ''OPTIONS'' then (plain 204 None, a) else nxt r a)"

definition circuit_breaker_handler :: "Config \<Rightarrow> Request \<Rightarrow> 's xstate \<Rightarrow> Response \<times> 's xstate" where
  "circuit_breaker_handler cfg = cors (\<lambda>r st.
     if rHeader r ''X-API-Key'' \<noteq> ApiKey cfg
     then (plain 401 (Some (JObj [(''code'', JStr ''UNAUTHORIZED''), (''error'', JStr ''missing or invalid API key'')])), st)
     else if rMethod r = ''GET''
     then (plain 200 (Some (JObj (map (\<lambda>(t, s). (t, JStr s)) (JobExecutor_CircuitBreakerStatus st)))), st)
     else if rMethod r = ''POST''
     then (plain 200 (Some (JObj [(''status'', JStr ''ok''), (''type'', JStr (rPathValue r ''type''))])),
           JobExecutor_ResetCircuitBreaker (rPathValue r ''type'') st)
     else (plain 405 None, st))"

section \<open>Rounds of the pool\<close>

definition Pool_workers :: "Pool \<Rightarrow> 's JobService \<Rightarrow> 's JobExecutor \<Rightarrow> bool \<Rightarrow> duration \<Rightarrow> 's WorkerProcessor list" where
  \<comment> \<open>the processors \<open>Start\<close> launches\<close>
  "Pool_workers p svc je hasLimiter slaTarget = map (\<lambda>n. NewWorkerProcessor n svc je hasLimiter slaTarget) (worker_names p)"

definition heartbeat_round :: "'s JobService \<Rightarrow> time \<Rightarrow> Pool \<Rightarrow> 's world \<Rightarrow> 's world" where
  "heartbeat_round s now p w = snd (JobService_RegisterHeartbeat s now (poInstanceID p) w)"

record gauges =
  gBusyRatio :: rat
  gQueueLength :: queue_lengths

definition metrics_round :: "'s JobService \<Rightarrow> time \<Rightarrow> int \<Rightarrow> Pool \<Rightarrow> gauges \<times> 's world \<Rightarrow> gauges \<times> 's world" where
  "metrics_round s now busyCount p gw =
     (let g = (fst gw)\<lparr>gBusyRatio := of_int busyCount / of_int (poNumWorkers p)\<rparr> in
      (case JobService_ListQueueLengths s now (snd gw) of
         (Inr lengths, w') \<Rightarrow> (g\<lparr>gQueueLength := lengths\<rparr>, w')
       | (Inl e, w') \<Rightarrow> (g, w')))"

definition RedisQueue_SubscribeCancellations :: "go_error option \<Rightarrow> string list \<Rightarrow> go_error + string list" where
  \<comment> \<open>the payloads the goroutine forwards, in the order of their publication, until the context or the subscription ends\<close>
  "RedisQueue_SubscribeCancellations receiveErr published =
     (case receiveErr of
        Some e \<Rightarrow> Inl (Wrap ''queue: failed to subscribe to cancellations: '' e '''')
      | None \<Rightarrow> Inr published)"

definition listenForCancellations :: "go_error option \<Rightarrow> string list \<Rightarrow> Pool \<Rightarrow> Pool" where
  "listenForCancellations receiveErr published p =
     (case RedisQueue_SubscribeCancellations receiveErr published of
        Inl e \<Rightarrow> p | Inr ch \<Rightarrow> fold handle_cancellation ch p)"

definition Pool_Stop :: "Pool \<Rightarrow> Pool" where
  "Pool_Stop p = snd (InitiateDrain p)"

datatype drain = Drained | ForcedExit int

definition waitForDrain :: "duration \<Rightarrow> duration \<Rightarrow> drain" where
  \<comment> \<open>the time the workers take against the timeout\<close>
  "waitForDrain timeout elapsed = (if elapsed < timeout then Drained else ForcedExit 1)"

section \<open>Contexts of a job\<close>

datatype go_ctx =
    Background
  | WithValue go_ctx
  | WithCancel nat go_ctx
  | WithTimeout nat go_ctx
  | WithoutCancel go_ctx

fun ctx_done :: "nat list \<Rightarrow> go_ctx \<Rightarrow> bool" where
  "ctx_done fired Background \<longleftrightarrow> False"
| "ctx_done fired (WithValue c) \<longleftrightarrow> ctx_done fired c"
| "ctx_done fired (WithCancel k c) \<longleftrightarrow> k \<in> set fired \<or> ctx_done fired c"
| "ctx_done fired (WithTimeout k c) \<longleftrightarrow> k \<in> set fired \<or> ctx_done fired c"
| "ctx_done fired (WithoutCancel c) \<longleftrightarrow> False"

record job_contexts =
  jcPlugin :: go_ctx
  jcCalls :: go_ctx
  jcCancel :: nat
  jcDeadline :: nat

definition exec_contexts :: "go_ctx \<Rightarrow> nat \<Rightarrow> job_contexts" where
  \<comment> \<open>the context of the plugin, the one of the later calls, the cancel function registered with the pool, and
      the timer; \<open>k\<close> and \<open>k + 1\<close> are fresh\<close>
  "exec_contexts ctx k =
     (let execCtx = WithValue (WithoutCancel ctx);
          jobCtx = WithTimeout k execCtx;
          execCtx' = WithCancel (k + 1) execCtx;
          progressCtx = WithValue jobCtx
      in \<lparr>jcPlugin = progressCtx, jcCalls = execCtx', jcCancel = k + 1, jcDeadline = k\<rparr>)"

definition refused :: "redis \<Rightarrow> redis" where
  \<comment> \<open>the client called with an ended context: nothing is sent\<close>
  "refused r = r\<lparr>rexec := (\<lambda>now cs db. (Inl Canceled, db)), reval := (\<lambda>now script db. (Inl Canceled, db)),
     rhscan := (\<lambda>k db. ([], Some Canceled)), rscan := (\<lambda>now p db. ([], Some Canceled))\<rparr>"

definition client_under :: "nat list \<Rightarrow> go_ctx \<Rightarrow> redis \<Rightarrow> redis" where
  "client_under fired c r = (if ctx_done fired c then refused r else r)"

definition redis_worker ::
    "Config \<Rightarrow> (string \<Rightarrow> (time \<Rightarrow> time) option) \<Rightarrow> (json \<Rightarrow> string) \<Rightarrow> unit plugin_env \<Rightarrow> string \<Rightarrow> redis \<Rightarrow> unit WorkerProcessor" where
  \<comment> \<open>a worker of a process with the Redis backend\<close>
  "redis_worker cfg cron fmt pe name r =
     NewWorkerProcessor name (worker_service r cfg (redis_world r) cron fmt) (worker_executor pe r) (0 < JobRateLimit cfg)
       (SLATargetSeconds cfg * Second)"

definition finish_job ::
    "(redis \<Rightarrow> 's WorkerProcessor) \<Rightarrow> redis \<Rightarrow> nat list \<Rightarrow> job_contexts \<Rightarrow> env \<Rightarrow> string \<Rightarrow> Job \<Rightarrow> json \<times> go_error option \<Rightarrow>
     's world \<Rightarrow> 's world" where
  \<comment> \<open>what follows the return of the plugin: every call uses the context \<open>jcCalls\<close>\<close>
  "finish_job mk r fired jc en tr job res w =
     (let wp = mk (client_under fired (jcCalls jc) r) in
      (case res of
         (result, None) \<Rightarrow> handle_success wp en tr job result w
       | (result, Some e) \<Rightarrow> handle_failure wp en tr job e w))"

section \<open>Commands\<close>

fun migrate_page :: "pg \<Rightarrow> time \<Rightarrow> blob list \<Rightarrow> int \<times> pgdb \<Rightarrow> int \<times> pgdb" where
  "migrate_page P now [] st = st"
| "migrate_page P now (b # bs) st =
     (case unmarshal_job b of
        None \<Rightarrow> migrate_page P now bs st
      | Some job \<Rightarrow>
          (case PostgresStore_Save P now job (snd st) of
             (Some e, db') \<Rightarrow> migrate_page P now bs (fst st, db')
           | (None, db') \<Rightarrow> migrate_page P now bs (fst st + 1, db')))"

definition migrate_jobs :: "pg \<Rightarrow> redis \<Rightarrow> time \<Rightarrow> rdb \<Rightarrow> pgdb \<Rightarrow> (go_error + int) \<times> pgdb" where
  \<comment> \<open>the loop over the cursor; an error of the scan ends it after the pages read so far\<close>
  "migrate_jobs P r now rdb db =
     (let (pages, err) = rhscan r jobStoreKey rdb;
          (total, db') = fold (\<lambda>pg. migrate_page P now (map snd pg)) pages (0, db)
      in case err of Some e \<Rightarrow> (Inl (Wrap ''failed to scan redis: '' e ''''), db') | None \<Rightarrow> (Inr total, db'))"

datatype cli_command =
    NoCommand
  | MigrateJobs string string
  | MigrateSchema string
  | MigrateDown
  | MigrateDownSchema string
  | UnknownCommand string

record 's cli_env =
  ceRedis :: redis
  ceRdb :: rdb
  cePg :: pg
  ceNow :: time
  cePostgres :: "go_error option"
  cePool :: "go_error option"
  ceMigrator :: "'s migrator"
  ceRollbackConn :: "go_error option"

definition cli_run :: "Config \<Rightarrow> 's cli_env \<Rightarrow> cli_command \<Rightarrow> pgdb \<times> 's schema \<Rightarrow> go_error option \<times> pgdb \<times> 's schema" where
  \<comment> \<open>the flags are parsed; \<open>ceRollbackConn\<close> is the error of parsing the connection string or making the pool in the rollback\<close>
  "cli_run cfg ce cmd st =
     (case Config_Validate cfg of
        Some e \<Rightarrow> (Some (Wrap ''invalid configuration: '' e ''''), st)
      | None \<Rightarrow>
          (case cmd of
             NoCommand \<Rightarrow> (Some (Errorf ''expected 'migrate-jobs', 'migrate-schema', 'migrate-down', or 'migrate-down-schema' subcommand''), st)
           | MigrateJobs from to \<Rightarrow>
               (if from \<noteq> ''redis'' \<or> to \<noteq> ''postgres'' then (Some (Errorf ''currently only redis -> postgres migration is supported''), st)
                else (case cePostgres ce of
                        Some e \<Rightarrow> (Some (Wrap ''failed to connect to postgres: '' e ''''), st)
                      | None \<Rightarrow>
                          (case migrate_jobs (cePg ce) (ceRedis ce) (ceNow ce) (ceRdb ce) (fst st) of
                             (Inl e, db') \<Rightarrow> (Some e, db', snd st) | (Inr n, db') \<Rightarrow> (None, db', snd st))))
           | MigrateSchema dir \<Rightarrow>
               (if PostgresConnStr cfg = '''' then (Some (Errorf ''POSTGRES_CONN_STR is required for schema migration''), st)
                else (case cePool ce of
                        Some e \<Rightarrow> (Some (Wrap ''failed to connect to postgres: '' e ''''), st)
                      | None \<Rightarrow>
                          (case RunMigrations (ceMigrator ce) dir (snd st) of
                             (Some e, sc) \<Rightarrow> (Some (Wrap ''schema migration failed: '' e ''''), fst st, sc)
                           | (None, sc) \<Rightarrow> (None, fst st, sc))))
           | MigrateDown \<Rightarrow> (None, st)
           | MigrateDownSchema dir \<Rightarrow>
               (if PostgresConnStr cfg = '''' then (Some (Errorf ''POSTGRES_CONN_STR is required for schema rollback''), st)
                else (case ceRollbackConn ce of
                        Some e \<Rightarrow> (Some (Wrap ''schema rollback failed: '' e ''''), st)
                      | None \<Rightarrow>
                          (case RollbackLastMigration (ceMigrator ce) (snd st) of
                             (Some e, sc) \<Rightarrow> (Some (Wrap ''schema rollback failed: '' e ''''), fst st, sc)
                           | (None, sc) \<Rightarrow> (None, fst st, sc))))
           | UnknownCommand c \<Rightarrow> (Some (Errorf (''unknown command: '' @ c)), st)))"

end
