(* ===== verification/Process_Props.thy ===== *)
theory Process_Props
  imports Process Worker_Props
begin

text \<open>
  Properties of the processes: what the cancellation of a running job does and does not do, what the job migration
  copies, and that the three processes use the same queue.
\<close>

section \<open>Processes share one queue\<close>

text \<open>
  The scheduler opens the queue without a name and the other processes under the name \<^verbatim>\<open>jobs\<close>: the keys are the
  same, and only the rate limit, which the scheduler never applies, differs.
\<close>

lemma processes_share_queue: "api_queue r cfg = (scheduler_queue r)\<lparr>rateLimit := TenantRateLimit cfg\<rparr>"
  by (simp add: api_queue_def scheduler_queue_def RedisQueue_New_def NewWithRateLimit_def defaultQueueKey_def)

section \<open>Calls with an ended context\<close>

lemma refused_calls [simp]:
  "rexec (refused r) now cs db = (Inl Canceled, db)" "rcall (refused r) now c db = (Inl Canceled, db)"
  "rcall_err (refused r) now c db = (Some Canceled, db)" "get_text (refused r) now k db = ('''', db)"
  "snd (redis_update (refused r) now f i db) = db" "fst (redis_update (refused r) now f i db) \<noteq> None"
  by (simp_all add: refused_def rcall_def rcall_err_def get_text_def redis_update_def RedisStore_GetByID_def)

lemma refused_update: "\<exists>e. redis_update (refused r) now f i db = (Some e, db)"
  using refused_calls(5,6) [of r now f i db] by (metis option.exhaust prod.collapse)

lemma refused_queue:
  assumes "client q = refused r"
  shows "snd (RedisQueue_Ack q now i db) = db" "snd (RedisQueue_MarkProcessed q now i db) = db"
    "snd (RedisQueue_Fail q now i e db) = db" "snd (snd (RedisQueue_Enqueue q tr now j db)) = db"
    "j \<noteq> None \<Longrightarrow> fst (RedisQueue_Enqueue q tr now j db) \<noteq> None"
  by (auto simp: RedisQueue_Ack_def untrack_def RedisQueue_MarkProcessed_def RedisQueue_Fail_def RedisQueue_Enqueue_def assms Let_def
      split: option.split)

lemma worker_service_parts [simp]:
  "svcRedis (worker_service r cfg store cron fmt) = r" "svcStore (worker_service r cfg store cron fmt) = store"
  by (simp_all add: worker_service_def JobService_New_def NewWithRateLimit_def Let_def)

lemma refused_service:
  fixes r cfg cron fmt
  defines "s \<equiv> worker_service (refused r) cfg (redis_world (refused r)) cron fmt"
  shows "snd (JobService_Ack s now i w) = w" "snd (JobService_MarkProcessed s now i w) = w" "snd (JobService_Fail s now i e w) = w"
    "snd (snd (JobService_Enqueue s tr now j w)) = w" "snd (JobService_UpdateJobStatus s now i st p w) = w"
    "snd (JobService_UpdateJobProgress s now i x w) = w" "snd (JobService_UpdateJobResult s tr now i st p v w) = w"
proof -
  have c: "client (svcQueue s) = refused r" and st: "svcStore s = redis_world (refused r)" by (simp_all add: s_def)
  show "snd (JobService_Ack s now i w) = w" "snd (JobService_MarkProcessed s now i w) = w" "snd (JobService_Fail s now i e w) = w"
    "snd (snd (JobService_Enqueue s tr now j w)) = w"
    using refused_queue [OF c]
    by (simp_all add: JobService_Ack_def JobService_MarkProcessed_def JobService_Fail_def JobService_Enqueue_def on_db_def case_prod_beta)
  have u: "\<exists>e. lift_op wDb (\<lambda>a. wDb_update (\<lambda>_. a)) (redis_update (refused r) now f i) w = (Some e, w)" for f
    using refused_update [of r now f i "wDb w"] by (auto simp: lift_op_def)
  show "snd (JobService_UpdateJobStatus s now i st p w) = w" "snd (JobService_UpdateJobProgress s now i x w) = w"
    "snd (JobService_UpdateJobResult s tr now i st p v w) = w"
    using u [of "\<lambda>j. j\<lparr>jStatus := st, jProcessedBy := p, jUpdatedAt := now\<rparr>"] u [of "\<lambda>j. j\<lparr>jProgress := x, jUpdatedAt := now\<rparr>"]
      u [of "\<lambda>j. j\<lparr>jStatus := st, jProcessedBy := p, jResult := v, jUpdatedAt := now\<rparr>"]
    by (auto simp: JobService_UpdateJobStatus_def JobService_UpdateJobProgress_def JobService_UpdateJobResult_def st redis_world_def
        lift_store_def redis_store_def RedisStore_UpdateStatus_def RedisStore_UpdateProgress_def RedisStore_UpdateResult_def)
qed

lemma refused_requeue:
  "requeue_after (worker_service (refused r) cfg (redis_world (refused r)) cron fmt) b d t tr job w = w"
proof -
  let ?s = "worker_service (refused r) cfg (redis_world (refused r)) cron fmt"
  obtain e j w1 where a: "JobService_Enqueue ?s tr t (Some job) w = (e, j, w1)" by (cases "JobService_Enqueue ?s tr t (Some job) w")
  obtain e' j' w2 where b: "JobService_Enqueue ?s tr (t + max 0 d) (Some job) w = (e', j', w2)"
    by (cases "JobService_Enqueue ?s tr (t + max 0 d) (Some job) w")
  have "w1 = w" "w2 = w" using refused_service(4) [of r cfg cron fmt tr _ "Some job" w] a b by (metis snd_conv)+
  then show ?thesis by (simp add: requeue_after_def Let_def a b refused_service split: option.split)
qed

lemma finish_job_refused:
  assumes "ctx_done fired (jcCalls jc)"
  shows "finish_job (redis_worker cfg cron fmt pe name) r fired jc en tr job res w = w"
proof -
  have p: "wpService (redis_worker cfg cron fmt pe name (refused r)) =
      worker_service (refused r) cfg (redis_world (refused r)) cron fmt"
    by (simp add: redis_worker_def NewWorkerProcessor_def)
  show ?thesis
    by (simp add: finish_job_def client_under_def assms handle_success_def handle_failure_def deferJob_def retry_job_def permanentlyFail_def
        p Let_def refused_service refused_requeue split: prod.split option.split)
qed
section \<open>Cancelling a running job\<close>

lemma exec_contexts_cancel:
  "ctx_done (jcCancel (exec_contexts ctx k) # fired) (jcPlugin (exec_contexts ctx k)) \<longleftrightarrow> ctx_done fired (jcPlugin (exec_contexts ctx k))"
  "ctx_done (jcCancel (exec_contexts ctx k) # fired) (jcCalls (exec_contexts ctx k))"
  by (simp_all add: exec_contexts_def Let_def)

context job_service
begin

lemma CancelJob_spec:
  assumes w: "ok w" "lookup w i = Some j" "i \<noteq> ''''" and w': "w' = snd (JobService_CancelJob s now i w)"
  shows "fst (JobService_CancelJob s now i w) = None" and "ok w'"
    and "\<exists>u. lookup w' = (lookup w)(i \<mapsto> j\<lparr>jStatus := StatusCancelled, jProcessedBy := '''', jUpdatedAt := u\<rparr>)"
    and "map_of (rHashes (wDb w') payloadsKey) i = None"
proof -
  obtain w1 u where 1: "st_UpdateStatus (svcStore s) now i StatusCancelled '''' w = (None, w1)" "ok w1"
    "lookup w1 = (lookup w)(i \<mapsto> j\<lparr>jStatus := StatusCancelled, jProcessedBy := '''', jUpdatedAt := u\<rparr>)"
    using status_some [OF w(1,2), of now StatusCancelled "''''"] by blast
  obtain w2 where 2: "snd (JobService_Ack s now i w1) = w2" "ok w2" "lookup w2 = lookup w1" "clears now i (wDb w1) (wDb w2)"
    using Ack_world [OF 1(2) w(3)] by blast
  have q: "quiet w2 (snd (on_db (RedisQueue_PublishCancellation (svcQueue s) now i) w2))"
    using silent_quiet [OF silent_call [where c = "PUBLISH ''task_queue:cancellations'' i" and now = now and db = "wDb w2"]]
    by (simp add: on_db_def RedisQueue_PublishCancellation_def rcall_err_def case_prod_beta split: sum.split)
  have e: "JobService_CancelJob s now i w =
      (None, publishSSE s i StatusCancelled '''' '''' (snd (on_db (RedisQueue_PublishCancellation (svcQueue s) now i) w2)))"
    by (simp add: JobService_CancelJob_def 1(1) 2(1) Let_def)
  have q': "quiet w2 w'" using q by (simp add: w' e publishSSE_def)
  show "fst (JobService_CancelJob s now i w) = None" by (simp add: e)
  have f: "ok w' \<and> lookup w' = lookup w2" using frame_quiet [OF 2(2) q'] by simp
  then show "ok w'" and "\<exists>u. lookup w' = (lookup w)(i \<mapsto> j\<lparr>jStatus := StatusCancelled, jProcessedBy := '''', jUpdatedAt := u\<rparr>)"
    using 1(3) 2(3) by auto
  show "map_of (rHashes (wDb w') payloadsKey) i = None"
    using clears_gone(1) [OF 2(4)] q' by (simp add: quiet_def queue_frame_def)
qed

end



section \<open>Job migration\<close>

definition carries :: "pgrow \<Rightarrow> Job \<Rightarrow> bool" where
  "carries row j \<longleftrightarrow> cStatus row = jStatus j \<and> cAttempts row = jRetries j \<and> cScheduledAt row = jRunAt j"

definition copied :: "time \<Rightarrow> pgdb \<Rightarrow> Job \<Rightarrow> bool" where
  \<comment> \<open>the job has its row, or the row of another job of the tenant holds its dedup key\<close>
  "copied now db j \<longleftrightarrow> (\<exists>row. find_row db (jID j) = Some row \<and> carries row j) \<or>
     (\<exists>k row. find_row db k = Some row \<and> same_dedup (inserted_row now j) row)"

lemma migrate_page_append: "migrate_page P now (xs @ ys) st = migrate_page P now ys (migrate_page P now xs st)"
  by (induction xs arbitrary: st) (auto split: option.split prod.split)

lemma migrate_pages: "fold (\<lambda>pg. migrate_page P now (map snd pg)) pages st = migrate_page P now (map snd (concat pages)) st"
  by (induction pages arbitrary: st) (simp_all add: migrate_page_append)

context pg_up
begin

lemma Save_effect:
  assumes ok: "pg_ok db" and db': "db' = snd (PostgresStore_Save P now j db)"
  shows "pg_ok db'" and "copied now db' j" and "k \<noteq> jID j \<Longrightarrow> find_row db' k = find_row db k"
    and "find_row db (jID j) = Some row \<Longrightarrow> find_row db' (jID j) = Some (save_conflict (inserted_row now j) row)"
proof -
  note s = Save_row [where now = now and j = j and db = db, folded db']
  show "pg_ok db'" using run_ok [OF ok, of "Insert [inserted_row now j] (Some save_conflict)" now]
    by (simp add: db' PostgresStore_Save_def run_result_state)
  have dup: "\<exists>k row. find_row db k = Some row \<and> same_dedup (inserted_row now j) row"
    if "list_ex (same_dedup (inserted_row now j)) (dbJobs db)"
    using that find_row_in [OF ok] by (fastforce simp: list_ex_iff)
  show "copied now db' j"
  proof (cases "find_row db (jID j)")
    case None
    then show ?thesis using s dup by (auto simp: copied_def carries_def inserted_row_def db' split: if_splits)
  next
    case (Some r)
    then show ?thesis using s by (auto simp: copied_def carries_def inserted_row_def save_conflict_def db')
  qed
  show "k \<noteq> jID j \<Longrightarrow> find_row db' k = find_row db k"
    and "find_row db (jID j) = Some row \<Longrightarrow> find_row db' (jID j) = Some (save_conflict (inserted_row now j) row)"
    using s by (auto simp: db' split: option.splits if_splits)
qed

lemma Save_keeps_copied:
  assumes ok: "pg_ok db" and db': "db' = snd (PostgresStore_Save P now j db)" and c: "copied now db i" and u: "jID i = jID j \<Longrightarrow> i = j"
  shows "copied now db' i"
proof (cases "i = j")
  case True
  then show ?thesis using Save_effect(2) [OF ok db'] by simp
next
  case False
  then have ne: "jID i \<noteq> jID j" using u by blast
  note e = Save_effect(3,4) [OF ok db']
  from c show ?thesis unfolding copied_def
  proof (elim disjE exE conjE)
    fix row assume "find_row db (jID i) = Some row" "carries row i"
    then show "(\<exists>row. find_row db' (jID i) = Some row \<and> carries row i) \<or> (\<exists>k row. find_row db' k = Some row \<and> same_dedup (inserted_row now i) row)"
      using e(1) [OF ne] by auto
  next
    fix k row assume r: "find_row db k = Some row" "same_dedup (inserted_row now i) row"
    then have "\<exists>row'. find_row db' k = Some row' \<and> same_dedup (inserted_row now i) row'"
      using e(1) [of k] e(2) [of row] by (cases "k = jID j") (auto simp: same_dedup_update(2) [OF keeps_keys_updates(6)])
    then show "(\<exists>row. find_row db' (jID i) = Some row \<and> carries row i) \<or> (\<exists>k row. find_row db' k = Some row \<and> same_dedup (inserted_row now i) row)"
      by auto
  qed
qed

lemma migrate_page_spec:
  assumes "inj_on jID J" and "\<forall>b\<in>set bs. \<forall>j. unmarshal_job b = Some j \<longrightarrow> j \<in> J" and "pg_ok (snd st)" and "st' = migrate_page P now bs st"
  shows "pg_ok (snd st') \<and> (\<forall>j\<in>J. copied now (snd st) j \<longrightarrow> copied now (snd st') j) \<and>
         (\<forall>b\<in>set bs. \<forall>j. unmarshal_job b = Some j \<longrightarrow> copied now (snd st') j) \<and>
         (\<forall>k. find_row (snd st) k \<noteq> None \<longrightarrow> find_row (snd st') k \<noteq> None)"
  using assms(2-)
proof (induction bs arbitrary: st)
  case (Cons b bs)
  show ?case
  proof (cases "unmarshal_job b")
    case None
    then show ?thesis using Cons by auto
  next
    case (Some j)
    define db1 where db1: "db1 = snd (PostgresStore_Save P now j (snd st))"
    obtain n where n: "migrate_page P now (b # bs) st = migrate_page P now bs (n, db1)"
      using Some db1 by (cases "PostgresStore_Save P now j (snd st)"; cases "fst (PostgresStore_Save P now j (snd st))") auto
    have j: "j \<in> J" using Cons.prems(1) Some by simp
    note e = Save_effect [OF Cons.prems(2) db1]
    have k: "copied now db1 i" if "i \<in> J" "copied now (snd st) i" for i
      using Save_keeps_copied [OF Cons.prems(2) db1 that(2)] inj_onD [OF assms(1) _ that(1) j] by blast
    have rows: "find_row db1 i \<noteq> None" if "find_row (snd st) i \<noteq> None" for i
      using that e(3) [of i] e(4) by (cases "i = jID j") auto
    have "pg_ok (snd st') \<and> (\<forall>j\<in>J. copied now db1 j \<longrightarrow> copied now (snd st') j) \<and>
         (\<forall>b\<in>set bs. \<forall>j. unmarshal_job b = Some j \<longrightarrow> copied now (snd st') j) \<and>
         (\<forall>k. find_row db1 k \<noteq> None \<longrightarrow> find_row (snd st') k \<noteq> None)"
      using Cons.IH [of "(n, db1)"] Cons.prems(1,3) e(1) n by simp
    then show ?thesis using k rows e(2) j Some by auto
  qed
qed simp

end


definition sample_rdb :: rdb where
  "sample_rdb = put_hash jobStoreKey [(''j1'', Doc (job_json sample_row_job))] empty_rdb"


end
