(* ===== verification/Sdk.thy ===== *)
theory Sdk
  imports Handler
begin

text \<open>
  The client library \<^verbatim>\<open>pkg/tq\<close>. The HTTP transport is a parameter that answers a request and may change a state; the body of
  an answer is its text and, if it parses, its document. \<^verbatim>\<open>url.Values\<close> is the list of its pairs in the
  order of their keys, as \<^verbatim>\<open>Encode\<close> writes them.
\<close>

section \<open>Requests and responses\<close>

record SubmitJobRequest =
  sqType :: string
  sqPayload :: "fields option"
  sqLabels :: "(string \<times> string) list"
  sqPriority :: string
  sqMaxRetries :: "int option"
  sqBackoffAlgorithm :: string
  sqBackoffJitter :: string
  sqCronExpr :: string
  sqRunAt :: "time option"
  sqCorrelationID :: string
  sqTimeout :: int
  sqVersion :: int
  sqWebhook :: "WebhookRequest option"
  sqDedupKey :: string
  sqDependencies :: "string list"
  sqShardKey :: string

definition sdk_webhook_json :: "WebhookRequest \<Rightarrow> json" where
  \<comment> \<open>\<open>WebhookConfig\<close> and \<open>RegisterWebhookReq\<close>\<close>
  "sdk_webhook_json h = JObj ([(''url'', JStr (whURL h))] @ omit (whSecret h = '''') (''secret'', JStr (whSecret h)) @
     omit (whEvents h = []) (''events'', jstrs (whEvents h)))"

definition submit_fields :: "SubmitJobRequest \<Rightarrow> fields" where
  "submit_fields q =
     [(''type'', JStr (sqType q)), (''payload'', (case sqPayload q of None \<Rightarrow> JNull | Some m \<Rightarrow> JObj m))] @
     omit (sqLabels q = []) (''labels'', jpairs (sqLabels q)) @
     omit (sqPriority q = '''') (''priority'', JStr (sqPriority q)) @
     omit (sqMaxRetries q = None) (''max_retries'', jint (case sqMaxRetries q of None \<Rightarrow> 0 | Some n \<Rightarrow> n)) @
     omit (sqBackoffAlgorithm q = '''') (''backoff_algorithm'', JStr (sqBackoffAlgorithm q)) @
     omit (sqBackoffJitter q = '''') (''backoff_jitter'', JStr (sqBackoffJitter q)) @
     omit (sqCronExpr q = '''') (''cron_expr'', JStr (sqCronExpr q)) @
     omit (sqRunAt q = None) (''run_at'', JTime (case sqRunAt q of None \<Rightarrow> 0 | Some t \<Rightarrow> t)) @
     omit (sqCorrelationID q = '''') (''correlation_id'', JStr (sqCorrelationID q)) @
     omit (sqTimeout q = 0) (''timeout_seconds'', jint (sqTimeout q)) @
     omit (sqVersion q = 0) (''version'', jint (sqVersion q)) @
     omit (sqWebhook q = None) (''webhook'', (case sqWebhook q of None \<Rightarrow> JNull | Some h \<Rightarrow> sdk_webhook_json h)) @
     omit (sqDedupKey q = '''') (''dedup_key'', JStr (sqDedupKey q)) @
     omit (sqDependencies q = []) (''dependencies'', jstrs (sqDependencies q)) @
     omit (sqShardKey q = '''') (''shard_key'', JStr (sqShardKey q))"

definition submit_json :: "SubmitJobRequest \<Rightarrow> json" where
  "submit_json q = JObj (submit_fields q)"

record sdk_job =
  sjID :: string
  sjTenantID :: string
  sjType :: string
  sjPayload :: "fields option"
  sjStatus :: string
  sjPriority :: string
  sjRetries :: int
  sjMaxRetries :: int
  sjCorrelationID :: string
  sjTimeout :: int
  sjVersion :: int
  sjProgress :: rat
  sjCreatedAt :: time
  sjUpdatedAt :: time
  sjRunAt :: time
  sjProcessedBy :: string
  sjResult :: json
  sjError :: string
  sjDedupKey :: string
  sjDependencies :: "string list"
  sjShardKey :: string
  sjCronExpr :: string
  sjErrorHistory :: "AttemptError list"
  sjWebhook :: "WebhookRequest option"

definition sdk_job_fields :: "fields \<Rightarrow> sdk_job option" where
  "sdk_job_fields fs =
     do { i \<leftarrow> dec_str fs ''id''; tenant \<leftarrow> dec_str fs ''tenant_id''; type \<leftarrow> dec_str fs ''type''; payload \<leftarrow> dec_map fs ''payload'';
          status \<leftarrow> dec_str fs ''status''; priority \<leftarrow> dec_str fs ''priority''; retries \<leftarrow> dec_int fs ''retries'';
          maxr \<leftarrow> dec_int fs ''max_retries''; corr \<leftarrow> dec_str fs ''correlation_id''; timeout \<leftarrow> dec_int fs ''timeout_seconds'';
          version \<leftarrow> dec_int fs ''version''; progress \<leftarrow> dec_float fs ''progress''; created \<leftarrow> dec_time fs ''created_at'';
          updated \<leftarrow> dec_time fs ''updated_at''; runat \<leftarrow> dec_time fs ''run_at''; by \<leftarrow> dec_str fs ''processed_by'';
          res \<leftarrow> dec_any fs ''result''; err \<leftarrow> dec_str fs ''error''; dedup \<leftarrow> dec_str fs ''dedup_key'';
          deps \<leftarrow> dec_strs fs ''dependencies''; shard \<leftarrow> dec_str fs ''shard_key''; cron \<leftarrow> dec_str fs ''cron_expr'';
          hist \<leftarrow> dec_attempts fs ''error_history''; hook \<leftarrow> dec_webhook_request fs ''webhook'';
          Some \<lparr>sjID = i, sjTenantID = tenant, sjType = type, sjPayload = payload, sjStatus = status, sjPriority = priority,
            sjRetries = retries, sjMaxRetries = maxr, sjCorrelationID = corr, sjTimeout = timeout, sjVersion = version,
            sjProgress = progress, sjCreatedAt = created, sjUpdatedAt = updated, sjRunAt = runat, sjProcessedBy = by,
            sjResult = res, sjError = err, sjDedupKey = dedup, sjDependencies = deps, sjShardKey = shard, sjCronExpr = cron,
            sjErrorHistory = hist, sjWebhook = hook\<rparr> }"

definition json_sdk_job :: "json \<Rightarrow> sdk_job option" where
  "json_sdk_job v = (case v of JObj fs \<Rightarrow> sdk_job_fields fs | JNull \<Rightarrow> sdk_job_fields [] | _ \<Rightarrow> None)"

fun dec_list :: "(json \<Rightarrow> 'a option) \<Rightarrow> json list \<Rightarrow> 'a list option" where
  "dec_list d [] = Some []"
| "dec_list d (v # vs) = (case d v of None \<Rightarrow> None | Some x \<Rightarrow> map_option ((#) x) (dec_list d vs))"

definition dec_slice :: "(json \<Rightarrow> 'a option) \<Rightarrow> fields \<Rightarrow> string \<Rightarrow> 'a list option" where
  "dec_slice d fs k = (case jget fs k of None \<Rightarrow> Some [] | Some JNull \<Rightarrow> Some [] | Some (JArr vs) \<Rightarrow> dec_list d vs | _ \<Rightarrow> None)"

record ListJobsResponse =
  lrJobs :: "sdk_job list"
  lrTotal :: int
  lrPage :: int
  lrLimit :: int

definition json_list_response :: "json \<Rightarrow> ListJobsResponse option" where
  "json_list_response v = (case v of JObj fs \<Rightarrow>
     do { js \<leftarrow> dec_slice json_sdk_job fs ''jobs''; total \<leftarrow> dec_int fs ''total''; page \<leftarrow> dec_int fs ''page''; limit \<leftarrow> dec_int fs ''limit'';
          Some \<lparr>lrJobs = js, lrTotal = total, lrPage = page, lrLimit = limit\<rparr> }
     | JNull \<Rightarrow> Some \<lparr>lrJobs = [], lrTotal = 0, lrPage = 0, lrLimit = 0\<rparr>
     | _ \<Rightarrow> None)"

record BatchJobResponse =
  brTotal :: int
  brProcessed :: int
  brSuccessful :: "(int \<times> sdk_job option) list"
  brFailed :: "(int \<times> string) list"

definition json_batch_result :: "json \<Rightarrow> (int \<times> sdk_job option) option" where
  "json_batch_result v = (case v of JObj fs \<Rightarrow>
     do { i \<leftarrow> dec_int fs ''index'';
          j \<leftarrow> (case jget fs ''job'' of None \<Rightarrow> Some None | Some JNull \<Rightarrow> Some None | Some u \<Rightarrow> map_option Some (json_sdk_job u));
          Some (i, j) }
     | JNull \<Rightarrow> Some (0, None) | _ \<Rightarrow> None)"

definition json_batch_error :: "json \<Rightarrow> (int \<times> string) option" where
  "json_batch_error v = (case v of JObj fs \<Rightarrow> do { i \<leftarrow> dec_int fs ''index''; e \<leftarrow> dec_str fs ''error''; Some (i, e) }
     | JNull \<Rightarrow> Some (0, '''') | _ \<Rightarrow> None)"

definition json_batch_response :: "json \<Rightarrow> BatchJobResponse option" where
  "json_batch_response v = (case v of JObj fs \<Rightarrow>
     do { total \<leftarrow> dec_int fs ''total''; processed \<leftarrow> dec_int fs ''processed''; good \<leftarrow> dec_slice json_batch_result fs ''successful'';
          bad \<leftarrow> dec_slice json_batch_error fs ''failed'';
          Some \<lparr>brTotal = total, brProcessed = processed, brSuccessful = good, brFailed = bad\<rparr> }
     | JNull \<Rightarrow> Some \<lparr>brTotal = 0, brProcessed = 0, brSuccessful = [], brFailed = []\<rparr>
     | _ \<Rightarrow> None)"

record sdk_webhook =
  swID :: string
  swTenantID :: string
  swURL :: string
  swEvents :: "string list"
  swCreatedAt :: time
  swUpdatedAt :: time

definition sdk_webhook_fields :: "fields \<Rightarrow> sdk_webhook option" where
  "sdk_webhook_fields fs =
     do { i \<leftarrow> dec_str fs ''id''; tenant \<leftarrow> dec_str fs ''tenant_id''; url \<leftarrow> dec_str fs ''url''; events \<leftarrow> dec_strs fs ''events'';
          created \<leftarrow> dec_time fs ''created_at''; updated \<leftarrow> dec_time fs ''updated_at'';
          Some \<lparr>swID = i, swTenantID = tenant, swURL = url, swEvents = events, swCreatedAt = created, swUpdatedAt = updated\<rparr> }"

definition json_sdk_webhook :: "json \<Rightarrow> sdk_webhook option" where
  "json_sdk_webhook v = (case v of JObj fs \<Rightarrow> sdk_webhook_fields fs | JNull \<Rightarrow> sdk_webhook_fields [] | _ \<Rightarrow> None)"

definition json_sdk_webhooks :: "json \<Rightarrow> sdk_webhook list option" where
  "json_sdk_webhooks v = (case v of JArr vs \<Rightarrow> dec_list json_sdk_webhook vs | JNull \<Rightarrow> Some [] | _ \<Rightarrow> None)"

section \<open>Client\<close>

record Client =
  ccBaseURL :: string
  ccApiKey :: string

definition NewClient :: "string \<Rightarrow> string \<Rightarrow> Client" where
  "NewClient baseURL apiKey = \<lparr>ccBaseURL = TrimSuffix baseURL ''/'', ccApiKey = apiKey\<rparr>"

datatype http_answer = NoRequest go_error | NoAnswer go_error | Answered int string "json option"

type_synonym 'w transport =
  "string \<Rightarrow> string \<Rightarrow> (string \<times> string) list \<Rightarrow> json option \<Rightarrow> 'w \<Rightarrow> http_answer \<times> 'w"

definition doReq ::
    "'w transport \<Rightarrow> Client \<Rightarrow> string \<Rightarrow> string \<Rightarrow> json option \<Rightarrow> (json \<Rightarrow> 'a option) option \<Rightarrow> 'w \<Rightarrow> (go_error + 'a option) \<times> 'w" where
  \<comment> \<open>without a decoder the body of a good answer is not read\<close>
  "doReq tr c meth path body out w =
     (let headers = (''X-API-Key'', ccApiKey c) # (if body = None then [] else [(''Content-Type'', ''application/json'')]) in
      (case tr meth (ccBaseURL c @ path) headers body w of
         (NoRequest e, w') \<Rightarrow> (Inl (Wrap ''failed to create request: '' e ''''), w')
       | (NoAnswer e, w') \<Rightarrow> (Inl (Wrap ''request failed: '' e ''''), w')
       | (Answered status text doc, w') \<Rightarrow>
           (if status < 200 \<or> 300 \<le> status then (Inl (Errorf (''API error (status '' @ itoa status @ ''): '' @ text)), w')
            else (case out of
                    None \<Rightarrow> (Inr None, w')
                  | Some dec \<Rightarrow>
                      (case Option.bind doc dec of
                         None \<Rightarrow> (Inl (Wrap ''failed to decode response: '' json_error ''''), w')
                       | Some v \<Rightarrow> (Inr (Some v), w'))))))"

definition with_out :: "(go_error + 'a option) \<times> 'w \<Rightarrow> (go_error + 'a) \<times> 'w" where
  \<comment> \<open>\<open>return &out, nil\<close>\<close>
  "with_out x = (case x of (Inl e, w) \<Rightarrow> (Inl e, w) | (Inr (Some v), w) \<Rightarrow> (Inr v, w) | (Inr None, w) \<Rightarrow> (Inl json_error, w))"

definition without_out :: "(go_error + 'a option) \<times> 'w \<Rightarrow> go_error option \<times> 'w" where
  "without_out x = (case x of (Inl e, w) \<Rightarrow> (Some e, w) | (Inr _, w) \<Rightarrow> (None, w))"

definition Client_Submit :: "'w transport \<Rightarrow> Client \<Rightarrow> SubmitJobRequest \<Rightarrow> 'w \<Rightarrow> (go_error + sdk_job) \<times> 'w" where
  "Client_Submit tr c req w = with_out (doReq tr c ''POST'' ''/jobs'' (Some (submit_json req)) (Some json_sdk_job) w)"

definition Client_SubmitBatch :: "'w transport \<Rightarrow> Client \<Rightarrow> SubmitJobRequest list \<Rightarrow> 'w \<Rightarrow> (go_error + BatchJobResponse) \<times> 'w" where
  \<comment> \<open>a nil slice is null\<close>
  "Client_SubmitBatch tr c reqs w =
     with_out (doReq tr c ''POST'' ''/jobs/batch'' (Some (JObj [(''jobs'', if reqs = [] then JNull else JArr (map submit_json reqs))]))
       (Some json_batch_response) w)"

definition Client_GetJob :: "'w transport \<Rightarrow> Client \<Rightarrow> string \<Rightarrow> 'w \<Rightarrow> (go_error + sdk_job) \<times> 'w" where
  "Client_GetJob tr c jobID w = with_out (doReq tr c ''GET'' (''/jobs/'' @ PathEscape jobID) None (Some json_sdk_job) w)"

record sdk_filter =
  sfStatus :: string
  sfType :: string
  sfLabelKey :: string
  sfLabelValue :: string
  sfCreatedAfter :: "time option"
  sfCreatedBefore :: "time option"
  sfLimit :: int
  sfPage :: int

definition query_unescaped :: "char \<Rightarrow> bool" where
  "query_unescaped c \<longleftrightarrow> (CHR ''0'' \<le> c \<and> c \<le> CHR ''9'') \<or> (CHR ''A'' \<le> c \<and> c \<le> CHR ''Z'') \<or> (CHR ''a'' \<le> c \<and> c \<le> CHR ''z'') \<or>
     c \<in> set ''-_.~''"

definition QueryEscape :: "string \<Rightarrow> string" where
  "QueryEscape s = concat (map (\<lambda>c. if query_unescaped c then [c] else if c = CHR '' '' then ''+''
      else [CHR ''%'', upper_hex (of_char c div 16), upper_hex (of_char c mod 16)]) s)"

definition rfc3339 :: "time \<Rightarrow> string" where
  \<comment> \<open>\<open>Format(time.RFC3339)\<close> of an instant in UTC: whole seconds\<close>
  "rfc3339 t = time_text (Unix t * Second)"

definition filter_values :: "sdk_filter \<Rightarrow> (string \<times> string) list" where
  "filter_values f =
     (case sfCreatedAfter f of None \<Rightarrow> [] | Some t \<Rightarrow> [(''created_after'', rfc3339 t)]) @
     (case sfCreatedBefore f of None \<Rightarrow> [] | Some t \<Rightarrow> [(''created_before'', rfc3339 t)]) @
     (if sfLabelKey f \<noteq> '''' then [(''label_key'', sfLabelKey f)] else []) @
     (if sfLabelKey f \<noteq> '''' \<and> sfLabelValue f \<noteq> '''' then [(''label_value'', sfLabelValue f)] else []) @
     (if 0 < sfLimit f then [(''limit'', itoa (sfLimit f))] else []) @
     (if 0 < sfPage f then [(''page'', itoa (sfPage f))] else []) @
     (if sfStatus f \<noteq> '''' then [(''status'', sfStatus f)] else []) @
     (if sfType f \<noteq> '''' then [(''type'', sfType f)] else [])"

fun encode_values :: "(string \<times> string) list \<Rightarrow> string" where
  "encode_values [] = ''''"
| "encode_values [(k, v)] = QueryEscape k @ ''='' @ QueryEscape v"
| "encode_values ((k, v) # kvs) = QueryEscape k @ ''='' @ QueryEscape v @ ''&'' @ encode_values kvs"

definition Client_ListJobs :: "'w transport \<Rightarrow> Client \<Rightarrow> sdk_filter \<Rightarrow> 'w \<Rightarrow> (go_error + ListJobsResponse) \<times> 'w" where
  "Client_ListJobs tr c f w =
     with_out (doReq tr c ''GET'' (if filter_values f = [] then ''/jobs'' else ''/jobs?'' @ encode_values (filter_values f)) None
       (Some json_list_response) w)"

definition job_action :: "string \<Rightarrow> 'w transport \<Rightarrow> Client \<Rightarrow> string \<Rightarrow> 'w \<Rightarrow> go_error option \<times> 'w" where
  "job_action what tr c jobID w =
     without_out (doReq tr c ''POST'' (''/jobs/'' @ PathEscape jobID @ what) None (None :: (json \<Rightarrow> unit option) option) w)"

definition Client_Pause :: "'w transport \<Rightarrow> Client \<Rightarrow> string \<Rightarrow> 'w \<Rightarrow> go_error option \<times> 'w" where
  "Client_Pause = job_action ''/pause''"

definition Client_Resume :: "'w transport \<Rightarrow> Client \<Rightarrow> string \<Rightarrow> 'w \<Rightarrow> go_error option \<times> 'w" where
  "Client_Resume = job_action ''/resume''"

definition Client_Cancel :: "'w transport \<Rightarrow> Client \<Rightarrow> string \<Rightarrow> 'w \<Rightarrow> go_error option \<times> 'w" where
  "Client_Cancel = job_action ''/cancel''"

definition Client_RegisterWebhook :: "'w transport \<Rightarrow> Client \<Rightarrow> WebhookRequest \<Rightarrow> 'w \<Rightarrow> (go_error + sdk_webhook) \<times> 'w" where
  "Client_RegisterWebhook tr c req w =
     with_out (doReq tr c ''POST'' ''/api/v1/webhooks'' (Some (sdk_webhook_json req)) (Some json_sdk_webhook) w)"

definition Client_ListWebhooks :: "'w transport \<Rightarrow> Client \<Rightarrow> 'w \<Rightarrow> (go_error + sdk_webhook list) \<times> 'w" where
  "Client_ListWebhooks tr c w = with_out (doReq tr c ''GET'' ''/api/v1/webhooks'' None (Some json_sdk_webhooks) w)"

definition Client_GetWebhook :: "'w transport \<Rightarrow> Client \<Rightarrow> string \<Rightarrow> 'w \<Rightarrow> (go_error + sdk_webhook) \<times> 'w" where
  "Client_GetWebhook tr c i w = with_out (doReq tr c ''GET'' (''/api/v1/webhooks/'' @ PathEscape i) None (Some json_sdk_webhook) w)"

definition Client_DeleteWebhook :: "'w transport \<Rightarrow> Client \<Rightarrow> string \<Rightarrow> 'w \<Rightarrow> go_error option \<times> 'w" where
  "Client_DeleteWebhook tr c i w =
     without_out (doReq tr c ''DELETE'' (''/api/v1/webhooks/'' @ PathEscape i) None (None :: (json \<Rightarrow> unit option) option) w)"

end
