(* ===== verification/Sdk_Props.thy ===== *)
theory Sdk_Props
  imports Sdk
begin

text \<open>
  What the API reads of a request of the client library, and what the library reads of a job the API
  returns.
\<close>

definition server_view :: "SubmitJobRequest \<Rightarrow> CreateJobRequest" where
  \<comment> \<open>the request as the API decodes it\<close>
  "server_view q = \<lparr>cqType = sqType q, cqPayload = sqPayload q, cqLabels = sqLabels q, cqPriority = sqPriority q,
     cqMaxRetries = (case sqMaxRetries q of None \<Rightarrow> 0 | Some n \<Rightarrow> n), cqBackoffAlgorithm = sqBackoffAlgorithm q,
     cqBackoffJitter = sqBackoffJitter q, cqCronExpr = sqCronExpr q,
     cqRunAt = (case sqRunAt q of None \<Rightarrow> JStr '''' | Some t \<Rightarrow> JTime t), cqCorrelationID = sqCorrelationID q, cqTimeout = 0,
     cqVersion = sqVersion q, cqTenantID = '''', cqDedupKey = sqDedupKey q, cqDependencies = sqDependencies q,
     cqShardKey = sqShardKey q, cqWebhook = sqWebhook q, cqTTLSeconds = 0\<rparr>"

definition client_view :: "Job \<Rightarrow> sdk_job" where
  \<comment> \<open>the job as the library decodes it\<close>
  "client_view j = \<lparr>sjID = jID j, sjTenantID = jTenantID j, sjType = jType j, sjPayload = jPayload j, sjStatus = jStatus j,
     sjPriority = jPriority j, sjRetries = jRetries j, sjMaxRetries = jMaxRetries j, sjCorrelationID = jCorrelationID j,
     sjTimeout = 0, sjVersion = jVersion j, sjProgress = jProgress j, sjCreatedAt = Unix (jCreatedAt j) * Second,
     sjUpdatedAt = Unix (jUpdatedAt j) * Second, sjRunAt = Unix (jRunAt j) * Second, sjProcessedBy = '''', sjResult = JNull,
     sjError = '''', sjDedupKey = jDedupKey j, sjDependencies = jDependencies j, sjShardKey = jShardKey j, sjCronExpr = jCronExpr j,
     sjErrorHistory = jErrorHistory j, sjWebhook = None\<rparr>"

lemma dec_hook_json: "jget fs k = Some (sdk_webhook_json h) \<Longrightarrow> dec_webhook_request fs k = Some (Some h)"
  by (simp add: dec_webhook_request_def sdk_webhook_json_def dec_defs jstrs_def)

lemma submit_get:
  "jget (submit_fields q) ''type'' = Some (JStr (sqType q))"
  "jget (submit_fields q) ''payload'' = Some (case sqPayload q of None \<Rightarrow> JNull | Some m \<Rightarrow> JObj m)"
  "jget (submit_fields q) ''labels'' = (if sqLabels q = [] then None else Some (jpairs (sqLabels q)))"
  "jget (submit_fields q) ''priority'' = (if sqPriority q = '''' then None else Some (JStr (sqPriority q)))"
  "jget (submit_fields q) ''max_retries'' = map_option jint (sqMaxRetries q)"
  "jget (submit_fields q) ''backoff_algorithm'' = (if sqBackoffAlgorithm q = '''' then None else Some (JStr (sqBackoffAlgorithm q)))"
  "jget (submit_fields q) ''backoff_jitter'' = (if sqBackoffJitter q = '''' then None else Some (JStr (sqBackoffJitter q)))"
  "jget (submit_fields q) ''cron_expr'' = (if sqCronExpr q = '''' then None else Some (JStr (sqCronExpr q)))"
  "jget (submit_fields q) ''run_at'' = map_option JTime (sqRunAt q)"
  "jget (submit_fields q) ''correlation_id'' = (if sqCorrelationID q = '''' then None else Some (JStr (sqCorrelationID q)))"
  "jget (submit_fields q) ''timeout'' = None"
  "jget (submit_fields q) ''version'' = (if sqVersion q = 0 then None else Some (jint (sqVersion q)))"
  "jget (submit_fields q) ''tenant_id'' = None"
  "jget (submit_fields q) ''webhook'' = map_option sdk_webhook_json (sqWebhook q)"
  "jget (submit_fields q) ''dedup_key'' = (if sqDedupKey q = '''' then None else Some (JStr (sqDedupKey q)))"
  "jget (submit_fields q) ''dependencies'' = (if sqDependencies q = [] then None else Some (jstrs (sqDependencies q)))"
  "jget (submit_fields q) ''shard_key'' = (if sqShardKey q = '''' then None else Some (JStr (sqShardKey q)))"
  "jget (submit_fields q) ''ttl_seconds'' = None"
  by (simp_all add: submit_fields_def split: option.split)

lemma json_request_submit: "json_request (submit_json q) = Some (server_view q)"
proof -
  have "dec_webhook_request (submit_fields q) ''webhook'' = Some (sqWebhook q)"
    by (cases "sqWebhook q") (simp_all add: submit_get dec_hook_json, simp add: dec_webhook_request_def submit_get)
  then show ?thesis
    by (simp add: json_request_def submit_json_def server_view_def dec_defs dec_text_def submit_get jpairs_def jstrs_def jint_def
        split: option.split)
qed
definition response_fields :: "Job \<Rightarrow> fields" where
  "response_fields j = (case FromJob j of JObj fs \<Rightarrow> fs | _ \<Rightarrow> [])"

lemma FromJob_fields: "FromJob j = JObj (response_fields j)"
  by (simp add: response_fields_def FromJob_def)

lemma response_get:
  "jget (response_fields j) ''id'' = Some (JStr (jID j))"
  "jget (response_fields j) ''type'' = Some (JStr (jType j))"
  "jget (response_fields j) ''payload'' = Some (case jPayload j of None \<Rightarrow> JNull | Some m \<Rightarrow> JObj m)"
  "jget (response_fields j) ''priority'' = Some (JStr (jPriority j))"
  "jget (response_fields j) ''status'' = Some (JStr (jStatus j))"
  "jget (response_fields j) ''retries'' = Some (jint (jRetries j))"
  "jget (response_fields j) ''max_retries'' = Some (jint (jMaxRetries j))"
  "jget (response_fields j) ''created_at'' = Some (seconds_json (jCreatedAt j))"
  "jget (response_fields j) ''updated_at'' = Some (seconds_json (jUpdatedAt j))"
  "jget (response_fields j) ''run_at'' = Some (seconds_json (jRunAt j))"
  "jget (response_fields j) ''version'' = Some (jint (jVersion j))"
  "jget (response_fields j) ''progress'' = Some (JNum (jProgress j))"
  by (simp_all add: response_fields_def FromJob_def)

lemma response_get_optional:
  "jget (response_fields j) ''cron_expr'' = (if jCronExpr j = '''' then None else Some (JStr (jCronExpr j)))"
  "jget (response_fields j) ''correlation_id'' = (if jCorrelationID j = '''' then None else Some (JStr (jCorrelationID j)))"
  "jget (response_fields j) ''tenant_id'' = (if jTenantID j = '''' then None else Some (JStr (jTenantID j)))"
  "jget (response_fields j) ''dedup_key'' = (if jDedupKey j = '''' then None else Some (JStr (jDedupKey j)))"
  "jget (response_fields j) ''dependencies'' = (if jDependencies j = [] then None else Some (jstrs (jDependencies j)))"
  "jget (response_fields j) ''shard_key'' = (if jShardKey j = '''' then None else Some (JStr (jShardKey j)))"
  "jget (response_fields j) ''error_history'' =
     (if jErrorHistory j = [] then None else Some (JArr (map attempt_json (jErrorHistory j))))"
  "jget (response_fields j) ''timeout_seconds'' = None"
  "jget (response_fields j) ''processed_by'' = None"
  "jget (response_fields j) ''result'' = None"
  "jget (response_fields j) ''error'' = None"
  "jget (response_fields j) ''webhook'' = None"
  by (simp_all add: response_fields_def FromJob_def)

lemma json_sdk_job_response: "json_sdk_job (FromJob j) = Some (client_view j)"
proof -
  have "dec_webhook_request (response_fields j) ''webhook'' = Some None"
    by (simp add: dec_webhook_request_def response_get_optional)
  moreover have "dec_attempts (response_fields j) ''error_history'' = Some (jErrorHistory j)"
    by (simp add: dec_attempts_def response_get_optional)
  ultimately show ?thesis
    by (simp add: FromJob_fields json_sdk_job_def sdk_job_fields_def client_view_def dec_defs response_get response_get_optional
        jstrs_def jint_def seconds_json_def split: option.split)
qed

lemma dec_list_map: "(\<And>x. d (f x) = Some (g x)) \<Longrightarrow> dec_list d (map f xs) = Some (map g xs)"
  by (induction xs) auto

lemma json_batch_jobs: "json_batch_result (JObj [(''index'', jint i), (''job'', FromJob j)]) = Some (i, Some (client_view j))"
proof -
  have "dec_int [(''index'', jint i), (''job'', FromJob j)] ''index'' = Some i" by (simp add: dec_int_def jint_def)
  then show ?thesis
    using json_sdk_job_response [of j] by (simp add: json_batch_result_def FromJob_fields)
qed

lemma json_requests_submit: "json_requests (map submit_json qs) = Some (map server_view qs)"
  by (induction qs) (simp_all add: json_request_submit)

lemma json_batch_submit:
  "json_batch (JObj [(''jobs'', if qs = [] then JNull else JArr (map submit_json qs))]) = Some (map server_view qs)"
  by (simp add: json_batch_def json_requests_submit)

lemma json_batch_response_jobs:
  "json_batch_response (batch_response js n) =
     Some \<lparr>brTotal = int n, brProcessed = int n, brSuccessful = map (\<lambda>(i, j). (int i, Some (client_view j))) (enumerate 0 js),
       brFailed = []\<rparr>"
proof -
  have "dec_list json_batch_result (map (\<lambda>(i, j). JObj [(''index'', jint (int i)), (''job'', FromJob j)]) (enumerate 0 js)) =
      Some (map (\<lambda>(i, j). (int i, Some (client_view j))) (enumerate 0 js))"
    by (rule dec_list_map) (auto simp: json_batch_jobs)
  then show ?thesis
    by (simp add: json_batch_response_def batch_response_def dec_slice_def dec_int_def jint_def)
qed

section \<open>The library on the API\<close>

definition served :: "(json option \<Rightarrow> string) \<Rightarrow> 's handler \<Rightarrow> time \<Rightarrow> AuthCtx \<Rightarrow> 's api transport" where
  \<comment> \<open>a transport that hands each request, with its headers and its body, to a handler of the API; the handlers of a submission
      read nothing else of it. \<open>txt\<close> is the text of a response body\<close>
  "served txt hdl now cx meth url headers body a =
     (let r = \<lparr>rMethod = meth, rPath = url, rHeader = (\<lambda>k. case map_of headers k of None \<Rightarrow> '''' | Some v \<Rightarrow> v),
               rQuery = (\<lambda>_. JStr ''''), rPathValue = (\<lambda>_. ''''), rCookie = None, rRemoteHost = '''',
               rBody = (case body of None \<Rightarrow> Inl json_error | Some v \<Rightarrow> Inr v)\<rparr>
      in (case hdl now cx r a of (resp, a') \<Rightarrow> (Answered (rsStatus resp) (txt (rsBody resp)) (rsBody resp), a')))"

definition api_refusal :: "(json option \<Rightarrow> string) \<Rightarrow> Response \<Rightarrow> go_error" where
  "api_refusal txt resp = Errorf (''API error (status '' @ itoa (rsStatus resp) @ ''): '' @ txt (rsBody resp))"

lemma app_status_refuses: "400 \<le> app_status code"
  by (simp add: app_status_def)

lemma writeAppError_status: "(rsStatus (writeAppError e) < 300) = False"
proof -
  have "400 \<le> rsStatus (writeAppError e)"
    by (auto simp: writeAppError_def writeError_def writeJSON_def plain_def app_status_refuses split: option.split)
  then show ?thesis by simp
qed

lemma doReq_served:
  "doReq (served txt hdl now cx) c meth path (Some v) (Some dec) a =
     (let r = \<lparr>rMethod = meth, rPath = ccBaseURL c @ path,
               rHeader = (\<lambda>k. case map_of [(''X-API-Key'', ccApiKey c), (''Content-Type'', ''application/json'')] k of
                  None \<Rightarrow> '''' | Some v \<Rightarrow> v),
               rQuery = (\<lambda>_. JStr ''''), rPathValue = (\<lambda>_. ''''), rCookie = None, rRemoteHost = '''', rBody = Inr v\<rparr>
      in (case hdl now cx r a of (resp, a') \<Rightarrow>
            (if 200 \<le> rsStatus resp \<and> rsStatus resp < 300
             then (case Option.bind (rsBody resp) dec of
                     None \<Rightarrow> Inl (Wrap ''failed to decode response: '' json_error '''') | Some x \<Rightarrow> Inr (Some x))
             else Inl (api_refusal txt resp), a')))"
  by (auto simp: doReq_def served_def api_refusal_def Let_def split: prod.split option.split)

lemmas served_eval = doReq_served with_out_def decode_body_def Let_def writeError_def writeJSON_def plain_def

lemma Submit_served:
  "Client_Submit (served txt (CreateJob h en) now cx) c q a =
     (case CreateJobRequest_Validate (svcCron (hService h)) now (server_view q) of
        Some e \<Rightarrow> (Inl (api_refusal txt (writeError 400 CodeInvalidArgument (err_msg e))), a)
      | None \<Rightarrow>
          (case on_world (JobService_CreateJob (hService h) (eUuid1 en) (eUuid2 en) (eTrace en) now
                  (service_request (default_tenant cx (server_view q)))) a of
             (Inl e, a1) \<Rightarrow> (Inl (api_refusal txt (writeAppError e)), a1)
           | (Inr job, a1) \<Rightarrow> (Inr (client_view job), a1)))"
  by (auto simp: Client_Submit_def CreateJob_def json_request_submit json_sdk_job_response served_eval writeAppError_status
      split: option.split prod.split sum.split)

lemma SubmitBatch_served:
  "Client_SubmitBatch (served txt (CreateJobBatch h en) now cx) c qs a =
     (case BatchJobRequest_Validate (svcCron (hService h)) now (map server_view qs) of
        Some e \<Rightarrow> (Inl (api_refusal txt (writeError 400 CodeInvalidArgument (err_msg e))), a)
      | None \<Rightarrow>
          (case on_world (JobService_CreateJobBatch (hService h) (eUuids en) (eTrace en) now
                  (map (\<lambda>q. (service_request (default_tenant cx (server_view q)))\<lparr>rqTTLSeconds := 0\<rparr>) qs)) a of
             (Inl e, a1) \<Rightarrow>
               (Inl (api_refusal txt (writeError 500 CodeInternal (''failed to create batch: '' @ err_msg e))), a1)
           | (Inr js, a1) \<Rightarrow>
               (Inr \<lparr>brTotal = int (length qs), brProcessed = int (length qs),
                     brSuccessful = map (\<lambda>(i, j). (int i, Some (client_view j))) (enumerate 0 js), brFailed = []\<rparr>, a1)))"
  by (simp only: Client_SubmitBatch_def)
    (auto simp: CreateJobBatch_def json_batch_submit json_batch_response_jobs comp_def served_eval
      split: option.split prod.split sum.split)

text \<open>
  C32. The client library against the API. \<open>Submit\<close>, over a transport that hands its request to the handler
  \<open>CreateJob\<close>, returns the created job as the API reports it exactly when the API accepts the request the library was
  given, and otherwise the API's answer as an error, with the state the service left; and \<open>SubmitBatch\<close> likewise, the jobs
  numbered in the order of the requests. What arrives (\<open>server_view\<close>) is every field of the request but its timeout,
  which the library sends as \<open>timeout_seconds\<close> and the API reads as \<open>timeout\<close>: the service is always asked for no timeout.
  What comes back (\<open>client_view\<close>) lacks the timeout, the result, the error and the worker of the job.
\<close>

theorem sdk_submit_over_api:
  "Client_Submit (served txt (CreateJob h en) now cx) c q a =
     (case CreateJobRequest_Validate (svcCron (hService h)) now (server_view q) of
        Some e \<Rightarrow> (Inl (api_refusal txt (writeError 400 CodeInvalidArgument (err_msg e))), a)
      | None \<Rightarrow>
          (case on_world (JobService_CreateJob (hService h) (eUuid1 en) (eUuid2 en) (eTrace en) now
                  (service_request (default_tenant cx (server_view q)))) a of
             (Inl e, a1) \<Rightarrow> (Inl (api_refusal txt (writeAppError e)), a1)
           | (Inr job, a1) \<Rightarrow> (Inr (client_view job), a1))) \<and>
   Client_SubmitBatch (served txt (CreateJobBatch h en) now cx) c qs a =
     (case BatchJobRequest_Validate (svcCron (hService h)) now (map server_view qs) of
        Some e \<Rightarrow> (Inl (api_refusal txt (writeError 400 CodeInvalidArgument (err_msg e))), a)
      | None \<Rightarrow>
          (case on_world (JobService_CreateJobBatch (hService h) (eUuids en) (eTrace en) now
                  (map (\<lambda>q. (service_request (default_tenant cx (server_view q)))\<lparr>rqTTLSeconds := 0\<rparr>) qs)) a of
             (Inl e, a1) \<Rightarrow>
               (Inl (api_refusal txt (writeError 500 CodeInternal (''failed to create batch: '' @ err_msg e))), a1)
           | (Inr js, a1) \<Rightarrow>
               (Inr \<lparr>brTotal = int (length qs), brProcessed = int (length qs),
                     brSuccessful = map (\<lambda>(i, j). (int i, Some (client_view j))) (enumerate 0 js), brFailed = []\<rparr>, a1))) \<and>
   rqTimeout (service_request (default_tenant cx (server_view q))) = 0"
  by (intro conjI Submit_served SubmitBatch_served) (simp add: service_request_def default_tenant_def server_view_def)

end
