(* ===== verification/Spec2Isabelle.thy ===== *)
theory Spec2Isabelle
  imports Worker_Props Api_Props Dispatcher Scheduler Plugin_Props Postgres_Props Migrate Secrets Process_Props Sdk_Props
begin

text \<open>
  A verification development for the distributed task queue of this repository: clients submit jobs to an API, a
  service stores them and pushes them to a Redis broker, worker processes pop and execute them, and a scheduler
  promotes, reclaims and purges.

  \<^bold>\<open>The program's parts and the theories that model them\<close>

  \<^item> \<^verbatim>\<open>internal/jobs/job.go\<close> is \<open>Jobs\<close>: the struct \<open>Job\<close>, its JSON encoding and decoding, \<open>NewJob\<close>, and
    \<open>BackoffDelay\<close> with Go's 64-bit durations as \<open>64 word\<close>.
  \<^item> \<^verbatim>\<open>internal/errors\<close> and Go's \<^verbatim>\<open>error\<close> values are \<open>Go_Errors\<close>; JSON documents are \<open>Json\<close>; generic lemmas, time and
    string functions are \<open>Prelude\<close>.
  \<^item> Redis is outside the repository. \<open>Redis\<close> has the database \<open>rdb\<close>, the commands the program sends, their documented effect
    \<open>redis_step\<close>, and a client \<open>redis\<close> as a parameter. What the program relies on is the locale
    \<open>redis_service\<close> (a transaction that succeeds has the documented effect, one that fails has it or none);
    \<open>redis_up\<close> adds that calls succeed. \<open>redis_ref\<close> is a client that meets both.
  \<^item> \<^verbatim>\<open>internal/queue/redis/redis.go\<close> is \<open>RedisQueue\<close>, one definition per method
    and one per Lua script (\<^verbatim>\<open>SubscribeCancellations\<close>, a goroutine copying messages, is in \<open>Process\<close>).
  \<^item> \<^verbatim>\<open>internal/storage/models\<close> is \<open>Store\<close> (the interface as a record of functions, the contract \<open>job_store\<close>),
    \<open>MemStore\<close>, \<open>RedisStore\<close> and \<open>DualStore\<close>.
  \<^item> \<^verbatim>\<open>internal/webhooks\<close> (registry, event names, delivery history) and \<^verbatim>\<open>internal/jobtypes\<close> are \<open>Webhooks\<close>;
    \<^verbatim>\<open>internal/sse\<close> is \<open>Sse\<close>.
  \<^item> \<^verbatim>\<open>internal/service/job_service.go\<close> is \<open>JobService\<close>: its operations act on a \<open>world\<close>, the state of the store, the
    Redis database and the event broker. The store is any \<open>Store\<close> over worlds, so a Redis store may share the
    database with the queue.
  \<^item> \<^verbatim>\<open>internal/worker\<close> is \<open>Breaker\<close> (circuit breaker), \<open>Executor\<close> (registry, middleware, \<^verbatim>\<open>JobExecutor\<close>) and
    \<open>Worker\<close> (\<^verbatim>\<open>WorkerProcessor\<close>, rate limiter, pool; and the shutdown coordinator of \<^verbatim>\<open>cmd/worker\<close>); its built-in plugins are
    \<open>Plugins\<close>, the services they call being arguments.
  \<^item> \<^verbatim>\<open>internal/webhooks/dispatcher.go\<close> is \<open>Dispatcher\<close>; \<^verbatim>\<open>cmd/scheduler\<close> is \<open>Scheduler\<close>.
  \<^item> \<^verbatim>\<open>internal/api\<close> is \<open>Session\<close> (sessions, login limits), \<open>Auth\<close> (keys, cookies, CSRF and the other middleware),
    \<open>Dto\<close> (requests and responses), \<open>Handler\<close> (one definition per handler) and \<open>Routes\<close> (the table of routes with the
    middleware around each). A handler maps a request and the state \<open>api\<close> to a response and a state.
  \<^item> PostgreSQL is outside the repository. \<open>Sql\<close> has the tables with the columns, constraints and defaults of \<^verbatim>\<open>db/migrations\<close> and a
    service that runs a statement and may fail (\<open>pg_service\<close>, \<open>pg_up\<close>); \<^verbatim>\<open>internal/storage/postgres\<close> is \<open>Postgres\<close>, one definition per
    method of the store, and \<open>Migrate\<close>; the choice of a backend (\<^verbatim>\<open>internal/storage/factory.go\<close>) is there too.
  \<^item> \<^verbatim>\<open>internal/config\<close> is \<open>Config\<close>; \<^verbatim>\<open>internal/secrets\<close> is \<open>Secrets\<close>.
  \<^item> The processes (\<^verbatim>\<open>cmd/api\<close>, \<^verbatim>\<open>cmd/worker\<close>, \<^verbatim>\<open>cmd/cli\<close>, \<^verbatim>\<open>internal/health\<close>) are \<open>Process\<close>: which queue, store and
    service each builds, the rounds of the pool's goroutines, the contexts under which a job runs, the commands.
  \<^item> \<^verbatim>\<open>pkg/tq\<close>, the client library, is \<open>Sdk\<close>, over a transport that is a parameter.

  \<^bold>\<open>What the lemmas show\<close>

  \<^item> \<open>Queue_Proofs\<close>, \<open>Queue_Inv\<close>, \<open>Queue_Props\<close>: \<open>Dequeue\<close> implements an abstract specification (\<open>dequeue_spec\<close>: pass over
    the payloads that must wait, decide on the first other one) and terminates when the fuel exceeds the number of
    pending payloads; it respects the concurrency limits and tracks what it hands out; \<open>Ack\<close>, \<open>Fail\<close>, promotion, reclaim,
    reconciliation and the rate limit have the stated exact effects; every operation keeps the
    database well-formed even when Redis fails in the middle (\<open>queue_service\<close>).
  \<^item> \<open>Store_Props\<close>: both stores implement \<open>job_store\<close>, and the dual store keeps two of them in step.
  \<^item> \<open>Service_Proofs\<close>, \<open>Service_Props\<close>: the interface \<open>world_store\<close> between service and store, the environment
    \<open>job_service\<close>, and what submission, replay, deletion, dependency checks, webhook fan-out and key rotation change and keep.
    The locales are interpreted on the service over the in-memory store and over the Redis store.
  \<^item> \<open>Breaker\<close>, \<open>Executor\<close>, \<open>Worker_Props\<close>: the breaker's invariant over all reachable states, isolation of plugins, and the life of a
    job in a worker from the plugin's outcome to store and broker.
  \<^item> \<open>Api_Props\<close>: a state changes only for a caller with a credential, tenants are isolated, and what the answers of a
    submission mean. \<open>Session\<close>: sessions and login limits against reference definitions. \<open>Dispatcher\<close>: a delivery ends and
    records its attempts. \<open>Scheduler\<close>: a tick makes due jobs pending.
  \<^item> \<open>Plugin_Props\<close>: validated jobs run, and the fan-out of map-reduce in the context the worker gives it.
  \<^item> \<open>Postgres_Props\<close>: which rows each method writes, the constraints as an invariant, the row a dequeue claims, and the reads that
    fail because columns and destinations differ in number. \<open>Migrate\<close>: schema migrations apply in order.
  \<^item> \<open>Secrets\<close>: the invariant of concurrent callers, by induction on the step relation \<open>vault_step\<close>.
  \<^item> \<open>Process_Props\<close>: cancellation of a running job across API, broker, pool and worker; the job migration from Redis to PostgreSQL.
  \<^item> \<open>Sdk_Props\<close>: the client library composed with the API handlers.

  \<^bold>\<open>Conventions\<close>

  Errors are values of \<open>go_error\<close>; a result with an error is \<open>go_error + 'a\<close>. Go maps are association lists and a range over a map
  follows the list; theorems quantify over all lists. Times and durations are integers of nanoseconds and an
  RFC 3339 text is the instant it denotes. A JSON text is its document, floats are rationals, and JSON encoding succeeds.
  Redis keys of different types are separate name spaces. SQL statements are functions on the table of rows, with the effect PostgreSQL
  documents. A Go context is the chain of its derivations, and a cancelled one ends every later call made with it. Every operation reads the clock once, except a
  worker's call, which has the times before and after the plugin. Fresh identifiers, random numbers, hashes, the cron
  parser and the verb \<open>%v\<close> are parameters. The fuel of the dequeue loop is the only one; running out of it is \<open>None\<close>, and
  more fuel than pending payloads is enough (\<open>Dequeue_meets_spec\<close>).

  \<^bold>\<open>Not modelled\<close>

  Logging, metrics and tracing, whose output no operation reads; goroutines, except those that call the secret provider (elsewhere a
  method is one step); signals and listening sockets; pointer aliasing between a store and its callers; the HTML pages, which are
  constant texts; the generated description of the API; the test double of the queue; the chaos tool, a test driver.
\<close>

end
